(* ===== verification/Prelude.thy ===== *)
theory Prelude
  imports Main "HOL-Library.Word"
begin

text \<open>
  What every component of the development shares.

  Go values: an \<open>int32\<close> or \<open>int64\<close> is a word of that width; a Go string is a HOL string; a
  \<open>map[string]string\<close> is a partial function, with \<open>None\<close> for the nil map, since the code tells
  the nil map from the empty one.

  Go errors: the error interface is a value a library created (type \<open>'e\<close>, kept abstract) or
  the result of \<open>fmt.Errorf("context: %w", err)\<close>, which puts a text in front and keeps the cause.

  Go effects: an operation that talks to the API server is a function from the state of the world
  to its result and the next state. \<open>and_then\<close> is the idiom
  \<open>if err := f(); err != nil { return err }\<close>, \<open>wrap_err\<close> is \<open>fmt.Errorf\<close> on the error path.
\<close>

named_theorems go_simps \<open>definitions of the Go idioms\<close>
named_theorems child_defs \<open>definitions of the managed objects and of their mutations\<close>
named_theorems name_defs \<open>definitions of the naming helpers\<close>

type_synonym int32 = "32 word"
type_synonym int64 = "64 word"
type_synonym gomap = "(string \<rightharpoonup> string) option"
type_synonym opaque = string

section \<open>Errors\<close>

datatype 'e goerror =
    LibError 'e
  | Wrapped string "'e goerror"

text \<open>\<open>error_text\<close> is the method \<open>Error()\<close>; its value on a library error is the library's.\<close>

primrec error_text :: "('e \<Rightarrow> string) \<Rightarrow> 'e goerror \<Rightarrow> string" where
  "error_text txt (LibError e) = txt e"
| "error_text txt (Wrapped p err) = p @ '': '' @ error_text txt err"

text \<open>\<open>error_cause\<close> follows the chain of wrapped errors to the library error at its end.\<close>

primrec error_cause :: "'e goerror \<Rightarrow> 'e" where
  "error_cause (LibError e) = e"
| "error_cause (Wrapped p err) = error_cause err"

section \<open>Fail-stop sequencing\<close>

type_synonym ('w, 'e) action = "'w \<Rightarrow> 'e goerror option \<times> 'w"

definition return_nil :: "('w, 'e) action" where
  "return_nil w = (None, w)"

definition and_then :: "('w, 'e) action \<Rightarrow> ('w, 'e) action \<Rightarrow> ('w, 'e) action" where
  "and_then m n w =
     (case m w of
        (Some err, w') \<Rightarrow> (Some err, w')
      | (None, w') \<Rightarrow> n w')"

definition wrap_err :: "string \<Rightarrow> ('w, 'e) action \<Rightarrow> ('w, 'e) action" where
  "wrap_err p m w =
     (case m w of
        (Some err, w') \<Rightarrow> (Some (Wrapped p err), w')
      | (None, w') \<Rightarrow> (None, w'))"

fun run_all :: "('w, 'e) action list \<Rightarrow> ('w, 'e) action" where
  "run_all [] w = (None, w)"
| "run_all (m # ms) w = and_then m (run_all ms) w"

lemma and_then_None [simp]: "m w = (None, w') \<Longrightarrow> and_then m n w = n w'"
  by (simp add: and_then_def)

lemma and_then_Some [simp]: "m w = (Some err, w') \<Longrightarrow> and_then m n w = (Some err, w')"
  by (simp add: and_then_def)

lemma wrap_err_None [simp]: "m w = (None, w') \<Longrightarrow> wrap_err p m w = (None, w')"
  by (simp add: wrap_err_def)

lemma wrap_err_Some [simp]:
  "m w = (Some err, w') \<Longrightarrow> wrap_err p m w = (Some (Wrapped p err), w')"
  by (simp add: wrap_err_def)

lemma and_then_cases:
  assumes "and_then m n w = (r, w')"
  obtains (stop) err where "m w = (Some err, w')" and "r = Some err"
  | (go) w1 where "m w = (None, w1)" and "n w1 = (r, w')"
  using assms by (auto simp: and_then_def split: prod.splits option.splits)

lemma wrap_err_cases:
  assumes "wrap_err p m w = (r, w')"
  obtains (err) e where "m w = (Some e, w')" and "r = Some (Wrapped p e)"
  | (ok) "m w = (None, w')" and "r = None"
  using assms by (auto simp: wrap_err_def split: prod.splits option.splits)

lemma and_then_assoc: "and_then (and_then m n) k = and_then m (and_then n k)"
  by (rule ext) (auto simp: and_then_def split: prod.splits option.splits)

lemma and_then_return_nil [simp]: "and_then m return_nil = m"
  by (rule ext) (auto simp: and_then_def return_nil_def split: prod.splits option.splits)

lemma run_all_append: "run_all (ms @ ns) = and_then (run_all ms) (run_all ns)"
proof (induction ms)
  case Nil
  show ?case by (rule ext) (simp add: and_then_def)
next
  case (Cons m ms)
  have "run_all (m # ms @ ns) = and_then m (run_all (ms @ ns))"
    by (rule ext) simp
  also have "\<dots> = and_then m (and_then (run_all ms) (run_all ns))"
    by (simp only: Cons.IH)
  also have "\<dots> = and_then (and_then m (run_all ms)) (run_all ns)"
    by (simp only: and_then_assoc)
  also have "and_then m (run_all ms) = run_all (m # ms)"
    by (rule ext) simp
  finally show ?case by simp
qed

lemma run_all_single: "run_all [m] = m"
  by (rule ext) (auto simp: and_then_def split: prod.splits option.splits)

lemma run_all_cons: "run_all (m # ms) = and_then m (run_all ms)"
  by (rule ext) simp

lemma run_all_cons2: "run_all (m # n # ms) = and_then m (run_all (n # ms))"
  by (rule run_all_cons)

text \<open>
  A relation between the worlds before and after that every action keeps, kept by the sequence.
\<close>

definition keeps :: "('w \<Rightarrow> 'w \<Rightarrow> bool) \<Rightarrow> ('w, 'e) action \<Rightarrow> bool" where
  "keeps R m \<longleftrightarrow> (\<forall>w. R w (snd (m w)))"

lemma keepsD: "keeps R m \<Longrightarrow> m w = (r, w') \<Longrightarrow> R w w'"
  by (force simp: keeps_def dest: spec [of _ w])

lemma keeps_and_then:
  assumes m: "keeps R m" and n: "keeps R n" and tr: "transp R"
  shows "keeps R (and_then m n)"
  unfolding keeps_def
proof
  fix w
  obtain r w1 where mw: "m w = (r, w1)" by (cases "m w")
  with m have R1: "R w w1" by (rule keepsD)
  obtain r' w2 where nw: "n w1 = (r', w2)" by (cases "n w1")
  with n have R2: "R w1 w2" by (rule keepsD)
  from R1 R2 tr have "R w w2" by (blast dest: transpD)
  with R1 mw nw show "R w (snd (and_then m n w))"
    by (cases r) (simp_all add: and_then_def)
qed

lemma keeps_wrap_err: "keeps R m \<Longrightarrow> keeps R (wrap_err p m)"
  by (auto simp: keeps_def wrap_err_def split: prod.splits option.splits)
     (metis snd_conv)+

lemma keeps_run_all:
  assumes "\<forall>m \<in> set ms. keeps R m" and "reflp R" and "transp R"
  shows "keeps R (run_all ms)"
  using assms
proof (induction ms)
  case Nil
  then show ?case by (simp add: keeps_def reflpD)
next
  case (Cons m ms)
  then show ?case by (simp add: run_all_cons keeps_and_then)
qed

section \<open>Maps and strings\<close>

text \<open>
  Two strings joined by a separator that the first parts do not contain determine their parts.
\<close>

lemma append_sep_inject:
  assumes "xs @ c # ys = xs' @ c # ys'" and "c \<notin> set xs" and "c \<notin> set xs'"
  shows "xs = xs' \<and> ys = ys'"
  using assms
proof (induction xs arbitrary: xs')
  case Nil
  then show ?case by (cases xs') auto
next
  case (Cons x xs)
  from Cons.prems obtain xs'' where x: "xs' = x # xs''"
    by (cases xs') auto
  with Cons.prems have "xs @ c # ys = xs'' @ c # ys'" "c \<notin> set xs" "c \<notin> set xs''"
    by auto
  then have "xs = xs'' \<and> ys = ys'" by (rule Cons.IH)
  with x show ?case by simp
qed

end
