(* ===== verification/K8sTypes.thy ===== *)
theory K8sTypes
  imports Prelude
begin

text \<open>
  The Kubernetes API types the operator builds and mutates (packages \<open>core/v1\<close>, \<open>apps/v1\<close>,
  \<open>rbac/v1\<close>, \<open>networking/v1\<close>, \<open>meta/v1\<close>), with the fields the source names (and \<open>Data\<close> of a Secret,
  where the server puts what is written to \<open>StringData\<close>). A field whose
  name ends in \<open>_rest\<close> stands for all the fields of the type the source never names; it is kept
  as an uninterpreted value, so that "the operator leaves the rest alone" can be stated.
  A pointer field is an option. Constants of the API packages are constructors, named as in Go.
  The \<open>zero_\<close> definitions are the Go zero values that a composite literal starts from.
\<close>

section \<open>Metadata\<close>

type_synonym time = string

record OwnerReference =
  or_UID :: string
  or_Name :: string
  or_Controller :: bool

record ObjectMeta =
  om_Name :: string
  om_Namespace :: string
  om_UID :: string
  om_Generation :: int64
  om_CreationTimestamp :: "time option"
  om_DeletionTimestamp :: "time option"
  om_Labels :: gomap
  om_Annotations :: gomap
  om_OwnerReferences :: "OwnerReference list"
  om_Finalizers :: "string list"
  om_rest :: opaque

definition zero_ObjectMeta :: ObjectMeta where
  "zero_ObjectMeta = \<lparr>om_Name = '''', om_Namespace = '''', om_UID = '''', om_Generation = 0,
     om_CreationTimestamp = None, om_DeletionTimestamp = None, om_Labels = None,
     om_Annotations = None, om_OwnerReferences = [], om_Finalizers = [], om_rest = ''''\<rparr>"

record NamespacedName =
  nn_Namespace :: string
  nn_Name :: string

record LabelSelector =
  ls_MatchLabels :: gomap

datatype ConditionStatus = ConditionTrue | ConditionFalse

record Condition =
  cond_Type :: string
  cond_Status :: ConditionStatus
  cond_ObservedGeneration :: int64
  cond_LastTransitionTime :: "time option"
  cond_Reason :: string
  cond_Message :: string

section \<open>Containers and pods\<close>

datatype IntOrString = FromInt32 int32 | FromString string

datatype Protocol = ProtocolTCP | ProtocolUDP | ProtocolSCTP

record ContainerPort =
  cp_Name :: string
  cp_HostPort :: int32
  cp_ContainerPort :: int32
  cp_Protocol :: "Protocol option"
  cp_HostIP :: string

definition zero_ContainerPort :: ContainerPort where
  "zero_ContainerPort = \<lparr>cp_Name = '''', cp_HostPort = 0, cp_ContainerPort = 0,
     cp_Protocol = None, cp_HostIP = ''''\<rparr>"

datatype EnvVarSource = FieldRef string

record EnvVar =
  ev_Name :: string
  ev_Value :: string
  ev_ValueFrom :: "EnvVarSource option"

datatype MountPropagationMode = MountPropagationHostToContainer | MountPropagationBidirectional

record VolumeMount =
  vm_Name :: string
  vm_ReadOnly :: bool
  vm_MountPath :: string
  vm_MountPropagation :: "MountPropagationMode option"

definition zero_VolumeMount :: VolumeMount where
  "zero_VolumeMount = \<lparr>vm_Name = '''', vm_ReadOnly = False, vm_MountPath = '''',
     vm_MountPropagation = None\<rparr>"

text \<open>A quantity is the call of \<open>resource\<close> that makes it: its parser is not part of the source.\<close>

datatype QuantityFormat = BinarySI | DecimalSI

datatype Quantity = MustParse string | NewQuantity int64 QuantityFormat

datatype ResourceName = ResourceMemory | ResourceCPU

record ResourceRequirements =
  rr_Limits :: "(ResourceName \<rightharpoonup> Quantity) option"
  rr_Requests :: "(ResourceName \<rightharpoonup> Quantity) option"

definition zero_ResourceRequirements :: ResourceRequirements where
  "zero_ResourceRequirements = \<lparr>rr_Limits = None, rr_Requests = None\<rparr>"

record Probe =
  pr_InitialDelaySeconds :: int32
  pr_PeriodSeconds :: int32
  pr_FailureThreshold :: int32
  pr_SuccessThreshold :: int32
  pr_TimeoutSeconds :: int32
  pr_TCPSocketPort :: IntOrString

record SecurityContext =
  sc_Privileged :: "bool option"

datatype PullPolicy = PullAlways | PullIfNotPresent | PullNever

record Container =
  c_Name :: string
  c_Image :: string
  c_Command :: "string list"
  c_Ports :: "ContainerPort list"
  c_Env :: "EnvVar list"
  c_Resources :: ResourceRequirements
  c_VolumeMounts :: "VolumeMount list"
  c_LivenessProbe :: "Probe option"
  c_ReadinessProbe :: "Probe option"
  c_ImagePullPolicy :: "PullPolicy option"
  c_SecurityContext :: "SecurityContext option"

definition zero_Container :: Container where
  "zero_Container = \<lparr>c_Name = '''', c_Image = '''', c_Command = [], c_Ports = [], c_Env = [],
     c_Resources = zero_ResourceRequirements, c_VolumeMounts = [], c_LivenessProbe = None,
     c_ReadinessProbe = None, c_ImagePullPolicy = None, c_SecurityContext = None\<rparr>"

datatype VolumeSource = HostPath string | EmptyDir "Quantity option"

record Volume =
  v_Name :: string
  v_Source :: VolumeSource

datatype TolerationOperator = TolerationOpExists | TolerationOpEqual

datatype TaintEffect = TaintEffectNoExecute | TaintEffectNoSchedule | TaintEffectPreferNoSchedule

record Toleration =
  tol_Operator :: TolerationOperator
  tol_Effect :: TaintEffect

datatype NodeSelectorOperator = NodeSelectorOpIn | NodeSelectorOpNotIn | NodeSelectorOpExists

record NodeSelectorRequirement =
  nsr_Key :: string
  nsr_Operator :: NodeSelectorOperator
  nsr_Values :: "string list"

record NodeSelectorTerm =
  nst_MatchExpressions :: "NodeSelectorRequirement list"

text \<open>The affinity is the list of terms of the required node affinity, the only part in use.\<close>

record Affinity =
  aff_RequiredNodeSelectorTerms :: "NodeSelectorTerm list"

datatype DNSPolicy = DNSClusterFirstWithHostNet | DNSClusterFirst | DNSDefault | DNSNone

record PodSpec =
  ps_Volumes :: "Volume list"
  ps_InitContainers :: "Container list"
  ps_Containers :: "Container list"
  ps_ServiceAccountName :: string
  ps_HostNetwork :: bool
  ps_DNSPolicy :: "DNSPolicy option"
  ps_Tolerations :: "Toleration list"
  ps_Affinity :: "Affinity option"

definition zero_PodSpec :: PodSpec where
  "zero_PodSpec = \<lparr>ps_Volumes = [], ps_InitContainers = [], ps_Containers = [],
     ps_ServiceAccountName = '''', ps_HostNetwork = False, ps_DNSPolicy = None,
     ps_Tolerations = [], ps_Affinity = None\<rparr>"

record PodTemplateSpec =
  pt_ObjectMeta :: ObjectMeta
  pt_Spec :: PodSpec

definition zero_PodTemplateSpec :: PodTemplateSpec where
  "zero_PodTemplateSpec = \<lparr>pt_ObjectMeta = zero_ObjectMeta, pt_Spec = zero_PodSpec\<rparr>"

section \<open>The objects the operator manages\<close>

record ConfigMap =
  cm_ObjectMeta :: ObjectMeta
  cm_Data :: gomap
  cm_rest :: opaque

record ServiceAccount =
  sa_ObjectMeta :: ObjectMeta
  sa_rest :: opaque

record DeploymentSpec =
  dps_Replicas :: "int32 option"
  dps_Selector :: "LabelSelector option"
  dps_Template :: PodTemplateSpec
  dps_rest :: opaque

record Deployment =
  dep_ObjectMeta :: ObjectMeta
  dep_Spec :: DeploymentSpec
  dep_rest :: opaque

record ServicePort =
  svp_Name :: string
  svp_Port :: int32
  svp_TargetPort :: IntOrString

datatype ServiceType = ServiceTypeClusterIP | ServiceTypeNodePort | ServiceTypeLoadBalancer

record ServiceSpec =
  svs_Ports :: "ServicePort list"
  svs_Selector :: gomap
  svs_Type :: "ServiceType option"
  svs_rest :: opaque

record Service =
  svc_ObjectMeta :: ObjectMeta
  svc_Spec :: ServiceSpec
  svc_rest :: opaque

record DaemonSetSpec =
  dms_Selector :: "LabelSelector option"
  dms_Template :: PodTemplateSpec
  dms_rest :: opaque

record DaemonSet =
  dmn_ObjectMeta :: ObjectMeta
  dmn_Spec :: DaemonSetSpec
  dmn_rest :: opaque

datatype PathType = PathTypeImplementationSpecific | PathTypeExact | PathTypePrefix

record IngressServiceBackend =
  isb_Name :: string
  isb_PortNumber :: int32

record HTTPIngressPath =
  hip_Path :: string
  hip_PathType :: "PathType option"
  hip_BackendService :: "IngressServiceBackend option"

record IngressRule =
  igr_Host :: string
  igr_HTTP :: "HTTPIngressPath list option"

record IngressSpec =
  igs_IngressClassName :: "string option"
  igs_Rules :: "IngressRule list"
  igs_rest :: opaque

record Ingress =
  ing_ObjectMeta :: ObjectMeta
  ing_Spec :: IngressSpec
  ing_rest :: opaque

datatype SecretType = SecretTypeOpaque | SecretTypeTLS | SecretTypeDockerConfigJson

record Secret =
  sec_ObjectMeta :: ObjectMeta
  sec_Type :: "SecretType option"
  sec_Data :: gomap
  sec_StringData :: gomap
  sec_rest :: opaque

record PolicyRule =
  pol_Verbs :: "string list"
  pol_APIGroups :: "string list"
  pol_Resources :: "string list"
  pol_ResourceNames :: "string list"
  pol_NonResourceURLs :: "string list"

definition zero_PolicyRule :: PolicyRule where
  "zero_PolicyRule = \<lparr>pol_Verbs = [], pol_APIGroups = [], pol_Resources = [],
     pol_ResourceNames = [], pol_NonResourceURLs = []\<rparr>"

record ClusterRole =
  crole_ObjectMeta :: ObjectMeta
  crole_Rules :: "PolicyRule list"
  crole_rest :: opaque

record Subject =
  sub_Kind :: string
  sub_Name :: string
  sub_Namespace :: string

record RoleRef =
  ref_Kind :: string
  ref_Name :: string
  ref_APIGroup :: string

record ClusterRoleBinding =
  crb_ObjectMeta :: ObjectMeta
  crb_Subjects :: "Subject list"
  crb_RoleRef :: RoleRef
  crb_rest :: opaque

abbreviation (input) rbacv1_ServiceAccountKind :: string where
  "rbacv1_ServiceAccountKind \<equiv> ''ServiceAccount''"

abbreviation (input) rbacv1_GroupName :: string where
  "rbacv1_GroupName \<equiv> ''rbac.authorization.k8s.io''"

section \<open>Zero values of the managed objects\<close>

definition zero_ConfigMap :: ConfigMap where
  "zero_ConfigMap = \<lparr>cm_ObjectMeta = zero_ObjectMeta, cm_Data = None, cm_rest = ''''\<rparr>"

definition zero_ServiceAccount :: ServiceAccount where
  "zero_ServiceAccount = \<lparr>sa_ObjectMeta = zero_ObjectMeta, sa_rest = ''''\<rparr>"

definition zero_DeploymentSpec :: DeploymentSpec where
  "zero_DeploymentSpec = \<lparr>dps_Replicas = None, dps_Selector = None,
     dps_Template = zero_PodTemplateSpec, dps_rest = ''''\<rparr>"

definition zero_Deployment :: Deployment where
  "zero_Deployment = \<lparr>dep_ObjectMeta = zero_ObjectMeta, dep_Spec = zero_DeploymentSpec,
     dep_rest = ''''\<rparr>"

definition zero_ServiceSpec :: ServiceSpec where
  "zero_ServiceSpec = \<lparr>svs_Ports = [], svs_Selector = None, svs_Type = None, svs_rest = ''''\<rparr>"

definition zero_Service :: Service where
  "zero_Service = \<lparr>svc_ObjectMeta = zero_ObjectMeta, svc_Spec = zero_ServiceSpec,
     svc_rest = ''''\<rparr>"

definition zero_DaemonSetSpec :: DaemonSetSpec where
  "zero_DaemonSetSpec = \<lparr>dms_Selector = None, dms_Template = zero_PodTemplateSpec,
     dms_rest = ''''\<rparr>"

definition zero_DaemonSet :: DaemonSet where
  "zero_DaemonSet = \<lparr>dmn_ObjectMeta = zero_ObjectMeta, dmn_Spec = zero_DaemonSetSpec,
     dmn_rest = ''''\<rparr>"

definition zero_IngressSpec :: IngressSpec where
  "zero_IngressSpec = \<lparr>igs_IngressClassName = None, igs_Rules = [], igs_rest = ''''\<rparr>"

definition zero_Ingress :: Ingress where
  "zero_Ingress = \<lparr>ing_ObjectMeta = zero_ObjectMeta, ing_Spec = zero_IngressSpec,
     ing_rest = ''''\<rparr>"

definition zero_Secret :: Secret where
  "zero_Secret = \<lparr>sec_ObjectMeta = zero_ObjectMeta, sec_Type = None, sec_Data = None,
     sec_StringData = None, sec_rest = ''''\<rparr>"

definition zero_ClusterRole :: ClusterRole where
  "zero_ClusterRole = \<lparr>crole_ObjectMeta = zero_ObjectMeta, crole_Rules = [],
     crole_rest = ''''\<rparr>"

definition zero_RoleRef :: RoleRef where
  "zero_RoleRef = \<lparr>ref_Kind = '''', ref_Name = '''', ref_APIGroup = ''''\<rparr>"

definition zero_ClusterRoleBinding :: ClusterRoleBinding where
  "zero_ClusterRoleBinding = \<lparr>crb_ObjectMeta = zero_ObjectMeta, crb_Subjects = [],
     crb_RoleRef = zero_RoleRef, crb_rest = ''''\<rparr>"

lemmas zero_defs = zero_ObjectMeta_def zero_ContainerPort_def zero_VolumeMount_def
  zero_ResourceRequirements_def zero_Container_def zero_PodSpec_def zero_PodTemplateSpec_def
  zero_ConfigMap_def zero_ServiceAccount_def zero_DeploymentSpec_def zero_Deployment_def
  zero_ServiceSpec_def zero_Service_def zero_DaemonSetSpec_def zero_DaemonSet_def
  zero_IngressSpec_def zero_Ingress_def zero_Secret_def zero_PolicyRule_def zero_ClusterRole_def
  zero_RoleRef_def zero_ClusterRoleBinding_def

section \<open>client.Object\<close>

text \<open>The objects a client call can be given, and the key an API server keeps them under.\<close>

datatype k8s_object =
    ConfigMapObj ConfigMap
  | ServiceAccountObj ServiceAccount
  | DeploymentObj Deployment
  | ServiceObj Service
  | DaemonSetObj DaemonSet
  | IngressObj Ingress
  | SecretObj Secret
  | ClusterRoleObj ClusterRole
  | ClusterRoleBindingObj ClusterRoleBinding

datatype kind =
    ConfigMapKind | ServiceAccountKind | DeploymentKind | ServiceKind | DaemonSetKind
  | IngressKind | SecretKind | ClusterRoleKind | ClusterRoleBindingKind

text \<open>The kinds are few enough to run through, so statements about all of them compute.\<close>

instantiation kind :: enum
begin

definition enum_kind :: "kind list" where
  "enum_kind = [ConfigMapKind, ServiceAccountKind, DeploymentKind, ServiceKind, DaemonSetKind,
     IngressKind, SecretKind, ClusterRoleKind, ClusterRoleBindingKind]"

definition enum_all_kind :: "(kind \<Rightarrow> bool) \<Rightarrow> bool" where
  "enum_all_kind P = list_all P enum_class.enum"

definition enum_ex_kind :: "(kind \<Rightarrow> bool) \<Rightarrow> bool" where
  "enum_ex_kind P = list_ex P enum_class.enum"

instance
proof
  have all: "set (enum_class.enum :: kind list) = UNIV"
    unfolding enum_kind_def by (auto intro: kind.exhaust)
  then show "UNIV = set (enum_class.enum :: kind list)" by simp
  show "distinct (enum_class.enum :: kind list)" by (simp add: enum_kind_def)
  show "enum_class.enum_all P \<longleftrightarrow> Ball UNIV P" for P :: "kind \<Rightarrow> bool"
    using all by (simp add: enum_all_kind_def list_all_iff)
  show "enum_class.enum_ex P \<longleftrightarrow> Bex UNIV P" for P :: "kind \<Rightarrow> bool"
    using all by (simp add: enum_ex_kind_def list_ex_iff)
qed

end

primrec object_meta :: "k8s_object \<Rightarrow> ObjectMeta" where
  "object_meta (ConfigMapObj x) = cm_ObjectMeta x"
| "object_meta (ServiceAccountObj x) = sa_ObjectMeta x"
| "object_meta (DeploymentObj x) = dep_ObjectMeta x"
| "object_meta (ServiceObj x) = svc_ObjectMeta x"
| "object_meta (DaemonSetObj x) = dmn_ObjectMeta x"
| "object_meta (IngressObj x) = ing_ObjectMeta x"
| "object_meta (SecretObj x) = sec_ObjectMeta x"
| "object_meta (ClusterRoleObj x) = crole_ObjectMeta x"
| "object_meta (ClusterRoleBindingObj x) = crb_ObjectMeta x"

primrec object_kind :: "k8s_object \<Rightarrow> kind" where
  "object_kind (ConfigMapObj x) = ConfigMapKind"
| "object_kind (ServiceAccountObj x) = ServiceAccountKind"
| "object_kind (DeploymentObj x) = DeploymentKind"
| "object_kind (ServiceObj x) = ServiceKind"
| "object_kind (DaemonSetObj x) = DaemonSetKind"
| "object_kind (IngressObj x) = IngressKind"
| "object_kind (SecretObj x) = SecretKind"
| "object_kind (ClusterRoleObj x) = ClusterRoleKind"
| "object_kind (ClusterRoleBindingObj x) = ClusterRoleBindingKind"

text \<open>
  An object of a cluster-scoped kind is not in a namespace: client and server ignore one that is set.
\<close>

fun cluster_scoped :: "kind \<Rightarrow> bool" where
  "cluster_scoped ClusterRoleKind = True"
| "cluster_scoped ClusterRoleBindingKind = True"
| "cluster_scoped _ = False"

datatype ObjectKey = Key (key_kind: kind) (key_namespace: string) (key_name: string)

definition object_key :: "k8s_object \<Rightarrow> ObjectKey" where
  "object_key x = Key (object_kind x)
     (if cluster_scoped (object_kind x) then '''' else om_Namespace (object_meta x))
     (om_Name (object_meta x))"

text \<open>
  A mutate function of the source is a closure over one typed object; a client call hands it the
  object it fetched, which has that type. The lifted function leaves an object of another type
  alone, a case no call of the source meets.
\<close>

type_synonym ('e, 'o) mutate_fn = "'o \<Rightarrow> 'e goerror option \<times> 'o"

definition on_ConfigMap :: "('e, ConfigMap) mutate_fn \<Rightarrow> ('e, k8s_object) mutate_fn" where
  "on_ConfigMap f x =
     (case x of ConfigMapObj y \<Rightarrow> map_prod id ConfigMapObj (f y) | _ \<Rightarrow> (None, x))"

definition on_ServiceAccount ::
  "('e, ServiceAccount) mutate_fn \<Rightarrow> ('e, k8s_object) mutate_fn" where
  "on_ServiceAccount f x =
     (case x of ServiceAccountObj y \<Rightarrow> map_prod id ServiceAccountObj (f y) | _ \<Rightarrow> (None, x))"

definition on_Deployment :: "('e, Deployment) mutate_fn \<Rightarrow> ('e, k8s_object) mutate_fn" where
  "on_Deployment f x =
     (case x of DeploymentObj y \<Rightarrow> map_prod id DeploymentObj (f y) | _ \<Rightarrow> (None, x))"

definition on_Service :: "('e, Service) mutate_fn \<Rightarrow> ('e, k8s_object) mutate_fn" where
  "on_Service f x =
     (case x of ServiceObj y \<Rightarrow> map_prod id ServiceObj (f y) | _ \<Rightarrow> (None, x))"

definition on_DaemonSet :: "('e, DaemonSet) mutate_fn \<Rightarrow> ('e, k8s_object) mutate_fn" where
  "on_DaemonSet f x =
     (case x of DaemonSetObj y \<Rightarrow> map_prod id DaemonSetObj (f y) | _ \<Rightarrow> (None, x))"

definition on_Ingress :: "('e, Ingress) mutate_fn \<Rightarrow> ('e, k8s_object) mutate_fn" where
  "on_Ingress f x =
     (case x of IngressObj y \<Rightarrow> map_prod id IngressObj (f y) | _ \<Rightarrow> (None, x))"

definition on_Secret :: "('e, Secret) mutate_fn \<Rightarrow> ('e, k8s_object) mutate_fn" where
  "on_Secret f x =
     (case x of SecretObj y \<Rightarrow> map_prod id SecretObj (f y) | _ \<Rightarrow> (None, x))"

definition on_ClusterRole :: "('e, ClusterRole) mutate_fn \<Rightarrow> ('e, k8s_object) mutate_fn" where
  "on_ClusterRole f x =
     (case x of ClusterRoleObj y \<Rightarrow> map_prod id ClusterRoleObj (f y) | _ \<Rightarrow> (None, x))"

definition on_ClusterRoleBinding ::
  "('e, ClusterRoleBinding) mutate_fn \<Rightarrow> ('e, k8s_object) mutate_fn" where
  "on_ClusterRoleBinding f x =
     (case x of ClusterRoleBindingObj y \<Rightarrow> map_prod id ClusterRoleBindingObj (f y)
      | _ \<Rightarrow> (None, x))"

lemmas on_defs = on_ConfigMap_def on_ServiceAccount_def on_Deployment_def on_Service_def
  on_DaemonSet_def on_Ingress_def on_Secret_def on_ClusterRole_def on_ClusterRoleBinding_def

end
