(* ===== verification/KubesharkTypes.thy ===== *)
theory KubesharkTypes
  imports K8sTypes
begin

text \<open>
  The custom resource (\<open>api/v1beta1/kubeshark_types.go\<close>): the structs \<open>KubesharkSpec\<close>,
  \<open>SecretKubesharkSpec\<close>, \<open>KubesharkStatus\<close>, \<open>Kubeshark\<close> and \<open>KubesharkList\<close>, field by field.
  A nil slice and an empty slice are both \<open>[]\<close>: the source only asks for their length.
  A pointer or map field is an option, since the source tests some of them for nil.
\<close>

record SecretKubesharkSpec =
  sk_License :: string
  sk_ScriptingEnvJson :: string
  sk_OidcClientID :: string
  sk_OidcClientSecret :: string

record KubesharkSpec =
  sp_HubImage :: string
  sp_FrontendImage :: string
  sp_HubReplicas :: "int32 option"
  sp_WorkerImage :: string
  sp_Namespace :: string
  sp_IngressHost :: string
  sp_IngressClassName :: string
  sp_IngressName :: string
  sp_ServiceAccountHub :: string
  sp_ServiceAccountWorker :: string
  sp_HubConfigMapData :: gomap
  sp_ClusterRoleRules :: "PolicyRule list"
  sp_ClusterRoleName :: string
  sp_ClusterRoleBindingName :: string
  sp_HubDeploymentName :: string
  sp_HubLabels :: gomap
  sp_HubContainerPorts :: "ContainerPort list"
  sp_WorkerDaemonSetName :: string
  sp_WorkerLabels :: gomap
  sp_HubServiceName :: string
  sp_HubConfigMapName :: string
  sp_SecretKubeshark :: SecretKubesharkSpec

record KubesharkStatus =
  st_Conditions :: "Condition list"
  st_ObservedGeneration :: int64

record TypeMeta =
  ty_Kind :: string
  ty_APIVersion :: string

record Kubeshark =
  ks_TypeMeta :: TypeMeta
  ks_ObjectMeta :: ObjectMeta
  ks_Spec :: KubesharkSpec
  ks_Status :: KubesharkStatus

text \<open>The source never looks into the \<open>ListMeta\<close> of a list.\<close>

record KubesharkList =
  kl_TypeMeta :: TypeMeta
  kl_ListMeta :: opaque
  kl_Items :: "Kubeshark list"

definition zero_SecretKubesharkSpec :: SecretKubesharkSpec where
  "zero_SecretKubesharkSpec = \<lparr>sk_License = '''', sk_ScriptingEnvJson = '''',
     sk_OidcClientID = '''', sk_OidcClientSecret = ''''\<rparr>"

definition zero_KubesharkSpec :: KubesharkSpec where
  "zero_KubesharkSpec = \<lparr>sp_HubImage = '''', sp_FrontendImage = '''', sp_HubReplicas = None,
     sp_WorkerImage = '''', sp_Namespace = '''', sp_IngressHost = '''',
     sp_IngressClassName = '''', sp_IngressName = '''', sp_ServiceAccountHub = '''',
     sp_ServiceAccountWorker = '''', sp_HubConfigMapData = None, sp_ClusterRoleRules = [],
     sp_ClusterRoleName = '''', sp_ClusterRoleBindingName = '''', sp_HubDeploymentName = '''',
     sp_HubLabels = None, sp_HubContainerPorts = [], sp_WorkerDaemonSetName = '''',
     sp_WorkerLabels = None, sp_HubServiceName = '''', sp_HubConfigMapName = '''',
     sp_SecretKubeshark = zero_SecretKubesharkSpec\<rparr>"

definition zero_KubesharkStatus :: KubesharkStatus where
  "zero_KubesharkStatus = \<lparr>st_Conditions = [], st_ObservedGeneration = 0\<rparr>"

definition zero_TypeMeta :: TypeMeta where
  "zero_TypeMeta = \<lparr>ty_Kind = '''', ty_APIVersion = ''''\<rparr>"

definition zero_Kubeshark :: Kubeshark where
  "zero_Kubeshark = \<lparr>ks_TypeMeta = zero_TypeMeta, ks_ObjectMeta = zero_ObjectMeta, ks_Spec = zero_KubesharkSpec,
     ks_Status = zero_KubesharkStatus\<rparr>"

text \<open>The promoted fields \<open>cr.Name\<close>, \<open>cr.Namespace\<close>, \<dots> of the embedded \<open>ObjectMeta\<close>.\<close>

abbreviation ks_Name :: "Kubeshark \<Rightarrow> string" where
  "ks_Name cr \<equiv> om_Name (ks_ObjectMeta cr)"

abbreviation ks_Namespace :: "Kubeshark \<Rightarrow> string" where
  "ks_Namespace cr \<equiv> om_Namespace (ks_ObjectMeta cr)"

abbreviation ks_Generation :: "Kubeshark \<Rightarrow> int64" where
  "ks_Generation cr \<equiv> om_Generation (ks_ObjectMeta cr)"

abbreviation ks_Finalizers :: "Kubeshark \<Rightarrow> string list" where
  "ks_Finalizers cr \<equiv> om_Finalizers (ks_ObjectMeta cr)"

abbreviation ks_DeletionTimestamp :: "Kubeshark \<Rightarrow> time option" where
  "ks_DeletionTimestamp cr \<equiv> om_DeletionTimestamp (ks_ObjectMeta cr)"

definition ks_key :: "Kubeshark \<Rightarrow> NamespacedName" where
  "ks_key cr = \<lparr>nn_Namespace = ks_Namespace cr, nn_Name = ks_Name cr\<rparr>"

end
