(* ===== verification/ClientApi.thy ===== *)
theory ClientApi
  imports KubesharkTypes
begin

text \<open>
  The code the operator calls and that is not part of the repository: the controller-runtime
  client (\<open>Get\<close>, \<open>Update\<close>, \<open>Delete\<close>, \<open>Status().Patch\<close>), \<open>controllerutil\<close> (\<open>CreateOrUpdate\<close>,
  \<open>SetControllerReference\<close>, the finalizer functions), \<open>meta.SetStatusCondition\<close> and the error
  predicates. All of it is a parameter: a record \<open>api\<close> of functions over an abstract state of the
  world \<open>'w\<close> and an abstract type \<open>'e\<close> of library errors. Every handler of the operator takes the
  record as an argument, and nothing is assumed of it where no law is named.

  The laws at the end of this theory state the documented behaviour of these operations, relative
  to a view of the world (which custom resources and objects the API server holds). They are
  hypotheses of the theorems that need them, by name.
\<close>

datatype OperationResult =
    OperationResultNone | OperationResultCreated | OperationResultUpdated

record ('w, 'e) api =
  api_Get :: "NamespacedName \<Rightarrow> 'w \<Rightarrow> ('e goerror option \<times> Kubeshark) \<times> 'w"
  api_Update :: "Kubeshark \<Rightarrow> 'w \<Rightarrow> ('e goerror option \<times> Kubeshark) \<times> 'w"
  api_StatusPatch :: "Kubeshark \<Rightarrow> Kubeshark \<Rightarrow> 'w \<Rightarrow> ('e goerror option \<times> Kubeshark) \<times> 'w"
  api_Delete :: "k8s_object \<Rightarrow> 'w \<Rightarrow> 'e goerror option \<times> 'w"
  api_CreateOrUpdate ::
    "k8s_object \<Rightarrow> ('e, k8s_object) mutate_fn \<Rightarrow> 'w
       \<Rightarrow> (OperationResult \<times> 'e goerror option \<times> k8s_object) \<times> 'w"
  api_SetControllerReference :: "Kubeshark \<Rightarrow> ObjectMeta \<Rightarrow> 'e goerror option \<times> ObjectMeta"
  api_ContainsFinalizer :: "Kubeshark \<Rightarrow> string \<Rightarrow> bool"
  api_AddFinalizer :: "Kubeshark \<Rightarrow> string \<Rightarrow> Kubeshark"
  api_RemoveFinalizer :: "Kubeshark \<Rightarrow> string \<Rightarrow> Kubeshark"
  api_SetStatusCondition :: "Condition list \<Rightarrow> Condition \<Rightarrow> Condition list"
  api_IsZero :: "time option \<Rightarrow> bool"
  api_IsNotFound :: "'e goerror \<Rightarrow> bool"
  api_IgnoreNotFound :: "'e goerror \<Rightarrow> 'e goerror option"
  api_errorText :: "'e \<Rightarrow> string"

text \<open>\<open>err.Error()\<close>.\<close>

definition err_Error :: "('w, 'e) api \<Rightarrow> 'e goerror \<Rightarrow> string" where
  "err_Error api err = error_text (api_errorText api) err"

section \<open>Managed objects\<close>

text \<open>
  \<open>_, err := controllerutil.CreateOrUpdate(ctx, r.Client, obj, fn)\<close>, with the operation result and
  the object dropped, as every reconcile function of the operator uses it.
\<close>

definition create_or_update ::
  "('w, 'e) api \<Rightarrow> k8s_object \<Rightarrow> ('e, k8s_object) mutate_fn \<Rightarrow> ('w, 'e) action" where
  "create_or_update api obj fn w =
     (case api_CreateOrUpdate api obj fn w of ((op, err, obj'), w') \<Rightarrow> (err, w'))"

text \<open>
  A child of the custom resource, as data: the object the call starts from, its mutate function
  and the text \<open>fmt.Errorf\<close> puts before an error, if the code wraps it.
\<close>

record 'e child =
  ch_object :: k8s_object
  ch_mutate :: "('e, k8s_object) mutate_fn"
  ch_wrap :: "string option"

definition child_key :: "'e child \<Rightarrow> ObjectKey" where
  "child_key c = object_key (ch_object c)"

definition run_child :: "('w, 'e) api \<Rightarrow> 'e child \<Rightarrow> ('w, 'e) action" where
  "run_child api c =
     (case ch_wrap c of
        None \<Rightarrow> create_or_update api (ch_object c) (ch_mutate c)
      | Some p \<Rightarrow> wrap_err p (create_or_update api (ch_object c) (ch_mutate c)))"

section \<open>The documented laws\<close>

record 'w view =
  v_cr :: "'w \<Rightarrow> NamespacedName \<Rightarrow> Kubeshark option"
  v_obj :: "'w \<Rightarrow> ObjectKey \<Rightarrow> k8s_object option"
  v_admit :: "k8s_object \<Rightarrow> k8s_object"

text \<open>
  \<open>v_admit\<close> is what admission and defaulting make of an object before it is stored. The laws below
  say nothing about it; where a property needs more than that, it assumes the contract \<open>admission\<close> of
  the theory \<open>Admission\<close>, or a part of it.
\<close>

definition error_laws :: "('w, 'e) api \<Rightarrow> bool" where
  "error_laws api \<longleftrightarrow>
     (\<forall>err. api_IgnoreNotFound api err = (if api_IsNotFound api err then None else Some err))"

definition finalizer_laws :: "('w, 'e) api \<Rightarrow> bool" where
  "finalizer_laws api \<longleftrightarrow>
     (\<forall>cr f. api_ContainsFinalizer api cr f = (f \<in> set (ks_Finalizers cr))) \<and>
     (\<forall>cr f. api_AddFinalizer api cr f =
        (if f \<in> set (ks_Finalizers cr) then cr
         else cr\<lparr>ks_ObjectMeta := (ks_ObjectMeta cr)\<lparr>om_Finalizers := ks_Finalizers cr @ [f]\<rparr>\<rparr>)) \<and>
     (\<forall>cr f. api_RemoveFinalizer api cr f =
        cr\<lparr>ks_ObjectMeta :=
             (ks_ObjectMeta cr)\<lparr>om_Finalizers := filter (\<lambda>g. g \<noteq> f) (ks_Finalizers cr)\<rparr>\<rparr>) \<and>
     (\<forall>t. api_IsZero api t = (t = None))"

definition controlled_by :: "Kubeshark \<Rightarrow> ObjectMeta \<Rightarrow> bool" where
  "controlled_by cr m \<longleftrightarrow>
     (\<exists>r \<in> set (om_OwnerReferences m). or_UID r = om_UID (ks_ObjectMeta cr) \<and> or_Controller r)"

text \<open>Two readings of one custom resource whose specification has not changed between them.\<close>

definition same_resource :: "Kubeshark \<Rightarrow> Kubeshark \<Rightarrow> bool" where
  "same_resource c c' \<longleftrightarrow>
     ks_Spec c' = ks_Spec c \<and> ks_Name c' = ks_Name c \<and> ks_Namespace c' = ks_Namespace c \<and>
     om_UID (ks_ObjectMeta c') = om_UID (ks_ObjectMeta c)"

lemma same_resource_refl [simp]: "same_resource c c"
  by (simp add: same_resource_def)

definition owner_laws :: "('w, 'e) api \<Rightarrow> bool" where
  "owner_laws api \<longleftrightarrow>
     (\<forall>cr m m'. api_SetControllerReference api cr m = (None, m') \<longrightarrow>
        (\<exists>refs. m' = m\<lparr>om_OwnerReferences := refs\<rparr>) \<and>
        controlled_by cr m' \<and>
        (\<forall>cr2 m2. same_resource cr cr2 \<and> om_OwnerReferences m2 = om_OwnerReferences m' \<and>
              om_Namespace m2 = om_Namespace m' \<longrightarrow>
           api_SetControllerReference api cr2 m2 = (None, m2)))"

definition find_condition :: "string \<Rightarrow> Condition list \<Rightarrow> Condition option" where
  "find_condition ty cs = find (\<lambda>c. cond_Type c = ty) cs"

definition condition_laws :: "('w, 'e) api \<Rightarrow> bool" where
  "condition_laws api \<longleftrightarrow>
     (\<forall>cs c. (\<exists>t. find_condition (cond_Type c) (api_SetStatusCondition api cs c) =
                  Some (c\<lparr>cond_LastTransitionTime := t\<rparr>)) \<and>
             (\<forall>ty. ty \<noteq> cond_Type c \<longrightarrow>
                find_condition ty (api_SetStatusCondition api cs c) = find_condition ty cs))"

definition same_spec_meta :: "Kubeshark \<Rightarrow> Kubeshark \<Rightarrow> bool" where
  "same_spec_meta c c' \<longleftrightarrow>
     same_resource c c' \<and> ks_Finalizers c' = ks_Finalizers c \<and> ks_DeletionTimestamp c' = ks_DeletionTimestamp c"

definition get_law :: "('w, 'e) api \<Rightarrow> 'w view \<Rightarrow> bool" where
  "get_law api vw \<longleftrightarrow>
     (\<forall>nn w err cr w'. api_Get api nn w = ((err, cr), w') \<longrightarrow>
        v_cr vw w' = v_cr vw w \<and> v_obj vw w' = v_obj vw w \<and>
        (err = None \<longrightarrow> v_cr vw w nn = Some cr \<and> ks_key cr = nn) \<and>
        (\<forall>e. err = Some e \<and> api_IsNotFound api e \<longrightarrow> v_cr vw w nn = None))"

definition update_law :: "('w, 'e) api \<Rightarrow> 'w view \<Rightarrow> bool" where
  "update_law api vw \<longleftrightarrow>
     (\<forall>cr w err cr' w'. api_Update api cr w = ((err, cr'), w') \<longrightarrow>
        ks_key cr' = ks_key cr \<and> v_obj vw w' = v_obj vw w \<and>
        (\<forall>nn. nn \<noteq> ks_key cr \<longrightarrow> v_cr vw w' nn = v_cr vw w nn) \<and>
        (v_cr vw w (ks_key cr) = None \<longrightarrow> v_cr vw w' (ks_key cr) = None) \<and>
        (v_cr vw w' (ks_key cr) = v_cr vw w (ks_key cr) \<and> err \<noteq> None \<or>
         (if ks_DeletionTimestamp cr \<noteq> None \<and> ks_Finalizers cr = []
          then v_cr vw w' (ks_key cr) = None
          else (\<exists>c. v_cr vw w' (ks_key cr) = Some c \<and> same_spec_meta cr c))))"

definition patch_law :: "('w, 'e) api \<Rightarrow> 'w view \<Rightarrow> bool" where
  "patch_law api vw \<longleftrightarrow>
     (\<forall>cr orig w err cr' w'. api_StatusPatch api cr orig w = ((err, cr'), w') \<longrightarrow>
        v_obj vw w' = v_obj vw w \<and>
        (\<forall>nn. nn \<noteq> ks_key cr \<longrightarrow> v_cr vw w' nn = v_cr vw w nn) \<and>
        (v_cr vw w (ks_key cr) = None \<longrightarrow> v_cr vw w' (ks_key cr) = None) \<and>
        (\<forall>c. v_cr vw w (ks_key cr) = Some c \<longrightarrow>
           (\<exists>c'. v_cr vw w' (ks_key cr) = Some c' \<and> same_spec_meta c c' \<and>
              (err = None \<and> ks_Status c = ks_Status orig \<longrightarrow> ks_Status c' = ks_Status cr))))"

text \<open>
  \<open>Delete\<close>, for the objects the operator deletes, which carry no finalizers: the operator sets none on
  them, and it is assumed that nobody else does. (An object with finalizers is only marked by a
  deletion and goes when they are taken off.) The object is addressed by \<open>object_key\<close>, which for a
  cluster-scoped kind has no namespace, whatever the object says.
\<close>

definition delete_law :: "('w, 'e) api \<Rightarrow> 'w view \<Rightarrow> bool" where
  "delete_law api vw \<longleftrightarrow>
     (\<forall>obj w err w'. api_Delete api obj w = (err, w') \<longrightarrow>
        v_cr vw w' = v_cr vw w \<and>
        (\<forall>k. k \<noteq> object_key obj \<longrightarrow> v_obj vw w' k = v_obj vw w k) \<and>
        (v_obj vw w' (object_key obj) = v_obj vw w (object_key obj) \<or>
         v_obj vw w' (object_key obj) = None) \<and>
        (case err of
           None \<Rightarrow> v_obj vw w' (object_key obj) = None
         | Some e \<Rightarrow> api_IsNotFound api e \<longrightarrow> v_obj vw w' (object_key obj) = None))"

text \<open>
  \<open>CreateOrUpdate\<close>: the mutate function is applied to the stored object, or to the given one if
  there is none; on success the admitted result is what the server holds; a failed call has left
  the object as it was or has stored the result without the client learning of it.
\<close>

definition cou_base :: "'w view \<Rightarrow> 'w \<Rightarrow> k8s_object \<Rightarrow> k8s_object" where
  "cou_base vw w obj = (case v_obj vw w (object_key obj) of None \<Rightarrow> obj | Some x \<Rightarrow> x)"

definition create_or_update_law :: "('w, 'e) api \<Rightarrow> 'w view \<Rightarrow> bool" where
  "create_or_update_law api vw \<longleftrightarrow>
     (\<forall>obj f w op err obj' w'. api_CreateOrUpdate api obj f w = ((op, err, obj'), w') \<longrightarrow>
        v_cr vw w' = v_cr vw w \<and>
        (\<forall>k. k \<noteq> object_key obj \<longrightarrow> v_obj vw w' k = v_obj vw w k) \<and>
        (if fst (f (cou_base vw w obj)) = None
         then v_obj vw w' (object_key obj) = Some (v_admit vw (snd (f (cou_base vw w obj)))) \<or>
              err \<noteq> None \<and> v_obj vw w' (object_key obj) = v_obj vw w (object_key obj)
         else err \<noteq> None \<and> v_obj vw w' (object_key obj) = v_obj vw w (object_key obj)))"

definition keyed_view :: "'w view \<Rightarrow> bool" where
  "keyed_view vw \<longleftrightarrow> (\<forall>w k x. v_obj vw w k = Some x \<longrightarrow> object_key x = k)"

definition lawful :: "('w, 'e) api \<Rightarrow> 'w view \<Rightarrow> bool" where
  "lawful api vw \<longleftrightarrow>
     error_laws api \<and> finalizer_laws api \<and> owner_laws api \<and> condition_laws api \<and>
     get_law api vw \<and> update_law api vw \<and> patch_law api vw \<and> delete_law api vw \<and>
     create_or_update_law api vw \<and> keyed_view vw"

lemma lawfulD:
  assumes "lawful api vw"
  shows "error_laws api" and "finalizer_laws api" and "owner_laws api" and "condition_laws api"
    and "get_law api vw" and "update_law api vw" and "patch_law api vw" and "delete_law api vw"
    and "create_or_update_law api vw" and "keyed_view vw"
  using assms by (simp_all add: lawful_def)

lemma get_lawD:
  assumes "get_law api vw" and "api_Get api nn w = ((err, cr), w')"
  shows "v_cr vw w' = v_cr vw w" and "v_obj vw w' = v_obj vw w"
    and "err = None \<Longrightarrow> v_cr vw w nn = Some cr \<and> ks_key cr = nn"
    and "err = Some e \<Longrightarrow> api_IsNotFound api e \<Longrightarrow> v_cr vw w nn = None"
  using assms by (auto simp: get_law_def)

lemma object_key_kind: "object_key x = object_key y \<Longrightarrow> object_kind x = object_kind y"
  by (simp add: object_key_def)

lemma cou_base_key: "keyed_view vw \<Longrightarrow> object_key (cou_base vw w obj) = object_key obj"
  by (auto simp: cou_base_def keyed_view_def split: option.splits)

lemma create_or_update_success:
  assumes "create_or_update_law api vw" and "create_or_update api obj f w = (None, w')"
  shows "fst (f (cou_base vw w obj)) = None"
    and "v_obj vw w' (object_key obj) = Some (v_admit vw (snd (f (cou_base vw w obj))))"
  using assms unfolding create_or_update_def create_or_update_law_def
  by (auto split: prod.splits if_splits) (metis option.distinct(1))+

lemma create_or_update_frame:
  assumes "create_or_update_law api vw" and "create_or_update api obj f w = (r, w')"
  shows "v_cr vw w' = v_cr vw w" and "k \<noteq> object_key obj \<Longrightarrow> v_obj vw w' k = v_obj vw w k"
  using assms unfolding create_or_update_def create_or_update_law_def
  by (auto split: prod.splits)

lemma run_child_success:
  assumes "create_or_update_law api vw" and "run_child api c w = (None, w')"
  shows "fst (ch_mutate c (cou_base vw w (ch_object c))) = None"
    and "v_obj vw w' (child_key c) =
           Some (v_admit vw (snd (ch_mutate c (cou_base vw w (ch_object c)))))"
proof -
  from assms(2) have "create_or_update api (ch_object c) (ch_mutate c) w = (None, w')"
    by (auto simp: run_child_def wrap_err_def split: option.splits prod.splits)
  with assms(1) show "fst (ch_mutate c (cou_base vw w (ch_object c))) = None"
    and "v_obj vw w' (child_key c) =
           Some (v_admit vw (snd (ch_mutate c (cou_base vw w (ch_object c)))))"
    by (simp_all add: create_or_update_success child_key_def)
qed

lemma run_child_frame:
  assumes "create_or_update_law api vw" and "run_child api c w = (r, w')"
  shows "v_cr vw w' = v_cr vw w" and "k \<noteq> child_key c \<Longrightarrow> v_obj vw w' k = v_obj vw w k"
proof -
  from assms(2) obtain r0 where "create_or_update api (ch_object c) (ch_mutate c) w = (r0, w')"
    by (auto simp: run_child_def wrap_err_def split: option.splits prod.splits)
  with assms(1) show "v_cr vw w' = v_cr vw w"
    and "k \<noteq> child_key c \<Longrightarrow> v_obj vw w' k = v_obj vw w k"
    by (auto simp: child_key_def dest: create_or_update_frame)
qed

end
