(* ===== verification/Admission.thy ===== *)
theory Admission
  imports K8sTypes
begin

text \<open>
  What an API server makes of an object before it stores it: defaulting of fields that are not set,
  and for a Secret the conversion of \<open>stringData\<close>. \<open>admission\<close> collects what Kubernetes documents
  about it: it touches neither the identity of an object nor its owner references; a field that is
  not set and one that is set to its default mean the same, so an object that differs from one that
  was submitted only in having some of its stored values is stored alike; and \<open>stringData\<close> is write
  only, its entries go into \<open>data\<close>.
\<close>

section \<open>Objects between a submitted and a stored one\<close>

definition taken :: "('o \<Rightarrow> 'f) \<Rightarrow> 'o \<Rightarrow> 'o \<Rightarrow> 'o \<Rightarrow> bool" where
  "taken f z y u \<longleftrightarrow> f u = f z \<or> f u = f y"

lemma taken_refl [simp]: "taken f z y z" "taken f z y y"
  by (simp_all add: taken_def)

definition mixed_meta :: "ObjectMeta \<Rightarrow> ObjectMeta \<Rightarrow> ObjectMeta \<Rightarrow> bool" where
  "mixed_meta z y u \<longleftrightarrow>
     taken om_Name z y u \<and> taken om_Namespace z y u \<and> taken om_UID z y u \<and>
     taken om_Generation z y u \<and> taken om_CreationTimestamp z y u \<and>
     taken om_DeletionTimestamp z y u \<and> taken om_Labels z y u \<and> taken om_Annotations z y u \<and>
     taken om_OwnerReferences z y u \<and> taken om_Finalizers z y u \<and> taken om_rest z y u"

text \<open>\<open>mixed z y u\<close>: every field of \<open>u\<close> is the one of \<open>z\<close> or the one of \<open>y\<close>.\<close>

inductive mixed :: "k8s_object \<Rightarrow> k8s_object \<Rightarrow> k8s_object \<Rightarrow> bool" where
  ConfigMap: "mixed_meta (cm_ObjectMeta z) (cm_ObjectMeta y) (cm_ObjectMeta u) \<Longrightarrow>
    taken cm_Data z y u \<Longrightarrow> taken cm_rest z y u \<Longrightarrow>
    mixed (ConfigMapObj z) (ConfigMapObj y) (ConfigMapObj u)"
| ServiceAccount: "mixed_meta (sa_ObjectMeta z) (sa_ObjectMeta y) (sa_ObjectMeta u) \<Longrightarrow>
    taken sa_rest z y u \<Longrightarrow> mixed (ServiceAccountObj z) (ServiceAccountObj y) (ServiceAccountObj u)"
| Deployment: "mixed_meta (dep_ObjectMeta z) (dep_ObjectMeta y) (dep_ObjectMeta u) \<Longrightarrow>
    taken (\<lambda>x. dps_Replicas (dep_Spec x)) z y u \<Longrightarrow> taken (\<lambda>x. dps_Selector (dep_Spec x)) z y u \<Longrightarrow>
    taken (\<lambda>x. dps_Template (dep_Spec x)) z y u \<Longrightarrow> taken (\<lambda>x. dps_rest (dep_Spec x)) z y u \<Longrightarrow>
    taken dep_rest z y u \<Longrightarrow> mixed (DeploymentObj z) (DeploymentObj y) (DeploymentObj u)"
| Service: "mixed_meta (svc_ObjectMeta z) (svc_ObjectMeta y) (svc_ObjectMeta u) \<Longrightarrow>
    taken (\<lambda>x. svs_Ports (svc_Spec x)) z y u \<Longrightarrow> taken (\<lambda>x. svs_Selector (svc_Spec x)) z y u \<Longrightarrow>
    taken (\<lambda>x. svs_Type (svc_Spec x)) z y u \<Longrightarrow> taken (\<lambda>x. svs_rest (svc_Spec x)) z y u \<Longrightarrow>
    taken svc_rest z y u \<Longrightarrow> mixed (ServiceObj z) (ServiceObj y) (ServiceObj u)"
| DaemonSet: "mixed_meta (dmn_ObjectMeta z) (dmn_ObjectMeta y) (dmn_ObjectMeta u) \<Longrightarrow>
    taken (\<lambda>x. dms_Selector (dmn_Spec x)) z y u \<Longrightarrow> taken (\<lambda>x. dms_Template (dmn_Spec x)) z y u \<Longrightarrow>
    taken (\<lambda>x. dms_rest (dmn_Spec x)) z y u \<Longrightarrow> taken dmn_rest z y u \<Longrightarrow>
    mixed (DaemonSetObj z) (DaemonSetObj y) (DaemonSetObj u)"
| Ingress: "mixed_meta (ing_ObjectMeta z) (ing_ObjectMeta y) (ing_ObjectMeta u) \<Longrightarrow>
    taken (\<lambda>x. igs_IngressClassName (ing_Spec x)) z y u \<Longrightarrow>
    taken (\<lambda>x. igs_Rules (ing_Spec x)) z y u \<Longrightarrow> taken (\<lambda>x. igs_rest (ing_Spec x)) z y u \<Longrightarrow>
    taken ing_rest z y u \<Longrightarrow> mixed (IngressObj z) (IngressObj y) (IngressObj u)"
| ClusterRole: "mixed_meta (crole_ObjectMeta z) (crole_ObjectMeta y) (crole_ObjectMeta u) \<Longrightarrow>
    taken crole_Rules z y u \<Longrightarrow> taken crole_rest z y u \<Longrightarrow>
    mixed (ClusterRoleObj z) (ClusterRoleObj y) (ClusterRoleObj u)"
| ClusterRoleBinding: "mixed_meta (crb_ObjectMeta z) (crb_ObjectMeta y) (crb_ObjectMeta u) \<Longrightarrow>
    taken crb_Subjects z y u \<Longrightarrow> taken crb_RoleRef z y u \<Longrightarrow> taken crb_rest z y u \<Longrightarrow>
    mixed (ClusterRoleBindingObj z) (ClusterRoleBindingObj y) (ClusterRoleBindingObj u)"

inductive_simps mixed_simps [simp]:
  "mixed (ConfigMapObj z) (ConfigMapObj y) (ConfigMapObj u)"
  "mixed (ServiceAccountObj z') (ServiceAccountObj y') (ServiceAccountObj u')"
  "mixed (DeploymentObj d) (DeploymentObj e) (DeploymentObj f)"
  "mixed (ServiceObj g) (ServiceObj h) (ServiceObj i)"
  "mixed (DaemonSetObj j) (DaemonSetObj k) (DaemonSetObj l)"
  "mixed (IngressObj m) (IngressObj n) (IngressObj p)"
  "mixed (ClusterRoleObj q) (ClusterRoleObj r) (ClusterRoleObj s)"
  "mixed (ClusterRoleBindingObj t) (ClusterRoleBindingObj v) (ClusterRoleBindingObj w)"

lemmas mixed_defs = mixed_meta_def taken_def

section \<open>Secrets\<close>

text \<open>\<open>data\<close> after a write: the entries of \<open>stringData\<close> are added and replace those of the same key.\<close>

definition merge_data :: "gomap \<Rightarrow> gomap \<Rightarrow> gomap" where
  "merge_data data strings =
     (case strings of
        None \<Rightarrow> data
      | Some s \<Rightarrow> Some ((case data of None \<Rightarrow> Map.empty | Some d \<Rightarrow> d) ++ s))"

definition stored_secret :: "Secret \<Rightarrow> Secret" where
  "stored_secret s = s\<lparr>
     sec_Data := merge_data (sec_Data s) (sec_StringData s),
     sec_StringData := None,
     sec_Type := Some (case sec_Type s of None \<Rightarrow> SecretTypeOpaque | Some t \<Rightarrow> t)\<rparr>"

lemma stored_secret_meta [simp]: "sec_ObjectMeta (stored_secret s) = sec_ObjectMeta s"
  by (simp add: stored_secret_def)

section \<open>The contract of admission\<close>

definition admission_keeps :: "(k8s_object \<Rightarrow> k8s_object) \<Rightarrow> bool" where
  "admission_keeps adm \<longleftrightarrow>
     (\<forall>x. object_kind (adm x) = object_kind x \<and>
          om_Name (object_meta (adm x)) = om_Name (object_meta x) \<and>
          om_Namespace (object_meta (adm x)) = om_Namespace (object_meta x) \<and>
          om_OwnerReferences (object_meta (adm x)) = om_OwnerReferences (object_meta x))"

definition admission_defaults :: "(k8s_object \<Rightarrow> k8s_object) \<Rightarrow> bool" where
  "admission_defaults adm \<longleftrightarrow> (\<forall>z u. mixed z (adm z) u \<longrightarrow> adm u = adm z)"

definition admission_secrets :: "(k8s_object \<Rightarrow> k8s_object) \<Rightarrow> bool" where
  "admission_secrets adm \<longleftrightarrow> (\<forall>s. adm (SecretObj s) = SecretObj (stored_secret s))"

definition admission :: "(k8s_object \<Rightarrow> k8s_object) \<Rightarrow> bool" where
  "admission adm \<longleftrightarrow> admission_keeps adm \<and> admission_defaults adm \<and> admission_secrets adm"

lemma admissionD:
  assumes "admission adm"
  shows "admission_keeps adm" and "admission_defaults adm" and "admission_secrets adm"
  using assms by (simp_all add: admission_def)

lemma admission_keepsD:
  assumes "admission_keeps adm"
  shows "object_kind (adm x) = object_kind x"
    and "om_Namespace (object_meta (adm x)) = om_Namespace (object_meta x)"
    and "om_OwnerReferences (object_meta (adm x)) = om_OwnerReferences (object_meta x)"
    and "object_key (adm x) = object_key x"
  using assms by (simp_all add: admission_keeps_def object_key_def)

lemma admission_defaultsD:
  "admission_defaults adm \<Longrightarrow> adm z = y \<Longrightarrow> mixed z y u \<Longrightarrow> adm u = y"
  by (auto simp: admission_defaults_def)

end
