(* ===== verification/Helpers.thy ===== *)
theory Helpers
  imports KubesharkTypes
begin

text \<open>
  \<open>internal/controller/helpers.go\<close>: the constants, the defaulting of images and replicas, the
  labels every child carries, and the names of the children. The lemmas say when two resources get
  different names for their cluster-scoped objects.
\<close>

section \<open>Constants and defaults\<close>

definition finalizerName :: string where
  "finalizerName = ''kubeshark.opstreelabs.in/finalizer''"

definition defaultHubImage :: string where
  "defaultHubImage = ''docker.io/kubeshark/hub:v52.3.82''"

definition defaultWorkerImage :: string where
  "defaultWorkerImage = ''docker.io/kubeshark/worker:v52.3.82''"

definition defaultFrontendImage :: string where
  "defaultFrontendImage = ''docker.io/kubeshark/front:v52.3.82''"

definition getOrDefaultString :: "string \<Rightarrow> string \<Rightarrow> string" where
  "getOrDefaultString value defaultValue = (if value = '''' then defaultValue else value)"

definition hubReplicas :: "Kubeshark \<Rightarrow> int32 option" where
  "hubReplicas cr =
     (if sp_HubReplicas (ks_Spec cr) \<noteq> None then sp_HubReplicas (ks_Spec cr) else Some 1)"

definition componentLabels :: "Kubeshark \<Rightarrow> gomap" where
  "componentLabels cr = Some [
     ''app.kubernetes.io/name'' \<mapsto> ''kubeshark'',
     ''app.kubernetes.io/instance'' \<mapsto> ks_Name cr,
     ''app.kubernetes.io/managed-by'' \<mapsto> ''kubeshark-operator'']"

section \<open>Names of the children\<close>

definition hubServiceName :: "Kubeshark \<Rightarrow> string" where
  "hubServiceName cr = getOrDefaultString (sp_HubServiceName (ks_Spec cr)) (ks_Name cr @ ''-hub'')"

definition hubDeploymentName :: "Kubeshark \<Rightarrow> string" where
  "hubDeploymentName cr =
     getOrDefaultString (sp_HubDeploymentName (ks_Spec cr)) (ks_Name cr @ ''-hub'')"

definition hubConfigMapName :: "Kubeshark \<Rightarrow> string" where
  "hubConfigMapName cr =
     getOrDefaultString (sp_HubConfigMapName (ks_Spec cr)) (ks_Name cr @ ''-config'')"

definition workerDaemonSetName :: "Kubeshark \<Rightarrow> string" where
  "workerDaemonSetName cr =
     getOrDefaultString (sp_WorkerDaemonSetName (ks_Spec cr)) (ks_Name cr @ ''-worker'')"

definition frontendServiceName :: "Kubeshark \<Rightarrow> string" where
  "frontendServiceName cr = ks_Name cr @ ''-frontend''"

definition frontendDeploymentName :: "Kubeshark \<Rightarrow> string" where
  "frontendDeploymentName cr = ks_Name cr @ ''-frontend''"

definition frontendIngressName :: "Kubeshark \<Rightarrow> string" where
  "frontendIngressName cr =
     getOrDefaultString (sp_IngressName (ks_Spec cr)) (ks_Name cr @ ''-frontend-ingress'')"

definition kubesharkSecretName :: "Kubeshark \<Rightarrow> string" where
  "kubesharkSecretName cr = ks_Name cr @ ''-secret''"

definition hubServiceAccountName :: "Kubeshark \<Rightarrow> string" where
  "hubServiceAccountName cr =
     getOrDefaultString (sp_ServiceAccountHub (ks_Spec cr)) (ks_Name cr @ ''-hub'')"

definition workerServiceAccountName :: "Kubeshark \<Rightarrow> string" where
  "workerServiceAccountName cr =
     getOrDefaultString (sp_ServiceAccountWorker (ks_Spec cr)) (ks_Name cr @ ''-worker'')"

definition clusterRoleName :: "Kubeshark \<Rightarrow> string" where
  "clusterRoleName cr =
     getOrDefaultString (sp_ClusterRoleName (ks_Spec cr))
       (ks_Namespace cr @ ''-'' @ ks_Name cr @ ''-kubeshark'')"

definition clusterRoleBindingName :: "Kubeshark \<Rightarrow> string" where
  "clusterRoleBindingName cr =
     getOrDefaultString (sp_ClusterRoleBindingName (ks_Spec cr))
       (ks_Namespace cr @ ''-'' @ ks_Name cr @ ''-kubeshark'')"

definition workerImage :: "Kubeshark \<Rightarrow> string" where
  "workerImage cr = getOrDefaultString (sp_WorkerImage (ks_Spec cr)) defaultWorkerImage"

lemmas helper_name_defs [name_defs] = getOrDefaultString_def hubServiceName_def
  hubDeploymentName_def hubConfigMapName_def workerDaemonSetName_def frontendServiceName_def
  frontendDeploymentName_def frontendIngressName_def kubesharkSecretName_def
  hubServiceAccountName_def workerServiceAccountName_def clusterRoleName_def
  clusterRoleBindingName_def workerImage_def

lemma getOrDefaultString_empty [simp]: "getOrDefaultString '''' d = d"
  by (simp add: getOrDefaultString_def)

lemma getOrDefaultString_given [simp]: "v \<noteq> '''' \<Longrightarrow> getOrDefaultString v d = v"
  by (simp add: getOrDefaultString_def)

lemma hubReplicas_not_None: "hubReplicas cr \<noteq> None"
  by (simp add: hubReplicas_def)

section \<open>Label selection\<close>

text \<open>
  A selector with \<open>matchLabels\<close> selects a pod when every label of the selector is a label of the
  pod with the same value; a nil selector of a Service selects nothing.
\<close>

definition selects :: "gomap \<Rightarrow> gomap \<Rightarrow> bool" where
  "selects sel ls = (case (sel, ls) of
     (Some s, Some l) \<Rightarrow> s \<subseteq>\<^sub>m l
   | (Some s, None) \<Rightarrow> s = Map.empty
   | (None, _) \<Rightarrow> False)"

lemma selects_self: "ls \<noteq> None \<Longrightarrow> selects ls ls"
  by (auto simp: selects_def)

lemma componentLabels_Some: "\<exists>m. componentLabels cr = Some m"
  by (simp add: componentLabels_def)

lemma selects_componentLabels:
  "selects (componentLabels cr) (componentLabels cr') \<longleftrightarrow> ks_Name cr = ks_Name cr'"
proof
  assume "selects (componentLabels cr) (componentLabels cr')"
  then show "ks_Name cr = ks_Name cr'"
    by (auto simp: selects_def componentLabels_def map_le_def
        dest: bspec [of _ _ "''app.kubernetes.io/instance''"])
next
  assume "ks_Name cr = ks_Name cr'"
  then have "componentLabels cr = componentLabels cr'"
    by (simp add: componentLabels_def)
  then show "selects (componentLabels cr) (componentLabels cr')"
    by (simp add: selects_self componentLabels_def)
qed

section \<open>Names of cluster-scoped objects\<close>

definition default_cluster_names :: "Kubeshark \<Rightarrow> bool" where
  "default_cluster_names cr \<longleftrightarrow>
     sp_ClusterRoleName (ks_Spec cr) = '''' \<and> sp_ClusterRoleBindingName (ks_Spec cr) = ''''"

text \<open>A resource with nothing but a name and a namespace.\<close>

definition named_resource :: "string \<Rightarrow> string \<Rightarrow> Kubeshark" where
  "named_resource ns n = zero_Kubeshark\<lparr>ks_ObjectMeta :=
     zero_ObjectMeta\<lparr>om_Name := n, om_Namespace := ns\<rparr>\<rparr>"

lemmas named_resource_defs = named_resource_def zero_Kubeshark_def zero_KubesharkSpec_def
  zero_ObjectMeta_def default_cluster_names_def

lemma default_clusterRoleName:
  "default_cluster_names cr \<Longrightarrow>
     clusterRoleName cr = (ks_Namespace cr @ CHR ''-'' # ks_Name cr) @ ''-kubeshark''"
  by (simp add: clusterRoleName_def default_cluster_names_def)

lemma default_clusterRoleBindingName:
  "default_cluster_names cr \<Longrightarrow> clusterRoleBindingName cr = clusterRoleName cr"
  by (simp add: clusterRoleName_def clusterRoleBindingName_def default_cluster_names_def)

text \<open>
  C15: default names of cluster-scoped objects. Two resources in namespaces without a hyphen get
  different names for their ClusterRole unless they are the same resource.
\<close>

theorem default_role_names_injective:
  assumes "default_cluster_names cr" and "default_cluster_names cr'"
    and "CHR ''-'' \<notin> set (ks_Namespace cr)" and "CHR ''-'' \<notin> set (ks_Namespace cr')"
    and "clusterRoleName cr = clusterRoleName cr'"
  shows "ks_key cr = ks_key cr'"
proof -
  from assms(1,2,5) have "ks_Namespace cr @ CHR ''-'' # ks_Name cr =
      ks_Namespace cr' @ CHR ''-'' # ks_Name cr'"
    by (simp only: default_clusterRoleName append_same_eq)
  with assms(3,4) show ?thesis
    by (auto simp: ks_key_def dest: append_sep_inject)
qed

theorem default_role_names_injective_witness:
  "clusterRoleName (named_resource ''team'' ''a-b'') \<noteq> clusterRoleName (named_resource ''prod'' ''a-b'')"
proof
  assume "clusterRoleName (named_resource ''team'' ''a-b'') =
    clusterRoleName (named_resource ''prod'' ''a-b'')"
  with default_role_names_injective [of "named_resource ''team'' ''a-b''"
      "named_resource ''prod'' ''a-b''"]
  have "ks_key (named_resource ''team'' ''a-b'') = ks_key (named_resource ''prod'' ''a-b'')"
    by (simp add: named_resource_defs)
  then show False by (simp add: named_resource_defs ks_key_def)
qed

end
