(* ===== verification/ManagedObject.thy ===== *)
theory ManagedObject
  imports ClientApi Admission Helpers
begin

text \<open>
  The contract that every child of a custom resource meets. A child is a starting object and a
  mutate function. The contract asks that the function keeps the kind and the key of the object,
  that what it makes satisfies the child's specification \<open>desired\<close>, and that running it on what the
  server stored of its result makes an object that is stored alike. From this the locale derives,
  once for all children and for any lawful API server: a successful run leaves an object that
  satisfies \<open>desired\<close>, and a second run does not change it.

  \<open>owned_object\<close> adds that the custom resource becomes the controller of the child, which is what
  the garbage collector needs to remove it. The cluster-scoped objects have no such reference.
\<close>

definition settled :: "'w view \<Rightarrow> 'w \<Rightarrow> 'e child \<Rightarrow> bool" where
  "settled vw w c \<longleftrightarrow>
     (\<exists>y u. v_obj vw w (child_key c) = Some y \<and> ch_mutate c y = (None, u) \<and> v_admit vw u = y)"

lemma settled_cong: "v_obj vw w' = v_obj vw w \<Longrightarrow> settled vw w' c = settled vw w c"
  by (simp add: settled_def)

lemma settled_run:
  assumes law: "create_or_update_law api vw" and st: "settled vw w c" and run: "run_child api c w = (r, w')"
  shows "v_obj vw w' = v_obj vw w"
proof
  fix k
  obtain y u where y: "v_obj vw w (child_key c) = Some y" "ch_mutate c y = (None, u)"
    "v_admit vw u = y"
    using st by (auto simp: settled_def)
  then have base: "cou_base vw w (ch_object c) = y"
    by (simp add: cou_base_def child_key_def)
  obtain op e x where call:
    "api_CreateOrUpdate api (ch_object c) (ch_mutate c) w = ((op, e, x), w')"
    using run by (auto simp: run_child_def create_or_update_def wrap_err_def
        split: option.splits prod.splits)
  have "v_obj vw w' (child_key c) = Some (v_admit vw u) \<or>
      v_obj vw w' (child_key c) = v_obj vw w (child_key c)"
    using law call base y(2) unfolding create_or_update_law_def child_key_def
    by (metis fst_conv snd_conv)
  then show "v_obj vw w' k = v_obj vw w k"
    using y(1,3) run_child_frame(2) [OF law run] by (cases "k = child_key c") auto
qed

locale managed_object =
  fixes child :: "('w, 'e) api \<Rightarrow> Kubeshark \<Rightarrow> gomap \<Rightarrow> 'e child"
    and K :: kind
    and desired :: "Kubeshark \<Rightarrow> gomap \<Rightarrow> k8s_object \<Rightarrow> bool"
  assumes initial_kind: "object_kind (ch_object (child api cr ls)) = K"
    and mutate_key: "owner_laws api \<Longrightarrow> object_kind x = K \<Longrightarrow>
      ch_mutate (child api cr ls) x = (None, y) \<Longrightarrow> object_key y = object_key x"
    and mutate_desired: "owner_laws api \<Longrightarrow> object_kind x = K \<Longrightarrow>
      ch_mutate (child api cr ls) x = (None, y) \<Longrightarrow> desired cr ls y"
    and mutate_stable: "owner_laws api \<Longrightarrow> admission adm \<Longrightarrow> object_kind x = K \<Longrightarrow>
      ch_mutate (child api cr ls) x = (None, y) \<Longrightarrow> same_resource cr cr2 \<Longrightarrow>
      \<exists>u. ch_mutate (child api cr2 ls) (adm y) = (None, u) \<and> adm u = adm y"
    and same_object: "same_resource cr cr2 \<Longrightarrow>
      ch_object (child api cr2 ls) = ch_object (child api cr ls)"
begin

lemma base_kind:
  assumes "keyed_view vw"
  shows "object_kind (cou_base vw w (ch_object (child api cr ls))) = K"
  using cou_base_key [OF assms] object_key_kind initial_kind by metis

lemma run_stores:
  assumes law: "lawful api vw"
    and run: "run_child api (child api cr ls) w = (None, w')"
  obtains y where "ch_mutate (child api cr ls) (cou_base vw w (ch_object (child api cr ls))) =
      (None, y)"
    and "v_obj vw w' (child_key (child api cr ls)) = Some (v_admit vw y)"
    and "desired cr ls y" and "object_key y = child_key (child api cr ls)"
proof -
  let ?c = "child api cr ls"
  let ?b = "cou_base vw w (ch_object ?c)"
  note laws = lawfulD [OF law]
  obtain y where y: "ch_mutate ?c ?b = (None, y)"
    using run_child_success(1) [OF laws(9) run] by (metis prod.collapse)
  have kb: "object_kind ?b = K"
    by (rule base_kind [OF laws(10)])
  have "v_obj vw w' (child_key ?c) = Some (v_admit vw y)"
    using run_child_success(2) [OF laws(9) run] y by simp
  moreover have "desired cr ls y"
    by (rule mutate_desired [OF laws(3) kb y])
  moreover have "object_key y = child_key ?c"
    using mutate_key [OF laws(3) kb y] cou_base_key [OF laws(10)] by (simp add: child_key_def)
  ultimately show ?thesis using y that by blast
qed

theorem run_converges:
  assumes "lawful api vw" and "run_child api (child api cr ls) w = (None, w')"
  shows "\<exists>y. v_obj vw w' (child_key (child api cr ls)) = Some (v_admit vw y) \<and>
    desired cr ls y \<and> object_key y = child_key (child api cr ls)"
  using assms by (rule run_stores) blast

text \<open>
  A child is settled when its mutate function makes of the stored object one that is stored alike.
\<close>

lemma run_settles:
  assumes law: "lawful api vw" and adm: "admission (v_admit vw)"
    and run: "run_child api (child api cr ls) w = (None, w')" and same: "same_resource cr cr2"
  shows "settled vw w' (child api cr2 ls)"
proof -
  note laws = lawfulD [OF law]
  obtain y where y: "ch_mutate (child api cr ls)
      (cou_base vw w (ch_object (child api cr ls))) = (None, y)"
    and st: "v_obj vw w' (child_key (child api cr ls)) = Some (v_admit vw y)"
    using run_stores [OF law run] by metis
  have "\<exists>u. ch_mutate (child api cr2 ls) (v_admit vw y) = (None, u) \<and> v_admit vw u = v_admit vw y"
    by (rule mutate_stable [OF laws(3) adm base_kind [OF laws(10)] y same])
  with st show ?thesis
    by (simp add: settled_def child_key_def same_object [OF same])
qed

end

locale owned_object = managed_object +
  assumes mutate_owned: "owner_laws api \<Longrightarrow> object_kind x = K \<Longrightarrow>
      ch_mutate (child api cr ls) x = (None, y) \<Longrightarrow> controlled_by cr (object_meta y)"
begin

theorem run_owned:
  assumes "lawful api vw" and "run_child api (child api cr ls) w = (None, w')"
  shows "\<exists>y. v_obj vw w' (child_key (child api cr ls)) = Some (v_admit vw y) \<and>
    controlled_by cr (object_meta y)"
proof -
  note laws = lawfulD [OF assms(1)]
  obtain y where "ch_mutate (child api cr ls) (cou_base vw w (ch_object (child api cr ls))) =
      (None, y)"
    and "v_obj vw w' (child_key (child api cr ls)) = Some (v_admit vw y)"
    using run_stores [OF assms] by metis
  then show ?thesis
    using mutate_owned [OF laws(3) base_kind [OF laws(10)]] by blast
qed

end

text \<open>
  The first statement of every mutate function of a namespaced child:
  \<open>if err := controllerutil.SetControllerReference(cr, obj, r.Scheme); err != nil { return err }\<close>.
  \<open>get\<close> and \<open>put\<close> are the metadata field of the object's type, \<open>fill\<close> the assignments that follow.
\<close>

definition with_owner ::
  "('w, 'e) api \<Rightarrow> Kubeshark \<Rightarrow> ('o \<Rightarrow> ObjectMeta) \<Rightarrow> (ObjectMeta \<Rightarrow> 'o \<Rightarrow> 'o)
     \<Rightarrow> ('o \<Rightarrow> 'o) \<Rightarrow> ('e, 'o) mutate_fn" where
  "with_owner api cr get put fill x =
     (case api_SetControllerReference api cr (get x) of
        (Some err, m) \<Rightarrow> (Some err, put m x)
      | (None, m) \<Rightarrow> (None, fill (put m x)))"

lemma with_owner_None:
  "with_owner api cr get put fill x = (None, y) \<longleftrightarrow>
     (\<exists>m. api_SetControllerReference api cr (get x) = (None, m) \<and> y = fill (put m x))"
  by (auto simp: with_owner_def split: prod.splits option.splits)

lemma owner_lawsD:
  assumes "owner_laws api" and "api_SetControllerReference api cr m = (None, m')"
  shows "om_Name m' = om_Name m" and "om_Namespace m' = om_Namespace m"
    and "controlled_by cr m'"
    and "same_resource cr cr2 \<Longrightarrow> om_OwnerReferences m2 = om_OwnerReferences m' \<Longrightarrow>
      om_Namespace m2 = om_Namespace m' \<Longrightarrow>
      api_SetControllerReference api cr2 m2 = (None, m2)"
  using assms unfolding owner_laws_def by force+

lemma controlled_by_labels [simp]:
  "controlled_by cr (m\<lparr>om_Labels := l\<rparr>) = controlled_by cr m"
  by (simp add: controlled_by_def)

lemma controlled_by_refs:
  "om_OwnerReferences m = om_OwnerReferences m' \<Longrightarrow> controlled_by cr m = controlled_by cr m'"
  by (simp add: controlled_by_def)

text \<open>
  What the assignments of a mutate function must leave alone for the contract: the identity and
  the owner references of the object.
\<close>

definition owner_fill ::
  "('o \<Rightarrow> ObjectMeta) \<Rightarrow> (ObjectMeta \<Rightarrow> 'o \<Rightarrow> 'o) \<Rightarrow> ('o \<Rightarrow> 'o) \<Rightarrow> bool" where
  "owner_fill get put fill \<longleftrightarrow>
     (\<forall>m x. get (put m x) = m) \<and> (\<forall>x. put (get x) x = x) \<and>
     (\<forall>x. om_Name (get (fill x)) = om_Name (get x) \<and>
          om_Namespace (get (fill x)) = om_Namespace (get x) \<and>
          om_OwnerReferences (get (fill x)) = om_OwnerReferences (get x))"

lemma with_owner_effect:
  assumes law: "owner_laws api" and fl: "owner_fill get put fill"
    and run: "with_owner api cr get put fill x = (None, y)"
  shows "om_Name (get y) = om_Name (get x)" and "om_Namespace (get y) = om_Namespace (get x)"
    and "controlled_by cr (get y)"
    and "same_resource cr cr2 \<Longrightarrow> om_OwnerReferences (get y2) = om_OwnerReferences (get y) \<Longrightarrow>
      om_Namespace (get y2) = om_Namespace (get y) \<Longrightarrow>
      with_owner api cr2 get put fill y2 = (None, fill y2)"
    and "\<exists>z. y = fill z"
proof -
  from run obtain m where m: "api_SetControllerReference api cr (get x) = (None, m)"
    and y: "y = fill (put m x)"
    by (auto simp: with_owner_None)
  from fl have gp: "get (put m x) = m" and pg: "put (get y2) y2 = y2"
    and nm: "om_Name (get y) = om_Name m" and ns: "om_Namespace (get y) = om_Namespace m"
    and rf: "om_OwnerReferences (get y) = om_OwnerReferences m"
    unfolding y by (simp_all add: owner_fill_def)
  note o = owner_lawsD [OF law m]
  show "om_Name (get y) = om_Name (get x)" using o(1) nm by simp
  show "om_Namespace (get y) = om_Namespace (get x)" using o(2) ns by simp
  show "controlled_by cr (get y)" using o(3) controlled_by_refs [OF rf] by simp
  show "with_owner api cr2 get put fill y2 = (None, fill y2)"
    if "same_resource cr cr2" and "om_OwnerReferences (get y2) = om_OwnerReferences (get y)"
      and "om_Namespace (get y2) = om_Namespace (get y)"
    using o(4) [OF that(1)] that(2,3) rf ns pg by (simp add: with_owner_def)
  show "\<exists>z. y = fill z" using y by blast
qed

text \<open>
  The contract for every child whose mutate function starts by setting the controller reference:
  \<open>C\<close> injects the child's type into \<open>client.Object\<close>. \<open>readmit\<close> is what the assignments owe to
  \<open>admission\<close>: made again on what was stored of their result, they lead to the same stored object.
\<close>

lemma owned_objectI_readmit:
  assumes init: "\<And>api cr ls. object_kind (ch_object (child api cr ls)) = K"
    and meta: "\<And>x. object_meta (C x) = get x" and kind: "\<And>x. object_kind (C x) = K"
    and surj: "\<And>z. object_kind z = K \<Longrightarrow> \<exists>x. z = C x"
    and inj: "\<And>x y. C x = C y \<Longrightarrow> x = y"
    and lift: "\<And>api cr ls x. ch_mutate (child api cr ls) (C x) =
      map_prod id C (with_owner api cr get put (fill cr ls) x)"
    and fl: "\<And>cr ls. owner_fill get put (fill cr ls)"
    and des: "\<And>cr ls x. desired cr ls (C (fill cr ls x))"
    and readmit: "\<And>adm cr ls x y. admission adm \<Longrightarrow> adm (C (fill cr ls x)) = C y \<Longrightarrow>
      adm (C (fill cr ls y)) = C y"
    and same_obj: "\<And>api cr cr2 ls. same_resource cr cr2 \<Longrightarrow>
      ch_object (child api cr2 ls) = ch_object (child api cr ls)"
    and same_fill: "\<And>cr cr2 ls. same_resource cr cr2 \<Longrightarrow> fill cr2 ls = fill cr ls"
  shows "owned_object child K desired"
proof
  fix api cr ls x y
  assume law: "owner_laws api" and k: "object_kind x = K"
    and m: "ch_mutate (child api cr ls) x = (None, y)"
  from surj [OF k] obtain x0 where x: "x = C x0" ..
  from m [unfolded x lift] obtain y0 where
    run: "with_owner api cr get put (fill cr ls) x0 = (None, y0)" and y: "y = C y0"
    by (cases "with_owner api cr get put (fill cr ls) x0") auto
  note e = with_owner_effect [OF law fl run]
  show "object_key y = object_key x" using e(1,2) by (simp add: object_key_def x y meta kind)
  show "controlled_by cr (object_meta y)" using e(3) by (simp add: y meta)
  show "desired cr ls y" using e(5) des by (auto simp: y)
  show "\<exists>u. ch_mutate (child api cr2 ls) (adm y) = (None, u) \<and> adm u = adm y"
    if adm: "admission adm" and same: "same_resource cr cr2" for adm cr2
  proof -
    note keep = admission_keepsD [OF admissionD(1) [OF adm], of y]
    from surj [of "adm y"] keep(1) obtain y1 where y1: "adm y = C y1" by (auto simp: y kind)
    have "om_OwnerReferences (get y1) = om_OwnerReferences (get y0)"
      and "om_Namespace (get y1) = om_Namespace (get y0)"
      using keep(2,3) y1 meta by (simp_all add: y)
    with e(4) [OF same] have "ch_mutate (child api cr2 ls) (adm y) = (None, C (fill cr ls y1))"
      by (simp add: y1 lift same_fill [OF same])
    moreover obtain z where "y0 = fill cr ls z" using e(5) ..
    with y1 have "adm (C (fill cr ls y1)) = adm y" using readmit [OF adm] by (simp add: y)
    ultimately show ?thesis by blast
  qed
qed (rule init same_obj; assumption)+

text \<open>
  For every kind but the Secret it is enough that each field of a result was assigned or left alone.
\<close>

lemma owned_objectI:
  assumes init: "\<And>api cr ls. object_kind (ch_object (child api cr ls)) = K"
    and meta: "\<And>x. object_meta (C x) = get x" and kind: "\<And>x. object_kind (C x) = K"
    and surj: "\<And>z. object_kind z = K \<Longrightarrow> \<exists>x. z = C x"
    and inj: "\<And>x y. C x = C y \<Longrightarrow> x = y"
    and lift: "\<And>api cr ls x. ch_mutate (child api cr ls) (C x) =
      map_prod id C (with_owner api cr get put (fill cr ls) x)"
    and fl: "\<And>cr ls. owner_fill get put (fill cr ls)"
    and des: "\<And>cr ls x. desired cr ls (C (fill cr ls x))"
    and mix: "\<And>cr ls x y. mixed (C (fill cr ls x)) (C y) (C (fill cr ls y))"
    and same_obj: "\<And>api cr cr2 ls. same_resource cr cr2 \<Longrightarrow>
      ch_object (child api cr2 ls) = ch_object (child api cr ls)"
    and same_fill: "\<And>cr cr2 ls. same_resource cr cr2 \<Longrightarrow> fill cr2 ls = fill cr ls"
  shows "owned_object child K desired"
proof (rule owned_objectI_readmit [where C = C and get = get and put = put and fill = fill])
  fix adm cr ls x y
  assume "admission adm" and "adm (C (fill cr ls x)) = C y"
  with mix show "adm (C (fill cr ls y)) = C y"
    by (blast intro: admission_defaultsD dest: admissionD(2))
qed (rule assms; assumption)+

text \<open>The same for a mutate function without an owner reference.\<close>

lemma mutate_again:
  assumes "admission adm" and "\<And>x. f (C x) = (None, C (fill x))"
    and "\<And>z. object_kind z = object_kind (C (fill x)) \<Longrightarrow> \<exists>x. z = C x"
    and "\<And>y. mixed (C (fill x)) (C y) (C (fill y))"
  shows "\<exists>u. f (adm (C (fill x))) = (None, u) \<and> adm u = adm (C (fill x))"
proof -
  note a = admissionD [OF assms(1)]
  obtain y where y: "adm (C (fill x)) = C y"
    using assms(3) admission_keepsD(1) [OF a(1)] by blast
  then have "adm (C (fill y)) = adm (C (fill x))"
    using admission_defaultsD [OF a(2) y assms(4)] by simp
  with y assms(2) show ?thesis by simp
qed

lemma object_kind_elims:
  "object_kind z = ConfigMapKind \<Longrightarrow> \<exists>x. z = ConfigMapObj x"
  "object_kind z = ServiceAccountKind \<Longrightarrow> \<exists>x. z = ServiceAccountObj x"
  "object_kind z = DeploymentKind \<Longrightarrow> \<exists>x. z = DeploymentObj x"
  "object_kind z = ServiceKind \<Longrightarrow> \<exists>x. z = ServiceObj x"
  "object_kind z = DaemonSetKind \<Longrightarrow> \<exists>x. z = DaemonSetObj x"
  "object_kind z = IngressKind \<Longrightarrow> \<exists>x. z = IngressObj x"
  "object_kind z = SecretKind \<Longrightarrow> \<exists>x. z = SecretObj x"
  "object_kind z = ClusterRoleKind \<Longrightarrow> \<exists>x. z = ClusterRoleObj x"
  "object_kind z = ClusterRoleBindingKind \<Longrightarrow> \<exists>x. z = ClusterRoleBindingObj x"
  by (cases z; simp)+

end
