(* ===== verification/Hub.thy ===== *)
theory Hub
  imports ManagedObject
begin

text \<open>
  \<open>internal/controller/hub.go\<close>: the ConfigMap, ServiceAccount, Deployment and Service of the hub.
  Each reconcile function is one \<open>CreateOrUpdate\<close>; its mutate function is a definition of its own
  (\<open>\<dots>_mutate\<close>) and \<open>\<dots>_child\<close> packs the call's arguments. \<open>\<dots>_desired\<close> is what the child promises,
  stated without reference to how the code builds it.
\<close>

definition defaultHubConfigMapData :: "(string \<times> string) list" where
  "defaultHubConfigMapData = [
     (''POD_REGEX'', ''.*''),
     (''NAMESPACES'', ''''),
     (''EXCLUDED_NAMESPACES'', ''''),
     (''BPF_OVERRIDE'', ''''),
     (''STOPPED'', ''false''),
     (''SCRIPTING_SCRIPTS'', ''{}''),
     (''SCRIPTING_ACTIVE_SCRIPTS'', ''''),
     (''INGRESS_ENABLED'', ''false''),
     (''INGRESS_HOST'', ''ks.svc.cluster.local''),
     (''PROXY_FRONT_PORT'', ''8899''),
     (''AUTH_ENABLED'', ''true''),
     (''AUTH_TYPE'', ''default''),
     (''AUTH_SAML_IDP_METADATA_URL'', ''''),
     (''AUTH_SAML_ROLE_ATTRIBUTE'', ''role''),
     (''AUTH_SAML_ROLES'', ''{\"admin\":{\"canDownloadPCAP\":true,\"canStopTrafficCapturing\":true,\"canUpdateTargetedPods\":true,\"canUseScripting\":true,\"filter\":\"\",\"scriptingPermissions\":{\"canActivate\":true,\"canDelete\":true,\"canSave\":true},\"showAdminConsoleLink\":true}}''),
     (''AUTH_OIDC_ISSUER'', ''not set''),
     (''AUTH_OIDC_REFRESH_TOKEN_LIFETIME'', ''3960h''),
     (''AUTH_OIDC_STATE_PARAM_EXPIRY'', ''10m''),
     (''AUTH_OIDC_BYPASS_SSL_CA_CHECK'', ''false''),
     (''TELEMETRY_DISABLED'', ''false''),
     (''SCRIPTING_DISABLED'', ''false''),
     (''TARGETED_PODS_UPDATE_DISABLED'', ''''),
     (''PRESET_FILTERS_CHANGING_ENABLED'', ''true''),
     (''RECORDING_DISABLED'', ''''),
     (''STOP_TRAFFIC_CAPTURING_DISABLED'', ''false''),
     (''GLOBAL_FILTER'', ''''),
     (''DEFAULT_FILTER'', ''!dns and !error''),
     (''TRAFFIC_SAMPLE_RATE'', ''100''),
     (''JSON_TTL'', ''5m''),
     (''PCAP_TTL'', ''10s''),
     (''PCAP_ERROR_TTL'', ''60s''),
     (''TIMEZONE'', '' ''),
     (''CLOUD_LICENSE_ENABLED'', ''true''),
     (''AI_ASSISTANT_ENABLED'', ''true''),
     (''DUPLICATE_TIMEFRAME'', ''200ms''),
     (''ENABLED_DISSECTORS'', ''amqp,dns,http,icmp,kafka,redis,sctp,ws,ldap,radius,diameter''),
     (''CUSTOM_MACROS'', ''{\"https\":\"tls and (http or http2)\"}''),
     (''DISSECTORS_UPDATING_ENABLED'', ''true''),
     (''DETECT_DUPLICATES'', ''false''),
     (''PCAP_DUMP_ENABLE'', ''true''),
     (''PCAP_TIME_INTERVAL'', ''1m''),
     (''PCAP_MAX_TIME'', ''1h''),
     (''PCAP_MAX_SIZE'', ''500MB''),
     (''PORT_MAPPING'', ''{\"amqp\":[5671,5672],\"diameter\":[3868],\"http\":[80,443,8080],\"kafka\":[9092],\"ldap\":[389],\"redis\":[6379]}'')]"

section \<open>ConfigMap\<close>

definition hubConfigMap_fill :: "Kubeshark \<Rightarrow> gomap \<Rightarrow> ConfigMap \<Rightarrow> ConfigMap" where
  "hubConfigMap_fill cr labels =
     (\<lambda>cm. cm\<lparr>cm_ObjectMeta := (cm_ObjectMeta cm)\<lparr>om_Labels := labels\<rparr>,
                cm_Data := (if sp_HubConfigMapData (ks_Spec cr) \<noteq> None
                            then sp_HubConfigMapData (ks_Spec cr)
                            else Some (map_of defaultHubConfigMapData))\<rparr>)"

definition hubConfigMap_mutate ::
  "('w, 'e) api \<Rightarrow> Kubeshark \<Rightarrow> gomap \<Rightarrow> ('e, ConfigMap) mutate_fn" where
  "hubConfigMap_mutate api cr labels =
     with_owner api cr cm_ObjectMeta (\<lambda>m cm. cm\<lparr>cm_ObjectMeta := m\<rparr>)
       (hubConfigMap_fill cr labels)"

definition hubConfigMap_child ::
  "('w, 'e) api \<Rightarrow> Kubeshark \<Rightarrow> gomap \<Rightarrow> 'e child" where
  "hubConfigMap_child api cr labels = \<lparr>
     ch_object = ConfigMapObj (zero_ConfigMap\<lparr>cm_ObjectMeta :=
       zero_ObjectMeta\<lparr>om_Name := hubConfigMapName cr, om_Namespace := ks_Namespace cr\<rparr>\<rparr>),
     ch_mutate = on_ConfigMap (hubConfigMap_mutate api cr labels),
     ch_wrap = None\<rparr>"

definition reconcileHubConfigMap ::
  "('w, 'e) api \<Rightarrow> Kubeshark \<Rightarrow> gomap \<Rightarrow> ('w, 'e) action" where
  "reconcileHubConfigMap api cr labels =
     create_or_update api (ch_object (hubConfigMap_child api cr labels))
       (ch_mutate (hubConfigMap_child api cr labels))"

text \<open>A data map given in the resource, even an empty one, replaces the defaults.\<close>

definition hubConfigMap_desired :: "Kubeshark \<Rightarrow> gomap \<Rightarrow> k8s_object \<Rightarrow> bool" where
  "hubConfigMap_desired cr labels x =
     (case x of
        ConfigMapObj cm \<Rightarrow>
          om_Labels (cm_ObjectMeta cm) = labels \<and>
          (case sp_HubConfigMapData (ks_Spec cr) of
             Some d \<Rightarrow> cm_Data cm = Some d
           | None \<Rightarrow> (\<exists>d. cm_Data cm = Some d \<and> (\<forall>(k, v) \<in> set defaultHubConfigMapData. d k = Some v)
                       \<and> dom d = fst ` set defaultHubConfigMapData))
      | _ \<Rightarrow> False)"

lemma distinct_defaultHubConfigMapData: "distinct (map fst defaultHubConfigMapData)"
  by (simp add: defaultHubConfigMapData_def)

lemma length_defaultHubConfigMapData: "length defaultHubConfigMapData = 44"
  by (simp add: defaultHubConfigMapData_def)

section \<open>ServiceAccount\<close>

definition hubServiceAccount_fill :: "Kubeshark \<Rightarrow> gomap \<Rightarrow> ServiceAccount \<Rightarrow> ServiceAccount" where
  "hubServiceAccount_fill cr labels =
     (\<lambda>sa. sa\<lparr>sa_ObjectMeta := (sa_ObjectMeta sa)\<lparr>om_Labels := labels\<rparr>\<rparr>)"

definition hubServiceAccount_mutate ::
  "('w, 'e) api \<Rightarrow> Kubeshark \<Rightarrow> gomap \<Rightarrow> ('e, ServiceAccount) mutate_fn" where
  "hubServiceAccount_mutate api cr labels =
     with_owner api cr sa_ObjectMeta (\<lambda>m sa. sa\<lparr>sa_ObjectMeta := m\<rparr>)
       (hubServiceAccount_fill cr labels)"

definition hubServiceAccount_child ::
  "('w, 'e) api \<Rightarrow> Kubeshark \<Rightarrow> gomap \<Rightarrow> 'e child" where
  "hubServiceAccount_child api cr labels = \<lparr>
     ch_object = ServiceAccountObj (zero_ServiceAccount\<lparr>sa_ObjectMeta :=
       zero_ObjectMeta\<lparr>om_Name := hubServiceAccountName cr, om_Namespace := ks_Namespace cr\<rparr>\<rparr>),
     ch_mutate = on_ServiceAccount (hubServiceAccount_mutate api cr labels),
     ch_wrap = None\<rparr>"

definition reconcileHubServiceAccount ::
  "('w, 'e) api \<Rightarrow> Kubeshark \<Rightarrow> gomap \<Rightarrow> ('w, 'e) action" where
  "reconcileHubServiceAccount api cr labels =
     create_or_update api (ch_object (hubServiceAccount_child api cr labels))
       (ch_mutate (hubServiceAccount_child api cr labels))"

definition serviceAccount_desired :: "Kubeshark \<Rightarrow> gomap \<Rightarrow> k8s_object \<Rightarrow> bool" where
  "serviceAccount_desired cr labels x =
     (case x of ServiceAccountObj sa \<Rightarrow> om_Labels (sa_ObjectMeta sa) = labels | _ \<Rightarrow> False)"

section \<open>Deployment\<close>

definition hub_ports :: "Kubeshark \<Rightarrow> ContainerPort list" where
  "hub_ports cr =
     (if length (sp_HubContainerPorts (ks_Spec cr)) = 0
      then [zero_ContainerPort\<lparr>cp_ContainerPort := 8080\<rparr>]
      else sp_HubContainerPorts (ks_Spec cr))"

definition hubDeployment_fill :: "Kubeshark \<Rightarrow> gomap \<Rightarrow> Deployment \<Rightarrow> Deployment" where
  "hubDeployment_fill cr labels =
     (\<lambda>dep. dep\<lparr>
          dep_ObjectMeta := (dep_ObjectMeta dep)\<lparr>om_Labels := labels\<rparr>,
          dep_Spec := (dep_Spec dep)\<lparr>
            dps_Replicas := hubReplicas cr,
            dps_Selector := Some \<lparr>ls_MatchLabels = labels\<rparr>,
            dps_Template := \<lparr>
              pt_ObjectMeta = zero_ObjectMeta\<lparr>om_Labels := labels\<rparr>,
              pt_Spec = zero_PodSpec\<lparr>
                ps_ServiceAccountName := hubServiceAccountName cr,
                ps_Containers := [zero_Container\<lparr>
                  c_Name := ''kubeshark-hub'',
                  c_Image := getOrDefaultString (sp_HubImage (ks_Spec cr)) defaultHubImage,
                  c_Ports := hub_ports cr,
                  c_Env := [
                    \<lparr>ev_Name = ''POD_NAME'', ev_Value = '''',
                      ev_ValueFrom = Some (FieldRef ''metadata.name'')\<rparr>,
                    \<lparr>ev_Name = ''POD_NAMESPACE'', ev_Value = '''',
                      ev_ValueFrom = Some (FieldRef ''metadata.namespace'')\<rparr>]\<rparr>]\<rparr>\<rparr>\<rparr>\<rparr>)"

definition hubDeployment_mutate ::
  "('w, 'e) api \<Rightarrow> Kubeshark \<Rightarrow> gomap \<Rightarrow> ('e, Deployment) mutate_fn" where
  "hubDeployment_mutate api cr labels =
     with_owner api cr dep_ObjectMeta (\<lambda>m dep. dep\<lparr>dep_ObjectMeta := m\<rparr>)
       (hubDeployment_fill cr labels)"

definition hubDeployment_child ::
  "('w, 'e) api \<Rightarrow> Kubeshark \<Rightarrow> gomap \<Rightarrow> 'e child" where
  "hubDeployment_child api cr labels = \<lparr>
     ch_object = DeploymentObj (zero_Deployment\<lparr>dep_ObjectMeta :=
       zero_ObjectMeta\<lparr>om_Name := hubDeploymentName cr, om_Namespace := ks_Namespace cr\<rparr>\<rparr>),
     ch_mutate = on_Deployment (hubDeployment_mutate api cr labels),
     ch_wrap = Some ''hub Deployment''\<rparr>"

definition reconcileHubDeployment ::
  "('w, 'e) api \<Rightarrow> Kubeshark \<Rightarrow> gomap \<Rightarrow> ('w, 'e) action" where
  "reconcileHubDeployment api cr labels =
     wrap_err ''hub Deployment''
       (create_or_update api (ch_object (hubDeployment_child api cr labels))
          (ch_mutate (hubDeployment_child api cr labels)))"

text \<open>
  The hub Deployment asked for: as many replicas as the resource says, and one if it is silent
  (zero stays zero); a selector that selects the template's own pods; one container with the
  resource's image or the default one.
\<close>

definition hubDeployment_desired :: "Kubeshark \<Rightarrow> gomap \<Rightarrow> k8s_object \<Rightarrow> bool" where
  "hubDeployment_desired cr labels x =
     (case x of
        DeploymentObj dep \<Rightarrow>
          (let spec = dep_Spec dep; pod = pt_Spec (dps_Template spec) in
           om_Labels (dep_ObjectMeta dep) = labels \<and>
           dps_Replicas spec =
             Some (case sp_HubReplicas (ks_Spec cr) of None \<Rightarrow> 1 | Some n \<Rightarrow> n) \<and>
           (labels \<noteq> None \<longrightarrow>
             (\<exists>sel. dps_Selector spec = Some sel \<and>
                selects (ls_MatchLabels sel) (om_Labels (pt_ObjectMeta (dps_Template spec))))) \<and>
           ps_ServiceAccountName pod = hubServiceAccountName cr \<and>
           (\<exists>c. ps_Containers pod = [c] \<and> c_Name c = ''kubeshark-hub'' \<and>
              c_Image c = (if sp_HubImage (ks_Spec cr) = '''' then defaultHubImage
                           else sp_HubImage (ks_Spec cr)) \<and>
              c_Ports c \<noteq> [] \<and>
              (sp_HubContainerPorts (ks_Spec cr) \<noteq> [] \<longrightarrow>
                 c_Ports c = sp_HubContainerPorts (ks_Spec cr))))
      | _ \<Rightarrow> False)"

section \<open>Service\<close>

definition hubService_fill :: "Kubeshark \<Rightarrow> gomap \<Rightarrow> Service \<Rightarrow> Service" where
  "hubService_fill cr labels =
     (\<lambda>svc. svc\<lparr>
          svc_ObjectMeta := (svc_ObjectMeta svc)\<lparr>om_Labels := labels\<rparr>,
          svc_Spec := (svc_Spec svc)\<lparr>
            svs_Selector := labels,
            svs_Ports := [\<lparr>svp_Name = '''', svp_Port = 80, svp_TargetPort = FromInt32 8080\<rparr>]\<rparr>\<rparr>)"

definition hubService_mutate ::
  "('w, 'e) api \<Rightarrow> Kubeshark \<Rightarrow> gomap \<Rightarrow> ('e, Service) mutate_fn" where
  "hubService_mutate api cr labels =
     with_owner api cr svc_ObjectMeta (\<lambda>m svc. svc\<lparr>svc_ObjectMeta := m\<rparr>)
       (hubService_fill cr labels)"

definition hubService_child ::
  "('w, 'e) api \<Rightarrow> Kubeshark \<Rightarrow> gomap \<Rightarrow> 'e child" where
  "hubService_child api cr labels = \<lparr>
     ch_object = ServiceObj (zero_Service\<lparr>svc_ObjectMeta :=
       zero_ObjectMeta\<lparr>om_Name := hubServiceName cr, om_Namespace := ks_Namespace cr\<rparr>\<rparr>),
     ch_mutate = on_Service (hubService_mutate api cr labels),
     ch_wrap = None\<rparr>"

definition reconcileHubService ::
  "('w, 'e) api \<Rightarrow> Kubeshark \<Rightarrow> gomap \<Rightarrow> ('w, 'e) action" where
  "reconcileHubService api cr labels =
     create_or_update api (ch_object (hubService_child api cr labels))
       (ch_mutate (hubService_child api cr labels))"

definition hubService_desired :: "Kubeshark \<Rightarrow> gomap \<Rightarrow> k8s_object \<Rightarrow> bool" where
  "hubService_desired cr labels x =
     (case x of
        ServiceObj svc \<Rightarrow>
          om_Labels (svc_ObjectMeta svc) = labels \<and> svs_Selector (svc_Spec svc) = labels \<and>
          (\<exists>p. svs_Ports (svc_Spec svc) = [p] \<and> svp_Port p = 80 \<and>
             svp_TargetPort p = FromInt32 8080)
      | _ \<Rightarrow> False)"

section \<open>reconcileHub\<close>

definition reconcileHub :: "('w, 'e) api \<Rightarrow> Kubeshark \<Rightarrow> gomap \<Rightarrow> ('w, 'e) action" where
  "reconcileHub api cr labels =
     and_then (reconcileHubConfigMap api cr labels)
       (and_then (reconcileHubServiceAccount api cr labels)
          (and_then (reconcileHubDeployment api cr labels)
             (reconcileHubService api cr labels)))"

definition hub_children :: "('w, 'e) api \<Rightarrow> Kubeshark \<Rightarrow> gomap \<Rightarrow> 'e child list" where
  "hub_children api cr labels =
     [hubConfigMap_child api cr labels, hubServiceAccount_child api cr labels,
      hubDeployment_child api cr labels, hubService_child api cr labels]"

section \<open>The hub's children meet the contract\<close>

lemmas hub_child_defs [child_defs] = hubConfigMap_child_def hubServiceAccount_child_def
  hubDeployment_child_def hubService_child_def

lemmas hub_mutate_defs [child_defs] = hubConfigMap_mutate_def hubServiceAccount_mutate_def
  hubDeployment_mutate_def hubService_mutate_def

lemmas hub_fill_defs [child_defs] = hubConfigMap_fill_def hubServiceAccount_fill_def
  hubDeployment_fill_def hubService_fill_def

lemma run_hubConfigMap:
  "run_child api (hubConfigMap_child api cr ls) = reconcileHubConfigMap api cr ls"
  by (simp add: run_child_def reconcileHubConfigMap_def hubConfigMap_child_def)

lemma run_hubServiceAccount:
  "run_child api (hubServiceAccount_child api cr ls) = reconcileHubServiceAccount api cr ls"
  by (simp add: run_child_def reconcileHubServiceAccount_def hubServiceAccount_child_def)

lemma run_hubDeployment:
  "run_child api (hubDeployment_child api cr ls) = reconcileHubDeployment api cr ls"
  by (simp add: run_child_def reconcileHubDeployment_def hubDeployment_child_def)

lemma run_hubService:
  "run_child api (hubService_child api cr ls) = reconcileHubService api cr ls"
  by (simp add: run_child_def reconcileHubService_def hubService_child_def)

lemma reconcileHub_children:
  "reconcileHub api cr ls = run_all (map (run_child api) (hub_children api cr ls))"
  by (simp only: reconcileHub_def hub_children_def list.map run_hubConfigMap
      run_hubServiceAccount run_hubDeployment run_hubService run_all_cons2 run_all_single)

lemma map_of_defaults:
  "\<forall>(k, v) \<in> set defaultHubConfigMapData. map_of defaultHubConfigMapData k = Some v"
  using distinct_defaultHubConfigMapData by (auto intro: map_of_is_SomeI)

interpretation hubConfigMap: owned_object
  hubConfigMap_child ConfigMapKind hubConfigMap_desired
proof (rule owned_objectI [where C = ConfigMapObj and fill = hubConfigMap_fill
      and get = cm_ObjectMeta and put = "\<lambda>m cm. cm\<lparr>cm_ObjectMeta := m\<rparr>"])
  show "hubConfigMap_desired cr ls (ConfigMapObj (hubConfigMap_fill cr ls x))" for cr ls x
    using map_of_defaults
    by (auto simp: hubConfigMap_fill_def hubConfigMap_desired_def dom_map_of_conv_image_fst
        split: option.split)
qed (auto simp: mixed_defs owner_fill_def same_resource_def name_defs child_defs on_defs elim: object_kind_elims)

interpretation hubServiceAccount: owned_object
  hubServiceAccount_child ServiceAccountKind serviceAccount_desired
  by (rule owned_objectI [where C = ServiceAccountObj and fill = hubServiceAccount_fill
        and get = sa_ObjectMeta and put = "\<lambda>m sa. sa\<lparr>sa_ObjectMeta := m\<rparr>"])
     (auto simp: mixed_defs owner_fill_def same_resource_def name_defs child_defs on_defs serviceAccount_desired_def
       elim: object_kind_elims)

interpretation hubDeployment: owned_object
  hubDeployment_child DeploymentKind hubDeployment_desired
  by (rule owned_objectI [where C = DeploymentObj and fill = hubDeployment_fill
        and get = dep_ObjectMeta and put = "\<lambda>m dep. dep\<lparr>dep_ObjectMeta := m\<rparr>"])
     (auto simp: mixed_defs owner_fill_def same_resource_def name_defs child_defs on_defs hubDeployment_desired_def hub_ports_def
       hubReplicas_def getOrDefaultString_def Let_def selects_self zero_defs
       elim: object_kind_elims split: option.split)

interpretation hubService: owned_object
  hubService_child ServiceKind hubService_desired
  by (rule owned_objectI [where C = ServiceObj and fill = hubService_fill
        and get = svc_ObjectMeta and put = "\<lambda>m svc. svc\<lparr>svc_ObjectMeta := m\<rparr>"])
     (auto simp: mixed_defs owner_fill_def same_resource_def name_defs child_defs on_defs hubService_desired_def
       elim: object_kind_elims)

end
