(* ===== verification/Rbac.thy ===== *)
theory Rbac
  imports ManagedObject
begin

text \<open>
  \<open>internal/controller/rbac.go\<close>: the worker's ServiceAccount, the ClusterRole and the
  ClusterRoleBinding. The two cluster-scoped objects get no controller reference (an object of a
  namespace cannot own a cluster-scoped one), so they meet \<open>managed_object\<close> and not
  \<open>owned_object\<close>; the finalizer removes them.
\<close>

definition defaultClusterRoleRules :: "PolicyRule list" where
  "defaultClusterRoleRules = [
     zero_PolicyRule\<lparr>
       pol_APIGroups := [''''],
       pol_Resources := [''configmaps'', ''secrets'', ''nodes'', ''pods'', ''services'',
         ''endpoints'', ''persistentvolumeclaims''],
       pol_Verbs := [''list'', ''get'', ''watch'']\<rparr>,
     zero_PolicyRule\<lparr>
       pol_APIGroups := [''''],
       pol_Resources := [''namespaces''],
       pol_ResourceNames := [''kube-system''],
       pol_Verbs := [''get'']\<rparr>,
     zero_PolicyRule\<lparr>
       pol_APIGroups := [''extensions'', ''apps''],
       pol_Resources := [''deployments''],
       pol_Verbs := [''get'', ''list'', ''watch'']\<rparr>]"

section \<open>ServiceAccount of the worker\<close>

definition workerServiceAccount_fill ::
  "Kubeshark \<Rightarrow> gomap \<Rightarrow> ServiceAccount \<Rightarrow> ServiceAccount" where
  "workerServiceAccount_fill cr labels =
     (\<lambda>sa. sa\<lparr>sa_ObjectMeta := (sa_ObjectMeta sa)\<lparr>om_Labels := labels\<rparr>\<rparr>)"

definition workerServiceAccount_mutate ::
  "('w, 'e) api \<Rightarrow> Kubeshark \<Rightarrow> gomap \<Rightarrow> ('e, ServiceAccount) mutate_fn" where
  "workerServiceAccount_mutate api cr labels =
     with_owner api cr sa_ObjectMeta (\<lambda>m sa. sa\<lparr>sa_ObjectMeta := m\<rparr>)
       (workerServiceAccount_fill cr labels)"

definition workerServiceAccount_child ::
  "('w, 'e) api \<Rightarrow> Kubeshark \<Rightarrow> gomap \<Rightarrow> 'e child" where
  "workerServiceAccount_child api cr labels = \<lparr>
     ch_object = ServiceAccountObj (zero_ServiceAccount\<lparr>sa_ObjectMeta :=
       zero_ObjectMeta\<lparr>om_Name := workerServiceAccountName cr,
         om_Namespace := ks_Namespace cr\<rparr>\<rparr>),
     ch_mutate = on_ServiceAccount (workerServiceAccount_mutate api cr labels),
     ch_wrap = None\<rparr>"

definition reconcileWorkerServiceAccount ::
  "('w, 'e) api \<Rightarrow> Kubeshark \<Rightarrow> gomap \<Rightarrow> ('w, 'e) action" where
  "reconcileWorkerServiceAccount api cr labels =
     create_or_update api (ch_object (workerServiceAccount_child api cr labels))
       (ch_mutate (workerServiceAccount_child api cr labels))"

definition workerServiceAccount_desired :: "Kubeshark \<Rightarrow> gomap \<Rightarrow> k8s_object \<Rightarrow> bool" where
  "workerServiceAccount_desired cr labels x =
     (case x of ServiceAccountObj sa \<Rightarrow> om_Labels (sa_ObjectMeta sa) = labels | _ \<Rightarrow> False)"

section \<open>ClusterRole\<close>

definition clusterRole_mutate ::
  "Kubeshark \<Rightarrow> gomap \<Rightarrow> ('e, ClusterRole) mutate_fn" where
  "clusterRole_mutate cr labels role =
     (let role = role\<lparr>crole_Rules :=
            (if 0 < length (sp_ClusterRoleRules (ks_Spec cr))
             then sp_ClusterRoleRules (ks_Spec cr)
             else defaultClusterRoleRules)\<rparr>
      in (None, role\<lparr>crole_ObjectMeta := (crole_ObjectMeta role)\<lparr>om_Labels := labels\<rparr>\<rparr>))"

definition clusterRole_child ::
  "('w, 'e) api \<Rightarrow> Kubeshark \<Rightarrow> gomap \<Rightarrow> 'e child" where
  "clusterRole_child api cr labels = \<lparr>
     ch_object = ClusterRoleObj (zero_ClusterRole\<lparr>crole_ObjectMeta :=
       zero_ObjectMeta\<lparr>om_Name := clusterRoleName cr, om_Labels := labels\<rparr>\<rparr>),
     ch_mutate = on_ClusterRole (clusterRole_mutate cr labels),
     ch_wrap = Some ''ClusterRole''\<rparr>"

definition reconcileClusterRole ::
  "('w, 'e) api \<Rightarrow> Kubeshark \<Rightarrow> gomap \<Rightarrow> ('w, 'e) action" where
  "reconcileClusterRole api cr labels =
     wrap_err ''ClusterRole''
       (create_or_update api (ch_object (clusterRole_child api cr labels))
          (ch_mutate (clusterRole_child api cr labels)))"

text \<open>The role is never left without rules.\<close>

definition clusterRole_desired :: "Kubeshark \<Rightarrow> gomap \<Rightarrow> k8s_object \<Rightarrow> bool" where
  "clusterRole_desired cr labels x =
     (case x of
        ClusterRoleObj role \<Rightarrow>
          om_Labels (crole_ObjectMeta role) = labels \<and> crole_Rules role \<noteq> [] \<and>
          crole_Rules role =
            (case sp_ClusterRoleRules (ks_Spec cr) of
               [] \<Rightarrow> defaultClusterRoleRules
             | r # rs \<Rightarrow> r # rs)
      | _ \<Rightarrow> False)"

section \<open>ClusterRoleBinding\<close>

definition clusterRoleBinding_mutate ::
  "Kubeshark \<Rightarrow> gomap \<Rightarrow> ('e, ClusterRoleBinding) mutate_fn" where
  "clusterRoleBinding_mutate cr labels binding =
     (None, binding\<lparr>
        crb_ObjectMeta := (crb_ObjectMeta binding)\<lparr>om_Labels := labels\<rparr>,
        crb_RoleRef := \<lparr>ref_Kind = ''ClusterRole'', ref_Name = clusterRoleName cr,
          ref_APIGroup = rbacv1_GroupName\<rparr>,
        crb_Subjects := [
          \<lparr>sub_Kind = rbacv1_ServiceAccountKind, sub_Name = hubServiceAccountName cr,
            sub_Namespace = ks_Namespace cr\<rparr>,
          \<lparr>sub_Kind = rbacv1_ServiceAccountKind, sub_Name = workerServiceAccountName cr,
            sub_Namespace = ks_Namespace cr\<rparr>]\<rparr>)"

definition clusterRoleBinding_child ::
  "('w, 'e) api \<Rightarrow> Kubeshark \<Rightarrow> gomap \<Rightarrow> 'e child" where
  "clusterRoleBinding_child api cr labels = \<lparr>
     ch_object = ClusterRoleBindingObj (zero_ClusterRoleBinding\<lparr>crb_ObjectMeta :=
       zero_ObjectMeta\<lparr>om_Name := clusterRoleBindingName cr, om_Labels := labels\<rparr>\<rparr>),
     ch_mutate = on_ClusterRoleBinding (clusterRoleBinding_mutate cr labels),
     ch_wrap = Some ''ClusterRoleBinding''\<rparr>"

definition reconcileClusterRoleBinding ::
  "('w, 'e) api \<Rightarrow> Kubeshark \<Rightarrow> gomap \<Rightarrow> ('w, 'e) action" where
  "reconcileClusterRoleBinding api cr labels =
     wrap_err ''ClusterRoleBinding''
       (create_or_update api (ch_object (clusterRoleBinding_child api cr labels))
          (ch_mutate (clusterRoleBinding_child api cr labels)))"

text \<open>
  The binding grants the resource's own role to the two service accounts of its namespace, and to
  nobody else.
\<close>

definition clusterRoleBinding_desired :: "Kubeshark \<Rightarrow> gomap \<Rightarrow> k8s_object \<Rightarrow> bool" where
  "clusterRoleBinding_desired cr labels x =
     (case x of
        ClusterRoleBindingObj b \<Rightarrow>
          om_Labels (crb_ObjectMeta b) = labels \<and>
          ref_Kind (crb_RoleRef b) = ''ClusterRole'' \<and>
          ref_Name (crb_RoleRef b) = clusterRoleName cr \<and>
          ref_APIGroup (crb_RoleRef b) = rbacv1_GroupName \<and>
          (\<lambda>s. (sub_Kind s, sub_Namespace s, sub_Name s)) ` set (crb_Subjects b) =
            {(''ServiceAccount'', ks_Namespace cr, hubServiceAccountName cr),
             (''ServiceAccount'', ks_Namespace cr, workerServiceAccountName cr)}
      | _ \<Rightarrow> False)"

section \<open>reconcileRBAC\<close>

definition reconcileRBAC :: "('w, 'e) api \<Rightarrow> Kubeshark \<Rightarrow> gomap \<Rightarrow> ('w, 'e) action" where
  "reconcileRBAC api cr labels =
     and_then (reconcileWorkerServiceAccount api cr labels)
       (and_then (reconcileClusterRole api cr labels)
          (reconcileClusterRoleBinding api cr labels))"

definition rbac_children :: "('w, 'e) api \<Rightarrow> Kubeshark \<Rightarrow> gomap \<Rightarrow> 'e child list" where
  "rbac_children api cr labels =
     [workerServiceAccount_child api cr labels, clusterRole_child api cr labels,
      clusterRoleBinding_child api cr labels]"

section \<open>The contract\<close>

lemmas rbac_child_defs [child_defs] = workerServiceAccount_child_def clusterRole_child_def
  clusterRoleBinding_child_def

lemmas rbac_mutate_defs [child_defs] = workerServiceAccount_mutate_def clusterRole_mutate_def
  clusterRoleBinding_mutate_def workerServiceAccount_fill_def

lemma run_workerServiceAccount:
  "run_child api (workerServiceAccount_child api cr ls) = reconcileWorkerServiceAccount api cr ls"
  by (simp add: run_child_def reconcileWorkerServiceAccount_def workerServiceAccount_child_def)

lemma run_clusterRole:
  "run_child api (clusterRole_child api cr ls) = reconcileClusterRole api cr ls"
  by (simp add: run_child_def reconcileClusterRole_def clusterRole_child_def)

lemma run_clusterRoleBinding:
  "run_child api (clusterRoleBinding_child api cr ls) = reconcileClusterRoleBinding api cr ls"
  by (simp add: run_child_def reconcileClusterRoleBinding_def clusterRoleBinding_child_def)

lemma reconcileRBAC_children:
  "reconcileRBAC api cr ls = run_all (map (run_child api) (rbac_children api cr ls))"
  by (simp only: reconcileRBAC_def rbac_children_def list.map run_workerServiceAccount
      run_clusterRole run_clusterRoleBinding run_all_cons2 run_all_single)

lemma defaultClusterRoleRules_not_Nil: "defaultClusterRoleRules \<noteq> []"
  by (simp add: defaultClusterRoleRules_def)

interpretation workerServiceAccount: owned_object
  workerServiceAccount_child ServiceAccountKind workerServiceAccount_desired
  by (rule owned_objectI [where C = ServiceAccountObj and fill = workerServiceAccount_fill
        and get = sa_ObjectMeta and put = "\<lambda>m sa. sa\<lparr>sa_ObjectMeta := m\<rparr>"])
     (auto simp: mixed_defs owner_fill_def same_resource_def name_defs child_defs on_defs workerServiceAccount_desired_def
       elim: object_kind_elims)

interpretation clusterRole: managed_object
  clusterRole_child ClusterRoleKind clusterRole_desired
proof unfold_locales
  fix api cr cr2 ls adm and x y
  assume k: "object_kind x = ClusterRoleKind" and adm: "admission adm"
    and same: "same_resource cr cr2" and m: "ch_mutate (clusterRole_child api cr ls) x = (None, y)"
  let ?f = "ch_mutate (clusterRole_child api cr ls)" and ?g = "\<lambda>r. snd (clusterRole_mutate cr ls r :: unit goerror option \<times> ClusterRole)"
  have f: "?f (ClusterRoleObj r) = (None, ClusterRoleObj (?g r))" for r
    by (simp add: child_defs on_defs Let_def)
  from k m obtain r where y: "y = ClusterRoleObj (?g r)"
    using f by (auto dest!: object_kind_elims(8))
  have "ch_mutate (clusterRole_child api cr2 ls) = ?f"
    using same by (simp add: child_defs on_defs fun_eq_iff same_resource_def Let_def split: k8s_object.split)
  moreover have "\<exists>u. ?f (adm (ClusterRoleObj (?g r))) = (None, u) \<and> adm u = adm (ClusterRoleObj (?g r))"
    by (rule mutate_again [where C = ClusterRoleObj and fill = ?g, OF adm f])
       (auto simp: clusterRole_mutate_def Let_def mixed_defs dest!: object_kind_elims(8))
  ultimately show "\<exists>u. ch_mutate (clusterRole_child api cr2 ls) (adm y) = (None, u) \<and> adm u = adm y"
    by (simp add: y)
qed (auto simp: child_defs on_defs clusterRole_desired_def object_key_def Let_def same_resource_def
    name_defs defaultClusterRoleRules_not_Nil dest!: object_kind_elims(8) split: list.split)

interpretation clusterRoleBinding: managed_object
  clusterRoleBinding_child ClusterRoleBindingKind clusterRoleBinding_desired
proof unfold_locales
  fix api cr cr2 ls adm and x y
  assume k: "object_kind x = ClusterRoleBindingKind" and adm: "admission adm"
    and same: "same_resource cr cr2"
    and m: "ch_mutate (clusterRoleBinding_child api cr ls) x = (None, y)"
  let ?f = "ch_mutate (clusterRoleBinding_child api cr ls)"
    and ?g = "\<lambda>b. snd (clusterRoleBinding_mutate cr ls b :: unit goerror option \<times> ClusterRoleBinding)"
  have f: "?f (ClusterRoleBindingObj b) = (None, ClusterRoleBindingObj (?g b))" for b
    by (simp add: child_defs on_defs)
  from k m obtain b where y: "y = ClusterRoleBindingObj (?g b)"
    using f by (auto dest!: object_kind_elims(9))
  have "ch_mutate (clusterRoleBinding_child api cr2 ls) = ?f"
    using same by (simp add: child_defs on_defs fun_eq_iff same_resource_def name_defs split: k8s_object.split)
  moreover have "\<exists>u. ?f (adm (ClusterRoleBindingObj (?g b))) = (None, u) \<and>
      adm u = adm (ClusterRoleBindingObj (?g b))"
    by (rule mutate_again [where C = ClusterRoleBindingObj and fill = ?g, OF adm f])
       (auto simp: clusterRoleBinding_mutate_def mixed_defs dest!: object_kind_elims(9))
  ultimately show "\<exists>u. ch_mutate (clusterRoleBinding_child api cr2 ls) (adm y) = (None, u) \<and> adm u = adm y"
    by (simp add: y)
qed (auto simp: child_defs on_defs clusterRoleBinding_desired_def object_key_def same_resource_def
    name_defs dest!: object_kind_elims(9))

end
