(* ===== verification/Worker.thy ===== *)
theory Worker
  imports ManagedObject
begin

text \<open>
  \<open>internal/controller/worker.go\<close>: the DaemonSet that runs the sniffer and the tracer on every
  Linux node, with its volumes, environment, resources and probes. \<open>valid_pod\<close> collects the rules
  an API server checks on a pod template; the template built here meets them for every resource.
\<close>

section \<open>Parts of the pod template\<close>

definition buildWorkerVolumes :: "Volume list" where
  "buildWorkerVolumes = [
     \<lparr>v_Name = ''proc'', v_Source = HostPath ''/proc''\<rparr>,
     \<lparr>v_Name = ''sys'', v_Source = HostPath ''/sys''\<rparr>,
     \<lparr>v_Name = ''lib-modules'', v_Source = HostPath ''/lib/modules''\<rparr>,
     \<lparr>v_Name = ''os-release'', v_Source = HostPath ''/etc/os-release''\<rparr>,
     \<lparr>v_Name = ''root'', v_Source = HostPath ''/''\<rparr>,
     \<lparr>v_Name = ''data'', v_Source =
        EmptyDir (Some (NewQuantity (5 * 1024 * 1024 * 1024) BinarySI))\<rparr>]"

definition workerCommonEnv :: "EnvVar list" where
  "workerCommonEnv = [
     \<lparr>ev_Name = ''POD_NAME'', ev_Value = '''',
       ev_ValueFrom = Some (FieldRef ''metadata.name'')\<rparr>,
     \<lparr>ev_Name = ''POD_NAMESPACE'', ev_Value = '''',
       ev_ValueFrom = Some (FieldRef ''metadata.namespace'')\<rparr>,
     \<lparr>ev_Name = ''PROFILING_ENABLED'', ev_Value = ''false'', ev_ValueFrom = None\<rparr>,
     \<lparr>ev_Name = ''SENTRY_ENABLED'', ev_Value = ''false'', ev_ValueFrom = None\<rparr>,
     \<lparr>ev_Name = ''SENTRY_ENVIRONMENT'', ev_Value = ''production'', ev_ValueFrom = None\<rparr>]"

definition workerDefaultResources :: ResourceRequirements where
  "workerDefaultResources = \<lparr>
     rr_Limits = Some [ResourceMemory \<mapsto> MustParse ''5Gi''],
     rr_Requests = Some [
       ResourceCPU \<mapsto> MustParse ''50m'',
       ResourceMemory \<mapsto> MustParse ''50Mi'']\<rparr>"

definition workerCommonVolumeMounts :: "VolumeMount list \<Rightarrow> VolumeMount list" where
  "workerCommonVolumeMounts extra =
     [zero_VolumeMount\<lparr>vm_Name := ''proc'', vm_MountPath := ''/hostproc'', vm_ReadOnly := True\<rparr>,
      zero_VolumeMount\<lparr>vm_Name := ''sys'', vm_MountPath := ''/sys'', vm_ReadOnly := True,
        vm_MountPropagation := Some MountPropagationHostToContainer\<rparr>,
      zero_VolumeMount\<lparr>vm_Name := ''data'', vm_MountPath := ''/app/data''\<rparr>] @ extra"

definition tcpProbe :: "int32 \<Rightarrow> Probe" where
  "tcpProbe port = \<lparr>
     pr_InitialDelaySeconds = 5,
     pr_PeriodSeconds = 5,
     pr_FailureThreshold = 3,
     pr_SuccessThreshold = 1,
     pr_TimeoutSeconds = 1,
     pr_TCPSocketPort = FromInt32 port\<rparr>"

section \<open>Containers\<close>

definition buildSnifferContainer :: "string \<Rightarrow> Container" where
  "buildSnifferContainer img = zero_Container\<lparr>
     c_Name := ''sniffer'',
     c_Image := img,
     c_ImagePullPolicy := Some PullAlways,
     c_Command := [
       ''./worker'', ''-i'', ''any'', ''-port'', ''48999'', ''-metrics-port'', ''49100'',
       ''-packet-capture'', ''best'', ''warning'',
       ''-servicemesh'', ''-procfs'', ''/hostproc'',
       ''-enable-watchdog'', ''-resolution-strategy'', ''auto'', ''-staletimeout'', ''30''],
     c_Ports := [zero_ContainerPort\<lparr>cp_Name := ''metrics'', cp_ContainerPort := 49100,
       cp_Protocol := Some ProtocolTCP\<rparr>],
     c_Env := workerCommonEnv,
     c_Resources := workerDefaultResources,
     c_SecurityContext := Some \<lparr>sc_Privileged = Some True\<rparr>,
     c_ReadinessProbe := Some (tcpProbe 48999),
     c_LivenessProbe := Some (tcpProbe 48999),
     c_VolumeMounts := workerCommonVolumeMounts [
       zero_VolumeMount\<lparr>vm_Name := ''data'', vm_MountPath := ''/app/sniffer_data''\<rparr>]\<rparr>"

definition buildTracerContainer :: "string \<Rightarrow> Container" where
  "buildTracerContainer img = zero_Container\<lparr>
     c_Name := ''tracer'',
     c_Image := img,
     c_ImagePullPolicy := Some PullAlways,
     c_Command := [''./tracer'', ''-procfs'', ''/hostproc'', ''-disable-tls-log'', ''warning''],
     c_Env := workerCommonEnv,
     c_Resources := workerDefaultResources,
     c_SecurityContext := Some \<lparr>sc_Privileged = Some True\<rparr>,
     c_VolumeMounts := workerCommonVolumeMounts [
       zero_VolumeMount\<lparr>vm_Name := ''data'', vm_MountPath := ''/app/tracer_data''\<rparr>,
       zero_VolumeMount\<lparr>vm_Name := ''os-release'', vm_MountPath := ''/etc/os-release'',
         vm_ReadOnly := True\<rparr>,
       zero_VolumeMount\<lparr>vm_Name := ''root'', vm_MountPath := ''/hostroot'', vm_ReadOnly := True,
         vm_MountPropagation := Some MountPropagationHostToContainer\<rparr>]\<rparr>"

section \<open>DaemonSet\<close>

definition buildWorkerDaemonSetSpec :: "Kubeshark \<Rightarrow> gomap \<Rightarrow> DaemonSetSpec" where
  "buildWorkerDaemonSetSpec cr labels =
     (let img = workerImage cr in zero_DaemonSetSpec\<lparr>
        dms_Selector := Some \<lparr>ls_MatchLabels = labels\<rparr>,
        dms_Template := \<lparr>
          pt_ObjectMeta = zero_ObjectMeta\<lparr>om_Labels := labels\<rparr>,
          pt_Spec = zero_PodSpec\<lparr>
            ps_InitContainers := [zero_Container\<lparr>
              c_Name := ''mount-bpf'',
              c_Image := img,
              c_ImagePullPolicy := Some PullAlways,
              c_Command := [
                ''/bin/sh'', ''-c'',
                ''mkdir -p /sys/fs/bpf && mount | grep -q '' @ [CHR 0x27] @ ''/sys/fs/bpf'' @
                  [CHR 0x27] @ '' || mount -t bpf bpf /sys/fs/bpf''],
              c_SecurityContext := Some \<lparr>sc_Privileged = Some True\<rparr>,
              c_VolumeMounts := [zero_VolumeMount\<lparr>
                vm_Name := ''sys'', vm_MountPath := ''/sys'',
                vm_MountPropagation := Some MountPropagationBidirectional\<rparr>]\<rparr>],
            ps_Containers := [buildSnifferContainer img, buildTracerContainer img],
            ps_ServiceAccountName := workerServiceAccountName cr,
            ps_HostNetwork := True,
            ps_DNSPolicy := Some DNSClusterFirstWithHostNet,
            ps_Tolerations :=
              [\<lparr>tol_Operator = TolerationOpExists, tol_Effect = TaintEffectNoExecute\<rparr>],
            ps_Affinity := Some \<lparr>aff_RequiredNodeSelectorTerms = [
              \<lparr>nst_MatchExpressions = [
                \<lparr>nsr_Key = ''kubernetes.io/os'', nsr_Operator = NodeSelectorOpIn,
                  nsr_Values = [''linux'']\<rparr>]\<rparr>]\<rparr>,
            ps_Volumes := buildWorkerVolumes\<rparr>\<rparr>\<rparr>)"

definition worker_fill :: "Kubeshark \<Rightarrow> gomap \<Rightarrow> DaemonSet \<Rightarrow> DaemonSet" where
  "worker_fill cr labels =
     (\<lambda>ds. ds\<lparr>dmn_ObjectMeta := (dmn_ObjectMeta ds)\<lparr>om_Labels := labels\<rparr>,
              dmn_Spec := buildWorkerDaemonSetSpec cr labels\<rparr>)"

definition worker_mutate ::
  "('w, 'e) api \<Rightarrow> Kubeshark \<Rightarrow> gomap \<Rightarrow> ('e, DaemonSet) mutate_fn" where
  "worker_mutate api cr labels =
     with_owner api cr dmn_ObjectMeta (\<lambda>m ds. ds\<lparr>dmn_ObjectMeta := m\<rparr>) (worker_fill cr labels)"

definition worker_child :: "('w, 'e) api \<Rightarrow> Kubeshark \<Rightarrow> gomap \<Rightarrow> 'e child" where
  "worker_child api cr labels = \<lparr>
     ch_object = DaemonSetObj (zero_DaemonSet\<lparr>dmn_ObjectMeta :=
       zero_ObjectMeta\<lparr>om_Name := workerDaemonSetName cr, om_Namespace := ks_Namespace cr\<rparr>\<rparr>),
     ch_mutate = on_DaemonSet (worker_mutate api cr labels),
     ch_wrap = None\<rparr>"

definition reconcileWorker :: "('w, 'e) api \<Rightarrow> Kubeshark \<Rightarrow> gomap \<Rightarrow> ('w, 'e) action" where
  "reconcileWorker api cr labels =
     create_or_update api (ch_object (worker_child api cr labels))
       (ch_mutate (worker_child api cr labels))"

section \<open>Validity of a pod template\<close>

text \<open>
  The rules of the pod specification that concern this template: names of volumes, of containers and
  of ports are unique, on the host network also the ports, there is a container, every mount names a declared volume, no two mounts of a
  container share a path, only a privileged container propagates mounts to the host, and no
  container sets a variable twice.
\<close>

definition all_containers :: "PodSpec \<Rightarrow> Container list" where
  "all_containers pod = ps_InitContainers pod @ ps_Containers pod"

definition privileged_container :: "Container \<Rightarrow> bool" where
  "privileged_container c = (case c_SecurityContext c of
     None \<Rightarrow> False
   | Some sc \<Rightarrow> sc_Privileged sc = Some True)"

definition valid_container :: "string list \<Rightarrow> Container \<Rightarrow> bool" where
  "valid_container vols c \<longleftrightarrow>
     list_all (\<lambda>m. vm_Name m \<in> set vols) (c_VolumeMounts c) \<and>
     distinct (map vm_MountPath (c_VolumeMounts c)) \<and>
     distinct (map ev_Name (c_Env c)) \<and>
     (list_ex (\<lambda>m. vm_MountPropagation m = Some MountPropagationBidirectional) (c_VolumeMounts c)
        \<longrightarrow> privileged_container c)"

text \<open>
  The ports of a pod: no two have the same name, and on the host network, where a container port is
  a port of the node, no two have the same number and protocol (TCP unless it says otherwise).
\<close>

definition pod_ports :: "PodSpec \<Rightarrow> ContainerPort list" where
  "pod_ports pod = concat (map c_Ports (all_containers pod))"

definition valid_ports :: "PodSpec \<Rightarrow> bool" where
  "valid_ports pod \<longleftrightarrow>
     distinct (filter (\<lambda>n. n \<noteq> '''') (map cp_Name (pod_ports pod))) \<and>
     (ps_HostNetwork pod \<longrightarrow>
        distinct (map (\<lambda>p. (cp_ContainerPort p,
          case cp_Protocol p of None \<Rightarrow> ProtocolTCP | Some t \<Rightarrow> t)) (pod_ports pod)))"

definition valid_pod :: "PodSpec \<Rightarrow> bool" where
  "valid_pod pod \<longleftrightarrow>
     ps_Containers pod \<noteq> [] \<and> valid_ports pod \<and>
     distinct (map v_Name (ps_Volumes pod)) \<and>
     distinct (map c_Name (all_containers pod)) \<and>
     list_all (valid_container (map v_Name (ps_Volumes pod))) (all_containers pod)"

lemmas worker_part_defs = buildWorkerVolumes_def workerCommonEnv_def workerDefaultResources_def
  workerCommonVolumeMounts_def tcpProbe_def buildSnifferContainer_def buildTracerContainer_def

lemma valid_sniffer: "valid_container (map v_Name buildWorkerVolumes) (buildSnifferContainer img)"
  by (simp add: valid_container_def worker_part_defs zero_defs privileged_container_def)

lemma valid_tracer: "valid_container (map v_Name buildWorkerVolumes) (buildTracerContainer img)"
  by (simp add: valid_container_def worker_part_defs zero_defs privileged_container_def)

lemma worker_template:
  "pt_Spec (dms_Template (buildWorkerDaemonSetSpec cr ls)) = pod \<Longrightarrow>
     ps_Volumes pod = buildWorkerVolumes \<and>
     ps_Containers pod =
       [buildSnifferContainer (workerImage cr), buildTracerContainer (workerImage cr)] \<and>
     ps_ServiceAccountName pod = workerServiceAccountName cr"
  by (auto simp: buildWorkerDaemonSetSpec_def Let_def)

lemma distinct_worker_volumes: "distinct (map v_Name buildWorkerVolumes)"
  by (simp add: buildWorkerVolumes_def)

lemma valid_worker_ports: "valid_ports (pt_Spec (dms_Template (buildWorkerDaemonSetSpec cr ls)))"
  by (simp add: valid_ports_def pod_ports_def all_containers_def buildWorkerDaemonSetSpec_def Let_def
      buildSnifferContainer_def buildTracerContainer_def zero_defs)

lemma valid_worker_pod: "valid_pod (pt_Spec (dms_Template (buildWorkerDaemonSetSpec cr ls)))"
  unfolding valid_pod_def using valid_worker_ports [of cr ls]
  unfolding all_containers_def buildWorkerDaemonSetSpec_def Let_def
  by (simp add: valid_sniffer valid_tracer distinct_worker_volumes)
     (simp add: valid_container_def worker_part_defs zero_defs privileged_container_def)

section \<open>The contract\<close>

text \<open>
  The DaemonSet promised: a selector that selects its own pods, a valid template, the worker's
  service account, one image for every container, and every container privileged (they capture
  traffic and mount the BPF file system).
\<close>

definition worker_desired :: "Kubeshark \<Rightarrow> gomap \<Rightarrow> k8s_object \<Rightarrow> bool" where
  "worker_desired cr labels x =
     (case x of
        DaemonSetObj ds \<Rightarrow>
          (let spec = dmn_Spec ds; pod = pt_Spec (dms_Template spec) in
           om_Labels (dmn_ObjectMeta ds) = labels \<and>
           (labels \<noteq> None \<longrightarrow>
             (\<exists>sel. dms_Selector spec = Some sel \<and>
                selects (ls_MatchLabels sel) (om_Labels (pt_ObjectMeta (dms_Template spec))))) \<and>
           valid_pod pod \<and> ps_ServiceAccountName pod = workerServiceAccountName cr \<and>
           (\<forall>c \<in> set (all_containers pod). privileged_container c \<and>
              c_Image c = (if sp_WorkerImage (ks_Spec cr) = '''' then defaultWorkerImage
                           else sp_WorkerImage (ks_Spec cr))))
      | _ \<Rightarrow> False)"

lemma worker_containers:
  "c \<in> set (all_containers (pt_Spec (dms_Template (buildWorkerDaemonSetSpec cr ls)))) \<Longrightarrow>
     privileged_container c \<and> c_Image c = workerImage cr"
  by (auto simp: all_containers_def buildWorkerDaemonSetSpec_def Let_def zero_defs
      buildSnifferContainer_def buildTracerContainer_def privileged_container_def)

section \<open>Ports\<close>

text \<open>The value that follows a flag in a command line, and the number a decimal numeral denotes.\<close>

fun flag_value :: "string \<Rightarrow> string list \<Rightarrow> string option" where
  "flag_value f (x # y # xs) = (if x = f then Some y else flag_value f (y # xs))"
| "flag_value f xs = None"

definition decimal :: "string \<Rightarrow> nat" where
  "decimal s = foldl (\<lambda>n c. 10 * n + (of_char c - 48)) 0 s"

text \<open>
  C24: the worker's pod template. For every resource the template is valid (\<open>valid_pod\<close>: every mount
  names a declared volume, names are unique, and no two containers declare the same port of the
  node), selects itself, runs one privileged image on the host network, and its ports agree: the port
  of the \<open>-port\<close> flag is the one both probes of the sniffer ask, the port of \<open>-metrics-port\<close> is the
  declared one, and the two differ.
\<close>

theorem worker_template_consistent:
  "valid_pod (pt_Spec (dms_Template (buildWorkerDaemonSetSpec cr ls))) \<and>
   (ls \<noteq> None \<longrightarrow>
     selects ls (om_Labels (pt_ObjectMeta (dms_Template (buildWorkerDaemonSetSpec cr ls))))) \<and>
   ps_HostNetwork (pt_Spec (dms_Template (buildWorkerDaemonSetSpec cr ls))) \<and>
   (\<forall>c \<in> set (all_containers (pt_Spec (dms_Template (buildWorkerDaemonSetSpec cr ls)))).
      privileged_container c \<and> c_Image c = workerImage cr) \<and>
   (\<exists>c d port metrics.
      ps_Containers (pt_Spec (dms_Template (buildWorkerDaemonSetSpec cr ls))) = [c, d] \<and>
      map_option decimal (flag_value ''-port'' (c_Command c)) = Some (unat port) \<and>
      c_ReadinessProbe c = Some (tcpProbe port) \<and> c_LivenessProbe c = Some (tcpProbe port) \<and>
      map_option decimal (flag_value ''-metrics-port'' (c_Command c)) = Some (unat metrics) \<and>
      map cp_ContainerPort (c_Ports c) = [metrics] \<and> port \<noteq> metrics)"
proof -
  let ?c = "buildSnifferContainer (workerImage cr)"
  have "\<exists>c d port metrics.
      ps_Containers (pt_Spec (dms_Template (buildWorkerDaemonSetSpec cr ls))) = [c, d] \<and>
      map_option decimal (flag_value ''-port'' (c_Command c)) = Some (unat port) \<and>
      c_ReadinessProbe c = Some (tcpProbe port) \<and> c_LivenessProbe c = Some (tcpProbe port) \<and>
      map_option decimal (flag_value ''-metrics-port'' (c_Command c)) = Some (unat metrics) \<and>
      map cp_ContainerPort (c_Ports c) = [metrics] \<and> port \<noteq> metrics"
  proof (rule exI [where x = ?c], rule exI [where x = "buildTracerContainer (workerImage cr)"],
      rule exI [where x = 48999], rule exI [where x = 49100], intro conjI)
    show "ps_Containers (pt_Spec (dms_Template (buildWorkerDaemonSetSpec cr ls))) =
        [?c, buildTracerContainer (workerImage cr)]"
      using worker_template [OF refl] by blast
  qed (simp_all add: buildSnifferContainer_def decimal_def zero_defs)
  moreover have "ps_HostNetwork (pt_Spec (dms_Template (buildWorkerDaemonSetSpec cr ls)))"
    and "om_Labels (pt_ObjectMeta (dms_Template (buildWorkerDaemonSetSpec cr ls))) = ls"
    by (simp_all add: buildWorkerDaemonSetSpec_def Let_def)
  ultimately show ?thesis
    using valid_worker_pod [of cr ls] selects_self [of ls] worker_containers [of _ cr ls] by auto
qed

theorem worker_template_consistent_witness:
  "valid_pod (pt_Spec (dms_Template (buildWorkerDaemonSetSpec zero_Kubeshark (Some Map.empty)))) \<and>
   selects (Some Map.empty) (om_Labels (pt_ObjectMeta
     (dms_Template (buildWorkerDaemonSetSpec zero_Kubeshark (Some Map.empty)))))"
  using worker_template_consistent [of zero_Kubeshark "Some Map.empty"] by blast

section \<open>The DaemonSet meets the contract\<close>

lemma worker_fill_desired: "worker_desired cr ls (DaemonSetObj (worker_fill cr ls ds))"
proof -
  have "dms_Selector (buildWorkerDaemonSetSpec cr ls) = Some \<lparr>ls_MatchLabels = ls\<rparr>"
    and "om_Labels (pt_ObjectMeta (dms_Template (buildWorkerDaemonSetSpec cr ls))) = ls"
    by (simp_all add: buildWorkerDaemonSetSpec_def Let_def)
  then show ?thesis
    using worker_template [OF refl, of cr ls] worker_containers [of _ cr ls]
    by (auto simp: worker_desired_def worker_fill_def Let_def valid_worker_pod selects_self
        workerImage_def getOrDefaultString_def split: if_splits)
qed

lemma buildWorkerDaemonSetSpec_same:
  "same_resource cr cr2 \<Longrightarrow> buildWorkerDaemonSetSpec cr2 ls = buildWorkerDaemonSetSpec cr ls"
  by (simp add: buildWorkerDaemonSetSpec_def same_resource_def name_defs)

lemmas worker_defs [child_defs] = worker_child_def worker_mutate_def worker_fill_def

lemma run_worker: "run_child api (worker_child api cr ls) = reconcileWorker api cr ls"
  by (simp add: run_child_def reconcileWorker_def worker_child_def)

interpretation worker: owned_object worker_child DaemonSetKind worker_desired
proof (rule owned_objectI [where C = DaemonSetObj and fill = worker_fill
      and get = dmn_ObjectMeta and put = "\<lambda>m ds. ds\<lparr>dmn_ObjectMeta := m\<rparr>"])
  show "worker_fill cr2 ls = worker_fill cr ls" if "same_resource cr cr2" for cr cr2 ls
    using buildWorkerDaemonSetSpec_same [OF that] by (simp add: worker_fill_def)
  show "owner_fill dmn_ObjectMeta (\<lambda>m ds. ds\<lparr>dmn_ObjectMeta := m\<rparr>) (worker_fill cr ls)" for cr ls
    by (simp add: owner_fill_def worker_fill_def)
  show "mixed (DaemonSetObj (worker_fill cr ls x)) (DaemonSetObj y) (DaemonSetObj (worker_fill cr ls y))"
    for cr ls x y
    by (simp add: mixed_defs worker_fill_def)
qed (auto simp: worker_child_def worker_mutate_def on_defs worker_fill_desired same_resource_def
    name_defs intro: object_kind_elims)

end
