(* ===== verification/Frontend.thy ===== *)
theory Frontend
  imports ManagedObject
begin

text \<open>
  \<open>internal/controller/frontend.go\<close>: the Deployment, Service and Ingress of the frontend.
\<close>

section \<open>Deployment\<close>

definition frontendEnv :: "EnvVar list" where
  "frontendEnv = map (\<lambda>(n, v). \<lparr>ev_Name = n, ev_Value = v, ev_ValueFrom = None\<rparr>) [
     (''REACT_APP_DEFAULT_FILTER'', ''{}''),
     (''REACT_APP_AUTH_ENABLED'', ''false''),
     (''REACT_APP_AUTH_TYPE'', ''none''),
     (''REACT_APP_AUTH_SAML_IDP_METADATA_URL'', ''https://example.com''),
     (''REACT_APP_TIMEZONE'', ''IST''),
     (''REACT_APP_REPLAY_DISABLED'', ''false''),
     (''REACT_APP_RECORDING_DISABLED'', ''false''),
     (''REACT_APP_SCRIPTING_DISABLED'', ''false''),
     (''REACT_APP_TARGETED_PODS_UPDATE_DISABLED'', ''false''),
     (''REACT_APP_BPF_OVERRIDE_DISABLED'', ''false''),
     (''REACT_APP_CLOUD_LICENSE_ENABLED'', ''false''),
     (''REACT_APP_STOP_TRAFFIC_CAPTURING_DISABLED'', ''false''),
     (''REACT_APP_SUPPORT_CHAT_ENABLED'', ''false''),
     (''REACT_APP_DISSECTORS_UPDATING_ENABLED'', ''false''),
     (''REACT_APP_SENTRY_ENABLED'', ''false'')]"

definition frontendDeployment_fill :: "Kubeshark \<Rightarrow> gomap \<Rightarrow> Deployment \<Rightarrow> Deployment" where
  "frontendDeployment_fill cr labels =
     (\<lambda>dep. dep\<lparr>
        dep_ObjectMeta := (dep_ObjectMeta dep)\<lparr>om_Labels := labels\<rparr>,
        dep_Spec := (dep_Spec dep)\<lparr>
          dps_Replicas := Some 1,
          dps_Selector := Some \<lparr>ls_MatchLabels = labels\<rparr>,
          dps_Template := \<lparr>
            pt_ObjectMeta = zero_ObjectMeta\<lparr>om_Labels := labels\<rparr>,
            pt_Spec = zero_PodSpec\<lparr>
              ps_Containers := [zero_Container\<lparr>
                c_Name := ''frontend'',
                c_Image :=
                  getOrDefaultString (sp_FrontendImage (ks_Spec cr)) defaultFrontendImage,
                c_Ports := [zero_ContainerPort\<lparr>cp_ContainerPort := 8080\<rparr>],
                c_Env := frontendEnv\<rparr>]\<rparr>\<rparr>\<rparr>\<rparr>)"

definition frontendDeployment_mutate ::
  "('w, 'e) api \<Rightarrow> Kubeshark \<Rightarrow> gomap \<Rightarrow> ('e, Deployment) mutate_fn" where
  "frontendDeployment_mutate api cr labels =
     with_owner api cr dep_ObjectMeta (\<lambda>m dep. dep\<lparr>dep_ObjectMeta := m\<rparr>)
       (frontendDeployment_fill cr labels)"

definition frontendDeployment_child ::
  "('w, 'e) api \<Rightarrow> Kubeshark \<Rightarrow> gomap \<Rightarrow> 'e child" where
  "frontendDeployment_child api cr labels = \<lparr>
     ch_object = DeploymentObj (zero_Deployment\<lparr>dep_ObjectMeta :=
       zero_ObjectMeta\<lparr>om_Name := frontendDeploymentName cr, om_Namespace := ks_Namespace cr\<rparr>\<rparr>),
     ch_mutate = on_Deployment (frontendDeployment_mutate api cr labels),
     ch_wrap = Some ''frontend Deployment''\<rparr>"

definition reconcileFrontendDeployment ::
  "('w, 'e) api \<Rightarrow> Kubeshark \<Rightarrow> gomap \<Rightarrow> ('w, 'e) action" where
  "reconcileFrontendDeployment api cr labels =
     wrap_err ''frontend Deployment''
       (create_or_update api (ch_object (frontendDeployment_child api cr labels))
          (ch_mutate (frontendDeployment_child api cr labels)))"

definition frontendDeployment_desired :: "Kubeshark \<Rightarrow> gomap \<Rightarrow> k8s_object \<Rightarrow> bool" where
  "frontendDeployment_desired cr labels x =
     (case x of
        DeploymentObj dep \<Rightarrow>
          (let spec = dep_Spec dep; pod = pt_Spec (dps_Template spec) in
           om_Labels (dep_ObjectMeta dep) = labels \<and> dps_Replicas spec = Some 1 \<and>
           (labels \<noteq> None \<longrightarrow>
             (\<exists>sel. dps_Selector spec = Some sel \<and>
                selects (ls_MatchLabels sel) (om_Labels (pt_ObjectMeta (dps_Template spec))))) \<and>
           ps_ServiceAccountName pod = '''' \<and>
           (\<exists>c. ps_Containers pod = [c] \<and> c_Name c = ''frontend'' \<and>
              c_Image c = (if sp_FrontendImage (ks_Spec cr) = '''' then defaultFrontendImage
                           else sp_FrontendImage (ks_Spec cr)) \<and>
              map cp_ContainerPort (c_Ports c) = [8080] \<and>
              distinct (map ev_Name (c_Env c))))
      | _ \<Rightarrow> False)"

section \<open>Service\<close>

definition frontendService_fill :: "Kubeshark \<Rightarrow> gomap \<Rightarrow> Service \<Rightarrow> Service" where
  "frontendService_fill cr labels =
     (\<lambda>svc. svc\<lparr>
        svc_ObjectMeta := (svc_ObjectMeta svc)\<lparr>om_Labels := labels\<rparr>,
        svc_Spec := (svc_Spec svc)\<lparr>
          svs_Type := Some ServiceTypeClusterIP,
          svs_Selector := labels,
          svs_Ports :=
            [\<lparr>svp_Name = ''http'', svp_Port = 80, svp_TargetPort = FromInt32 8080\<rparr>]\<rparr>\<rparr>)"

definition frontendService_mutate ::
  "('w, 'e) api \<Rightarrow> Kubeshark \<Rightarrow> gomap \<Rightarrow> ('e, Service) mutate_fn" where
  "frontendService_mutate api cr labels =
     with_owner api cr svc_ObjectMeta (\<lambda>m svc. svc\<lparr>svc_ObjectMeta := m\<rparr>)
       (frontendService_fill cr labels)"

definition frontendService_child ::
  "('w, 'e) api \<Rightarrow> Kubeshark \<Rightarrow> gomap \<Rightarrow> 'e child" where
  "frontendService_child api cr labels = \<lparr>
     ch_object = ServiceObj (zero_Service\<lparr>svc_ObjectMeta :=
       zero_ObjectMeta\<lparr>om_Name := frontendServiceName cr, om_Namespace := ks_Namespace cr\<rparr>\<rparr>),
     ch_mutate = on_Service (frontendService_mutate api cr labels),
     ch_wrap = None\<rparr>"

definition reconcileFrontendService ::
  "('w, 'e) api \<Rightarrow> Kubeshark \<Rightarrow> gomap \<Rightarrow> ('w, 'e) action" where
  "reconcileFrontendService api cr labels =
     create_or_update api (ch_object (frontendService_child api cr labels))
       (ch_mutate (frontendService_child api cr labels))"

definition frontendService_desired :: "Kubeshark \<Rightarrow> gomap \<Rightarrow> k8s_object \<Rightarrow> bool" where
  "frontendService_desired cr labels x =
     (case x of
        ServiceObj svc \<Rightarrow>
          om_Labels (svc_ObjectMeta svc) = labels \<and> svs_Selector (svc_Spec svc) = labels \<and>
          svs_Type (svc_Spec svc) = Some ServiceTypeClusterIP \<and>
          (\<exists>p. svs_Ports (svc_Spec svc) = [p] \<and> svp_Port p = 80 \<and>
             svp_TargetPort p = FromInt32 8080)
      | _ \<Rightarrow> False)"

section \<open>Ingress\<close>

definition frontendIngress_fill :: "Kubeshark \<Rightarrow> gomap \<Rightarrow> Ingress \<Rightarrow> Ingress" where
  "frontendIngress_fill cr labels =
     (\<lambda>ing. ing\<lparr>
        ing_ObjectMeta := (ing_ObjectMeta ing)\<lparr>om_Labels := labels\<rparr>,
        ing_Spec := (ing_Spec ing)\<lparr>
          igs_IngressClassName :=
            (if sp_IngressClassName (ks_Spec cr) \<noteq> ''''
             then Some (sp_IngressClassName (ks_Spec cr))
             else igs_IngressClassName (ing_Spec ing)),
          igs_Rules := [\<lparr>
            igr_Host = sp_IngressHost (ks_Spec cr),
            igr_HTTP = Some [\<lparr>
              hip_Path = ''/'',
              hip_PathType = Some PathTypeImplementationSpecific,
              hip_BackendService =
                Some \<lparr>isb_Name = frontendServiceName cr, isb_PortNumber = 80\<rparr>\<rparr>]\<rparr>]\<rparr>\<rparr>)"

definition frontendIngress_mutate ::
  "('w, 'e) api \<Rightarrow> Kubeshark \<Rightarrow> gomap \<Rightarrow> ('e, Ingress) mutate_fn" where
  "frontendIngress_mutate api cr labels =
     with_owner api cr ing_ObjectMeta (\<lambda>m ing. ing\<lparr>ing_ObjectMeta := m\<rparr>)
       (frontendIngress_fill cr labels)"

definition frontendIngress_child ::
  "('w, 'e) api \<Rightarrow> Kubeshark \<Rightarrow> gomap \<Rightarrow> 'e child" where
  "frontendIngress_child api cr labels = \<lparr>
     ch_object = IngressObj (zero_Ingress\<lparr>ing_ObjectMeta :=
       zero_ObjectMeta\<lparr>om_Name := frontendIngressName cr, om_Namespace := ks_Namespace cr\<rparr>\<rparr>),
     ch_mutate = on_Ingress (frontendIngress_mutate api cr labels),
     ch_wrap = None\<rparr>"

definition reconcileFrontendIngress ::
  "('w, 'e) api \<Rightarrow> Kubeshark \<Rightarrow> gomap \<Rightarrow> ('w, 'e) action" where
  "reconcileFrontendIngress api cr labels =
     create_or_update api (ch_object (frontendIngress_child api cr labels))
       (ch_mutate (frontendIngress_child api cr labels))"

text \<open>
  Every path of every rule of the Ingress goes to the frontend Service. The class is the
  resource's when it names one.
\<close>

definition frontendIngress_desired :: "Kubeshark \<Rightarrow> gomap \<Rightarrow> k8s_object \<Rightarrow> bool" where
  "frontendIngress_desired cr labels x =
     (case x of
        IngressObj ing \<Rightarrow>
          om_Labels (ing_ObjectMeta ing) = labels \<and>
          (sp_IngressClassName (ks_Spec cr) \<noteq> '''' \<longrightarrow>
             igs_IngressClassName (ing_Spec ing) = Some (sp_IngressClassName (ks_Spec cr))) \<and>
          map igr_Host (igs_Rules (ing_Spec ing)) = [sp_IngressHost (ks_Spec cr)] \<and>
          (\<forall>r \<in> set (igs_Rules (ing_Spec ing)). \<exists>ps. igr_HTTP r = Some ps \<and> ps \<noteq> [] \<and>
             (\<forall>p \<in> set ps. \<exists>b. hip_BackendService p = Some b \<and>
                isb_Name b = frontendServiceName cr \<and> isb_PortNumber b = 80))
      | _ \<Rightarrow> False)"

section \<open>reconcileFrontend\<close>

definition reconcileFrontend :: "('w, 'e) api \<Rightarrow> Kubeshark \<Rightarrow> gomap \<Rightarrow> ('w, 'e) action" where
  "reconcileFrontend api cr labels =
     and_then (reconcileFrontendDeployment api cr labels)
       (and_then (reconcileFrontendService api cr labels)
          (reconcileFrontendIngress api cr labels))"

definition frontend_children :: "('w, 'e) api \<Rightarrow> Kubeshark \<Rightarrow> gomap \<Rightarrow> 'e child list" where
  "frontend_children api cr labels =
     [frontendDeployment_child api cr labels, frontendService_child api cr labels,
      frontendIngress_child api cr labels]"

section \<open>The contract\<close>

lemmas frontend_child_defs [child_defs] = frontendDeployment_child_def frontendService_child_def
  frontendIngress_child_def

lemmas frontend_mutate_defs [child_defs] = frontendDeployment_mutate_def
  frontendService_mutate_def frontendIngress_mutate_def frontendDeployment_fill_def
  frontendService_fill_def frontendIngress_fill_def

lemma run_frontendDeployment:
  "run_child api (frontendDeployment_child api cr ls) = reconcileFrontendDeployment api cr ls"
  by (simp add: run_child_def reconcileFrontendDeployment_def frontendDeployment_child_def)

lemma run_frontendService:
  "run_child api (frontendService_child api cr ls) = reconcileFrontendService api cr ls"
  by (simp add: run_child_def reconcileFrontendService_def frontendService_child_def)

lemma run_frontendIngress:
  "run_child api (frontendIngress_child api cr ls) = reconcileFrontendIngress api cr ls"
  by (simp add: run_child_def reconcileFrontendIngress_def frontendIngress_child_def)

lemma reconcileFrontend_children:
  "reconcileFrontend api cr ls = run_all (map (run_child api) (frontend_children api cr ls))"
  by (simp only: reconcileFrontend_def frontend_children_def list.map run_frontendDeployment
      run_frontendService run_frontendIngress run_all_cons2 run_all_single)

lemma distinct_frontendEnv: "distinct (map ev_Name frontendEnv)"
  by (simp add: frontendEnv_def)

interpretation frontendDeployment: owned_object
  frontendDeployment_child DeploymentKind frontendDeployment_desired
  by (rule owned_objectI [where C = DeploymentObj and fill = frontendDeployment_fill
        and get = dep_ObjectMeta and put = "\<lambda>m dep. dep\<lparr>dep_ObjectMeta := m\<rparr>"])
     (auto simp: mixed_defs owner_fill_def same_resource_def name_defs child_defs on_defs frontendDeployment_desired_def
       getOrDefaultString_def Let_def selects_self zero_defs distinct_frontendEnv
       elim: object_kind_elims)

interpretation frontendService: owned_object
  frontendService_child ServiceKind frontendService_desired
  by (rule owned_objectI [where C = ServiceObj and fill = frontendService_fill
        and get = svc_ObjectMeta and put = "\<lambda>m svc. svc\<lparr>svc_ObjectMeta := m\<rparr>"])
     (auto simp: mixed_defs owner_fill_def same_resource_def name_defs child_defs on_defs frontendService_desired_def
       elim: object_kind_elims)

interpretation frontendIngress: owned_object
  frontendIngress_child IngressKind frontendIngress_desired
  by (rule owned_objectI [where C = IngressObj and fill = frontendIngress_fill
        and get = ing_ObjectMeta and put = "\<lambda>m ing. ing\<lparr>ing_ObjectMeta := m\<rparr>"])
     (auto simp: mixed_defs owner_fill_def same_resource_def name_defs child_defs on_defs frontendIngress_desired_def
       elim: object_kind_elims)

end
