(* ===== verification/SecretStep.thy ===== *)
theory SecretStep
  imports ManagedObject
begin

text \<open>
  \<open>internal/controller/secret.go\<close>: the Secret with the licence and the OIDC settings. The code
  writes four keys into \<open>StringData\<close>, allocating the map first when it is nil, so other keys
  already present stay.
\<close>

definition secret_fill :: "Kubeshark \<Rightarrow> gomap \<Rightarrow> Secret \<Rightarrow> Secret" where
  "secret_fill cr labels =
     (\<lambda>secret.
        let sk = sp_SecretKubeshark (ks_Spec cr);
            data = (case sec_StringData secret of None \<Rightarrow> Map.empty | Some d \<Rightarrow> d)
        in secret\<lparr>
          sec_ObjectMeta := (sec_ObjectMeta secret)\<lparr>om_Labels := labels\<rparr>,
          sec_Type := Some SecretTypeOpaque,
          sec_StringData := Some (data(
            ''LICENSE'' \<mapsto> getOrDefaultString (sk_License sk) '''',
            ''SCRIPTING_ENV'' \<mapsto> getOrDefaultString (sk_ScriptingEnvJson sk) ''{}'',
            ''OIDC_CLIENT_ID'' \<mapsto> getOrDefaultString (sk_OidcClientID sk) ''not set'',
            ''OIDC_CLIENT_SECRET'' \<mapsto>
              getOrDefaultString (sk_OidcClientSecret sk) ''not set''))\<rparr>)"

definition secret_mutate ::
  "('w, 'e) api \<Rightarrow> Kubeshark \<Rightarrow> gomap \<Rightarrow> ('e, Secret) mutate_fn" where
  "secret_mutate api cr labels =
     with_owner api cr sec_ObjectMeta (\<lambda>m s. s\<lparr>sec_ObjectMeta := m\<rparr>) (secret_fill cr labels)"

definition secret_child :: "('w, 'e) api \<Rightarrow> Kubeshark \<Rightarrow> gomap \<Rightarrow> 'e child" where
  "secret_child api cr labels = \<lparr>
     ch_object = SecretObj (zero_Secret\<lparr>sec_ObjectMeta :=
       zero_ObjectMeta\<lparr>om_Name := kubesharkSecretName cr, om_Namespace := ks_Namespace cr\<rparr>\<rparr>),
     ch_mutate = on_Secret (secret_mutate api cr labels),
     ch_wrap = None\<rparr>"

definition reconcileSecret :: "('w, 'e) api \<Rightarrow> Kubeshark \<Rightarrow> gomap \<Rightarrow> ('w, 'e) action" where
  "reconcileSecret api cr labels =
     create_or_update api (ch_object (secret_child api cr labels))
       (ch_mutate (secret_child api cr labels))"

text \<open>The four keys are always set, and never to an empty text except for a missing licence.\<close>

definition secret_desired :: "Kubeshark \<Rightarrow> gomap \<Rightarrow> k8s_object \<Rightarrow> bool" where
  "secret_desired cr labels x =
     (case x of
        SecretObj s \<Rightarrow>
          (let sk = sp_SecretKubeshark (ks_Spec cr) in
           om_Labels (sec_ObjectMeta s) = labels \<and> sec_Type s = Some SecretTypeOpaque \<and>
           (\<exists>d. sec_StringData s = Some d \<and>
              d ''LICENSE'' = Some (sk_License sk) \<and>
              d ''SCRIPTING_ENV'' =
                Some (if sk_ScriptingEnvJson sk = '''' then ''{}'' else sk_ScriptingEnvJson sk) \<and>
              d ''OIDC_CLIENT_ID'' =
                Some (if sk_OidcClientID sk = '''' then ''not set'' else sk_OidcClientID sk) \<and>
              d ''OIDC_CLIENT_SECRET'' =
                Some (if sk_OidcClientSecret sk = '''' then ''not set''
                      else sk_OidcClientSecret sk)))
      | _ \<Rightarrow> False)"

definition managed_keys :: "string set" where
  "managed_keys = {''LICENSE'', ''SCRIPTING_ENV'', ''OIDC_CLIENT_ID'', ''OIDC_CLIENT_SECRET''}"

text \<open>
  C25: the Secret is merged, not replaced. Applying the mutation sets the four managed keys and keeps
  every other key the object already had, and it keeps the fields the source never names.
\<close>

theorem secret_is_merged:
  "(\<exists>d. sec_StringData (secret_fill cr ls s) = Some d \<and>
      dom d = managed_keys \<union>
        (case sec_StringData s of None \<Rightarrow> {} | Some d0 \<Rightarrow> dom d0) \<and>
      (\<forall>k. k \<notin> managed_keys \<longrightarrow>
         d k = (case sec_StringData s of None \<Rightarrow> None | Some d0 \<Rightarrow> d0 k))) \<and>
   sec_rest (secret_fill cr ls s) = sec_rest s"
  by (cases "sec_StringData s") (auto simp: secret_fill_def managed_keys_def Let_def)

theorem secret_is_merged_witness:
  "\<exists>d. sec_StringData (secret_fill zero_Kubeshark None
      (zero_Secret\<lparr>sec_StringData := Some [''EXTRA'' \<mapsto> ''kept'']\<rparr>)) = Some d \<and>
    d ''EXTRA'' = Some ''kept''"
proof -
  let ?s = "zero_Secret\<lparr>sec_StringData := Some [''EXTRA'' \<mapsto> ''kept'']\<rparr>"
  obtain d where d: "sec_StringData (secret_fill zero_Kubeshark None ?s) = Some d"
    and keep: "\<forall>k. k \<notin> managed_keys \<longrightarrow>
      d k = (case sec_StringData ?s of None \<Rightarrow> None | Some d0 \<Rightarrow> d0 k)"
    using secret_is_merged [of zero_Kubeshark None ?s] by blast
  have "d ''EXTRA'' = Some ''kept''"
    using keep [rule_format, of "''EXTRA''"] by (simp add: managed_keys_def)
  with d show ?thesis by blast
qed

lemma secret_fill_desired: "secret_desired cr ls (SecretObj (secret_fill cr ls s))"
  by (auto simp: secret_desired_def secret_fill_def Let_def
      getOrDefaultString_def split: option.split)

lemma secret_owner_fill:
  "owner_fill sec_ObjectMeta (\<lambda>m s. s\<lparr>sec_ObjectMeta := m\<rparr>) (secret_fill cr ls)"
  by (simp add: owner_fill_def secret_fill_def Let_def)

text \<open>
  The server moves \<open>StringData\<close> into \<open>Data\<close>, so the mutation is made again on every pass; its four
  entries are in \<open>Data\<close> by then.
\<close>

definition managed_data :: "Kubeshark \<Rightarrow> string \<rightharpoonup> string" where
  "managed_data cr = (let sk = sp_SecretKubeshark (ks_Spec cr) in [
     ''LICENSE'' \<mapsto> getOrDefaultString (sk_License sk) '''',
     ''SCRIPTING_ENV'' \<mapsto> getOrDefaultString (sk_ScriptingEnvJson sk) ''{}'',
     ''OIDC_CLIENT_ID'' \<mapsto> getOrDefaultString (sk_OidcClientID sk) ''not set'',
     ''OIDC_CLIENT_SECRET'' \<mapsto> getOrDefaultString (sk_OidcClientSecret sk) ''not set''])"

lemma secret_fill_managed:
  "secret_fill cr ls s = s\<lparr>
     sec_ObjectMeta := (sec_ObjectMeta s)\<lparr>om_Labels := ls\<rparr>,
     sec_Type := Some SecretTypeOpaque,
     sec_StringData := merge_data (Some (case sec_StringData s of None \<Rightarrow> Map.empty | Some d \<Rightarrow> d))
       (Some (managed_data cr))\<rparr>"
  by (simp add: secret_fill_def managed_data_def merge_data_def Let_def)

lemma secret_fill_again:
  "stored_secret (secret_fill cr ls (stored_secret (secret_fill cr ls s))) =
     stored_secret (secret_fill cr ls s)"
proof -
  have "m ++ m = m" for m :: "string \<rightharpoonup> string" by (rule map_add_subsumed1) simp
  then show ?thesis
    by (simp add: secret_fill_managed stored_secret_def merge_data_def map_add_assoc [symmetric] del: map_add_assoc)
qed

lemmas secret_defs [child_defs] = secret_child_def secret_mutate_def

lemma run_secret: "run_child api (secret_child api cr ls) = reconcileSecret api cr ls"
  by (simp add: run_child_def reconcileSecret_def secret_child_def)

interpretation secret: owned_object secret_child SecretKind secret_desired
proof (rule owned_objectI_readmit [where C = SecretObj and fill = secret_fill
      and get = sec_ObjectMeta and put = "\<lambda>m s. s\<lparr>sec_ObjectMeta := m\<rparr>"])
  show "owner_fill sec_ObjectMeta (\<lambda>m s. s\<lparr>sec_ObjectMeta := m\<rparr>) (secret_fill cr ls)" for cr ls
    by (rule secret_owner_fill)
  show "adm (SecretObj (secret_fill cr ls y)) = SecretObj y"
    if "admission adm" and "adm (SecretObj (secret_fill cr ls x)) = SecretObj y" for adm cr ls x y
    using that by (auto simp: admission_def admission_secrets_def secret_fill_again)
  show "secret_fill cr2 ls = secret_fill cr ls" if "same_resource cr cr2" for cr cr2 ls
    using that by (simp add: secret_fill_def same_resource_def)
qed (auto simp: secret_defs on_defs secret_fill_desired same_resource_def name_defs
    intro: object_kind_elims)

end
