(* ===== verification/Status.thy ===== *)
theory Status
  imports ClientApi
begin

text \<open>
  \<open>internal/controller/status.go\<close>: \<open>setReadyCondition\<close> writes the Ready condition and the observed
  generation into the resource in memory and patches the status subresource with the difference to
  a deep copy taken before. Its callers return right after it, so the patched resource is dropped.
\<close>

definition ready_condition :: "Kubeshark \<Rightarrow> bool \<Rightarrow> string \<Rightarrow> string \<Rightarrow> Condition" where
  "ready_condition cr ready reason message =
     \<lparr>cond_Type = ''Ready'',
      cond_Status = (if ready then ConditionTrue else ConditionFalse),
      cond_ObservedGeneration = ks_Generation cr,
      cond_LastTransitionTime = None,
      cond_Reason = reason,
      cond_Message = message\<rparr>"

definition with_ready ::
  "('w, 'e) api \<Rightarrow> Kubeshark \<Rightarrow> bool \<Rightarrow> string \<Rightarrow> string \<Rightarrow> Kubeshark" where
  "with_ready api cr ready reason message =
     (let conds = api_SetStatusCondition api (st_Conditions (ks_Status cr))
            (ready_condition cr ready reason message)
      in cr\<lparr>ks_Status := (ks_Status cr)\<lparr>st_Conditions := conds,
            st_ObservedGeneration := ks_Generation cr\<rparr>\<rparr>)"

definition setReadyCondition ::
  "('w, 'e) api \<Rightarrow> Kubeshark \<Rightarrow> bool \<Rightarrow> string \<Rightarrow> string \<Rightarrow> ('w, 'e) action" where
  "setReadyCondition api cr ready reason message w =
     (let orig = cr;
          cr' = with_ready api cr ready reason message
      in case api_StatusPatch api cr' orig w of
           ((Some err, _), w') \<Rightarrow> (Some (Wrapped ''patch status'' err), w')
         | ((None, _), w') \<Rightarrow> (None, w'))"

lemma with_ready_meta [simp]:
  "ks_ObjectMeta (with_ready api cr b r m) = ks_ObjectMeta cr"
  "ks_Spec (with_ready api cr b r m) = ks_Spec cr"
  "ks_key (with_ready api cr b r m) = ks_key cr"
  by (simp_all add: with_ready_def Let_def ks_key_def)

lemma with_ready_condition:
  assumes "condition_laws api"
  shows "\<exists>c. find_condition ''Ready'' (st_Conditions (ks_Status (with_ready api cr b r m))) = Some c \<and>
    cond_Status c = (if b then ConditionTrue else ConditionFalse) \<and> cond_Reason c = r \<and>
    cond_Message c = m \<and> cond_ObservedGeneration c = ks_Generation cr"
proof -
  let ?c = "ready_condition cr b r m"
  have "\<exists>t. find_condition (cond_Type ?c)
      (api_SetStatusCondition api (st_Conditions (ks_Status cr)) ?c) =
      Some (?c\<lparr>cond_LastTransitionTime := t\<rparr>)"
    using assms by (simp only: condition_laws_def)
  then show ?thesis
    by (auto simp: with_ready_def Let_def ready_condition_def)
qed

lemma with_ready_other_conditions:
  assumes "condition_laws api" and "ty \<noteq> ''Ready''"
  shows "find_condition ty (st_Conditions (ks_Status (with_ready api cr b r m))) =
    find_condition ty (st_Conditions (ks_Status cr))"
  using assms by (simp add: with_ready_def Let_def condition_laws_def ready_condition_def)

lemma setReadyCondition_frame:
  assumes "patch_law api vw" and "setReadyCondition api cr b r m w = (res, w')"
  shows "v_obj vw w' = v_obj vw w"
    and "nn \<noteq> ks_key cr \<Longrightarrow> v_cr vw w' nn = v_cr vw w nn"
    and "v_cr vw w (ks_key cr) = None \<Longrightarrow> v_cr vw w' (ks_key cr) = None"
    and "v_cr vw w (ks_key cr) = Some c \<Longrightarrow>
      \<exists>c'. v_cr vw w' (ks_key cr) = Some c' \<and> same_spec_meta c c' \<and>
        (res = None \<and> ks_Status c = ks_Status cr \<longrightarrow>
           ks_Status c' = ks_Status (with_ready api cr b r m))"
proof -
  let ?n = "with_ready api cr b r m"
  obtain err cr' where call: "api_StatusPatch api ?n cr w = ((err, cr'), w')"
    and res: "res = None \<longleftrightarrow> err = None"
    using assms(2) by (auto simp: setReadyCondition_def Let_def split: prod.splits option.splits)
  note law = assms(1) [unfolded patch_law_def, rule_format, OF call, unfolded with_ready_meta]
  show "v_obj vw w' = v_obj vw w" using law by simp
  show "nn \<noteq> ks_key cr \<Longrightarrow> v_cr vw w' nn = v_cr vw w nn" using law by simp
  show "v_cr vw w (ks_key cr) = None \<Longrightarrow> v_cr vw w' (ks_key cr) = None" using law by simp
  show "v_cr vw w (ks_key cr) = Some c \<Longrightarrow>
      \<exists>c'. v_cr vw w' (ks_key cr) = Some c' \<and> same_spec_meta c c' \<and>
        (res = None \<and> ks_Status c = ks_Status cr \<longrightarrow> ks_Status c' = ks_Status ?n)"
    using law res by auto
qed

end
