(* ===== verification/Finalizer.thy ===== *)
theory Finalizer
  imports ClientApi Helpers
begin

text \<open>
  \<open>internal/controller/finalizer.go\<close>: \<open>reconcileDelete\<close> deletes the two cluster-scoped objects,
  taking "not found" for success, and only then removes the finalizer. The resource is returned as
  well, since the caller reports a failure on it and the finalizer may be gone from its copy.
\<close>

definition cluster_objects :: "Kubeshark \<Rightarrow> k8s_object list" where
  "cluster_objects cr = [
     ClusterRoleObj (zero_ClusterRole\<lparr>crole_ObjectMeta :=
       zero_ObjectMeta\<lparr>om_Name := clusterRoleName cr\<rparr>\<rparr>),
     ClusterRoleBindingObj (zero_ClusterRoleBinding\<lparr>crb_ObjectMeta :=
       zero_ObjectMeta\<lparr>om_Name := clusterRoleBindingName cr\<rparr>\<rparr>)]"

fun delete_all :: "('w, 'e) api \<Rightarrow> k8s_object list \<Rightarrow> ('w, 'e) action" where
  "delete_all api [] w = (None, w)"
| "delete_all api (obj # objs) w =
     (case api_Delete api obj w of
        (None, w') \<Rightarrow> delete_all api objs w'
      | (Some err, w') \<Rightarrow>
          if \<not> api_IsNotFound api err then (Some err, w') else delete_all api objs w')"

definition reconcileDelete ::
  "('w, 'e) api \<Rightarrow> Kubeshark \<Rightarrow> 'w \<Rightarrow> ('e goerror option \<times> Kubeshark) \<times> 'w" where
  "reconcileDelete api cr w =
     (if \<not> api_ContainsFinalizer api cr finalizerName then ((None, cr), w)
      else case delete_all api (cluster_objects cr) w of
        (Some err, w') \<Rightarrow> ((Some err, cr), w')
      | (None, w') \<Rightarrow> api_Update api (api_RemoveFinalizer api cr finalizerName) w')"

lemma object_key_cluster_objects:
  "map object_key (cluster_objects cr) =
     [Key ClusterRoleKind '''' (clusterRoleName cr),
      Key ClusterRoleBindingKind '''' (clusterRoleBindingName cr)]"
  by (simp add: cluster_objects_def object_key_def zero_defs)

text \<open>
  After the loop ends without error, none of the objects is left; when it stops early, nothing but
  the objects asked for has been touched.
\<close>

lemma delete_all_frame:
  assumes "delete_law api vw" and "delete_all api objs w = (r, w')"
  shows "v_cr vw w' = v_cr vw w \<and>
    (\<forall>k. (k \<notin> object_key ` set objs \<longrightarrow> v_obj vw w' k = v_obj vw w k) \<and>
         (v_obj vw w' k = v_obj vw w k \<or> v_obj vw w' k = None))"
  using assms(2)
proof (induction objs arbitrary: w)
  case Nil
  then show ?case by simp
next
  case (Cons obj objs)
  obtain err w1 where call: "api_Delete api obj w = (err, w1)" by (cases "api_Delete api obj w")
  note law = assms(1) [unfolded delete_law_def, rule_format, OF call]
  have kept: "v_obj vw w1 k = v_obj vw w k \<or> v_obj vw w1 k = None" for k
    using law by (cases "k = object_key obj") auto
  have same: "k \<noteq> object_key obj \<Longrightarrow> v_obj vw w1 k = v_obj vw w k" for k
    using law by blast
  from Cons.prems call consider "w' = w1" | "delete_all api objs w1 = (r, w')"
    by (auto split: option.splits if_splits)
  then show ?case
  proof cases
    case 1
    then show ?thesis using law kept same by simp
  next
    case 2
    note ih = Cons.IH [OF this]
    have "v_obj vw w' k = v_obj vw w k \<or> v_obj vw w' k = None" for k
      using ih kept [of k] by metis
    moreover have "v_obj vw w' k = v_obj vw w k" if "k \<notin> object_key ` set (obj # objs)" for k
      using ih same [of k] that by simp
    ultimately show ?thesis using ih law by simp
  qed
qed

lemma delete_all_gone:
  assumes "delete_law api vw" and "delete_all api objs w = (None, w')"
  shows "\<forall>k \<in> object_key ` set objs. v_obj vw w' k = None"
  using assms(2)
proof (induction objs arbitrary: w)
  case Nil
  then show ?case by simp
next
  case (Cons obj objs)
  obtain err w1 where call: "api_Delete api obj w = (err, w1)" by (cases "api_Delete api obj w")
  note law = assms(1) [unfolded delete_law_def, rule_format, OF call]
  from Cons.prems call have rest: "delete_all api objs w1 = (None, w')"
    and fine: "\<forall>e. err = Some e \<longrightarrow> api_IsNotFound api e"
    by (auto split: option.splits if_splits)
  from law fine have gone: "v_obj vw w1 (object_key obj) = None"
    by (cases err) auto
  have "v_obj vw w' (object_key obj) = None"
    using delete_all_frame [OF assms(1) rest] gone by metis
  with Cons.IH [OF rest] show ?case by simp
qed

end
