(* ===== verification/Controller.thy ===== *)
theory Controller
  imports Hub Rbac Worker Frontend SecretStep Status Finalizer
begin

text \<open>
  \<open>internal/controller/kubeshark_controller.go\<close>: one pass of the reconcile loop. It reads the
  resource; a resource that is being deleted goes to \<open>reconcileDelete\<close>; one without the finalizer
  gets it and nothing else; otherwise the five steps run in order, and the first error stops them
  and is reported in the status. \<open>all_children\<close> is the flat plan the five steps execute.
\<close>

record ctrl_Result =
  res_Requeue :: bool
  res_RequeueAfter :: int

definition empty_Result :: ctrl_Result where
  "empty_Result = \<lparr>res_Requeue = False, res_RequeueAfter = 0\<rparr>"

type_synonym ('w, 'e) step = "string \<times> (Kubeshark \<Rightarrow> gomap \<Rightarrow> ('w, 'e) action)"

definition reconcile_steps :: "('w, 'e) api \<Rightarrow> ('w, 'e) step list" where
  "reconcile_steps api = [
     (''hub'', reconcileHub api),
     (''rbac'', reconcileRBAC api),
     (''worker'', reconcileWorker api),
     (''frontend'', reconcileFrontend api),
     (''secret'', reconcileSecret api)]"

fun run_steps ::
  "('w, 'e) api \<Rightarrow> ('w, 'e) step list \<Rightarrow> Kubeshark \<Rightarrow> gomap \<Rightarrow> ('w, 'e) action" where
  "run_steps api [] cr labels w = (None, w)"
| "run_steps api ((name, fn) # steps) cr labels w =
     (case fn cr labels w of
        (Some err, w1) \<Rightarrow>
          (case setReadyCondition api cr False ''ReconcileError'' (err_Error api err) w1 of
             (_, w2) \<Rightarrow> (Some err, w2))
      | (None, w1) \<Rightarrow> run_steps api steps cr labels w1)"

definition Reconcile ::
  "('w, 'e) api \<Rightarrow> NamespacedName \<Rightarrow> 'w \<Rightarrow> (ctrl_Result \<times> 'e goerror option) \<times> 'w" where
  "Reconcile api req w =
     (case api_Get api req w of
        ((Some err, _), w1) \<Rightarrow> ((empty_Result, api_IgnoreNotFound api err), w1)
      | ((None, cr), w1) \<Rightarrow>
          if \<not> api_IsZero api (ks_DeletionTimestamp cr) then
            (case reconcileDelete api cr w1 of
               ((Some err, cr'), w2) \<Rightarrow>
                 (case setReadyCondition api cr' False ''DeleteFailed'' (err_Error api err) w2 of
                    (_, w3) \<Rightarrow> ((empty_Result, Some err), w3))
             | ((None, _), w2) \<Rightarrow> ((empty_Result, None), w2))
          else if \<not> api_ContainsFinalizer api cr finalizerName then
            (case api_Update api (api_AddFinalizer api cr finalizerName) w1 of
               ((Some err, _), w2) \<Rightarrow> ((empty_Result, Some err), w2)
             | ((None, _), w2) \<Rightarrow> ((empty_Result, None), w2))
          else
            (let labels = componentLabels cr in
             case run_steps api (reconcile_steps api) cr labels w1 of
               (Some err, w2) \<Rightarrow> ((empty_Result, Some err), w2)
             | (None, w2) \<Rightarrow>
                 (case setReadyCondition api cr True ''Reconciled''
                         ''All components reconciled'' w2 of
                    (Some err, w3) \<Rightarrow> ((empty_Result, Some err), w3)
                  | (None, w3) \<Rightarrow> ((empty_Result, None), w3))))"

text \<open>
  \<open>SetupWithManager\<close>: beside the resources themselves the controller watches the objects of these
  kinds that a resource owns, so that a change to one of them triggers a pass for its owner.
\<close>

definition watched_kinds :: "kind list" where
  "watched_kinds = [DeploymentKind, DaemonSetKind, ServiceKind, ConfigMapKind, SecretKind,
     ServiceAccountKind, IngressKind]"

section \<open>The plan\<close>

definition all_children :: "('w, 'e) api \<Rightarrow> Kubeshark \<Rightarrow> gomap \<Rightarrow> 'e child list" where
  "all_children api cr labels =
     hub_children api cr labels @ rbac_children api cr labels @ [worker_child api cr labels] @
     frontend_children api cr labels @ [secret_child api cr labels]"

definition plan_keys :: "Kubeshark \<Rightarrow> ObjectKey list" where
  "plan_keys cr = (let ns = ks_Namespace cr in [
     Key ConfigMapKind ns (hubConfigMapName cr),
     Key ServiceAccountKind ns (hubServiceAccountName cr),
     Key DeploymentKind ns (hubDeploymentName cr),
     Key ServiceKind ns (hubServiceName cr),
     Key ServiceAccountKind ns (workerServiceAccountName cr),
     Key ClusterRoleKind '''' (clusterRoleName cr),
     Key ClusterRoleBindingKind '''' (clusterRoleBindingName cr),
     Key DaemonSetKind ns (workerDaemonSetName cr),
     Key DeploymentKind ns (frontendDeploymentName cr),
     Key ServiceKind ns (frontendServiceName cr),
     Key IngressKind ns (frontendIngressName cr),
     Key SecretKind ns (kubesharkSecretName cr)])"

lemmas children_lists = all_children_def hub_children_def rbac_children_def frontend_children_def

lemma all_children_keys: "map child_key (all_children api cr ls) = plan_keys cr"
  by (simp add: children_lists plan_keys_def Let_def child_key_def object_key_def child_defs
      zero_defs)

lemma run_steps_flat:
  "run_steps api steps cr ls w =
     (case run_all (map (\<lambda>s. snd s cr ls) steps) w of
        (None, w') \<Rightarrow> (None, w')
      | (Some err, w') \<Rightarrow>
          (Some err, snd (setReadyCondition api cr False ''ReconcileError''
             (err_Error api err) w')))"
proof (induction steps arbitrary: w)
  case Nil
  show ?case by simp
next
  case (Cons s steps)
  obtain name fn where s: "s = (name, fn)" by (cases s)
  obtain r w1 where fn: "fn cr ls w = (r, w1)" by (cases "fn cr ls w")
  show ?case
  proof (cases r)
    case None
    with s fn show ?thesis by (simp add: Cons.IH)
  next
    case (Some err)
    with s fn show ?thesis by (simp split: prod.split)
  qed
qed

lemma steps_children:
  "run_all (map (\<lambda>s. snd s cr ls) (reconcile_steps api)) =
     run_all (map (run_child api) (all_children api cr ls))"
proof -
  have "run_all (map (\<lambda>s. snd s cr ls) (reconcile_steps api)) =
      and_then (reconcileHub api cr ls) (and_then (reconcileRBAC api cr ls)
        (and_then (reconcileWorker api cr ls) (and_then (reconcileFrontend api cr ls)
          (reconcileSecret api cr ls))))"
    by (simp only: reconcile_steps_def list.map snd_conv run_all_cons2 run_all_single)
  also have "\<dots> = run_all (map (run_child api) (all_children api cr ls))"
    by (simp only: all_children_def map_append list.map run_all_append run_all_single
        reconcileHub_children reconcileRBAC_children reconcileFrontend_children
        run_worker run_secret)
  finally show ?thesis .
qed

lemma run_steps_children:
  "run_steps api (reconcile_steps api) cr ls w =
     (case run_all (map (run_child api) (all_children api cr ls)) w of
        (None, w') \<Rightarrow> (None, w')
      | (Some err, w') \<Rightarrow>
          (Some err, snd (setReadyCondition api cr False ''ReconcileError''
             (err_Error api err) w')))"
  by (simp only: run_steps_flat steps_children)

section \<open>The branches of Reconcile\<close>

text \<open>One rule per way a pass can go, so that proofs about \<open>Reconcile\<close> are case analyses.\<close>

lemma Reconcile_cases:
  assumes "Reconcile api req w = ((res, err), w')"
  obtains
    (read_failed) e cr where
      "api_Get api req w = ((Some e, cr), w')" and "err = api_IgnoreNotFound api e"
  | (deleting_done) cr w1 cr' where
      "api_Get api req w = ((None, cr), w1)" and "\<not> api_IsZero api (ks_DeletionTimestamp cr)"
      and "reconcileDelete api cr w1 = ((None, cr'), w')" and "err = None"
  | (deleting_failed) cr w1 e cr' w2 r where
      "api_Get api req w = ((None, cr), w1)" and "\<not> api_IsZero api (ks_DeletionTimestamp cr)"
      and "reconcileDelete api cr w1 = ((Some e, cr'), w2)"
      and "setReadyCondition api cr' False ''DeleteFailed'' (err_Error api e) w2 = (r, w')"
      and "err = Some e"
  | (adding) cr w1 cr' where
      "api_Get api req w = ((None, cr), w1)" and "api_IsZero api (ks_DeletionTimestamp cr)"
      and "\<not> api_ContainsFinalizer api cr finalizerName"
      and "api_Update api (api_AddFinalizer api cr finalizerName) w1 = ((err, cr'), w')"
  | (step_failed) cr w1 e w2 r where
      "api_Get api req w = ((None, cr), w1)" and "api_IsZero api (ks_DeletionTimestamp cr)"
      and "api_ContainsFinalizer api cr finalizerName"
      and "run_all (map (run_child api) (all_children api cr (componentLabels cr))) w1 =
        (Some e, w2)"
      and "setReadyCondition api cr False ''ReconcileError'' (err_Error api e) w2 = (r, w')"
      and "err = Some e"
  | (applied) cr w1 w2 where
      "api_Get api req w = ((None, cr), w1)" and "api_IsZero api (ks_DeletionTimestamp cr)"
      and "api_ContainsFinalizer api cr finalizerName"
      and "run_all (map (run_child api) (all_children api cr (componentLabels cr))) w1 =
        (None, w2)"
      and "setReadyCondition api cr True ''Reconciled'' ''All components reconciled'' w2 =
        (err, w')"
proof -
  obtain g cr w1 where get: "api_Get api req w = ((g, cr), w1)"
    by (metis prod.exhaust)
  note unf = assms [unfolded Reconcile_def get Let_def run_steps_children]
  show ?thesis
  proof (cases g)
    case (Some e)
    with unf get show ?thesis by (auto intro: read_failed)
  next
    case None
    note got = get [unfolded None]
    consider (del) "\<not> api_IsZero api (ks_DeletionTimestamp cr)"
      | (add) "api_IsZero api (ks_DeletionTimestamp cr)"
          "\<not> api_ContainsFinalizer api cr finalizerName"
      | (run) "api_IsZero api (ks_DeletionTimestamp cr)"
          "api_ContainsFinalizer api cr finalizerName"
      by blast
    then show ?thesis
    proof cases
      case del
      obtain d cr' w2 where rd: "reconcileDelete api cr w1 = ((d, cr'), w2)"
        by (metis prod.exhaust)
      show ?thesis
      proof (cases d)
        case None
        with unf \<open>g = None\<close> del rd have "w2 = w'" "err = None" by auto
        with got del rd None show ?thesis by (auto intro: deleting_done)
      next
        case (Some e)
        obtain r w3 where sr:
          "setReadyCondition api cr' False ''DeleteFailed'' (err_Error api e) w2 = (r, w3)"
          by (metis prod.exhaust)
        with unf \<open>g = None\<close> del rd Some have "w3 = w'" "err = Some e" by auto
        with got del rd Some sr show ?thesis by (auto intro: deleting_failed)
      qed
    next
      case add
      obtain u cr' w2 where up:
        "api_Update api (api_AddFinalizer api cr finalizerName) w1 = ((u, cr'), w2)"
        by (metis prod.exhaust)
      with unf \<open>g = None\<close> add have "w2 = w'" "err = u"
        by (auto split: option.splits)
      with got add up show ?thesis by (auto intro: adding)
    next
      case run
      obtain s w2 where st:
        "run_all (map (run_child api) (all_children api cr (componentLabels cr))) w1 = (s, w2)"
        by (metis prod.exhaust)
      show ?thesis
      proof (cases s)
        case None
        obtain r w3 where sr: "setReadyCondition api cr True ''Reconciled''
            ''All components reconciled'' w2 = (r, w3)"
          by (metis prod.exhaust)
        with unf \<open>g = None\<close> run st None have "w3 = w'" "err = r"
          by (auto split: option.splits)
        with got run st None sr show ?thesis by (auto intro: applied)
      next
        case (Some e)
        obtain r w3 where sr: "setReadyCondition api cr False ''ReconcileError''
            (err_Error api e) w2 = (r, w3)"
          by (metis prod.exhaust)
        with unf \<open>g = None\<close> run st Some have "w3 = w'" "err = Some e" by auto
        with got run st Some sr show ?thesis by (auto intro: step_failed)
      qed
    qed
  qed
qed

lemma Reconcile_result: "fst (fst (Reconcile api req w)) = empty_Result"
  by (auto simp: Reconcile_def Let_def split: prod.splits option.splits)

end
