(* ===== verification/Trace.thy ===== *)
theory Trace
  imports Controller
begin

text \<open>
  What one pass does to the outside, as a list of events. \<open>traced api\<close> is the API client \<open>api\<close> with
  a recorder: it makes the same calls and appends one event per call. Theorems about
  \<open>Reconcile (traced api)\<close> therefore speak of the calls of the program itself and hold for every
  client, whatever it answers. \<open>traced_erasure\<close> says that the recorder changes nothing else.
\<close>

datatype 'e event =
    GetEv NamespacedName "'e goerror option"
  | UpdateEv Kubeshark "'e goerror option"
  | PatchEv Kubeshark Kubeshark "'e goerror option"
  | DeleteEv ObjectKey "'e goerror option"
  | ApplyEv ObjectKey "'e goerror option"

definition traced :: "('w, 'e) api \<Rightarrow> ('w \<times> 'e event list, 'e) api" where
  "traced api = \<lparr>
     api_Get = (\<lambda>nn (w, t). case api_Get api nn w of (r, w') \<Rightarrow> (r, w', t @ [GetEv nn (fst r)])),
     api_Update = (\<lambda>cr (w, t). case api_Update api cr w of
       (r, w') \<Rightarrow> (r, w', t @ [UpdateEv cr (fst r)])),
     api_StatusPatch = (\<lambda>cr orig (w, t). case api_StatusPatch api cr orig w of
       (r, w') \<Rightarrow> (r, w', t @ [PatchEv cr orig (fst r)])),
     api_Delete = (\<lambda>obj (w, t). case api_Delete api obj w of
       (r, w') \<Rightarrow> (r, w', t @ [DeleteEv (object_key obj) r])),
     api_CreateOrUpdate = (\<lambda>obj f (w, t). case api_CreateOrUpdate api obj f w of
       (r, w') \<Rightarrow> (r, w', t @ [ApplyEv (object_key obj) (fst (snd r))])),
     api_SetControllerReference = api_SetControllerReference api,
     api_ContainsFinalizer = api_ContainsFinalizer api,
     api_AddFinalizer = api_AddFinalizer api,
     api_RemoveFinalizer = api_RemoveFinalizer api,
     api_SetStatusCondition = api_SetStatusCondition api,
     api_IsZero = api_IsZero api,
     api_IsNotFound = api_IsNotFound api,
     api_IgnoreNotFound = api_IgnoreNotFound api,
     api_errorText = api_errorText api\<rparr>"

lemma traced_pure [simp]:
  "api_SetControllerReference (traced api) = api_SetControllerReference api"
  "api_ContainsFinalizer (traced api) = api_ContainsFinalizer api"
  "api_AddFinalizer (traced api) = api_AddFinalizer api"
  "api_RemoveFinalizer (traced api) = api_RemoveFinalizer api"
  "api_SetStatusCondition (traced api) = api_SetStatusCondition api"
  "api_IsZero (traced api) = api_IsZero api"
  "api_IsNotFound (traced api) = api_IsNotFound api"
  "api_IgnoreNotFound (traced api) = api_IgnoreNotFound api"
  "api_errorText (traced api) = api_errorText api"
  by (simp_all add: traced_def)

lemma traced_calls:
  "api_Get (traced api) nn (w, t) =
     (case api_Get api nn w of (r, w') \<Rightarrow> (r, w', t @ [GetEv nn (fst r)]))"
  "api_Update (traced api) cr (w, t) =
     (case api_Update api cr w of (r, w') \<Rightarrow> (r, w', t @ [UpdateEv cr (fst r)]))"
  "api_StatusPatch (traced api) cr orig (w, t) =
     (case api_StatusPatch api cr orig w of (r, w') \<Rightarrow> (r, w', t @ [PatchEv cr orig (fst r)]))"
  "api_Delete (traced api) obj (w, t) =
     (case api_Delete api obj w of (r, w') \<Rightarrow> (r, w', t @ [DeleteEv (object_key obj) r]))"
  "api_CreateOrUpdate (traced api) obj f (w, t) =
     (case api_CreateOrUpdate api obj f w of
        (r, w') \<Rightarrow> (r, w', t @ [ApplyEv (object_key obj) (fst (snd r))]))"
  by (simp_all add: traced_def)

lemma traced_err_Error [simp]: "err_Error (traced api) = err_Error api"
  by (rule ext) (simp add: err_Error_def)

lemma traced_with_owner [simp]:
  "with_owner (traced api) cr get put fill = with_owner api cr get put fill"
  by (rule ext) (simp add: with_owner_def)

lemma traced_children [simp]: "all_children (traced api) cr ls = all_children api cr ls"
  by (simp add: children_lists child_defs)

lemma traced_with_ready [simp]: "with_ready (traced api) = with_ready api"
  by (simp add: with_ready_def fun_eq_iff)

section \<open>Events of the parts\<close>

lemma traced_run_child:
  assumes "run_child (traced api) c (w, t) = (r, w', t')"
  obtains (ok) "r = None" and "t' = t @ [ApplyEv (child_key c) None]"
      and "run_child api c w = (None, w')"
  | (err) e e0 where "r = Some e" and "t' = t @ [ApplyEv (child_key c) (Some e0)]"
      and "run_child api c w = (Some e, w')" and "error_cause e = error_cause e0"
proof -
  obtain op e0 x w1 where call:
    "api_CreateOrUpdate api (ch_object c) (ch_mutate c) w = ((op, e0, x), w1)"
    by (metis prod.exhaust)
  then have run: "create_or_update (traced api) (ch_object c) (ch_mutate c) (w, t) =
      (e0, w1, t @ [ApplyEv (child_key c) e0])"
    and run0: "create_or_update api (ch_object c) (ch_mutate c) w = (e0, w1)"
    by (simp_all add: create_or_update_def traced_def child_key_def)
  show ?thesis
  proof (cases e0)
    case None
    with run run0 assms ok show ?thesis by (auto simp: run_child_def split: option.splits)
  next
    case (Some e)
    with run run0 assms err show ?thesis
      by (auto simp: run_child_def split: option.splits)
  qed
qed

lemma traced_run_all:
  assumes "run_all (map (run_child (traced api)) cs) (w, t) = (r, w', t')"
  obtains (ok) "r = None" and "t' = t @ map (\<lambda>k. ApplyEv k None) (map child_key cs)"
      and "run_all (map (run_child api) cs) w = (None, w')"
  | (err) e pre k post e0 where "r = Some e" and "map child_key cs = pre @ k # post"
      and "t' = t @ map (\<lambda>k. ApplyEv k None) pre @ [ApplyEv k (Some e0)]"
      and "run_all (map (run_child api) cs) w = (Some e, w')"
      and "error_cause e = error_cause e0"
  using assms
proof (induction cs arbitrary: w t thesis)
  case Nil
  then show ?case by simp
next
  case (Cons c cs)
  obtain r1 w1 t1 where one: "run_child (traced api) c (w, t) = (r1, w1, t1)"
    by (metis prod.exhaust)
  from one show ?case
  proof (cases rule: traced_run_child)
    case ok
    with Cons.prems(3) one have rest: "run_all (map (run_child (traced api)) cs) (w1, t1) =
        (r, w', t')"
      by simp
    show ?thesis
    proof (rule Cons.IH [OF _ _ rest])
      assume "r = None" and "t' = t1 @ map (\<lambda>k. ApplyEv k None) (map child_key cs)"
        and "run_all (map (run_child api) cs) w1 = (None, w')"
      with ok show ?thesis by (intro Cons.prems(1)) simp_all
    next
      fix e pre k post e0
      assume "r = Some e" and "map child_key cs = pre @ k # post"
        and "t' = t1 @ map (\<lambda>k. ApplyEv k None) pre @ [ApplyEv k (Some e0)]"
        and "run_all (map (run_child api) cs) w1 = (Some e, w')"
        and "error_cause e = error_cause e0"
      with ok show ?thesis
        by (intro Cons.prems(2) [of e "child_key c # pre" k post e0]) simp_all
    qed
  next
    case (err e e0)
    with Cons.prems(3) one have "r = Some e" "w' = w1" "t' = t1" by simp_all
    with err show ?thesis
      by (intro Cons.prems(2) [of e "[]" "child_key c" "map child_key cs" e0]) simp_all
  qed
qed

lemma traced_setReadyCondition:
  assumes "setReadyCondition (traced api) cr b r m (w, t) = (res, w', t')"
  shows "\<exists>e. t' = t @ [PatchEv (with_ready api cr b r m) cr e] \<and> (res = None \<longleftrightarrow> e = None) \<and>
    setReadyCondition api cr b r m w = (res, w')"
  using assms
  by (auto simp: setReadyCondition_def Let_def traced_calls split: prod.splits option.splits)

text \<open>A deletion that counts as done: no error, or "not found".\<close>

definition deleted :: "('w, 'e) api \<Rightarrow> 'e goerror option \<Rightarrow> bool" where
  "deleted api r \<longleftrightarrow> (case r of None \<Rightarrow> True | Some e \<Rightarrow> api_IsNotFound api e)"

lemma traced_delete_all:
  assumes "delete_all (traced api) objs (w, t) = (r, w', t')"
  shows "delete_all api objs w = (r, w') \<and>
    (\<exists>rs. t' = t @ map2 DeleteEv (take (length rs) (map object_key objs)) rs \<and>
       (case r of
          None \<Rightarrow> length rs = length objs \<and> list_all (deleted api) rs
        | Some e \<Rightarrow> length rs \<le> length objs \<and> rs \<noteq> [] \<and> last rs = Some e \<and>
            \<not> api_IsNotFound api e \<and> list_all (deleted api) (butlast rs)))"
  using assms
proof (induction objs arbitrary: w t)
  case Nil
  then show ?case by simp
next
  case (Cons obj objs)
  obtain d w1 where call: "api_Delete api obj w = (d, w1)" by (cases "api_Delete api obj w")
  then have tcall: "api_Delete (traced api) obj (w, t) = (d, w1, t @ [DeleteEv (object_key obj) d])"
    by (simp add: traced_def)
  show ?case
  proof (cases "deleted api d")
    case True
    with Cons.prems tcall have rest:
      "delete_all (traced api) objs (w1, t @ [DeleteEv (object_key obj) d]) = (r, w', t')"
      by (cases d) (auto simp: deleted_def)
    from True call have "delete_all api (obj # objs) w = delete_all api objs w1"
      by (cases d) (auto simp: deleted_def)
    moreover obtain rs where
      "t' = (t @ [DeleteEv (object_key obj) d]) @
         map2 DeleteEv (take (length rs) (map object_key objs)) rs"
      and "case r of
          None \<Rightarrow> length rs = length objs \<and> list_all (deleted api) rs
        | Some e \<Rightarrow> length rs \<le> length objs \<and> rs \<noteq> [] \<and> last rs = Some e \<and>
            \<not> api_IsNotFound api e \<and> list_all (deleted api) (butlast rs)"
      using Cons.IH [OF rest] by blast
    ultimately show ?thesis
      using True Cons.IH [OF rest] by (intro conjI exI [of _ "d # rs"]) (auto split: option.splits)
  next
    case False
    then obtain e where d: "d = Some e" and nf: "\<not> api_IsNotFound api e"
      by (auto simp: deleted_def split: option.splits)
    with Cons.prems tcall call show ?thesis
      by (intro conjI exI [of _ "[d]"]) auto
  qed
qed

end
