(* ===== verification/Convergence.thy ===== *)
theory Convergence
  imports Trace
begin

text \<open>
  From one child to the whole plan: what a run of all children leaves behind on a lawful API
  server, when their keys are distinct. The per-child facts come from the interpretations of
  \<open>managed_object\<close> and \<open>owned_object\<close>.
\<close>

section \<open>Lists of children\<close>

lemma run_children_frame:
  assumes law: "create_or_update_law api vw" and run: "run_all (map (run_child api) cs) w = (r, w')"
  shows "v_cr vw w' = v_cr vw w \<and>
    (\<forall>k. k \<notin> set (map child_key cs) \<longrightarrow> v_obj vw w' k = v_obj vw w k)"
  using run
proof (induction cs arbitrary: w)
  case Nil
  then show ?case by simp
next
  case (Cons c cs)
  from Cons.prems have "and_then (run_child api c) (run_all (map (run_child api) cs)) w = (r, w')"
    by simp
  then show ?case
  proof (cases rule: and_then_cases)
    case (stop err)
    then show ?thesis using run_child_frame [OF law stop(1)] by simp
  next
    case (go w1)
    then show ?thesis using run_child_frame [OF law go(1)] Cons.IH [OF go(2)] by simp
  qed
qed

text \<open>Each child of a successful run was written once and not touched again.\<close>

lemma run_children_each:
  assumes law: "create_or_update_law api vw" and dist: "distinct (map child_key cs)"
    and run: "run_all (map (run_child api) cs) w = (None, w')" and c: "c \<in> set cs"
  shows "\<exists>w1 w2. run_child api c w1 = (None, w2) \<and>
    v_obj vw w' (child_key c) = v_obj vw w2 (child_key c)"
  using dist run c
proof (induction cs arbitrary: w)
  case Nil
  then show ?case by simp
next
  case (Cons d cs)
  from Cons.prems(2) obtain w1 where one: "run_child api d w = (None, w1)"
    and rest: "run_all (map (run_child api) cs) w1 = (None, w')"
    by (auto elim: and_then_cases)
  show ?case
  proof (cases "c = d")
    case True
    moreover have "child_key d \<notin> set (map child_key cs)" using Cons.prems(1) by simp
    ultimately show ?thesis using one run_children_frame [OF law rest] by metis
  next
    case False
    with Cons.prems(1,3) rest show ?thesis by (intro Cons.IH) simp_all
  qed
qed

lemma settled_run_all:
  assumes law: "create_or_update_law api vw" and st: "\<forall>c \<in> set cs. settled vw w c"
    and run: "run_all (map (run_child api) cs) w = (r, w')"
  shows "v_obj vw w' = v_obj vw w"
  using st run
proof (induction cs arbitrary: w)
  case Nil
  then show ?case by simp
next
  case (Cons c cs)
  from Cons.prems(2) have "and_then (run_child api c) (run_all (map (run_child api) cs)) w = (r, w')"
    by simp
  then show ?case
  proof (cases rule: and_then_cases)
    case (stop err)
    then show ?thesis using settled_run [OF law _ stop(1)] Cons.prems(1) by simp
  next
    case (go w1)
    have same: "v_obj vw w1 = v_obj vw w"
      using settled_run [OF law _ go(1)] Cons.prems(1) by simp
    then have "\<forall>c \<in> set cs. settled vw w1 c"
      using Cons.prems(1) by (simp add: settled_cong [OF same])
    from Cons.IH [OF this go(2)] same show ?thesis by simp
  qed
qed

section \<open>What the plan promises\<close>

definition promises :: "Kubeshark \<Rightarrow> gomap \<Rightarrow> (ObjectKey \<times> (k8s_object \<Rightarrow> bool)) list" where
  "promises cr ls = zip (plan_keys cr)
     [hubConfigMap_desired cr ls, serviceAccount_desired cr ls, hubDeployment_desired cr ls,
      hubService_desired cr ls, workerServiceAccount_desired cr ls, clusterRole_desired cr ls,
      clusterRoleBinding_desired cr ls, worker_desired cr ls, frontendDeployment_desired cr ls,
      frontendService_desired cr ls, frontendIngress_desired cr ls, secret_desired cr ls]"

definition delivers :: "'w view \<Rightarrow> 'w \<Rightarrow> ObjectKey \<times> (k8s_object \<Rightarrow> bool) \<Rightarrow> bool" where
  "delivers vw w p \<longleftrightarrow> (\<exists>y. v_obj vw w (fst p) = Some (v_admit vw y) \<and> object_key y = fst p \<and> snd p y)"

definition child_promises ::
  "('w, 'e) api \<Rightarrow> Kubeshark \<Rightarrow> gomap \<Rightarrow> ('e child \<times> (k8s_object \<Rightarrow> bool)) list" where
  "child_promises api cr ls = zip (all_children api cr ls)
     [hubConfigMap_desired cr ls, serviceAccount_desired cr ls, hubDeployment_desired cr ls,
      hubService_desired cr ls, workerServiceAccount_desired cr ls, clusterRole_desired cr ls,
      clusterRoleBinding_desired cr ls, worker_desired cr ls, frontendDeployment_desired cr ls,
      frontendService_desired cr ls, frontendIngress_desired cr ls, secret_desired cr ls]"

lemma length_all_children: "length (all_children api cr ls) = 12"
  by (simp add: children_lists)

lemma promises_child_promises:
  "promises cr ls = map (\<lambda>(c, P). (child_key c, P)) (child_promises api cr ls)"
  unfolding promises_def child_promises_def all_children_keys [of api cr ls, symmetric]
  by (simp add: zip_map1 children_lists)

lemma child_promise_kept:
  assumes law: "lawful api vw" and c: "(c, P) \<in> set (child_promises api cr ls)"
    and run: "run_child api c w = (None, w')"
  shows "delivers vw w' (child_key c, P)"
proof -
  note conv = hubConfigMap.run_converges hubServiceAccount.run_converges
    hubDeployment.run_converges hubService.run_converges workerServiceAccount.run_converges
    clusterRole.run_converges clusterRoleBinding.run_converges worker.run_converges
    frontendDeployment.run_converges frontendService.run_converges
    frontendIngress.run_converges secret.run_converges
  from c run show ?thesis
    unfolding child_promises_def children_lists delivers_def
    by (auto dest!: conv [OF law])
qed

lemma run_plan_delivers:
  assumes law: "lawful api vw" and dist: "distinct (plan_keys cr)"
    and run: "run_all (map (run_child api) (all_children api cr ls)) w = (None, w')"
  shows "list_all (delivers vw w') (promises cr ls)"
proof -
  have "delivers vw w' (child_key c, P)" if cP: "(c, P) \<in> set (child_promises api cr ls)" for c P
  proof -
    from cP have "c \<in> set (all_children api cr ls)"
      by (auto simp: child_promises_def dest: set_zip_leftD)
    with lawfulD(9) [OF law] dist run obtain w1 w2 where one: "run_child api c w1 = (None, w2)"
      and same: "v_obj vw w' (child_key c) = v_obj vw w2 (child_key c)"
      by (metis all_children_keys run_children_each)
    from child_promise_kept [OF law cP one] same show ?thesis
      by (simp add: delivers_def)
  qed
  then show ?thesis
    by (auto simp: promises_child_promises [of cr ls api] list_all_iff)
qed

lemma child_settles:
  assumes law: "lawful api vw" and adm: "admission (v_admit vw)"
    and same: "same_resource cr cr2" and i: "i < 12"
    and run: "run_child api (all_children api cr ls ! i) w = (None, w')"
  shows "settled vw w' (all_children api cr2 ls ! i)"
proof -
  note st = hubConfigMap.run_settles hubServiceAccount.run_settles hubDeployment.run_settles
    hubService.run_settles workerServiceAccount.run_settles clusterRole.run_settles
    clusterRoleBinding.run_settles worker.run_settles frontendDeployment.run_settles
    frontendService.run_settles frontendIngress.run_settles secret.run_settles
  from i have "i \<in> {0, 1, 2, 3, 4, 5, 6, 7, 8, 9, 10, 11}"
    by (simp add: numeral_eq_Suc less_Suc_eq)
  with run st [OF law adm _ same] show ?thesis
    by (auto simp: children_lists)
qed

lemma run_plan_settles:
  assumes law: "lawful api vw" and adm: "admission (v_admit vw)"
    and dist: "distinct (plan_keys cr)" and same: "same_resource cr cr2"
    and run: "run_all (map (run_child api) (all_children api cr ls)) w = (None, w')"
  shows "\<forall>c \<in> set (all_children api cr2 ls). settled vw w' c"
proof
  fix c assume "c \<in> set (all_children api cr2 ls)"
  then obtain i where i: "i < 12" and c: "c = all_children api cr2 ls ! i"
    by (metis in_set_conv_nth length_all_children)
  let ?d = "all_children api cr ls ! i"
  have "?d \<in> set (all_children api cr ls)" using i by (simp add: length_all_children)
  with lawfulD(9) [OF law] dist run obtain w1 w2 where one: "run_child api ?d w1 = (None, w2)"
    and eq: "v_obj vw w' (child_key ?d) = v_obj vw w2 (child_key ?d)"
    by (metis all_children_keys run_children_each)
  have "plan_keys cr2 = plan_keys cr"
    using same by (simp add: plan_keys_def same_resource_def name_defs)
  then have "map child_key (all_children api cr2 ls) ! i = map child_key (all_children api cr ls) ! i"
    by (simp add: all_children_keys)
  then have "child_key c = child_key ?d"
    using i c by (simp add: length_all_children)
  moreover have "settled vw w2 c"
    unfolding c by (rule child_settles [OF law adm same i one])
  ultimately show "settled vw w' c" using eq by (simp add: settled_def)
qed

section \<open>Two readings of one resource\<close>

lemma same_resource_plan: "same_resource cr c \<Longrightarrow> plan_keys c = plan_keys cr"
  by (simp add: plan_keys_def same_resource_def name_defs)

lemma same_resource_labels: "same_resource cr c \<Longrightarrow> componentLabels c = componentLabels cr"
  by (simp add: same_resource_def componentLabels_def)

lemma same_resource_desired:
  assumes "same_resource cr c"
  shows "hubConfigMap_desired c = hubConfigMap_desired cr"
    and "serviceAccount_desired c = serviceAccount_desired cr"
    and "hubDeployment_desired c = hubDeployment_desired cr"
    and "hubService_desired c = hubService_desired cr"
    and "workerServiceAccount_desired c = workerServiceAccount_desired cr"
    and "clusterRole_desired c = clusterRole_desired cr"
    and "clusterRoleBinding_desired c = clusterRoleBinding_desired cr"
    and "worker_desired c = worker_desired cr"
    and "frontendDeployment_desired c = frontendDeployment_desired cr"
    and "frontendService_desired c = frontendService_desired cr"
    and "frontendIngress_desired c = frontendIngress_desired cr"
    and "secret_desired c = secret_desired cr"
proof -
  from assms have e: "ks_Spec c = ks_Spec cr" "ks_Name c = ks_Name cr"
    "ks_Namespace c = ks_Namespace cr"
    by (simp_all add: same_resource_def)
  note d = name_defs hubConfigMap_desired_def serviceAccount_desired_def hubDeployment_desired_def
    hubService_desired_def workerServiceAccount_desired_def clusterRole_desired_def
    clusterRoleBinding_desired_def worker_desired_def frontendDeployment_desired_def
    frontendService_desired_def frontendIngress_desired_def secret_desired_def
  show "hubConfigMap_desired c = hubConfigMap_desired cr"
    and "serviceAccount_desired c = serviceAccount_desired cr"
    and "hubDeployment_desired c = hubDeployment_desired cr"
    and "hubService_desired c = hubService_desired cr"
    and "workerServiceAccount_desired c = workerServiceAccount_desired cr"
    and "clusterRole_desired c = clusterRole_desired cr"
    and "clusterRoleBinding_desired c = clusterRoleBinding_desired cr"
    and "worker_desired c = worker_desired cr"
    and "frontendDeployment_desired c = frontendDeployment_desired cr"
    and "frontendService_desired c = frontendService_desired cr"
    and "frontendIngress_desired c = frontendIngress_desired cr"
    and "secret_desired c = secret_desired cr"
    by (unfold d e) (rule refl)+
qed

lemma same_resource_promises:
  assumes "same_resource cr c"
  shows "promises c (componentLabels c) = promises cr (componentLabels cr)"
  by (simp only: promises_def same_resource_plan [OF assms] same_resource_labels [OF assms]
      same_resource_desired [OF assms])

section \<open>Ownership\<close>

lemma watched_are_namespaced: "\<forall>k. k \<in> set watched_kinds \<longleftrightarrow> \<not> cluster_scoped k"
  by code_simp

definition owned_in :: "'w view \<Rightarrow> 'w \<Rightarrow> Kubeshark \<Rightarrow> ObjectKey \<Rightarrow> bool" where
  "owned_in vw w cr k \<longleftrightarrow>
     (\<exists>y. v_obj vw w k = Some (v_admit vw y) \<and> controlled_by cr (object_meta y))"

lemma child_owned:
  assumes law: "lawful api vw" and c: "c \<in> set (all_children api cr ls)"
    and ns: "\<not> cluster_scoped (key_kind (child_key c))" and run: "run_child api c w = (None, w')"
  shows "owned_in vw w' cr (child_key c)"
proof -
  note own = hubConfigMap.run_owned hubServiceAccount.run_owned hubDeployment.run_owned
    hubService.run_owned workerServiceAccount.run_owned worker.run_owned
    frontendDeployment.run_owned frontendService.run_owned frontendIngress.run_owned
    secret.run_owned
  have "key_kind (child_key (clusterRole_child api cr ls)) = ClusterRoleKind"
    "key_kind (child_key (clusterRoleBinding_child api cr ls)) = ClusterRoleBindingKind"
    by (simp_all add: child_key_def object_key_def clusterRole_child_def clusterRoleBinding_child_def)
  with c ns run show ?thesis
    unfolding children_lists owned_in_def by (auto dest: own [OF law])
qed

lemma run_plan_owned:
  assumes law: "lawful api vw" and dist: "distinct (plan_keys cr)"
    and run: "run_all (map (run_child api) (all_children api cr ls)) w = (None, w')"
    and k: "k \<in> set (plan_keys cr)" and ns: "\<not> cluster_scoped (key_kind k)"
  shows "owned_in vw w' cr k"
proof -
  from k obtain c where c: "c \<in> set (all_children api cr ls)" and key: "child_key c = k"
    unfolding all_children_keys [of api cr ls, symmetric] by auto
  obtain w1 w2 where one: "run_child api c w1 = (None, w2)"
    and same: "v_obj vw w' (child_key c) = v_obj vw w2 (child_key c)"
    using run_children_each [OF lawfulD(9) [OF law] _ run c] dist all_children_keys by metis
  from child_owned [OF law c _ one] ns key same show ?thesis by (simp add: owned_in_def)
qed

section \<open>One child in the middle of a run\<close>

text \<open>A child that is refused ends the run; what the earlier ones did not write is as it was.\<close>

lemma run_children_stopped:
  assumes law: "create_or_update_law api vw"
    and run: "run_all (map (run_child api) (pre @ c # post)) w = (r, w')"
    and new: "child_key c \<notin> set (map child_key pre)" and x: "v_obj vw w (child_key c) = x"
    and refuse: "\<And>w1 r w2. run_child api c w1 = (r, w2) \<Longrightarrow> v_obj vw w1 (child_key c) = x \<Longrightarrow>
      r \<noteq> None \<and> v_obj vw w2 (child_key c) = x"
  shows "r \<noteq> None \<and> (\<forall>k. k \<notin> set (map child_key pre) \<longrightarrow> v_obj vw w' k = v_obj vw w k)"
  using run new x
proof (induction pre arbitrary: w)
  case Nil
  from Nil.prems(1) have "and_then (run_child api c) (run_all (map (run_child api) post)) w = (r, w')"
    by simp
  then show ?case
  proof (cases rule: and_then_cases)
    case (stop err)
    with refuse [OF stop(1) Nil.prems(3)] run_child_frame(2) [OF law stop(1)] Nil.prems(3) show ?thesis
      by (metis option.distinct(1))
  next
    case (go w1)
    with refuse [OF go(1) Nil.prems(3)] show ?thesis by simp
  qed
next
  case (Cons d pre)
  from Cons.prems(1) have "and_then (run_child api d)
      (run_all (map (run_child api) (pre @ c # post))) w = (r, w')"
    by simp
  then show ?case
  proof (cases rule: and_then_cases)
    case (stop err)
    with run_child_frame(2) [OF law stop(1)] show ?thesis by simp
  next
    case (go w1)
    have same: "v_obj vw w1 k = v_obj vw w k" if "k \<noteq> child_key d" for k
      by (rule run_child_frame(2) [OF law go(1) that])
    have "v_obj vw w1 (child_key c) = x" using same Cons.prems(2,3) by simp
    from Cons.IH [OF go(2) _ this] Cons.prems(2) same show ?thesis by simp
  qed
qed

lemma run_children_split:
  assumes law: "create_or_update_law api vw"
    and run: "run_all (map (run_child api) cs) w = (None, w')" and c: "c \<in> set cs"
    and once: "\<And>d. d \<in> set cs \<Longrightarrow> d \<noteq> c \<Longrightarrow> child_key d \<noteq> child_key c"
  shows "\<exists>w1 w2. run_child api c w1 = (None, w2) \<and> v_obj vw w1 (child_key c) = v_obj vw w (child_key c)"
  using run c once
proof (induction cs arbitrary: w)
  case Nil
  then show ?case by simp
next
  case (Cons d cs)
  from Cons.prems(1) obtain w1 where one: "run_child api d w = (None, w1)"
    and rest: "run_all (map (run_child api) cs) w1 = (None, w')"
    by (auto elim: and_then_cases)
  show ?case
  proof (cases "c = d")
    case True
    with one show ?thesis by blast
  next
    case False
    then have "v_obj vw w1 (child_key c) = v_obj vw w (child_key c)"
      using run_child_frame(2) [OF law one] Cons.prems(3) by (metis list.set_intros(1))
    with False Cons.IH [OF rest] Cons.prems(2,3) show ?thesis by auto
  qed
qed

end
