(* ===== verification/Lifecycle.thy ===== *)
theory Lifecycle
  imports Convergence
begin

text \<open>
  The life of one custom resource as a state machine: passes of the operator over it, interleaved
  with what its users and the API server do. The cluster role and the binding outlive nothing: in
  every reachable state, if one of them exists then so does the resource, and it still carries the
  finalizer that makes the operator remove them. The names of the two objects are fixed here (\<open>R\<close>
  and \<open>B\<close>); what a change of name does is C17.
\<close>

section \<open>Resources kept by an operation\<close>

definition cr_kept :: "'w view \<Rightarrow> 'w \<Rightarrow> 'w \<Rightarrow> bool" where
  "cr_kept vw w w' \<longleftrightarrow> (\<forall>nn. case v_cr vw w nn of
     None \<Rightarrow> v_cr vw w' nn = None
   | Some c \<Rightarrow> (\<exists>c'. v_cr vw w' nn = Some c' \<and> same_spec_meta c c'))"

lemma same_spec_meta_refl [simp]: "same_spec_meta c c"
  by (simp add: same_spec_meta_def)

lemma cr_kept_eq: "v_cr vw w' = v_cr vw w \<Longrightarrow> cr_kept vw w w'"
  by (auto simp: cr_kept_def split: option.splits)

lemma cr_keptD:
  "cr_kept vw w w' \<Longrightarrow> v_cr vw w nn = Some c \<Longrightarrow>
     \<exists>c'. v_cr vw w' nn = Some c' \<and> same_spec_meta c c'"
  by (auto simp: cr_kept_def dest: spec [of _ nn])

lemma cr_kept_back:
  "cr_kept vw w w' \<Longrightarrow> v_cr vw w' nn = Some c' \<Longrightarrow>
     \<exists>c. v_cr vw w nn = Some c \<and> same_spec_meta c c'"
  by (fastforce simp: cr_kept_def dest: spec [of _ nn] split: option.splits)

lemma setReadyCondition_kept:
  assumes "patch_law api vw" and "setReadyCondition api cr b r m w = (res, w')"
  shows "cr_kept vw w w'" and "v_obj vw w' = v_obj vw w"
proof -
  note fr = setReadyCondition_frame [OF assms]
  have "case v_cr vw w nn of None \<Rightarrow> v_cr vw w' nn = None
      | Some c \<Rightarrow> (\<exists>c'. v_cr vw w' nn = Some c' \<and> same_spec_meta c c')" for nn
    using fr(2-4) by (cases "nn = ks_key cr") (auto split: option.splits)
  then show "cr_kept vw w w'" by (simp add: cr_kept_def)
  show "v_obj vw w' = v_obj vw w" by (rule fr(1))
qed

section \<open>The invariant\<close>

definition guarded :: "'w view \<Rightarrow> NamespacedName \<Rightarrow> 'w \<Rightarrow> bool" where
  "guarded vw nn w \<longleftrightarrow> (\<exists>c. v_cr vw w nn = Some c \<and> finalizerName \<in> set (ks_Finalizers c))"

definition named :: "'w view \<Rightarrow> NamespacedName \<Rightarrow> string \<Rightarrow> string \<Rightarrow> 'w \<Rightarrow> bool" where
  "named vw nn R B w \<longleftrightarrow>
     (\<forall>c. v_cr vw w nn = Some c \<longrightarrow> clusterRoleName c = R \<and> clusterRoleBindingName c = B)"

definition cluster_rbac_absent :: "'w view \<Rightarrow> string \<Rightarrow> string \<Rightarrow> 'w \<Rightarrow> bool" where
  "cluster_rbac_absent vw R B w \<longleftrightarrow>
     v_obj vw w (Key ClusterRoleKind '''' R) = None \<and>
     v_obj vw w (Key ClusterRoleBindingKind '''' B) = None"

definition no_orphan :: "'w view \<Rightarrow> NamespacedName \<Rightarrow> string \<Rightarrow> string \<Rightarrow> 'w \<Rightarrow> bool" where
  "no_orphan vw nn R B w \<longleftrightarrow>
     named vw nn R B w \<and> (cluster_rbac_absent vw R B w \<or> guarded vw nn w)"

lemma same_resource_names:
  "same_resource c c' \<Longrightarrow>
     clusterRoleName c' = clusterRoleName c \<and> clusterRoleBindingName c' = clusterRoleBindingName c"
  by (simp add: same_resource_def name_defs)

lemma same_spec_meta_names:
  "same_spec_meta c c' \<Longrightarrow> clusterRoleName c' = clusterRoleName c \<and>
     clusterRoleBindingName c' = clusterRoleBindingName c \<and> ks_Finalizers c' = ks_Finalizers c"
  unfolding same_spec_meta_def using same_resource_names by blast

lemma named_kept: "cr_kept vw w w' \<Longrightarrow> named vw nn R B w \<Longrightarrow> named vw nn R B w'"
  by (auto simp: named_def dest!: cr_kept_back dest: same_spec_meta_names)

lemma guarded_kept: "cr_kept vw w w' \<Longrightarrow> guarded vw nn w \<Longrightarrow> guarded vw nn w'"
  by (auto simp: guarded_def dest!: cr_keptD dest: same_spec_meta_names)

lemma absent_cong: "v_obj vw w' = v_obj vw w \<Longrightarrow>
    cluster_rbac_absent vw R B w' = cluster_rbac_absent vw R B w"
  by (simp add: cluster_rbac_absent_def)

lemma no_orphan_kept:
  "cr_kept vw w w' \<Longrightarrow> v_obj vw w' = v_obj vw w \<Longrightarrow> no_orphan vw nn R B w \<Longrightarrow> no_orphan vw nn R B w'"
  using absent_cong [of vw w' w] by (auto simp: no_orphan_def intro: named_kept guarded_kept)

section \<open>A pass keeps the invariant\<close>

lemma delete_all_cluster_objects:
  assumes law: "delete_law api vw" and run: "delete_all api (cluster_objects cr) w = (None, w')"
  shows "cluster_rbac_absent vw (clusterRoleName cr) (clusterRoleBindingName cr) w'"
proof -
  have "object_key ` set (cluster_objects cr) = set (map object_key (cluster_objects cr))" by simp
  with delete_all_gone [OF law run] show ?thesis
    by (simp add: object_key_cluster_objects cluster_rbac_absent_def)
qed

lemma delete_all_absent:
  assumes law: "delete_law api vw" and run: "delete_all api objs w = (r, w')"
    and abs: "cluster_rbac_absent vw R B w"
  shows "cluster_rbac_absent vw R B w'"
  using delete_all_frame [OF law run] abs unfolding cluster_rbac_absent_def by metis

text \<open>An update of a reading of the resource keeps its names.\<close>

lemma update_named:
  assumes law: "update_law api vw" and call: "api_Update api cr w = (r, w')"
    and nm: "named vw nn R B w"
    and own: "clusterRoleName cr = R" "clusterRoleBindingName cr = B"
  shows "named vw nn R B w'" and "v_obj vw w' = v_obj vw w"
proof -
  obtain err cr' where r: "r = (err, cr')" by (cases r)
  note l = law [unfolded update_law_def, rule_format, OF call [unfolded r]]
  show "v_obj vw w' = v_obj vw w" using l by simp
  show "named vw nn R B w'"
    unfolding named_def
  proof (intro allI impI)
    fix c assume c: "v_cr vw w' nn = Some c"
    show "clusterRoleName c = R \<and> clusterRoleBindingName c = B"
    proof (cases "nn = ks_key cr \<and> v_cr vw w' nn \<noteq> v_cr vw w nn")
      case True
      with l c have "same_spec_meta cr c" by (auto split: if_splits)
      with own show ?thesis by (auto dest: same_spec_meta_names)
    next
      case False
      with l have "v_cr vw w' nn = v_cr vw w nn" by blast
      with c have "v_cr vw w nn = Some c" by simp
      with nm show ?thesis by (simp add: named_def)
    qed
  qed
qed

lemma finalizer_ops:
  assumes "finalizer_laws api"
  shows "clusterRoleName (api_AddFinalizer api cr f) = clusterRoleName cr"
    and "clusterRoleBindingName (api_AddFinalizer api cr f) = clusterRoleBindingName cr"
    and "clusterRoleName (api_RemoveFinalizer api cr f) = clusterRoleName cr"
    and "clusterRoleBindingName (api_RemoveFinalizer api cr f) = clusterRoleBindingName cr"
    and "ks_key (api_AddFinalizer api cr f) = ks_key cr"
    and "ks_key (api_RemoveFinalizer api cr f) = ks_key cr"
  using assms by (simp_all add: finalizer_laws_def name_defs ks_key_def)

lemma reconcileDelete_no_orphan:
  assumes law: "lawful api vw" and inv: "no_orphan vw nn R B w"
    and cr: "v_cr vw w nn = Some cr"
    and run: "reconcileDelete api cr w = ((res, cr'), w')"
  shows "no_orphan vw nn R B w'"
proof -
  note laws = lawfulD [OF law]
  from inv cr have own: "clusterRoleName cr = R" "clusterRoleBindingName cr = B"
    and nm: "named vw nn R B w"
    by (auto simp: no_orphan_def named_def)
  show ?thesis
  proof (cases "api_ContainsFinalizer api cr finalizerName")
    case False
    with run inv show ?thesis by (simp add: reconcileDelete_def)
  next
    case True
    then have fin: "guarded vw nn w"
      using laws(2) cr by (auto simp: finalizer_laws_def guarded_def)
    obtain d w1 where del: "delete_all api (cluster_objects cr) w = (d, w1)"
      by (cases "delete_all api (cluster_objects cr) w")
    have kept: "cr_kept vw w w1"
      using delete_all_frame [OF laws(8) del] by (simp add: cr_kept_eq)
    note nm1 = named_kept [OF kept nm] and fin1 = guarded_kept [OF kept fin]
    show ?thesis
    proof (cases d)
      case (Some e)
      with run True del have "w' = w1" by (simp add: reconcileDelete_def)
      with nm1 fin1 show ?thesis by (simp add: no_orphan_def)
    next
      case None
      with run True del have up:
        "api_Update api (api_RemoveFinalizer api cr finalizerName) w1 = ((res, cr'), w')"
        by (simp add: reconcileDelete_def)
      have "cluster_rbac_absent vw R B w1"
        using delete_all_cluster_objects [OF laws(8)] del None own by auto
      moreover have "named vw nn R B w'" and "v_obj vw w' = v_obj vw w1"
        by (rule update_named [OF laws(6) up nm1]; simp add: own finalizer_ops [OF laws(2)])+
      ultimately show ?thesis
        by (simp add: no_orphan_def absent_cong [of vw w' w1])
    qed
  qed
qed

lemma Reconcile_no_orphan:
  assumes law: "lawful api vw" and inv: "no_orphan vw nn R B w"
    and run: "Reconcile api nn w = (r, w')"
  shows "no_orphan vw nn R B w'"
proof -
  note laws = lawfulD [OF law]
  obtain res err where r: "r = (res, err)" by (cases r)
  have start: "no_orphan vw nn R B w1 \<and> v_cr vw w1 nn = Some cr"
    if "api_Get api nn w = ((None, cr), w1)" for cr w1
    using get_lawD [OF laws(5) that] no_orphan_kept [OF cr_kept_eq _ inv] by simp
  have ready: "no_orphan vw nn R B w2"
    if "setReadyCondition api c b m x w1 = (s, w2)" and "no_orphan vw nn R B w1" for c b m x w1 s w2
    by (rule no_orphan_kept [OF setReadyCondition_kept [OF laws(7) that(1)] that(2)])
  have children: "no_orphan vw nn R B w2"
    if "run_all (map (run_child api) cs) w1 = (s, w2)" and "v_cr vw w1 nn = Some cr"
      and "api_ContainsFinalizer api cr finalizerName" and "no_orphan vw nn R B w1"
    for cs w1 s w2 cr
  proof -
    have "guarded vw nn w1"
      using that(2,3) laws(2) by (auto simp: guarded_def finalizer_laws_def)
    moreover have "cr_kept vw w1 w2"
      using run_children_frame [OF laws(9) that(1)] by (simp add: cr_kept_eq)
    ultimately show ?thesis
      using that(4) by (auto simp: no_orphan_def intro: named_kept guarded_kept)
  qed
  from run [unfolded r] show ?thesis
  proof (cases rule: Reconcile_cases)
    case (read_failed e cr)
    then show ?thesis
      using get_lawD(1,2) [OF laws(5) read_failed(1)] no_orphan_kept [OF cr_kept_eq _ inv] by simp
  next
    case (deleting_done cr w1 cr')
    then show ?thesis using start reconcileDelete_no_orphan [OF law] by blast
  next
    case (deleting_failed cr w1 e cr' w2 s)
    then show ?thesis using start ready reconcileDelete_no_orphan [OF law] by blast
  next
    case (adding cr w1 cr')
    from start [OF adding(1)] have inv1: "no_orphan vw nn R B w1" and c: "v_cr vw w1 nn = Some cr"
      by auto
    from adding(3) c laws(2) have "\<not> guarded vw nn w1"
      by (simp add: finalizer_laws_def guarded_def)
    with inv1 have abs: "cluster_rbac_absent vw R B w1" and nm: "named vw nn R B w1"
      by (auto simp: no_orphan_def)
    from nm c have own: "clusterRoleName cr = R" "clusterRoleBindingName cr = B"
      by (auto simp: named_def)
    have "named vw nn R B w'" and "v_obj vw w' = v_obj vw w1"
      by (rule update_named [OF laws(6) adding(4) nm]; simp add: own finalizer_ops [OF laws(2)])+
    with abs show ?thesis
      by (simp add: no_orphan_def absent_cong [of vw w' w1])
  next
    case (step_failed cr w1 e w2 s)
    then show ?thesis using start children ready by blast
  next
    case (applied cr w1 w2)
    then show ?thesis using start children ready by blast
  qed
qed

section \<open>Reachable states\<close>

text \<open>
  What the operator relies on others for. They may do anything to the rest of the world, and they may
  change or delete the two cluster-scoped objects, but they do not make them (no other resource or
  user uses these names); they create the resource with these two names and do not change the names
  by an edit; and they do not take the operator's finalizer off. A resource without the finalizer
  may vanish. What happens when a name is changed is a property of its own.
\<close>

definition not_made :: "'w view \<Rightarrow> string \<Rightarrow> string \<Rightarrow> 'w \<Rightarrow> 'w \<Rightarrow> bool" where
  "not_made vw R B w w' \<longleftrightarrow>
     (\<forall>k \<in> {Key ClusterRoleKind '''' R, Key ClusterRoleBindingKind '''' B}.
        v_obj vw w k = None \<longrightarrow> v_obj vw w' k = None)"

inductive user_step ::
  "'w view \<Rightarrow> NamespacedName \<Rightarrow> string \<Rightarrow> string \<Rightarrow> 'w \<Rightarrow> 'w \<Rightarrow> bool"
  for vw nn R B where
  elsewhere: "not_made vw R B w w' \<Longrightarrow> v_cr vw w' nn = v_cr vw w nn \<Longrightarrow> user_step vw nn R B w w'"
| create: "not_made vw R B w w' \<Longrightarrow> v_cr vw w nn = None \<Longrightarrow> v_cr vw w' nn = Some c \<Longrightarrow>
    clusterRoleName c = R \<Longrightarrow> clusterRoleBindingName c = B \<Longrightarrow> user_step vw nn R B w w'"
| edit: "not_made vw R B w w' \<Longrightarrow> v_cr vw w nn = Some c \<Longrightarrow> v_cr vw w' nn = Some c' \<Longrightarrow>
    finalizerName \<in> set (ks_Finalizers c) \<longrightarrow> finalizerName \<in> set (ks_Finalizers c') \<Longrightarrow>
    clusterRoleName c' = R \<Longrightarrow> clusterRoleBindingName c' = B \<Longrightarrow> user_step vw nn R B w w'"
| collect: "not_made vw R B w w' \<Longrightarrow> v_cr vw w nn = Some c \<Longrightarrow>
    finalizerName \<notin> set (ks_Finalizers c) \<Longrightarrow> v_cr vw w' nn = None \<Longrightarrow> user_step vw nn R B w w'"

inductive_cases user_stepE: "user_step vw nn R B w w'"

inductive reachable ::
  "('w, 'e) api \<Rightarrow> 'w view \<Rightarrow> NamespacedName \<Rightarrow> string \<Rightarrow> string \<Rightarrow> 'w \<Rightarrow> bool"
  for api vw nn R B where
  start: "v_cr vw w nn = None \<Longrightarrow> cluster_rbac_absent vw R B w \<Longrightarrow> reachable api vw nn R B w"
| pass: "reachable api vw nn R B w \<Longrightarrow> Reconcile api nn w = (r, w') \<Longrightarrow> reachable api vw nn R B w'"
| user: "reachable api vw nn R B w \<Longrightarrow> user_step vw nn R B w w' \<Longrightarrow> reachable api vw nn R B w'"

lemma user_step_no_orphan:
  "user_step vw nn R B w w' \<Longrightarrow> no_orphan vw nn R B w \<Longrightarrow> no_orphan vw nn R B w'"
  by (erule user_stepE)
     (auto simp: not_made_def no_orphan_def named_def guarded_def cluster_rbac_absent_def)

lemma reachable_no_orphan:
  assumes "lawful api vw" and "reachable api vw nn R B w"
  shows "no_orphan vw nn R B w"
  using assms(2)
proof (induction rule: reachable.induct)
  case (start w)
  then show ?case by (simp add: no_orphan_def named_def)
next
  case (pass w r w')
  then show ?case by (blast intro: Reconcile_no_orphan [OF assms(1)])
next
  case (user w w')
  then show ?case by (blast intro: user_step_no_orphan)
qed

end
