(* ===== verification/Liveness.thy ===== *)
theory Liveness
  imports Lifecycle
begin

text \<open>
  When a pass succeeds. \<open>prompt\<close> is an API server without faults: a call fails only for a reason
  that lies in the objects. The reasons a server has to refuse an object (validation, fields that
  cannot change, the check that a role grants nothing its author lacks) are a parameter \<open>accepts\<close>, a
  predicate on the stored object and the submitted one. \<open>unclaimed\<close> says that no object of the plan
  already has another controller. Under these, a pass over a resource with the finalizer whose
  objects are accepted ends without error, and a new resource is fully reconciled by its second pass.
  A deletion pass submits no object and needs the answers only (\<open>prompt_calls\<close>).
\<close>

section \<open>A server without faults\<close>

definition ours_meta :: "Kubeshark \<Rightarrow> ObjectMeta \<Rightarrow> bool" where
  "ours_meta cr m \<longleftrightarrow> list_all (\<lambda>r. or_Controller r \<longrightarrow> or_UID r = om_UID (ks_ObjectMeta cr))
     (om_OwnerReferences m)"

definition ours :: "Kubeshark \<Rightarrow> k8s_object \<Rightarrow> bool" where
  "ours cr x \<longleftrightarrow> ours_meta cr (object_meta x)"

text \<open>
  An update that is not out of date: it differs from the stored resource in the finalizers only, and
  adds none to a resource that is being deleted.
\<close>

definition finalizer_edit :: "Kubeshark \<Rightarrow> Kubeshark \<Rightarrow> bool" where
  "finalizer_edit c cr \<longleftrightarrow>
     cr = c\<lparr>ks_ObjectMeta := (ks_ObjectMeta c)\<lparr>om_Finalizers := ks_Finalizers cr\<rparr>\<rparr> \<and>
     (ks_DeletionTimestamp c = None \<or> set (ks_Finalizers cr) \<subseteq> set (ks_Finalizers c))"

definition prompt_calls :: "('w, 'e) api \<Rightarrow> 'w view \<Rightarrow> bool" where
  "prompt_calls api vw \<longleftrightarrow>
     (\<forall>nn w cr. v_cr vw w nn = Some cr \<longrightarrow> fst (fst (api_Get api nn w)) = None) \<and>
     (\<forall>c cr w. v_cr vw w (ks_key cr) = Some c \<and> finalizer_edit c cr \<longrightarrow>
        fst (fst (api_Update api cr w)) = None) \<and>
     (\<forall>cr orig w. v_cr vw w (ks_key cr) \<noteq> None \<longrightarrow>
        fst (fst (api_StatusPatch api cr orig w)) = None) \<and>
     (\<forall>obj w e w'. api_Delete api obj w = (Some e, w') \<longrightarrow> api_IsNotFound api e)"

type_synonym policy = "k8s_object option \<Rightarrow> k8s_object \<Rightarrow> bool"

definition prompt_apply :: "('w, 'e) api \<Rightarrow> 'w view \<Rightarrow> policy \<Rightarrow> bool" where
  "prompt_apply api vw accepts \<longleftrightarrow>
     (\<forall>obj f w y. f (cou_base vw w obj) = (None, y) \<and> object_key y = object_key obj \<and>
        accepts (v_obj vw w (object_key obj)) y \<longrightarrow>
        fst (snd (fst (api_CreateOrUpdate api obj f w))) = None)"

definition prompt_owner :: "('w, 'e) api \<Rightarrow> bool" where
  "prompt_owner api \<longleftrightarrow>
     (\<forall>cr m. ours_meta cr m \<and> om_Namespace m = ks_Namespace cr \<longrightarrow>
        fst (api_SetControllerReference api cr m) = None)"

definition prompt :: "('w, 'e) api \<Rightarrow> 'w view \<Rightarrow> policy \<Rightarrow> bool" where
  "prompt api vw accepts \<longleftrightarrow> prompt_calls api vw \<and> prompt_apply api vw accepts \<and> prompt_owner api"

lemma promptD:
  assumes "prompt api vw accepts"
  shows "prompt_calls api vw" and "prompt_apply api vw accepts" and "prompt_owner api"
  using assms by (simp_all add: prompt_def)

lemma prompt_callsD:
  assumes "prompt_calls api vw"
  shows "v_cr vw w nn = Some cr \<Longrightarrow> fst (fst (api_Get api nn w)) = None"
    and "v_cr vw w (ks_key cr) = Some c \<Longrightarrow> finalizer_edit c cr \<Longrightarrow>
      fst (fst (api_Update api cr w)) = None"
    and "v_cr vw w (ks_key cr) \<noteq> None \<Longrightarrow> fst (fst (api_StatusPatch api cr orig w)) = None"
    and "api_Delete api obj w = (Some e, w') \<Longrightarrow> api_IsNotFound api e"
  using assms unfolding prompt_calls_def by blast+

definition unclaimed :: "'w view \<Rightarrow> Kubeshark \<Rightarrow> 'w \<Rightarrow> bool" where
  "unclaimed vw cr w \<longleftrightarrow>
     (\<forall>k \<in> set (plan_keys cr). \<forall>x. v_obj vw w k = Some x \<longrightarrow> ours cr x)"

text \<open>What a child submits in a world, and that it is accepted.\<close>

definition submitted :: "'w view \<Rightarrow> 'w \<Rightarrow> 'e child \<Rightarrow> k8s_object" where
  "submitted vw w c = snd (ch_mutate c (cou_base vw w (ch_object c)))"

definition acceptable :: "'w view \<Rightarrow> policy \<Rightarrow> 'w \<Rightarrow> 'e child \<Rightarrow> bool" where
  "acceptable vw accepts w c \<longleftrightarrow> accepts (v_obj vw w (child_key c)) (submitted vw w c)"

lemma acceptable_cong:
  assumes "v_obj vw w' (child_key c) = v_obj vw w (child_key c)"
  shows "acceptable vw accepts w' c = acceptable vw accepts w c"
  using assms by (simp add: acceptable_def submitted_def cou_base_def child_key_def)

section \<open>Children that cannot fail\<close>

definition willing :: "Kubeshark \<Rightarrow> 'e child \<Rightarrow> bool" where
  "willing cr c \<longleftrightarrow> ours cr (ch_object c) \<and>
     (\<forall>x. object_key x = object_key (ch_object c) \<and> ours cr x \<longrightarrow>
        (\<exists>y. ch_mutate c x = (None, y) \<and> object_key y = object_key x))"

lemma willing_ownerI:
  assumes pr: "prompt_owner api" and ow: "owner_laws api"
    and lift: "\<And>x. ch_mutate c (C x) = map_prod id C (with_owner api cr get put fill x)"
    and surj: "\<And>z. object_kind z = object_kind (ch_object c) \<Longrightarrow> \<exists>x. z = C x"
    and kind: "\<And>x. object_kind (C x) = object_kind (ch_object c)"
    and meta: "\<And>x. object_meta (C x) = get x"
    and fl: "owner_fill get put fill" and init: "om_OwnerReferences (object_meta (ch_object c)) = []"
    and scope: "\<not> cluster_scoped (object_kind (ch_object c))"
    and ns: "om_Namespace (object_meta (ch_object c)) = ks_Namespace cr"
  shows "willing cr c"
proof -
  have "\<exists>y. ch_mutate c z = (None, y) \<and> object_key y = object_key z"
    if key: "object_key z = object_key (ch_object c)" and us: "ours cr z" for z
  proof -
    from surj [OF object_key_kind [OF key]] obtain x where z: "z = C x" ..
    have "ours_meta cr (get x) \<and> om_Namespace (get x) = ks_Namespace cr"
      using us key scope ns by (simp add: ours_def z meta kind object_key_def)
    then obtain m where scr: "api_SetControllerReference api cr (get x) = (None, m)"
      using pr unfolding prompt_owner_def by (metis prod.collapse)
    have run: "with_owner api cr get put fill x = (None, fill (put m x))"
      using scr by (simp add: with_owner_def)
    with with_owner_effect(1,2) [OF ow fl run] show ?thesis
      by (simp add: z lift meta kind object_key_def)
  qed
  with init show ?thesis by (simp add: willing_def ours_def ours_meta_def)
qed

lemma willing_clusterI:
  assumes "\<And>x. object_kind x = object_kind (ch_object c) \<Longrightarrow>
      \<exists>y. ch_mutate c x = (None, y) \<and> object_key y = object_key x"
    and "om_OwnerReferences (object_meta (ch_object c)) = []"
  shows "willing cr c"
  unfolding willing_def
proof (intro conjI allI impI)
  show "ours cr (ch_object c)" using assms(2) by (simp add: ours_def ours_meta_def)
  show "\<exists>y. ch_mutate c x = (None, y) \<and> object_key y = object_key x"
    if "object_key x = object_key (ch_object c) \<and> ours cr x" for x
    using that assms(1) object_key_kind by blast
qed

lemma willing_hubConfigMap:
  "prompt_owner api \<Longrightarrow> owner_laws api \<Longrightarrow> willing cr (hubConfigMap_child api cr ls)"
  by (rule willing_ownerI [where C = ConfigMapObj and fill = "hubConfigMap_fill cr ls"
        and get = cm_ObjectMeta and put = "\<lambda>m x. x\<lparr>cm_ObjectMeta := m\<rparr>"])
     (auto simp: child_defs on_defs owner_fill_def zero_defs elim: object_kind_elims)

lemma willing_hubServiceAccount:
  "prompt_owner api \<Longrightarrow> owner_laws api \<Longrightarrow> willing cr (hubServiceAccount_child api cr ls)"
  by (rule willing_ownerI [where C = ServiceAccountObj and fill = "hubServiceAccount_fill cr ls"
        and get = sa_ObjectMeta and put = "\<lambda>m x. x\<lparr>sa_ObjectMeta := m\<rparr>"])
     (auto simp: child_defs on_defs owner_fill_def zero_defs elim: object_kind_elims)

lemma willing_hubDeployment:
  "prompt_owner api \<Longrightarrow> owner_laws api \<Longrightarrow> willing cr (hubDeployment_child api cr ls)"
  by (rule willing_ownerI [where C = DeploymentObj and fill = "hubDeployment_fill cr ls"
        and get = dep_ObjectMeta and put = "\<lambda>m x. x\<lparr>dep_ObjectMeta := m\<rparr>"])
     (auto simp: child_defs on_defs owner_fill_def zero_defs elim: object_kind_elims)

lemma willing_hubService:
  "prompt_owner api \<Longrightarrow> owner_laws api \<Longrightarrow> willing cr (hubService_child api cr ls)"
  by (rule willing_ownerI [where C = ServiceObj and fill = "hubService_fill cr ls"
        and get = svc_ObjectMeta and put = "\<lambda>m x. x\<lparr>svc_ObjectMeta := m\<rparr>"])
     (auto simp: child_defs on_defs owner_fill_def zero_defs elim: object_kind_elims)

lemma willing_workerServiceAccount:
  "prompt_owner api \<Longrightarrow> owner_laws api \<Longrightarrow> willing cr (workerServiceAccount_child api cr ls)"
  by (rule willing_ownerI [where C = ServiceAccountObj and fill = "workerServiceAccount_fill cr ls"
        and get = sa_ObjectMeta and put = "\<lambda>m x. x\<lparr>sa_ObjectMeta := m\<rparr>"])
     (auto simp: child_defs on_defs owner_fill_def zero_defs elim: object_kind_elims)

lemma willing_worker:
  "prompt_owner api \<Longrightarrow> owner_laws api \<Longrightarrow> willing cr (worker_child api cr ls)"
  by (rule willing_ownerI [where C = DaemonSetObj and fill = "worker_fill cr ls"
        and get = dmn_ObjectMeta and put = "\<lambda>m x. x\<lparr>dmn_ObjectMeta := m\<rparr>"])
     (auto simp: child_defs on_defs owner_fill_def zero_defs elim: object_kind_elims)

lemma willing_frontendDeployment:
  "prompt_owner api \<Longrightarrow> owner_laws api \<Longrightarrow> willing cr (frontendDeployment_child api cr ls)"
  by (rule willing_ownerI [where C = DeploymentObj and fill = "frontendDeployment_fill cr ls"
        and get = dep_ObjectMeta and put = "\<lambda>m x. x\<lparr>dep_ObjectMeta := m\<rparr>"])
     (auto simp: child_defs on_defs owner_fill_def zero_defs elim: object_kind_elims)

lemma willing_frontendService:
  "prompt_owner api \<Longrightarrow> owner_laws api \<Longrightarrow> willing cr (frontendService_child api cr ls)"
  by (rule willing_ownerI [where C = ServiceObj and fill = "frontendService_fill cr ls"
        and get = svc_ObjectMeta and put = "\<lambda>m x. x\<lparr>svc_ObjectMeta := m\<rparr>"])
     (auto simp: child_defs on_defs owner_fill_def zero_defs elim: object_kind_elims)

lemma willing_frontendIngress:
  "prompt_owner api \<Longrightarrow> owner_laws api \<Longrightarrow> willing cr (frontendIngress_child api cr ls)"
  by (rule willing_ownerI [where C = IngressObj and fill = "frontendIngress_fill cr ls"
        and get = ing_ObjectMeta and put = "\<lambda>m x. x\<lparr>ing_ObjectMeta := m\<rparr>"])
     (auto simp: child_defs on_defs owner_fill_def zero_defs elim: object_kind_elims)

lemma willing_secret:
  "prompt_owner api \<Longrightarrow> owner_laws api \<Longrightarrow> willing cr (secret_child api cr ls)"
  by (rule willing_ownerI [where C = SecretObj and fill = "secret_fill cr ls"
        and get = sec_ObjectMeta and put = "\<lambda>m x. x\<lparr>sec_ObjectMeta := m\<rparr>"])
     (auto simp: secret_defs on_defs zero_defs secret_owner_fill elim: object_kind_elims)

lemma willing_clusterRole: "willing cr (clusterRole_child api cr ls)"
  by (rule willing_clusterI)
     (auto simp: child_defs on_defs Let_def object_key_def zero_defs dest!: object_kind_elims(8))

lemma willing_clusterRoleBinding: "willing cr (clusterRoleBinding_child api cr ls)"
  by (rule willing_clusterI)
     (auto simp: child_defs on_defs Let_def object_key_def zero_defs dest!: object_kind_elims(9))

lemma willing_children:
  assumes "prompt_owner api" and "owner_laws api"
  shows "\<forall>c \<in> set (all_children api cr ls). willing cr c"
  unfolding children_lists
  by (simp add: willing_hubConfigMap [OF assms] willing_hubServiceAccount [OF assms]
      willing_hubDeployment [OF assms] willing_hubService [OF assms]
      willing_workerServiceAccount [OF assms] willing_worker [OF assms]
      willing_frontendDeployment [OF assms] willing_frontendService [OF assms]
      willing_frontendIngress [OF assms] willing_secret [OF assms]
      willing_clusterRole willing_clusterRoleBinding)

section \<open>Runs\<close>

lemma prompt_run_child:
  assumes law: "lawful api vw" and pr: "prompt api vw accepts" and wl: "willing cr c"
    and us: "\<And>x. v_obj vw w (child_key c) = Some x \<Longrightarrow> ours cr x"
    and ok: "acceptable vw accepts w c"
  obtains w' where "run_child api c w = (None, w')"
proof -
  note laws = lawfulD [OF law]
  let ?b = "cou_base vw w (ch_object c)"
  have key: "object_key ?b = object_key (ch_object c)" by (rule cou_base_key [OF laws(10)])
  have "ours cr (ch_object c)" using wl by (simp add: willing_def)
  with us have "ours cr ?b"
    by (auto simp: cou_base_def child_key_def split: option.split)
  with wl key obtain y where y: "ch_mutate c ?b = (None, y)" and ky: "object_key y = object_key ?b"
    unfolding willing_def by blast
  have "accepts (v_obj vw w (object_key (ch_object c))) y"
    using ok y by (simp add: acceptable_def submitted_def child_key_def)
  then have "fst (snd (fst (api_CreateOrUpdate api (ch_object c) (ch_mutate c) w))) = None"
    using promptD(2) [OF pr] y ky key unfolding prompt_apply_def by metis
  then obtain op x w' where
    "api_CreateOrUpdate api (ch_object c) (ch_mutate c) w = ((op, None, x), w')"
    by (metis prod.collapse)
  then have "run_child api c w = (None, w')"
    by (simp add: run_child_def create_or_update_def wrap_err_def split: option.split)
  then show ?thesis by (rule that)
qed

lemma prompt_run_all:
  assumes law: "lawful api vw" and pr: "prompt api vw accepts"
    and "\<forall>c \<in> set cs. willing cr c \<and> acceptable vw accepts w c"
    and "\<forall>k \<in> set (map child_key cs). \<forall>x. v_obj vw w k = Some x \<longrightarrow> ours cr x"
    and "distinct (map child_key cs)"
  shows "\<exists>w'. run_all (map (run_child api) cs) w = (None, w')"
  using assms(3-)
proof (induction cs arbitrary: w)
  case Nil
  then show ?case by simp
next
  case (Cons c cs)
  obtain w1 where run: "run_child api c w = (None, w1)"
    by (rule prompt_run_child [OF law pr, of cr c w]) (use Cons.prems in auto)
  have same: "v_obj vw w1 k = v_obj vw w k" if "k \<in> set (map child_key cs)" for k
  proof (rule run_child_frame(2) [OF lawfulD(9) [OF law] run])
    show "k \<noteq> child_key c" using that Cons.prems(3) unfolding list.map(2) distinct.simps(2) by blast
  qed
  then have "\<forall>d \<in> set cs. willing cr d \<and> acceptable vw accepts w1 d"
    using Cons.prems(1) by (simp add: acceptable_cong [where w' = w1 and w = w])
  with Cons.IH [of w1] Cons.prems(2,3) same run show ?case by simp
qed

lemma prompt_setReady:
  assumes "prompt_calls api vw" and "v_cr vw w (ks_key cr) \<noteq> None"
  obtains w' where "setReadyCondition api cr b r m w = (None, w')"
proof -
  have "fst (fst (api_StatusPatch api (with_ready api cr b r m) cr w)) = None"
    using assms by (intro prompt_callsD(3) [OF assms(1)]) simp
  then obtain cr' w' where
    "api_StatusPatch api (with_ready api cr b r m) cr w = ((None, cr'), w')"
    by (metis prod.collapse)
  then have "setReadyCondition api cr b r m w = (None, w')"
    by (simp add: setReadyCondition_def Let_def)
  then show ?thesis by (rule that)
qed

section \<open>Passes\<close>

lemma prompt_get:
  assumes "lawful api vw" and "prompt_calls api vw" and "v_cr vw w nn = Some cr"
  obtains w1 where "api_Get api nn w = ((None, cr), w1)" and "v_cr vw w1 = v_cr vw w"
    and "v_obj vw w1 = v_obj vw w" and "ks_key cr = nn"
proof -
  have "fst (fst (api_Get api nn w)) = None"
    by (rule prompt_callsD(1) [OF assms(2,3)])
  then obtain c w1 where get: "api_Get api nn w = ((None, c), w1)"
    by (metis prod.collapse)
  note g = get_lawD [OF lawfulD(5) [OF assms(1)] get]
  from g assms(3) have "c = cr" by simp
  with get g that show ?thesis by simp
qed

lemma prompt_pass:
  assumes law: "lawful api vw" and pr: "prompt api vw accepts"
    and cr: "v_cr vw w nn = Some cr" and del: "ks_DeletionTimestamp cr = None"
    and fin: "finalizerName \<in> set (ks_Finalizers cr)" and us: "unclaimed vw cr w"
    and dist: "distinct (plan_keys cr)"
    and ok: "list_all (acceptable vw accepts w) (all_children api cr (componentLabels cr))"
  obtains w' where "Reconcile api nn w = ((empty_Result, None), w')"
proof -
  note laws = lawfulD [OF law]
  obtain w1 where get: "api_Get api nn w = ((None, cr), w1)" and crs: "v_cr vw w1 = v_cr vw w"
    and objs: "v_obj vw w1 = v_obj vw w" and key: "ks_key cr = nn"
    by (rule prompt_get [OF law promptD(1) [OF pr] cr])
  have z: "api_IsZero api (ks_DeletionTimestamp cr)"
    and f: "api_ContainsFinalizer api cr finalizerName"
    using laws(2) del fin by (simp_all add: finalizer_laws_def)
  have "\<exists>w2. run_all (map (run_child api) (all_children api cr (componentLabels cr))) w1 = (None, w2)"
  proof (rule prompt_run_all [OF law pr])
    show "\<forall>c \<in> set (all_children api cr (componentLabels cr)).
        willing cr c \<and> acceptable vw accepts w1 c"
      using willing_children [OF promptD(3) [OF pr] laws(3)] ok objs
      by (simp add: list_all_iff acceptable_cong [where w' = w1 and w = w])
    show "\<forall>k \<in> set (map child_key (all_children api cr (componentLabels cr))).
        \<forall>x. v_obj vw w1 k = Some x \<longrightarrow> ours cr x"
      using us by (simp only: all_children_keys objs unclaimed_def)
    show "distinct (map child_key (all_children api cr (componentLabels cr)))"
      using dist by (simp add: all_children_keys)
  qed
  then obtain w2 where run:
    "run_all (map (run_child api) (all_children api cr (componentLabels cr))) w1 = (None, w2)" ..
  have "v_cr vw w2 (ks_key cr) \<noteq> None"
    using run_children_frame [OF laws(9) run] crs cr key by simp
  then obtain w' where "setReadyCondition api cr True ''Reconciled''
      ''All components reconciled'' w2 = (None, w')"
    by (rule prompt_setReady [OF promptD(1) [OF pr]])
  with get z f run have "Reconcile api nn w = ((empty_Result, None), w')"
    by (simp add: Reconcile_def Let_def run_steps_children)
  then show ?thesis by (rule that)
qed

lemma prompt_delete_all:
  assumes "prompt_calls api vw"
  obtains w' where "delete_all api objs w = (None, w')"
proof -
  have "\<exists>w'. delete_all api objs w = (None, w')"
  proof (induction objs arbitrary: w)
    case Nil
    then show ?case by simp
  next
    case (Cons obj objs)
    obtain r w1 where "api_Delete api obj w = (r, w1)" by (cases "api_Delete api obj w")
    moreover have "api_IsNotFound api e" if "api_Delete api obj w = (Some e, w1)" for e
      by (rule prompt_callsD(4) [OF assms that])
    ultimately show ?case using Cons [of w1] by (cases r) auto
  qed
  then show ?thesis using that by blast
qed

lemma prompt_delete_pass:
  assumes law: "lawful api vw" and pr: "prompt_calls api vw"
    and cr: "v_cr vw w nn = Some cr" and del: "ks_DeletionTimestamp cr \<noteq> None"
    and fin: "finalizerName \<in> set (ks_Finalizers cr)"
  obtains w' where "Reconcile api nn w = ((empty_Result, None), w')"
proof -
  note laws = lawfulD [OF law]
  obtain w1 where get: "api_Get api nn w = ((None, cr), w1)" and crs: "v_cr vw w1 = v_cr vw w"
    and key: "ks_key cr = nn"
    by (rule prompt_get [OF law pr cr])
  have z: "\<not> api_IsZero api (ks_DeletionTimestamp cr)"
    and f: "api_ContainsFinalizer api cr finalizerName"
    using laws(2) del fin by (simp_all add: finalizer_laws_def)
  obtain w2 where run: "delete_all api (cluster_objects cr) w1 = (None, w2)"
    by (rule prompt_delete_all [OF pr])
  have "v_cr vw w2 (ks_key (api_RemoveFinalizer api cr finalizerName)) = Some cr"
    using delete_all_frame [OF laws(8) run] crs cr key by (simp add: finalizer_ops [OF laws(2)])
  moreover have "finalizer_edit cr (api_RemoveFinalizer api cr finalizerName)"
    using laws(2) by (auto simp: finalizer_edit_def finalizer_laws_def)
  ultimately have "fst (fst (api_Update api (api_RemoveFinalizer api cr finalizerName) w2)) = None"
    by (rule prompt_callsD(2) [OF pr])
  then obtain c w' where "api_Update api (api_RemoveFinalizer api cr finalizerName) w2 =
      ((None, c), w')"
    by (metis prod.collapse)
  with get z f run have "Reconcile api nn w = ((empty_Result, None), w')"
    by (simp add: Reconcile_def reconcileDelete_def)
  then show ?thesis by (rule that)
qed

lemma prompt_first_pass:
  assumes law: "lawful api vw" and pr: "prompt_calls api vw"
    and cr: "v_cr vw w nn = Some cr" and del: "ks_DeletionTimestamp cr = None"
    and fin: "finalizerName \<notin> set (ks_Finalizers cr)"
  obtains w' c where "Reconcile api nn w = ((empty_Result, None), w')"
    and "v_cr vw w' nn = Some c" and "same_resource cr c" and "ks_DeletionTimestamp c = None"
    and "ks_Finalizers c = ks_Finalizers cr @ [finalizerName]" and "v_obj vw w' = v_obj vw w"
proof -
  note laws = lawfulD [OF law]
  obtain w1 where get: "api_Get api nn w = ((None, cr), w1)" and crs: "v_cr vw w1 = v_cr vw w"
    and objs: "v_obj vw w1 = v_obj vw w" and key: "ks_key cr = nn"
    by (rule prompt_get [OF law pr cr])
  have z: "api_IsZero api (ks_DeletionTimestamp cr)"
    and f: "\<not> api_ContainsFinalizer api cr finalizerName"
    using laws(2) del fin by (simp_all add: finalizer_laws_def)
  define n where "n = api_AddFinalizer api cr finalizerName"
  have n: "ks_Finalizers n = ks_Finalizers cr @ [finalizerName]" "same_resource cr n"
    "ks_DeletionTimestamp n = None" "ks_key n = nn"
    using laws(2) fin del key
    by (simp_all add: n_def finalizer_laws_def same_resource_def ks_key_def)
  have "fst (fst (api_Update api n w1)) = None"
  proof (rule prompt_callsD(2) [OF pr])
    show "v_cr vw w1 (ks_key n) = Some cr" using n(4) crs cr by simp
    show "finalizer_edit cr n"
      using laws(2) del by (auto simp: n_def finalizer_edit_def finalizer_laws_def)
  qed
  then obtain u w' where up: "api_Update api n w1 = ((None, u), w')"
    by (metis prod.collapse)
  note l = laws(6) [unfolded update_law_def, rule_format, OF up]
  from l n obtain c where c: "v_cr vw w' nn = Some c" "same_spec_meta n c" by auto
  have "Reconcile api nn w = ((empty_Result, None), w')"
    using get z f up by (simp add: Reconcile_def n_def)
  moreover have "same_resource cr c"
    using n(2) c(2) by (simp add: same_spec_meta_def same_resource_def)
  ultimately show ?thesis
    using c n l objs by (intro that [of w' c]) (simp_all add: same_spec_meta_def)
qed

lemma unclaimed_same:
  assumes "same_resource cr c" and "v_obj vw w' = v_obj vw w"
  shows "unclaimed vw c w' = unclaimed vw cr w"
proof -
  have "ours c = ours cr"
    using assms(1) by (auto simp: fun_eq_iff ours_def ours_meta_def same_resource_def)
  then show ?thesis by (simp add: unclaimed_def same_resource_plan [OF assms(1)] assms(2))
qed

end
