(* ===== verification/PassTraces.thy ===== *)
theory PassTraces
  imports Trace
begin

text \<open>
  The event sequences of one pass, for any API client. The order and the outcome of every call are
  part of the statements: which calls a pass makes, after which answers it stops, and what it
  reports.
\<close>

definition removal_events :: "Kubeshark \<Rightarrow> 'e goerror option list \<Rightarrow> 'e event list" where
  "removal_events cr rs =
     map2 DeleteEv (take (length rs) (map object_key (cluster_objects cr))) rs"

definition report ::
  "('w, 'e) api \<Rightarrow> Kubeshark \<Rightarrow> string \<Rightarrow> 'e goerror option \<Rightarrow> 'e event list \<Rightarrow> bool" where
  "report api cr reason err evs \<longleftrightarrow>
     (case err of
        None \<Rightarrow> evs = []
      | Some e \<Rightarrow> (\<exists>p. evs = [PatchEv (with_ready api cr False reason (err_Error api e)) cr p]))"

lemma traced_get:
  assumes "api_Get (traced api) nn (w, []) = ((g, cr), w1, t1)"
  shows "t1 = [GetEv nn g]" and "api_Get api nn w = ((g, cr), w1)"
  using assms by (auto simp: traced_calls split: prod.splits)

lemma traced_update:
  assumes "api_Update (traced api) cr (w, t) = ((u, cr'), w1, t1)"
  shows "t1 = t @ [UpdateEv cr u]" and "api_Update api cr w = ((u, cr'), w1)"
  using assms by (auto simp: traced_calls split: prod.splits)

lemma traced_setReadyE:
  assumes "setReadyCondition (traced api) cr b r m (w, t) = (res, w', t')"
  obtains e where "t' = t @ [PatchEv (with_ready api cr b r m) cr e]"
    and "res = None \<longleftrightarrow> e = None" and "setReadyCondition api cr b r m w = (res, w')"
  using traced_setReadyCondition [OF assms] by blast

lemma traced_setReady_calls:
  assumes "setReadyCondition (traced api) cr b r m (w, t) = (res, w', t')"
  shows "ApplyEv k e \<in> set t' \<longleftrightarrow> ApplyEv k e \<in> set t" and "DeleteEv k e \<in> set t' \<longleftrightarrow> DeleteEv k e \<in> set t"
  using assms by (auto elim: traced_setReadyE)

lemma traced_reconcileDelete:
  assumes "reconcileDelete (traced api) cr (w, t) = ((res, cr'), w', t')"
  obtains
    (untouched) "\<not> api_ContainsFinalizer api cr finalizerName" and "t' = t" and "res = None"
      and "cr' = cr" and "reconcileDelete api cr w = ((res, cr'), w')"
  | (removed) rs where "api_ContainsFinalizer api cr finalizerName"
      and "length rs = 2" and "list_all (deleted api) rs"
      and "t' = t @ removal_events cr rs @ [UpdateEv (api_RemoveFinalizer api cr finalizerName) res]"
      and "reconcileDelete api cr w = ((res, cr'), w')"
  | (stopped) rs e where "api_ContainsFinalizer api cr finalizerName"
      and "rs \<noteq> []" and "length rs \<le> 2" and "last rs = Some e" and "\<not> api_IsNotFound api e"
      and "list_all (deleted api) (butlast rs)" and "t' = t @ removal_events cr rs"
      and "res = Some e" and "cr' = cr" and "reconcileDelete api cr w = ((res, cr'), w')"
proof (cases "api_ContainsFinalizer api cr finalizerName")
  case False
  with assms show ?thesis by (intro untouched) (simp_all add: reconcileDelete_def)
next
  case True
  obtain d w1 t1 where tdel: "delete_all (traced api) (cluster_objects cr) (w, t) = (d, w1, t1)"
    by (metis prod.exhaust)
  have two: "length (cluster_objects cr) = 2" by (simp add: cluster_objects_def)
  from traced_delete_all [OF tdel] obtain rs
    where del: "delete_all api (cluster_objects cr) w = (d, w1)"
      and t1: "t1 = t @ removal_events cr rs"
      and rs: "case d of
          None \<Rightarrow> length rs = 2 \<and> list_all (deleted api) rs
        | Some e \<Rightarrow> length rs \<le> 2 \<and> rs \<noteq> [] \<and> last rs = Some e \<and>
            \<not> api_IsNotFound api e \<and> list_all (deleted api) (butlast rs)"
    unfolding removal_events_def two by blast
  show ?thesis
  proof (cases d)
    case None
    with assms True tdel
    have "api_Update (traced api) (api_RemoveFinalizer api cr finalizerName) (w1, t1) =
        ((res, cr'), w', t')"
      by (simp add: reconcileDelete_def)
    from traced_update [OF this] None True del t1 rs show ?thesis
      by (intro removed [of rs]) (simp_all add: reconcileDelete_def)
  next
    case (Some e)
    with assms True tdel have "res = Some e" "cr' = cr" "w' = w1" "t' = t1"
      by (auto simp: reconcileDelete_def)
    with Some True del t1 rs show ?thesis
      by (intro stopped [of rs e]) (simp_all add: reconcileDelete_def)
  qed
qed

text \<open>The recorder changes nothing but the record.\<close>

lemma traced_Reconcile_erase:
  assumes "Reconcile (traced api) nn (w, []) = ((res, err), w', t)"
  shows "Reconcile api nn w = ((empty_Result, err), w')"
proof -
  have "fst (fst (Reconcile api nn w)) = empty_Result" by (rule Reconcile_result)
  moreover have "snd (fst (Reconcile api nn w)) = err \<and> snd (Reconcile api nn w) = w'"
    using assms
  proof (cases rule: Reconcile_cases)
    case (read_failed e cr)
    with traced_get [OF read_failed(1)] show ?thesis by (simp add: Reconcile_def)
  next
    case (deleting_done cr x cr')
    obtain w1 t1 where x: "x = (w1, t1)" by (cases x)
    from traced_get [OF deleting_done(1) [unfolded x]] deleting_done show ?thesis
      by (auto simp: Reconcile_def x elim: traced_reconcileDelete)
  next
    case (deleting_failed cr x e cr' y r)
    obtain w1 t1 w2 t2 where x: "x = (w1, t1)" and y: "y = (w2, t2)" by (cases x, cases y)
    from deleting_failed(4) have "setReadyCondition api cr' False ''DeleteFailed''
        (err_Error api e) w2 = (r, w')"
      unfolding y by (auto elim: traced_setReadyE)
    with traced_get [OF deleting_failed(1) [unfolded x]] deleting_failed show ?thesis
      by (auto simp: Reconcile_def x y elim!: traced_reconcileDelete)
  next
    case (adding cr x cr')
    obtain w1 t1 where x: "x = (w1, t1)" by (cases x)
    from traced_get [OF adding(1) [unfolded x]] traced_update [OF adding(4) [unfolded x, simplified]]
      adding show ?thesis
      by (auto simp: Reconcile_def split: option.splits)
  next
    case (step_failed cr x e y r)
    obtain w1 t1 w2 t2 where x: "x = (w1, t1)" and y: "y = (w2, t2)" by (cases x, cases y)
    from step_failed(5) have st: "setReadyCondition api cr False ''ReconcileError''
        (err_Error api e) w2 = (r, w')"
      unfolding y by (auto elim: traced_setReadyE)
    from step_failed(4) have "run_all (map (run_child api)
        (all_children api cr (componentLabels cr))) w1 = (Some e, w2)"
      unfolding x y by (auto elim: traced_run_all)
    with st traced_get [OF step_failed(1) [unfolded x]] step_failed(2,3,6) show ?thesis
      by (simp add: Reconcile_def Let_def run_steps_children)
  next
    case (applied cr x y)
    obtain w1 t1 w2 t2 where x: "x = (w1, t1)" and y: "y = (w2, t2)" by (cases x, cases y)
    from applied(5) have st: "setReadyCondition api cr True ''Reconciled''
        ''All components reconciled'' w2 = (err, w')"
      unfolding y by (auto elim: traced_setReadyE)
    from applied(4) have "run_all (map (run_child api)
        (all_children api cr (componentLabels cr))) w1 = (None, w2)"
      unfolding x y by (auto elim: traced_run_all)
    with st traced_get [OF applied(1) [unfolded x]] applied(2,3) show ?thesis
      by (cases err) (simp_all add: Reconcile_def Let_def run_steps_children)
  qed
  ultimately show ?thesis by (metis prod.collapse)
qed

section \<open>The events of each kind of pass\<close>

lemma traced_get_Some:
  assumes "api_Get api nn w = ((g, cr), w1)"
  shows "api_Get (traced api) nn (w, t) = ((g, cr), w1, t @ [GetEv nn g])"
  using assms by (simp add: traced_calls)

lemma removal_eventsD:
  "ev \<in> set (removal_events cr rs) \<Longrightarrow> \<exists>k r. ev = DeleteEv k r \<and> k \<in> object_key ` set (cluster_objects cr)"
  by (auto simp: removal_events_def dest!: set_zip_leftD in_set_takeD)

lemma traced_run_all_events:
  assumes "run_all (map (run_child (traced api)) cs) (w, t) = (r, w', t')"
  shows "set t' \<subseteq> set t \<union> {ApplyEv k e | k e. k \<in> set (map child_key cs)}"
  using assms by (cases rule: traced_run_all) auto

lemma traced_apply_pass:
  assumes get: "api_Get api nn w = ((None, cr), w1)"
    and z: "api_IsZero api (ks_DeletionTimestamp cr)"
    and fin: "api_ContainsFinalizer api cr finalizerName"
    and run: "Reconcile (traced api) nn (w, []) = ((res, err), w', t)"
  obtains
    (applied) w2 p where
      "t = GetEv nn None # map (\<lambda>k. ApplyEv k None) (plan_keys cr) @
         [PatchEv (with_ready api cr True ''Reconciled'' ''All components reconciled'') cr p]"
      and "err = None \<longleftrightarrow> p = None"
      and "run_all (map (run_child api) (all_children api cr (componentLabels cr))) w1 = (None, w2)"
      and "setReadyCondition api cr True ''Reconciled'' ''All components reconciled'' w2 = (err, w')"
  | (failed) pre k post e e0 w2 s p where "plan_keys cr = pre @ k # post"
      and "t = GetEv nn None # map (\<lambda>k. ApplyEv k None) pre @
         [ApplyEv k (Some e0),
          PatchEv (with_ready api cr False ''ReconcileError'' (err_Error api e)) cr p]"
      and "err = Some e" and "error_cause e = error_cause e0" and "s = None \<longleftrightarrow> p = None"
      and "run_all (map (run_child api) (all_children api cr (componentLabels cr))) w1 = (Some e, w2)"
      and "setReadyCondition api cr False ''ReconcileError'' (err_Error api e) w2 = (s, w')"
proof -
  note tget = traced_get_Some [OF get, of "[]"]
  let ?cs = "all_children api cr (componentLabels cr)"
  obtain s w2 t2 where kids: "run_all (map (run_child (traced api)) ?cs) (w1, [GetEv nn None]) =
      (s, w2, t2)"
    by (metis prod.exhaust)
  from kids show ?thesis
  proof (cases rule: traced_run_all)
    case ok
    obtain r w3 t3 where st: "setReadyCondition (traced api) cr True ''Reconciled''
        ''All components reconciled'' (w2, t2) = (r, w3, t3)"
      by (metis prod.exhaust)
    with run tget kids ok(1) z fin have "r = err" "w3 = w'" "t3 = t"
      by (cases r; simp add: Reconcile_def Let_def run_steps_children)+
    with traced_setReadyCondition [OF st] ok(2,3) show ?thesis
      by (elim exE conjE) (rule applied; simp add: all_children_keys)
  next
    case (err e pre k post e0)
    note stop = err
    obtain r w3 t3 where st: "setReadyCondition (traced api) cr False ''ReconcileError''
        (err_Error api e) (w2, t2) = (r, w3, t3)"
      by (metis prod.exhaust)
    with run tget kids stop(1) z fin have "err = Some e \<and> w3 = w' \<and> t3 = t"
      by (auto simp: Reconcile_def Let_def run_steps_children)
    with traced_setReadyCondition [OF st] stop(2-5) show ?thesis
      by (elim exE conjE) (rule failed; simp add: all_children_keys)
  qed
qed

text \<open>Which objects a pass may apply or delete.\<close>

lemma traced_pass_gates:
  assumes run: "Reconcile (traced api) nn (w, []) = ((res, err), w', t)"
  shows "(ApplyEv k r \<in> set t \<longrightarrow>
      (\<exists>cr w1. api_Get api nn w = ((None, cr), w1) \<and> api_IsZero api (ks_DeletionTimestamp cr) \<and>
         api_ContainsFinalizer api cr finalizerName \<and> k \<in> set (plan_keys cr))) \<and>
    (DeleteEv k r \<in> set t \<longrightarrow>
      (\<exists>cr w1. api_Get api nn w = ((None, cr), w1) \<and> \<not> api_IsZero api (ks_DeletionTimestamp cr) \<and>
         api_ContainsFinalizer api cr finalizerName \<and>
         k \<in> object_key ` set (cluster_objects cr)))"
  using run
proof (cases rule: Reconcile_cases)
  case (read_failed e cr)
  with traced_get [OF read_failed(1)] show ?thesis by simp
next
  case (deleting_done cr x cr')
  obtain w1 t1 where x: "x = (w1, t1)" by (cases x)
  note g = traced_get [OF deleting_done(1) [unfolded x]]
  from deleting_done(3) [unfolded x] g deleting_done(2) show ?thesis
    by (cases rule: traced_reconcileDelete) (auto dest: removal_eventsD)
next
  case (deleting_failed cr x e cr' y s)
  obtain w1 t1 w2 t2 where x: "x = (w1, t1)" and y: "y = (w2, t2)" by (cases x, cases y)
  note g = traced_get [OF deleting_failed(1) [unfolded x]]
  note rep = traced_setReady_calls [OF deleting_failed(4) [unfolded y]]
  from deleting_failed(3) [unfolded x y] rep g deleting_failed(2) show ?thesis
    by (cases rule: traced_reconcileDelete) (auto dest: removal_eventsD)
next
  case (adding cr x cr')
  obtain w1 t1 where x: "x = (w1, t1)" by (cases x)
  from traced_get [OF adding(1) [unfolded x]] traced_update [OF adding(4) [unfolded x, simplified]]
  show ?thesis by simp
next
  case (step_failed cr x e y s)
  obtain w1 t1 w2 t2 where x: "x = (w1, t1)" and y: "y = (w2, t2)" by (cases x, cases y)
  note g = traced_get [OF step_failed(1) [unfolded x]]
  note rep = traced_setReady_calls [OF step_failed(5) [unfolded y]]
  have "ApplyEv k r \<in> set t2 \<longrightarrow> k \<in> set (plan_keys cr)" "DeleteEv k r \<notin> set t2"
    using traced_run_all_events [OF step_failed(4) [unfolded x y traced_children]] g
    by (auto simp: all_children_keys)
  with rep show ?thesis using g step_failed(2,3) by auto
next
  case (applied cr x y)
  obtain w1 t1 w2 t2 where x: "x = (w1, t1)" and y: "y = (w2, t2)" by (cases x, cases y)
  note g = traced_get [OF applied(1) [unfolded x]]
  note rep = traced_setReady_calls [OF applied(5) [unfolded y]]
  have "ApplyEv k r \<in> set t2 \<longrightarrow> k \<in> set (plan_keys cr)" "DeleteEv k r \<notin> set t2"
    using traced_run_all_events [OF applied(4) [unfolded x y traced_children]] g
    by (auto simp: all_children_keys)
  with rep show ?thesis using g applied(2,3) by auto
qed

end
