(* ===== verification/Effects.thy ===== *)
theory Effects
  imports Liveness PassTraces
begin

text \<open>
  What one pass does to the objects and to the resource, for any lawful API server: the lemmas the
  properties of \<open>Spec2Isabelle\<close> rest on. \<open>plain\<close>, \<open>fresh\<close> and \<open>dying\<close> name the three situations a
  pass can find its resource in.
\<close>

definition plain :: "Kubeshark \<Rightarrow> bool" where
  "plain cr \<longleftrightarrow> ks_DeletionTimestamp cr = None \<and> finalizerName \<in> set (ks_Finalizers cr)"

definition fresh :: "Kubeshark \<Rightarrow> bool" where
  "fresh cr \<longleftrightarrow> ks_DeletionTimestamp cr = None \<and> finalizerName \<notin> set (ks_Finalizers cr)"

definition dying :: "Kubeshark \<Rightarrow> bool" where
  "dying cr \<longleftrightarrow> ks_DeletionTimestamp cr \<noteq> None \<and> finalizerName \<in> set (ks_Finalizers cr)"

lemma finalizer_tests:
  assumes "finalizer_laws api"
  shows "api_IsZero api t = (t = None)"
    and "api_ContainsFinalizer api cr f = (f \<in> set (ks_Finalizers cr))"
  using assms by (simp_all add: finalizer_laws_def)

section \<open>A pass that ends without error\<close>

lemma Reconcile_plain:
  assumes law: "lawful api vw" and cr: "v_cr vw w nn = Some cr" and pl: "plain cr"
    and run: "Reconcile api nn w = ((res, err), w')"
  obtains
    (unread) e where "err = Some e" and "v_cr vw w' = v_cr vw w" and "v_obj vw w' = v_obj vw w"
  | (failed) w1 e w2 s where "v_cr vw w1 = v_cr vw w" and "v_obj vw w1 = v_obj vw w"
      and "run_all (map (run_child api) (all_children api cr (componentLabels cr))) w1 = (Some e, w2)"
      and "setReadyCondition api cr False ''ReconcileError'' (err_Error api e) w2 = (s, w')"
      and "err = Some e"
  | (applied) w1 w2 where "v_cr vw w1 = v_cr vw w" and "v_obj vw w1 = v_obj vw w"
      and "run_all (map (run_child api) (all_children api cr (componentLabels cr))) w1 = (None, w2)"
      and "setReadyCondition api cr True ''Reconciled'' ''All components reconciled'' w2 = (err, w')"
proof -
  note laws = lawfulD [OF law]
  have got: "c = cr \<and> v_cr vw w1 = v_cr vw w \<and> v_obj vw w1 = v_obj vw w"
    if "api_Get api nn w = ((None, c), w1)" for c w1
    using get_lawD [OF laws(5) that] cr by simp
  note ft = finalizer_tests [OF laws(2)]
  from run show ?thesis
  proof (cases rule: Reconcile_cases)
    case (read_failed e c)
    from get_lawD(4) [OF laws(5) read_failed(1) refl] cr have "\<not> api_IsNotFound api e" by auto
    then have "err = Some e" using read_failed(2) laws(1) by (simp add: error_laws_def)
    then show ?thesis using get_lawD(1,2) [OF laws(5) read_failed(1)] unread by blast
  next
    case (deleting_done c w1 cr')
    with got [OF deleting_done(1)] pl show ?thesis by (simp add: ft plain_def)
  next
    case (deleting_failed c w1 e cr' w2 r)
    with got [OF deleting_failed(1)] pl show ?thesis by (simp add: ft plain_def)
  next
    case (adding c w1 cr')
    with got [OF adding(1)] pl show ?thesis by (simp add: ft plain_def)
  next
    case (step_failed c w1 e w2 r)
    with got [OF step_failed(1)] show ?thesis by (intro failed) auto
  next
    case (applied c w1 w2)
    with got [OF applied(1)] show ?thesis by (intro that(3)) auto
  qed
qed

lemma successful_run:
  assumes law: "lawful api vw" and cr: "v_cr vw w nn = Some cr" and pl: "plain cr"
    and run: "Reconcile api nn w = ((res, None), w')"
  obtains w1 w2 where "v_obj vw w1 = v_obj vw w" and "v_cr vw w2 = v_cr vw w"
    and "run_all (map (run_child api) (all_children api cr (componentLabels cr))) w1 = (None, w2)"
    and "setReadyCondition api cr True ''Reconciled'' ''All components reconciled'' w2 = (None, w')"
    and "v_obj vw w' = v_obj vw w2"
  using law cr pl run
proof (cases rule: Reconcile_plain)
  case (applied w1 w2)
  note laws = lawfulD [OF law]
  from run_children_frame [OF laws(9) applied(3)] applied(1) have "v_cr vw w2 = v_cr vw w" by simp
  moreover note setReadyCondition_frame(1) [OF laws(7) applied(4)]
  ultimately show ?thesis using applied that by blast
qed simp_all

text \<open>The status written at the end of a pass.\<close>

lemma status_written:
  assumes law: "lawful api vw" and cr: "v_cr vw w (ks_key cr) = Some cr"
    and run: "setReadyCondition api cr b r m w = (None, w')"
  shows "\<exists>c. v_cr vw w' (ks_key cr) = Some c \<and> same_spec_meta cr c \<and>
    st_ObservedGeneration (ks_Status c) = ks_Generation cr \<and>
    (\<exists>d. find_condition ''Ready'' (st_Conditions (ks_Status c)) = Some d \<and>
       cond_Status d = (if b then ConditionTrue else ConditionFalse) \<and> cond_Reason d = r \<and>
       cond_Message d = m \<and> cond_ObservedGeneration d = ks_Generation cr)"
proof -
  note laws = lawfulD [OF law]
  obtain c where c: "v_cr vw w' (ks_key cr) = Some c" "same_spec_meta cr c"
    and st: "ks_Status c = ks_Status (with_ready api cr b r m)"
    using setReadyCondition_frame(4) [OF laws(7) run cr] by auto
  have "st_ObservedGeneration (ks_Status (with_ready api cr b r m)) = ks_Generation cr"
    by (simp add: with_ready_def Let_def)
  with c st with_ready_condition [OF laws(4), of cr b r m] show ?thesis by auto
qed

lemma other_conditions_kept:
  assumes law: "lawful api vw" and cr: "v_cr vw w (ks_key cr) = Some cr"
    and run: "setReadyCondition api cr b r m w = (None, w')"
    and c: "v_cr vw w' (ks_key cr) = Some c" and ty: "ty \<noteq> ''Ready''"
  shows "find_condition ty (st_Conditions (ks_Status c)) = find_condition ty (st_Conditions (ks_Status cr))"
proof -
  note laws = lawfulD [OF law]
  have "ks_Status c = ks_Status (with_ready api cr b r m)"
    using setReadyCondition_frame(4) [OF laws(7) run cr] c by auto
  then show ?thesis by (simp add: with_ready_other_conditions [OF laws(4) ty])
qed

text \<open>The children and the accepted status patch of a recorded pass.\<close>

lemma traced_plain_patch:
  assumes law: "lawful api vw" and cr: "v_cr vw w nn = Some cr" and pl: "plain cr"
    and run: "Reconcile (traced api) nn (w, []) = ((res, err), w', t)"
    and accepted: "PatchEv c0 orig None \<in> set t"
  obtains w1 w2 r m where "v_cr vw w1 = v_cr vw w" and "ks_key cr = nn"
    and "run_all (map (run_child api) (all_children api cr (componentLabels cr))) w1 = (err, w2)"
    and "setReadyCondition api cr (err = None) r m w2 = (None, w')"
    and "\<And>e. err = Some e \<Longrightarrow> r = ''ReconcileError'' \<and> m = err_Error api e"
proof -
  note laws = lawfulD [OF law]
  obtain g c w1 where get: "api_Get api nn w = ((g, c), w1)" by (metis prod.exhaust)
  show ?thesis
  proof (cases g)
    case (Some x)
    with run traced_get_Some [OF get, of "[]"] have "t = [GetEv nn g]" by (simp add: Reconcile_def)
    with accepted show ?thesis by simp
  next
    case None
    note got = get_lawD [OF laws(5) get [unfolded None]]
    from got cr have c: "c = cr" and key: "ks_key cr = nn" by simp_all
    have "api_IsZero api (ks_DeletionTimestamp cr)" and "api_ContainsFinalizer api cr finalizerName"
      using pl by (simp_all add: finalizer_tests [OF laws(2)] plain_def)
    from get [unfolded None c] this run show ?thesis
    proof (cases rule: traced_apply_pass)
      case (applied w2 p)
      with accepted have "err = None" by auto
      with applied(3,4) got(1) key show ?thesis by (intro that) simp_all
    next
      case (failed pre k post e e0 w2 s p)
      with accepted have "s = None" by auto
      with failed(3,6,7) got(1) key show ?thesis by (intro that) simp_all
    qed
  qed
qed

lemma stored_key:
  assumes law: "lawful api vw" and cr: "v_cr vw w nn = Some cr"
    and run: "Reconcile api nn w = ((res, None), w')"
  shows "ks_key cr = nn"
proof -
  obtain g c w1 where get: "api_Get api nn w = ((g, c), w1)" by (metis prod.exhaust)
  note l = get_lawD [OF lawfulD(5) [OF law] get]
  show ?thesis
  proof (cases g)
    case None
    with l cr show ?thesis by simp
  next
    case (Some e)
    with l(4) cr have "\<not> api_IsNotFound api e" by auto
    with Some get run lawfulD(1) [OF law] show ?thesis
      by (simp add: Reconcile_def error_laws_def)
  qed
qed

section \<open>What a pass leaves alone\<close>

lemma cluster_keys_planned: "object_key ` set (cluster_objects cr) \<subseteq> set (plan_keys cr)"
proof -
  have "set (map object_key (cluster_objects cr)) \<subseteq> set (plan_keys cr)"
    by (simp add: object_key_cluster_objects plan_keys_def Let_def)
  then show ?thesis by simp
qed

lemma update_frame:
  assumes "update_law api vw" and "api_Update api cr w = (r, w')"
  shows "v_obj vw w' = v_obj vw w" and "nn \<noteq> ks_key cr \<Longrightarrow> v_cr vw w' nn = v_cr vw w nn"
    and "ks_key (snd r) = ks_key cr"
  using assms unfolding update_law_def by (metis prod.collapse)+

lemma reconcileDelete_frame:
  assumes law: "lawful api vw" and run: "reconcileDelete api cr w = (r, w')"
  shows "k \<notin> set (plan_keys cr) \<Longrightarrow> v_obj vw w' k = v_obj vw w k"
    and "nn \<noteq> ks_key cr \<Longrightarrow> v_cr vw w' nn = v_cr vw w nn"
    and "ks_key (snd r) = ks_key cr"
proof -
  note laws = lawfulD [OF law]
  obtain d w1 where del: "delete_all api (cluster_objects cr) w = (d, w1)"
    by (cases "delete_all api (cluster_objects cr) w")
  note fr = delete_all_frame [OF laws(8) del]
  have objs: "v_obj vw w1 k = v_obj vw w k" if "k \<notin> set (plan_keys cr)" for k
    using fr that cluster_keys_planned by blast
  consider (same) "w' = w" "snd r = cr" | (deleted) "w' = w1" "snd r = cr"
    | (updated) "api_Update api (api_RemoveFinalizer api cr finalizerName) w1 = (r, w')"
    using run del by (auto simp: reconcileDelete_def split: if_splits option.splits)
  then have "(k \<notin> set (plan_keys cr) \<longrightarrow> v_obj vw w' k = v_obj vw w k) \<and>
      (nn \<noteq> ks_key cr \<longrightarrow> v_cr vw w' nn = v_cr vw w nn) \<and> ks_key (snd r) = ks_key cr"
    for k nn
  proof cases
    case updated
    from fr objs update_frame [OF laws(6) updated] show ?thesis
      by (simp add: finalizer_ops [OF laws(2)])
  qed (use fr objs in simp_all)
  then show "k \<notin> set (plan_keys cr) \<Longrightarrow> v_obj vw w' k = v_obj vw w k"
    and "nn \<noteq> ks_key cr \<Longrightarrow> v_cr vw w' nn = v_cr vw w nn"
    and "ks_key (snd r) = ks_key cr"
    by blast+
qed

lemma pass_frame:
  assumes law: "lawful api vw" and run: "Reconcile api nn w = (r, w')"
  shows "(\<forall>nn'. nn' \<noteq> nn \<longrightarrow> v_cr vw w' nn' = v_cr vw w nn') \<and>
    (\<forall>k. v_obj vw w' k \<noteq> v_obj vw w k \<longrightarrow>
       (\<exists>cr. v_cr vw w nn = Some cr \<and> k \<in> set (plan_keys cr)))"
proof -
  note laws = lawfulD [OF law]
  obtain res err where r: "r = (res, err)" by (cases r)
  have got: "v_cr vw w1 = v_cr vw w \<and> v_obj vw w1 = v_obj vw w \<and> v_cr vw w nn = Some c \<and> ks_key c = nn"
    if "api_Get api nn w = ((None, c), w1)" for c w1
    using get_lawD [OF laws(5) that] by simp
  note del = reconcileDelete_frame [OF law] and kids = run_children_frame [OF laws(9)]
    and st = setReadyCondition_frame(1,2) [OF laws(7)] and up = update_frame [OF laws(6)]
  from run [unfolded r] show ?thesis
  proof (cases rule: Reconcile_cases)
    case (read_failed e c)
    then show ?thesis using get_lawD(1,2) [OF laws(5)] by metis
  next
    case (deleting_done c w1 cr')
    with got [OF deleting_done(1)] del(1,2) [OF deleting_done(3)] show ?thesis by metis
  next
    case (deleting_failed c w1 e cr' w2 s)
    with got [OF deleting_failed(1)] del [OF deleting_failed(3)] st [OF deleting_failed(4)]
    show ?thesis by (metis snd_conv)
  next
    case (adding c w1 cr')
    with got [OF adding(1)] up [OF adding(4)] show ?thesis
      by (simp add: finalizer_ops [OF laws(2)])
  next
    case (step_failed c w1 e w2 s)
    with got [OF step_failed(1)] kids [OF step_failed(4)] st [OF step_failed(5)] show ?thesis
      by (metis all_children_keys)
  next
    case (applied c w1 w2)
    with got [OF applied(1)] kids [OF applied(4)] st [OF applied(5)] show ?thesis
      by (metis all_children_keys)
  qed
qed

section \<open>Deletion\<close>

lemma dying_pass:
  assumes law: "lawful api vw" and cr: "v_cr vw w nn = Some cr" and dy: "dying cr"
    and run: "Reconcile api nn w = ((res, None), w')"
  shows "cluster_rbac_absent vw (clusterRoleName cr) (clusterRoleBindingName cr) w' \<and>
    (\<forall>k. k \<noteq> Key ClusterRoleKind '''' (clusterRoleName cr) \<and>
         k \<noteq> Key ClusterRoleBindingKind '''' (clusterRoleBindingName cr) \<longrightarrow>
         v_obj vw w' k = v_obj vw w k) \<and>
    (ks_Finalizers cr = [finalizerName] \<longrightarrow> v_cr vw w' nn = None) \<and>
    (let rest = filter (\<lambda>f. f \<noteq> finalizerName) (ks_Finalizers cr) in
       if rest = [] then v_cr vw w' nn = None
       else (\<exists>c. v_cr vw w' nn = Some c \<and> same_resource cr c \<and> ks_Finalizers c = rest))"
proof -
  note laws = lawfulD [OF law]
  note ft = finalizer_tests [OF laws(2)]
  obtain w1 cr' where get: "api_Get api nn w = ((None, cr), w1)"
    and rd: "reconcileDelete api cr w1 = ((None, cr'), w')"
    using run
  proof (cases rule: Reconcile_cases)
    case (read_failed e c)
    with get_lawD(4) [OF laws(5) read_failed(1) refl] laws(1) cr show ?thesis
      by (auto simp: error_laws_def split: if_splits)
  next
    case (deleting_done c w1 cr')
    with get_lawD(3) [OF laws(5) deleting_done(1) refl] cr that show ?thesis by simp
  next
    case (adding c w1 cr')
    with get_lawD(3) [OF laws(5) adding(1) refl] cr dy show ?thesis by (simp add: dying_def ft)
  next
    case (applied c w1 w2)
    with get_lawD(3) [OF laws(5) applied(1) refl] cr dy show ?thesis by (simp add: dying_def ft)
  qed simp_all
  note g = get_lawD [OF laws(5) get]
  from rd dy obtain w2 where del: "delete_all api (cluster_objects cr) w1 = (None, w2)"
    and up: "api_Update api (api_RemoveFinalizer api cr finalizerName) w2 = ((None, cr'), w')"
    by (auto simp: reconcileDelete_def dying_def ft split: prod.splits option.splits)
  let ?n = "api_RemoveFinalizer api cr finalizerName"
  have n: "ks_key ?n = nn" "ks_DeletionTimestamp ?n \<noteq> None"
    "ks_Finalizers ?n = filter (\<lambda>f. f \<noteq> finalizerName) (ks_Finalizers cr)" "same_resource cr ?n"
    using laws(2) dy g(3) by (simp_all add: finalizer_laws_def dying_def ks_key_def same_resource_def)
  have keys: "object_key ` set (cluster_objects cr) =
      {Key ClusterRoleKind '''' (clusterRoleName cr),
       Key ClusterRoleBindingKind '''' (clusterRoleBindingName cr)}"
    using object_key_cluster_objects [of cr] by (metis list.set_map list.simps(15) set_empty)
  note l = laws(6) [unfolded update_law_def, rule_format, OF up]
  have objs: "v_obj vw w' = v_obj vw w2" using l by simp
  have "cluster_rbac_absent vw (clusterRoleName cr) (clusterRoleBindingName cr) w'"
    using delete_all_cluster_objects [OF laws(8) del] by (simp add: absent_cong [OF objs])
  moreover have "v_obj vw w' k = v_obj vw w k"
    if "k \<noteq> Key ClusterRoleKind '''' (clusterRoleName cr)"
      and "k \<noteq> Key ClusterRoleBindingKind '''' (clusterRoleBindingName cr)" for k
    using delete_all_frame [OF laws(8) del] that g(2) by (simp add: objs keys)
  moreover have "v_cr vw w' nn = None" if "ks_Finalizers ?n = []"
    using l n(1,2) that by auto
  moreover have "\<exists>c. v_cr vw w' nn = Some c \<and> same_resource cr c \<and> ks_Finalizers c = ks_Finalizers ?n"
    if "ks_Finalizers ?n \<noteq> []"
    using l n(1,4) that by (auto simp: same_spec_meta_def same_resource_def)
  ultimately show ?thesis by (simp add: n(3))
qed

section \<open>Fields the server does not let change\<close>

text \<open>
  The role of an existing ClusterRoleBinding is immutable: the server refuses an update that would
  change it, and keeps what it has.
\<close>

definition roleref_fixed :: "('w, 'e) api \<Rightarrow> 'w view \<Rightarrow> bool" where
  "roleref_fixed api vw \<longleftrightarrow>
     (\<forall>obj f w b b' op err obj' w'.
        v_obj vw w (object_key obj) = Some (ClusterRoleBindingObj b) \<and>
        f (ClusterRoleBindingObj b) = (None, ClusterRoleBindingObj b') \<and>
        crb_RoleRef b' \<noteq> crb_RoleRef b \<and>
        api_CreateOrUpdate api obj f w = ((op, err, obj'), w') \<longrightarrow>
        err \<noteq> None \<and> v_obj vw w' (object_key obj) = Some (ClusterRoleBindingObj b))"

lemma binding_refused:
  assumes fixed: "roleref_fixed api vw"
    and stored: "v_obj vw x (Key ClusterRoleBindingKind '''' (clusterRoleBindingName cr)) =
      Some (ClusterRoleBindingObj b)"
    and run: "run_child api (clusterRoleBinding_child api cr ls) x = (r, y)"
    and other: "ref_Name (crb_RoleRef b) \<noteq> clusterRoleName cr"
  shows "r \<noteq> None \<and> v_obj vw y (Key ClusterRoleBindingKind '''' (clusterRoleBindingName cr)) =
    Some (ClusterRoleBindingObj b)"
proof -
  let ?c = "clusterRoleBinding_child api cr ls"
  have key: "object_key (ch_object ?c) = Key ClusterRoleBindingKind '''' (clusterRoleBindingName cr)"
    by (simp add: clusterRoleBinding_child_def object_key_def zero_defs)
  obtain b' where mut: "ch_mutate ?c (ClusterRoleBindingObj b) = (None, ClusterRoleBindingObj b')"
    and "ref_Name (crb_RoleRef b') = clusterRoleName cr"
    by (simp add: clusterRoleBinding_child_def clusterRoleBinding_mutate_def on_defs)
  with other have "crb_RoleRef b' \<noteq> crb_RoleRef b" by auto
  moreover obtain op err obj' y' where call:
    "api_CreateOrUpdate api (ch_object ?c) (ch_mutate ?c) x = ((op, err, obj'), y')"
    by (metis prod.exhaust)
  ultimately have "err \<noteq> None \<and> v_obj vw y' (object_key (ch_object ?c)) = Some (ClusterRoleBindingObj b)"
    using fixed stored mut unfolding key [symmetric] roleref_fixed_def by blast
  moreover have "y = y'" and "err \<noteq> None \<longrightarrow> r \<noteq> None"
    using run call by (auto simp: run_child_def create_or_update_def wrap_err_def
        split: option.splits)
  ultimately show ?thesis by (simp add: key)
qed

text \<open>What one child keeps of an object, and no other child has the key of, stays.\<close>

lemma run_children_keep:
  assumes law: "create_or_update_law api vw" and run: "run_all (map (run_child api) cs) w = (r, w')"
    and once: "\<And>d. d \<in> set cs \<Longrightarrow> d \<noteq> c \<Longrightarrow> child_key d \<noteq> k"
    and keep: "\<And>x y s. P (v_obj vw x k) \<Longrightarrow> run_child api c x = (s, y) \<Longrightarrow> P (v_obj vw y k)"
    and w: "P (v_obj vw w k)"
  shows "P (v_obj vw w' k)"
proof -
  let ?R = "\<lambda>x y. P (v_obj vw x k) \<longrightarrow> P (v_obj vw y k)"
  have "\<forall>m \<in> set (map (run_child api) cs). keeps ?R m"
  proof
    fix m assume "m \<in> set (map (run_child api) cs)"
    then obtain d where d: "d \<in> set cs" and m: "m = run_child api d" by auto
    show "keeps ?R m"
      unfolding keeps_def
    proof
      fix x
      obtain s y where run: "run_child api d x = (s, y)" by (cases "run_child api d x")
      show "?R x (snd (m x))"
        using keep run once [OF d] run_child_frame(2) [OF law run] m by (cases "d = c") auto
    qed
  qed
  then have "keeps ?R (run_all (map (run_child api) cs))"
    by (rule keeps_run_all) (auto simp: reflp_def transp_def)
  from keepsD [OF this run] w show ?thesis by blast
qed

lemmas run_children_keep_one = run_children_keep [where P = "\<lambda>x. x = Some z" for z]

section \<open>The class of an Ingress\<close>

definition ingress_class :: "k8s_object option \<Rightarrow> string option" where
  "ingress_class x = (case x of Some (IngressObj ing) \<Rightarrow> igs_IngressClassName (ing_Spec ing) | _ \<Rightarrow> None)"

text \<open>Admission does not change a class that is set.\<close>

definition admission_keeps_class :: "(k8s_object \<Rightarrow> k8s_object) \<Rightarrow> bool" where
  "admission_keeps_class adm \<longleftrightarrow>
     (\<forall>ing c. igs_IngressClassName (ing_Spec ing) = Some c \<longrightarrow>
        ingress_class (Some (adm (IngressObj ing))) = Some c)"

lemma ingress_class_Some:
  "ingress_class x = Some c \<longleftrightarrow>
     (\<exists>ing. x = Some (IngressObj ing) \<and> igs_IngressClassName (ing_Spec ing) = Some c)"
  by (auto simp: ingress_class_def split: option.splits k8s_object.splits)

lemma frontendIngress_class:
  assumes law: "create_or_update_law api vw" and adm: "admission_keeps_class (v_admit vw)"
    and old: "ingress_class (v_obj vw x (child_key (frontendIngress_child api cr ls))) = Some c"
    and run: "run_child api (frontendIngress_child api cr ls) x = (r, y)"
  shows "ingress_class (v_obj vw y (child_key (frontendIngress_child api cr ls))) =
    Some (if sp_IngressClassName (ks_Spec cr) = '''' then c else sp_IngressClassName (ks_Spec cr)) \<or>
    r \<noteq> None \<and> ingress_class (v_obj vw y (child_key (frontendIngress_child api cr ls))) = Some c"
proof -
  let ?c = "frontendIngress_child api cr ls"
  from old obtain ing where st: "v_obj vw x (child_key ?c) = Some (IngressObj ing)"
    and cls: "igs_IngressClassName (ing_Spec ing) = Some c"
    by (auto simp: ingress_class_Some)
  then have base: "cou_base vw x (ch_object ?c) = IngressObj ing"
    by (simp add: cou_base_def child_key_def)
  obtain op err obj' y' where call:
    "api_CreateOrUpdate api (ch_object ?c) (ch_mutate ?c) x = ((op, err, obj'), y')"
    by (metis prod.exhaust)
  have y: "y = y'" and r: "err \<noteq> None \<longrightarrow> r \<noteq> None"
    using run call by (auto simp: run_child_def create_or_update_def wrap_err_def
        split: option.splits)
  note l = law [unfolded create_or_update_law_def, rule_format, OF call, unfolded base,
      folded child_key_def]
  show ?thesis
  proof (cases "v_obj vw y (child_key ?c) = v_obj vw x (child_key ?c) \<and> err \<noteq> None")
    case True
    with old r show ?thesis by simp
  next
    case False
    with l y have ok: "fst (ch_mutate ?c (IngressObj ing)) = None"
      and new: "v_obj vw y (child_key ?c) = Some (v_admit vw (snd (ch_mutate ?c (IngressObj ing))))"
      by (auto split: if_splits)
    obtain m where m: "api_SetControllerReference api cr (ing_ObjectMeta ing) = (None, m)"
      using ok by (auto simp: frontendIngress_child_def frontendIngress_mutate_def on_defs
          with_owner_def split: prod.splits option.splits)
    then have "snd (ch_mutate ?c (IngressObj ing)) =
        IngressObj (frontendIngress_fill cr ls (ing\<lparr>ing_ObjectMeta := m\<rparr>))"
      by (simp add: frontendIngress_child_def frontendIngress_mutate_def on_defs with_owner_def)
    moreover have "igs_IngressClassName (ing_Spec (frontendIngress_fill cr ls (ing\<lparr>ing_ObjectMeta := m\<rparr>))) =
        Some (if sp_IngressClassName (ks_Spec cr) = '''' then c else sp_IngressClassName (ks_Spec cr))"
      using cls by (simp add: frontendIngress_fill_def)
    ultimately show ?thesis using adm new by (simp add: admission_keeps_class_def)
  qed
qed

end
