(* ===== verification/RefCluster.thy ===== *)
theory RefCluster
  imports ClientApi Admission
begin

text \<open>
  A concrete client over a concrete store, to show that the laws of \<open>ClientApi\<close> can hold together
  and to evaluate the operator on concrete resources. It keeps two lists, the custom resources and
  the objects, defaults the type of a Service and the replicas of a Deployment, moves \<open>stringData\<close>
  into \<open>data\<close>, and refuses every call about a key in \<open>deny\<close>. No theorem about the operator depends on it: it only instantiates their hypotheses.
\<close>

datatype ref_error = RefNotFound | RefDenied | RefAlreadyOwned | RefKeyChanged

record cluster =
  cl_crs :: "Kubeshark list"
  cl_objs :: "k8s_object list"

definition put_by :: "('a \<Rightarrow> 'k) \<Rightarrow> 'a \<Rightarrow> 'a list \<Rightarrow> 'a list" where
  "put_by key x xs = x # filter (\<lambda>y. key y \<noteq> key x) xs"

definition get_by :: "('a \<Rightarrow> 'k) \<Rightarrow> 'k \<Rightarrow> 'a list \<Rightarrow> 'a option" where
  "get_by key k xs = find (\<lambda>x. key x = k) xs"

lemma get_by_Nil [simp]: "get_by key k [] = None"
  by (simp add: get_by_def)

lemma get_by_Cons [simp]: "get_by key k (x # xs) = (if key x = k then Some x else get_by key k xs)"
  by (simp add: get_by_def)

lemma get_by_filter [simp]:
  "get_by key k (filter (\<lambda>y. key y \<noteq> k') xs) = (if k = k' then None else get_by key k xs)"
  by (induction xs) auto

lemma get_by_put [simp]:
  "get_by key k (put_by key x xs) = (if k = key x then Some x else get_by key k xs)"
  by (auto simp: put_by_def)

lemma get_by_mem: "get_by key k xs = Some x \<Longrightarrow> x \<in> set xs"
  by (induction xs) (auto split: if_splits)

lemma get_by_key: "get_by key k xs = Some x \<Longrightarrow> key x = k"
  by (induction xs) (auto split: if_splits)

text \<open>Admission.\<close>

definition ref_admit :: "k8s_object \<Rightarrow> k8s_object" where
  "ref_admit x = (case x of
     SecretObj s \<Rightarrow> SecretObj (stored_secret s)
   | ServiceObj s \<Rightarrow> ServiceObj (s\<lparr>svc_Spec := (svc_Spec s)\<lparr>svs_Type :=
       Some (case svs_Type (svc_Spec s) of None \<Rightarrow> ServiceTypeClusterIP | Some t \<Rightarrow> t)\<rparr>\<rparr>)
   | DeploymentObj d \<Rightarrow> DeploymentObj (d\<lparr>dep_Spec := (dep_Spec d)\<lparr>dps_Replicas :=
       Some (case dps_Replicas (dep_Spec d) of None \<Rightarrow> 1 | Some n \<Rightarrow> n)\<rparr>\<rparr>)
   | _ \<Rightarrow> x)"

lemma ref_admit_simps [simp]:
  "object_kind (ref_admit x) = object_kind x"
  "object_meta (ref_admit x) = object_meta x"
  "object_key (ref_admit x) = object_key x"
  by (cases x; simp add: ref_admit_def object_key_def)+

lemma mixed_meta_same: "mixed_meta m m u \<Longrightarrow> u = m"
  by (rule ObjectMeta.equality) (simp_all add: mixed_defs)

lemma ref_admit_again:
  assumes "mixed z (ref_admit z) u"
  shows "ref_admit u = ref_admit z"
  using assms
proof (cases rule: mixed.cases)
  case (ConfigMap z' y' u')
  then have "y' = z'" by (simp add: ref_admit_def)
  with ConfigMap have "u' = z'"
    by (intro ConfigMap.equality) (simp_all add: taken_def mixed_meta_same)
  with ConfigMap show ?thesis by simp
next
  case (ServiceAccount z' y' u')
  then have "y' = z'" by (simp add: ref_admit_def)
  with ServiceAccount have "u' = z'"
    by (intro ServiceAccount.equality) (simp_all add: taken_def mixed_meta_same)
  with ServiceAccount show ?thesis by simp
next
  case (Deployment z' y' u')
  let ?set = "\<lambda>d. d\<lparr>dep_Spec := (dep_Spec d)\<lparr>dps_Replicas :=
    Some (case dps_Replicas (dep_Spec d) of None \<Rightarrow> 1 | Some n \<Rightarrow> n)\<rparr>\<rparr>"
  from Deployment have y: "y' = ?set z'" by (simp add: ref_admit_def)
  have "?set u' = ?set z'"
    using Deployment y
    by (intro Deployment.equality DeploymentSpec.equality) (auto simp: taken_def mixed_meta_same)
  with Deployment show ?thesis by (simp add: ref_admit_def)
next
  case (Service z' y' u')
  let ?set = "\<lambda>s. s\<lparr>svc_Spec := (svc_Spec s)\<lparr>svs_Type :=
    Some (case svs_Type (svc_Spec s) of None \<Rightarrow> ServiceTypeClusterIP | Some t \<Rightarrow> t)\<rparr>\<rparr>"
  from Service have y: "y' = ?set z'" by (simp add: ref_admit_def)
  have "?set u' = ?set z'"
    using Service y
    by (intro Service.equality ServiceSpec.equality) (auto simp: taken_def mixed_meta_same)
  with Service show ?thesis by (simp add: ref_admit_def)
next
  case (DaemonSet z' y' u')
  then have "y' = z'" by (simp add: ref_admit_def)
  with DaemonSet have "u' = z'"
    by (intro DaemonSet.equality DaemonSetSpec.equality) (simp_all add: taken_def mixed_meta_same)
  with DaemonSet show ?thesis by simp
next
  case (Ingress z' y' u')
  then have "y' = z'" by (simp add: ref_admit_def)
  with Ingress have "u' = z'"
    by (intro Ingress.equality IngressSpec.equality) (simp_all add: taken_def mixed_meta_same)
  with Ingress show ?thesis by simp
next
  case (ClusterRole z' y' u')
  then have "y' = z'" by (simp add: ref_admit_def)
  with ClusterRole have "u' = z'"
    by (intro ClusterRole.equality) (simp_all add: taken_def mixed_meta_same)
  with ClusterRole show ?thesis by simp
next
  case (ClusterRoleBinding z' y' u')
  then have "y' = z'" by (simp add: ref_admit_def)
  with ClusterRoleBinding have "u' = z'"
    by (intro ClusterRoleBinding.equality) (simp_all add: taken_def mixed_meta_same)
  with ClusterRoleBinding show ?thesis by simp
qed

lemma ref_admission: "admission ref_admit"
proof -
  have "admission_keeps ref_admit" by (simp add: admission_keeps_def)
  moreover have "admission_defaults ref_admit"
    using ref_admit_again by (auto simp: admission_defaults_def)
  moreover have "admission_secrets ref_admit"
    by (simp add: admission_secrets_def ref_admit_def)
  ultimately show ?thesis by (simp add: admission_def)
qed

definition ref_SetControllerReference ::
  "Kubeshark \<Rightarrow> ObjectMeta \<Rightarrow> ref_error goerror option \<times> ObjectMeta" where
  "ref_SetControllerReference cr m =
     (let uid = om_UID (ks_ObjectMeta cr); refs = om_OwnerReferences m in
      if list_ex (\<lambda>r. or_Controller r \<and> or_UID r \<noteq> uid) refs
      then (Some (LibError RefAlreadyOwned), m)
      else if list_ex (\<lambda>r. or_Controller r \<and> or_UID r = uid) refs then (None, m)
      else (None, m\<lparr>om_OwnerReferences := refs @
              [\<lparr>or_UID = uid, or_Name = ks_Name cr, or_Controller = True\<rparr>]\<rparr>))"

definition ref_SetStatusCondition :: "Condition list \<Rightarrow> Condition \<Rightarrow> Condition list" where
  "ref_SetStatusCondition cs c =
     (if list_ex (\<lambda>d. cond_Type d = cond_Type c) cs
      then map (\<lambda>d. if cond_Type d = cond_Type c
                     then c\<lparr>cond_LastTransitionTime :=
                            (if cond_Status d = cond_Status c then cond_LastTransitionTime d
                             else Some ''now'')\<rparr>
                     else d) cs
      else cs @ [c\<lparr>cond_LastTransitionTime := Some ''now''\<rparr>])"

definition ref_api :: "ObjectKey list \<Rightarrow> (cluster, ref_error) api" where
  "ref_api deny = \<lparr>
     api_Get = (\<lambda>nn w. case get_by ks_key nn (cl_crs w) of
       None \<Rightarrow> ((Some (LibError RefNotFound), zero_Kubeshark), w)
     | Some cr \<Rightarrow> ((None, cr), w)),
     api_Update = (\<lambda>cr w. case get_by ks_key (ks_key cr) (cl_crs w) of
       None \<Rightarrow> ((Some (LibError RefNotFound), cr), w)
     | Some old \<Rightarrow>
         if ks_DeletionTimestamp cr \<noteq> None \<and> ks_Finalizers cr = []
         then ((None, cr), w\<lparr>cl_crs := filter (\<lambda>c. ks_key c \<noteq> ks_key cr) (cl_crs w)\<rparr>)
         else (let cr' = cr\<lparr>ks_Status := ks_Status old\<rparr>
               in ((None, cr'), w\<lparr>cl_crs := put_by ks_key cr' (cl_crs w)\<rparr>))),
     api_StatusPatch = (\<lambda>cr orig w. case get_by ks_key (ks_key cr) (cl_crs w) of
       None \<Rightarrow> ((Some (LibError RefNotFound), cr), w)
     | Some old \<Rightarrow>
         (let cr' = old\<lparr>ks_Status := ks_Status cr\<rparr>
          in ((None, cr'), w\<lparr>cl_crs := put_by ks_key cr' (cl_crs w)\<rparr>))),
     api_Delete = (\<lambda>obj w.
       if object_key obj \<in> set deny then (Some (LibError RefDenied), w)
       else case get_by object_key (object_key obj) (cl_objs w) of
         None \<Rightarrow> (Some (LibError RefNotFound), w)
       | Some x \<Rightarrow>
           (None, w\<lparr>cl_objs := filter (\<lambda>y. object_key y \<noteq> object_key obj) (cl_objs w)\<rparr>)),
     api_CreateOrUpdate = (\<lambda>obj f w.
       if object_key obj \<in> set deny
       then ((OperationResultNone, Some (LibError RefDenied), obj), w)
       else (let old = get_by object_key (object_key obj) (cl_objs w);
                 base = (case old of None \<Rightarrow> obj | Some x \<Rightarrow> x)
             in case f base of
                  (Some err, x) \<Rightarrow> ((OperationResultNone, Some err, x), w)
                | (None, x) \<Rightarrow>
                    if object_key x \<noteq> object_key obj
                    then ((OperationResultNone, Some (LibError RefKeyChanged), x), w)
                    else ((if old = None then OperationResultCreated
                           else OperationResultUpdated, None, ref_admit x),
                          w\<lparr>cl_objs := put_by object_key (ref_admit x) (cl_objs w)\<rparr>))),
     api_SetControllerReference = ref_SetControllerReference,
     api_ContainsFinalizer = (\<lambda>cr f. f \<in> set (ks_Finalizers cr)),
     api_AddFinalizer = (\<lambda>cr f. if f \<in> set (ks_Finalizers cr) then cr
       else cr\<lparr>ks_ObjectMeta :=
              (ks_ObjectMeta cr)\<lparr>om_Finalizers := ks_Finalizers cr @ [f]\<rparr>\<rparr>),
     api_RemoveFinalizer = (\<lambda>cr f. cr\<lparr>ks_ObjectMeta :=
       (ks_ObjectMeta cr)\<lparr>om_Finalizers := filter (\<lambda>g. g \<noteq> f) (ks_Finalizers cr)\<rparr>\<rparr>),
     api_SetStatusCondition = ref_SetStatusCondition,
     api_IsZero = (\<lambda>t. t = None),
     api_IsNotFound = (\<lambda>err. error_cause err = RefNotFound),
     api_IgnoreNotFound = (\<lambda>err. if error_cause err = RefNotFound then None else Some err),
     api_errorText = (\<lambda>e. case e of
       RefNotFound \<Rightarrow> ''not found'' | RefDenied \<Rightarrow> ''forbidden''
     | RefAlreadyOwned \<Rightarrow> ''already owned'' | RefKeyChanged \<Rightarrow> ''key changed'')\<rparr>"

definition ref_view :: "cluster view" where
  "ref_view = \<lparr>
     v_cr = (\<lambda>w nn. get_by ks_key nn (cl_crs w)),
     v_obj = (\<lambda>w k. get_by object_key k (cl_objs w)),
     v_admit = ref_admit\<rparr>"

lemma ref_view_simps [simp]:
  "v_cr ref_view w nn = get_by ks_key nn (cl_crs w)"
  "v_obj ref_view w k = get_by object_key k (cl_objs w)"
  "v_admit ref_view = ref_admit"
  by (simp_all add: ref_view_def)

lemma ref_view_admission: "admission (v_admit ref_view)"
  by (simp add: ref_admission)

section \<open>The laws hold\<close>

lemma same_refs: "\<exists>refs. (m :: ObjectMeta) = m\<lparr>om_OwnerReferences := refs\<rparr>"
  by (rule exI [of _ "om_OwnerReferences m"]) simp

lemma ref_owner_laws: "owner_laws (ref_api deny)"
  by (auto simp: owner_laws_def ref_api_def ref_SetControllerReference_def Let_def
      controlled_by_def same_resource_def list_ex_iff
      intro: same_refs split: if_splits)

lemma find_condition_Cons:
  "find_condition ty (d # cs) = (if cond_Type d = ty then Some d else find_condition ty cs)"
  by (simp add: find_condition_def)

lemma find_condition_Nil: "find_condition ty [] = None"
  by (simp add: find_condition_def)

lemmas find_condition_simps = find_condition_Cons find_condition_Nil

lemma find_condition_map_other:
  assumes "ty \<noteq> cond_Type c" and "\<And>d. cond_Type (g d) = cond_Type c"
  shows "find_condition ty (map (\<lambda>d. if cond_Type d = cond_Type c then g d else d) cs) =
    find_condition ty cs"
  using assms by (induction cs) (auto simp: find_condition_simps)

lemma find_condition_append_other:
  "cond_Type d \<noteq> ty \<Longrightarrow> find_condition ty (cs @ [d]) = find_condition ty cs"
  by (induction cs) (auto simp: find_condition_simps)

lemma find_condition_map_same:
  assumes "list_ex (\<lambda>d. cond_Type d = cond_Type c) cs" and "\<And>d. cond_Type (g d) = cond_Type c"
  shows "\<exists>d. find_condition (cond_Type c)
    (map (\<lambda>d. if cond_Type d = cond_Type c then g d else d) cs) = Some (g d)"
  using assms by (induction cs) (auto simp: find_condition_simps)

lemma find_condition_append_same:
  "\<not> list_ex (\<lambda>d. cond_Type d = cond_Type c) cs \<Longrightarrow> cond_Type d = cond_Type c \<Longrightarrow>
     find_condition (cond_Type c) (cs @ [d]) = Some d"
  by (induction cs) (auto simp: find_condition_simps)

lemma ref_condition_laws: "condition_laws (ref_api deny)"
proof -
  have "\<exists>t. find_condition (cond_Type c) (ref_SetStatusCondition cs c) =
      Some (c\<lparr>cond_LastTransitionTime := t\<rparr>)" for cs c
  proof (cases "list_ex (\<lambda>d. cond_Type d = cond_Type c) cs")
    case True
    from find_condition_map_same [OF True, of "\<lambda>d. c\<lparr>cond_LastTransitionTime :=
        (if cond_Status d = cond_Status c then cond_LastTransitionTime d else Some ''now'')\<rparr>"]
    show ?thesis using True by (auto simp: ref_SetStatusCondition_def)
  next
    case False
    then show ?thesis
      by (auto simp: ref_SetStatusCondition_def find_condition_append_same)
  qed
  moreover have "find_condition ty (ref_SetStatusCondition cs c) = find_condition ty cs"
    if "ty \<noteq> cond_Type c" for ty cs c
    using that by (auto simp: ref_SetStatusCondition_def find_condition_append_other
        find_condition_map_other)
  ultimately show ?thesis by (simp add: condition_laws_def ref_api_def)
qed

lemma ref_pure_laws: "error_laws (ref_api deny)" "finalizer_laws (ref_api deny)"
  by (simp_all add: error_laws_def finalizer_laws_def ref_api_def)

lemma ref_get_law: "get_law (ref_api deny) ref_view"
  by (auto simp: get_law_def ref_api_def dest: get_by_key split: option.splits)

lemma ks_key_status [simp]: "ks_key (cr\<lparr>ks_Status := s\<rparr>) = ks_key cr"
  by (simp add: ks_key_def)

lemma ref_update_law: "update_law (ref_api deny) ref_view"
  by (auto simp: update_law_def ref_api_def Let_def same_spec_meta_def same_resource_def
      dest: get_by_key split: option.splits if_splits)

lemma ref_patch_law: "patch_law (ref_api deny) ref_view"
  by (auto simp: patch_law_def ref_api_def Let_def same_spec_meta_def same_resource_def
      dest: get_by_key split: option.splits)

lemma ref_delete_law: "delete_law (ref_api deny) ref_view"
  by (auto simp: delete_law_def ref_api_def split: option.splits if_splits)

lemma ref_cou_law: "create_or_update_law (ref_api deny) ref_view"
  by (auto simp: create_or_update_law_def ref_api_def Let_def cou_base_def
      split: option.splits if_splits prod.splits)

lemma ref_keyed: "keyed_view ref_view"
  by (auto simp: keyed_view_def dest: get_by_key)

lemma ref_lawful: "lawful (ref_api deny) ref_view"
  by (simp add: lawful_def ref_owner_laws ref_condition_laws ref_pure_laws ref_get_law
      ref_update_law ref_patch_law ref_delete_law ref_cou_law ref_keyed)

end
