(* ===== verification/Permissions.thy ===== *)
theory Permissions
  imports Effects PassTraces
begin

text \<open>
  The operator's own permissions, from the \<open>+kubebuilder:rbac\<close> markers above \<open>Reconcile\<close>
  (\<open>config/rbac/role.yaml\<close> is generated from them), against the calls the operator makes and
  against the ClusterRole it creates. A request is a verb, an API group and a resource. Beside the
  requests for its calls a client needs \<open>update\<close> on the finalizers of the owner where it sets an
  owner reference that blocks deletion (\<open>SetControllerReference\<close> does), and a server checks that the
  author of a role holds what the role grants (\<open>escalation_checked\<close>).
\<close>

type_synonym request = "string \<times> string \<times> string"

definition all_verbs :: "string list" where
  "all_verbs = [''get'', ''list'', ''watch'', ''create'', ''update'', ''patch'', ''delete'']"

definition manager_rules :: "PolicyRule list" where
  "manager_rules = [
     zero_PolicyRule\<lparr>pol_APIGroups := [''kubeshark.opstreelabs.in''],
       pol_Resources := [''kubesharks''], pol_Verbs := all_verbs\<rparr>,
     zero_PolicyRule\<lparr>pol_APIGroups := [''kubeshark.opstreelabs.in''],
       pol_Resources := [''kubesharks/status''],
       pol_Verbs := [''get'', ''update'', ''patch'']\<rparr>,
     zero_PolicyRule\<lparr>pol_APIGroups := [''kubeshark.opstreelabs.in''],
       pol_Resources := [''kubesharks/finalizers''], pol_Verbs := [''update'']\<rparr>,
     zero_PolicyRule\<lparr>pol_APIGroups := [''apps''],
       pol_Resources := [''deployments'', ''daemonsets''], pol_Verbs := all_verbs\<rparr>,
     zero_PolicyRule\<lparr>pol_APIGroups := [''''],
       pol_Resources := [''services'', ''configmaps'', ''secrets'', ''serviceaccounts''],
       pol_Verbs := all_verbs\<rparr>,
     zero_PolicyRule\<lparr>pol_APIGroups := [''networking.k8s.io''],
       pol_Resources := [''ingresses''], pol_Verbs := all_verbs\<rparr>,
     zero_PolicyRule\<lparr>pol_APIGroups := [''rbac.authorization.k8s.io''],
       pol_Resources := [''clusterroles'', ''clusterrolebindings''],
       pol_Verbs := all_verbs\<rparr>]"

definition matches_rule :: "string list \<Rightarrow> string \<Rightarrow> bool" where
  "matches_rule xs x \<longleftrightarrow> List.member xs x \<or> List.member xs ''*''"

text \<open>A rule restricted to named objects does not grant the request in general.\<close>

fun grants :: "PolicyRule \<Rightarrow> request \<Rightarrow> bool" where
  "grants rule (verb, grp, resource) \<longleftrightarrow>
     matches_rule (pol_Verbs rule) verb \<and> matches_rule (pol_APIGroups rule) grp \<and>
     matches_rule (pol_Resources rule) resource \<and> pol_ResourceNames rule = []"

definition allowed :: "PolicyRule list \<Rightarrow> request \<Rightarrow> bool" where
  "allowed rules rq \<longleftrightarrow> list_ex (\<lambda>r. grants r rq) rules"

fun kind_resource :: "kind \<Rightarrow> string \<times> string" where
  "kind_resource ConfigMapKind = ('''', ''configmaps'')"
| "kind_resource ServiceAccountKind = ('''', ''serviceaccounts'')"
| "kind_resource DeploymentKind = (''apps'', ''deployments'')"
| "kind_resource ServiceKind = ('''', ''services'')"
| "kind_resource DaemonSetKind = (''apps'', ''daemonsets'')"
| "kind_resource IngressKind = (''networking.k8s.io'', ''ingresses'')"
| "kind_resource SecretKind = ('''', ''secrets'')"
| "kind_resource ClusterRoleKind = (''rbac.authorization.k8s.io'', ''clusterroles'')"
| "kind_resource ClusterRoleBindingKind = (''rbac.authorization.k8s.io'', ''clusterrolebindings'')"

text \<open>\<open>CreateOrUpdate\<close> reads through the cache, which lists and watches, and then creates or updates.\<close>

definition apply_requests :: "kind \<Rightarrow> request list" where
  "apply_requests k =
     map (\<lambda>v. (v, kind_resource k)) [''get'', ''list'', ''watch'', ''create'', ''update'']"

text \<open>The requests an API server authorises for one call of the client.\<close>

fun event_requests :: "'e event \<Rightarrow> request list" where
  "event_requests (GetEv nn r) =
     map (\<lambda>v. (v, ''kubeshark.opstreelabs.in'', ''kubesharks'')) [''get'', ''list'', ''watch'']"
| "event_requests (UpdateEv cr r) =
     [(''update'', ''kubeshark.opstreelabs.in'', ''kubesharks'')]"
| "event_requests (PatchEv cr orig r) =
     [(''patch'', ''kubeshark.opstreelabs.in'', ''kubesharks/status'')]"
| "event_requests (DeleteEv k r) = [(''delete'', kind_resource (key_kind k))]"
| "event_requests (ApplyEv k r) =
     apply_requests (key_kind k) @
     (if cluster_scoped (key_kind k) then []
      else [(''update'', ''kubeshark.opstreelabs.in'', ''kubesharks/finalizers'')])"

lemma manager_kinds:
  "\<forall>v \<in> set all_verbs. allowed manager_rules (v, kind_resource k)"
  by (cases k) (simp_all add: all_verbs_def manager_rules_def allowed_def matches_rule_def
      zero_PolicyRule_def)

section \<open>What a pass needs\<close>

definition needed_requests :: "request list" where
  "needed_requests =
     map (\<lambda>v. (v, ''kubeshark.opstreelabs.in'', ''kubesharks''))
       [''get'', ''list'', ''watch'', ''update''] @
     [(''patch'', ''kubeshark.opstreelabs.in'', ''kubesharks/status''),
      (''update'', ''kubeshark.opstreelabs.in'', ''kubesharks/finalizers'')] @
     concat (map apply_requests enum_class.enum) @
     map (\<lambda>k. (''delete'', kind_resource k)) [ClusterRoleKind, ClusterRoleBindingKind]"

lemma enum_kind_UNIV: "k \<in> set (enum_class.enum :: kind list)"
  by (simp add: UNIV_enum [symmetric])

lemma event_requests_needed:
  assumes "\<And>k r. ev = DeleteEv k r \<Longrightarrow> cluster_scoped (key_kind k)"
  shows "set (event_requests ev) \<subseteq> set needed_requests"
proof (cases ev)
  case (DeleteEv k r)
  with assms have "cluster_scoped (key_kind k)" by simp
  then show ?thesis by (cases "key_kind k") (simp_all add: DeleteEv needed_requests_def)
next
  case (ApplyEv k r)
  have "set (apply_requests (key_kind k)) \<subseteq> set needed_requests"
    using enum_kind_UNIV [of "key_kind k"] unfolding needed_requests_def set_append set_concat set_map
    by blast
  moreover have "(''update'', ''kubeshark.opstreelabs.in'', ''kubesharks/finalizers'') \<in>
      set needed_requests"
    by (simp add: needed_requests_def)
  ultimately show ?thesis by (simp add: ApplyEv)
qed (simp_all add: needed_requests_def)

lemma needed_allowed: "rq \<in> set needed_requests \<Longrightarrow> allowed manager_rules rq"
proof -
  have "list_all (allowed manager_rules) needed_requests"
    by code_simp
  then show "rq \<in> set needed_requests \<Longrightarrow> allowed manager_rules rq" by (simp add: list_all_iff)
qed

lemma needed_deletions: "(''delete'', kind_resource k) \<in> set needed_requests \<longleftrightarrow> cluster_scoped k"
  by (cases k) (auto simp: needed_requests_def apply_requests_def)

lemma pass_deletes:
  assumes run: "Reconcile (traced api) nn (w, []) = ((res, err), w', t)" and "DeleteEv k r \<in> set t"
  shows "cluster_scoped (key_kind k)"
proof -
  from traced_pass_gates [OF run, of k r] assms(2) obtain cr
    where "k \<in> set (map object_key (cluster_objects cr))" by auto
  then show ?thesis by (auto simp: object_key_cluster_objects)
qed

section \<open>The escalation check\<close>

text \<open>
  A rule as the requests it grants. A rule for named objects, or for URLs, counts with its verbs,
  groups and resources; \<open>granted\<close> is a list of rules without such restrictions.
\<close>

definition rule_requests :: "PolicyRule \<Rightarrow> request list" where
  "rule_requests r =
     List.product (pol_Verbs r) (List.product (pol_APIGroups r) (pol_Resources r))"

definition covers :: "PolicyRule list \<Rightarrow> PolicyRule list \<Rightarrow> bool" where
  "covers granted rules \<longleftrightarrow> list_all (\<lambda>r. list_all (allowed granted) (rule_requests r)) rules"

definition may_escalate :: "PolicyRule list \<Rightarrow> bool" where
  "may_escalate granted \<longleftrightarrow> allowed granted (''escalate'', kind_resource ClusterRoleKind)"

text \<open>
  A ClusterRole whose rules are new to the server is refused, unless its author holds all that they
  grant or may \<open>escalate\<close>.
\<close>

definition new_rules :: "k8s_object option \<Rightarrow> ClusterRole \<Rightarrow> bool" where
  "new_rules old role \<longleftrightarrow>
     (case old of Some (ClusterRoleObj r) \<Rightarrow> crole_Rules r \<noteq> crole_Rules role | _ \<Rightarrow> True)"

definition escalation_checked :: "('w, 'e) api \<Rightarrow> 'w view \<Rightarrow> PolicyRule list \<Rightarrow> bool" where
  "escalation_checked api vw granted \<longleftrightarrow>
     (\<forall>obj f w role op err obj' w'.
        f (cou_base vw w obj) = (None, ClusterRoleObj role) \<and>
        new_rules (v_obj vw w (object_key obj)) role \<and>
        \<not> covers granted (crole_Rules role) \<and> \<not> may_escalate granted \<and>
        api_CreateOrUpdate api obj f w = ((op, err, obj'), w') \<longrightarrow>
        err \<noteq> None \<and> v_obj vw w' (object_key obj) = v_obj vw w (object_key obj))"

lemma manager_cannot_grant_default:
  "\<not> covers manager_rules defaultClusterRoleRules" "\<not> may_escalate manager_rules"
  by code_simp+

lemma role_refused:
  assumes chk: "escalation_checked api vw manager_rules"
    and rules: "sp_ClusterRoleRules (ks_Spec cr) = [] \<or>
      \<not> covers manager_rules (sp_ClusterRoleRules (ks_Spec cr))"
    and key: "child_key (clusterRole_child api cr ls) = K"
    and run: "run_child api (clusterRole_child api cr ls) x = (r, y)" and none: "v_obj vw x K = None"
  shows "r \<noteq> None \<and> v_obj vw y K = None"
proof -
  let ?c = "clusterRole_child api cr ls"
  have base: "cou_base vw x (ch_object ?c) = ch_object ?c"
    using none key by (simp add: cou_base_def child_key_def)
  obtain role where mut: "ch_mutate ?c (ch_object ?c) = (None, ClusterRoleObj role)"
    and "crole_Rules role = (if sp_ClusterRoleRules (ks_Spec cr) = [] then defaultClusterRoleRules
      else sp_ClusterRoleRules (ks_Spec cr))"
    by (simp add: clusterRole_child_def clusterRole_mutate_def on_defs Let_def)
  with rules have new: "\<not> covers manager_rules (crole_Rules role)"
    using manager_cannot_grant_default(1) by auto
  obtain op err obj' y' where call:
    "api_CreateOrUpdate api (ch_object ?c) (ch_mutate ?c) x = ((op, err, obj'), y')"
    by (metis prod.exhaust)
  have "err \<noteq> None \<and> v_obj vw y' K = v_obj vw x K"
    using chk mut base new none key call manager_cannot_grant_default(2)
    unfolding escalation_checked_def child_key_def by (metis new_rules_def option.simps(4))
  moreover have "y = y'" and "err \<noteq> None \<longrightarrow> r \<noteq> None"
    using run call by (auto simp: run_child_def create_or_update_def wrap_err_def
        split: option.splits)
  ultimately show ?thesis using none by simp
qed

end
