(* ===== verification/RefScreened.thy ===== *)
theory RefScreened
  imports RefCluster Permissions
begin

text \<open>
  The reference cluster behind a screen: an object is stored only if a policy accepts it. With the
  policy \<open>rbac_accepts\<close> it is a server with RBAC, which refuses to change the role of a binding and
  checks what the rules of a new role grant. As \<open>RefCluster\<close>, it only instantiates hypotheses.
\<close>

definition screened_create ::
  "policy \<Rightarrow> k8s_object \<Rightarrow> (ref_error, k8s_object) mutate_fn \<Rightarrow> cluster
     \<Rightarrow> (OperationResult \<times> ref_error goerror option \<times> k8s_object) \<times> cluster" where
  "screened_create accepts obj f w =
     (case f (cou_base ref_view w obj) of
        (None, y) \<Rightarrow>
          if accepts (get_by object_key (object_key obj) (cl_objs w)) y
          then api_CreateOrUpdate (ref_api []) obj f w
          else ((OperationResultNone, Some (LibError RefDenied), obj), w)
      | _ \<Rightarrow> api_CreateOrUpdate (ref_api []) obj f w)"

definition screened_api :: "policy \<Rightarrow> (cluster, ref_error) api" where
  "screened_api accepts = (ref_api [])\<lparr>api_CreateOrUpdate := screened_create accepts\<rparr>"

lemma screened_same:
  "api_Get (screened_api p) = api_Get (ref_api [])"
  "api_Update (screened_api p) = api_Update (ref_api [])"
  "api_StatusPatch (screened_api p) = api_StatusPatch (ref_api [])"
  "api_Delete (screened_api p) = api_Delete (ref_api [])"
  "api_SetControllerReference (screened_api p) = api_SetControllerReference (ref_api [])"
  "api_ContainsFinalizer (screened_api p) = api_ContainsFinalizer (ref_api [])"
  "api_AddFinalizer (screened_api p) = api_AddFinalizer (ref_api [])"
  "api_RemoveFinalizer (screened_api p) = api_RemoveFinalizer (ref_api [])"
  "api_SetStatusCondition (screened_api p) = api_SetStatusCondition (ref_api [])"
  "api_IsZero (screened_api p) = api_IsZero (ref_api [])"
  "api_IsNotFound (screened_api p) = api_IsNotFound (ref_api [])"
  "api_IgnoreNotFound (screened_api p) = api_IgnoreNotFound (ref_api [])"
  by (simp_all add: screened_api_def)

lemma screened_cases:
  assumes "api_CreateOrUpdate (screened_api p) obj f w = (r, w')"
  obtains (same) "api_CreateOrUpdate (ref_api []) obj f w = (r, w')"
    | (refused) y where "f (cou_base ref_view w obj) = (None, y)"
      and "\<not> p (get_by object_key (object_key obj) (cl_objs w)) y"
      and "w' = w" and "fst (snd r) \<noteq> None"
  using assms
  by (auto simp: screened_api_def screened_create_def split: prod.splits option.splits if_splits)

section \<open>Laws\<close>

lemma screened_create_law: "create_or_update_law (screened_api p) ref_view"
  unfolding create_or_update_law_def
proof (intro allI impI)
  fix obj f w op err obj' w'
  assume run: "api_CreateOrUpdate (screened_api p) obj f w = ((op, err, obj'), w')"
  from run show "v_cr ref_view w' = v_cr ref_view w \<and>
      (\<forall>k. k \<noteq> object_key obj \<longrightarrow> v_obj ref_view w' k = v_obj ref_view w k) \<and>
      (if fst (f (cou_base ref_view w obj)) = None
       then v_obj ref_view w' (object_key obj) =
              Some (v_admit ref_view (snd (f (cou_base ref_view w obj)))) \<or>
            err \<noteq> None \<and> v_obj ref_view w' (object_key obj) = v_obj ref_view w (object_key obj)
       else err \<noteq> None \<and> v_obj ref_view w' (object_key obj) = v_obj ref_view w (object_key obj))"
  proof (cases rule: screened_cases)
    case same
    from ref_cou_law [of "[]", unfolded create_or_update_law_def, rule_format, OF same]
    show ?thesis .
  next
    case refused
    then show ?thesis by simp
  qed
qed

lemma screened_lawful: "lawful (screened_api p) ref_view"
proof -
  note defs = error_laws_def finalizer_laws_def owner_laws_def condition_laws_def get_law_def
    update_law_def patch_law_def delete_law_def
  have "error_laws (screened_api p) = error_laws (ref_api [])"
    "finalizer_laws (screened_api p) = finalizer_laws (ref_api [])"
    "owner_laws (screened_api p) = owner_laws (ref_api [])"
    "condition_laws (screened_api p) = condition_laws (ref_api [])"
    "get_law (screened_api p) ref_view = get_law (ref_api []) ref_view"
    "update_law (screened_api p) ref_view = update_law (ref_api []) ref_view"
    "patch_law (screened_api p) ref_view = patch_law (ref_api []) ref_view"
    "delete_law (screened_api p) ref_view = delete_law (ref_api []) ref_view"
    by (simp_all only: defs screened_same)
  then show ?thesis
    by (simp add: lawful_def screened_create_law ref_keyed lawfulD(1-8) [OF ref_lawful])
qed

section \<open>The server answers\<close>

lemma ref_prompt_calls: "prompt_calls (ref_api []) ref_view"
  by (auto simp: prompt_calls_def ref_api_def Let_def split: option.splits if_splits)

lemma screened_prompt_calls: "prompt_calls (screened_api p) ref_view"
  using ref_prompt_calls by (simp only: prompt_calls_def screened_same)

lemma screened_prompt_apply: "prompt_apply (screened_api p) ref_view p"
  by (auto simp: prompt_apply_def screened_api_def screened_create_def ref_api_def Let_def
      cou_base_def split: option.splits)

lemma ref_prompt_owner: "prompt_owner (ref_api [])"
  by (auto simp: prompt_owner_def ref_api_def ref_SetControllerReference_def Let_def ours_meta_def
      list_all_iff list_ex_iff)

lemma screened_prompt: "prompt (screened_api p) ref_view p"
  using ref_prompt_owner
  by (simp add: prompt_def screened_prompt_calls screened_prompt_apply prompt_owner_def screened_same)

lemma ref_prompt: "prompt (ref_api []) ref_view (\<lambda>_ _. True)"
proof -
  have "prompt_apply (ref_api []) ref_view (\<lambda>_ _. True)"
    by (auto simp: prompt_apply_def ref_api_def Let_def cou_base_def split: option.splits)
  then show ?thesis by (simp add: prompt_def ref_prompt_calls ref_prompt_owner)
qed

section \<open>A server with RBAC\<close>

definition rbac_accepts :: "PolicyRule list \<Rightarrow> policy" where
  "rbac_accepts granted old y \<longleftrightarrow>
     (case y of
        ClusterRoleObj role \<Rightarrow>
          new_rules old role \<longrightarrow> covers granted (crole_Rules role) \<or> may_escalate granted
      | ClusterRoleBindingObj b \<Rightarrow>
          (case old of Some (ClusterRoleBindingObj b0) \<Rightarrow> crb_RoleRef b = crb_RoleRef b0 | _ \<Rightarrow> True)
      | _ \<Rightarrow> True)"

definition strict_api :: "(cluster, ref_error) api" where
  "strict_api = screened_api (rbac_accepts manager_rules)"

lemma strict_server:
  "lawful strict_api ref_view" "prompt strict_api ref_view (rbac_accepts manager_rules)"
  by (simp_all add: strict_api_def screened_lawful screened_prompt)

lemma strict_refuses:
  assumes "\<not> rbac_accepts manager_rules (get_by object_key (object_key obj) (cl_objs w)) y"
    and "f (cou_base ref_view w obj) = (None, y)"
    and "api_CreateOrUpdate strict_api obj f w = ((op, err, obj'), w')"
  shows "err \<noteq> None" and "w' = w"
  using assms by (auto simp: strict_api_def screened_api_def screened_create_def)

lemma strict_fixed: "roleref_fixed strict_api ref_view"
  unfolding roleref_fixed_def
proof (intro allI impI, elim conjE)
  fix obj f w b b' op err obj' w'
  assume old: "v_obj ref_view w (object_key obj) = Some (ClusterRoleBindingObj b)"
    and f: "f (ClusterRoleBindingObj b) = (None, ClusterRoleBindingObj b')"
    and "crb_RoleRef b' \<noteq> crb_RoleRef b"
    and call: "api_CreateOrUpdate strict_api obj f w = ((op, err, obj'), w')"
  then have "\<not> rbac_accepts manager_rules (get_by object_key (object_key obj) (cl_objs w))
      (ClusterRoleBindingObj b')"
    by (simp add: rbac_accepts_def)
  moreover have "f (cou_base ref_view w obj) = (None, ClusterRoleBindingObj b')"
    using old f by (simp add: cou_base_def)
  ultimately show "err \<noteq> None \<and> v_obj ref_view w' (object_key obj) = Some (ClusterRoleBindingObj b)"
    using strict_refuses [OF _ _ call] old by simp
qed

lemma strict_escalation: "escalation_checked strict_api ref_view manager_rules"
  unfolding escalation_checked_def
proof (intro allI impI, elim conjE)
  fix obj f w role op err obj' w'
  assume f: "f (cou_base ref_view w obj) = (None, ClusterRoleObj role)"
    and "new_rules (v_obj ref_view w (object_key obj)) role"
    and "\<not> covers manager_rules (crole_Rules role)" and "\<not> may_escalate manager_rules"
    and call: "api_CreateOrUpdate strict_api obj f w = ((op, err, obj'), w')"
  then have "\<not> rbac_accepts manager_rules (get_by object_key (object_key obj) (cl_objs w))
      (ClusterRoleObj role)"
    by (simp add: rbac_accepts_def)
  from strict_refuses [OF this f call]
  show "err \<noteq> None \<and> v_obj ref_view w' (object_key obj) = v_obj ref_view w (object_key obj)" by simp
qed

end
