(* ===== verification/RefRuns.thy ===== *)
theory RefRuns
  imports Effects PassTraces RefScreened
begin

text \<open>
  Runs of the operator on the reference clusters, as instances for theorems with hypotheses.
  \<open>sample\<close> is the resource of \<open>config/samples\<close>, \<open>modest\<close> the same with rules for the cluster role
  that the operator itself holds, so that a server with RBAC accepts them.
\<close>

section \<open>Sample resources\<close>

definition sample :: Kubeshark where
  "sample = zero_Kubeshark\<lparr>
     ks_ObjectMeta := zero_ObjectMeta\<lparr>om_Name := ''kubeshark-sample'',
       om_Namespace := ''default'', om_UID := ''u1'', om_Generation := 3,
       om_Finalizers := [finalizerName]\<rparr>,
     ks_Spec := zero_KubesharkSpec\<lparr>
       sp_HubImage := ''docker.io/kubeshark/hub:v52.3.82'',
       sp_FrontendImage := ''docker.io/kubeshark/front:v52.3.82'',
       sp_WorkerImage := ''docker.io/kubeshark/worker:v52.3.82'',
       sp_HubReplicas := Some 1,
       sp_IngressClassName := ''nginx'',
       sp_IngressHost := ''kubeshark.example.com''\<rparr>\<rparr>"

definition fresh_sample :: Kubeshark where
  "fresh_sample = sample\<lparr>ks_ObjectMeta := (ks_ObjectMeta sample)\<lparr>om_Finalizers := []\<rparr>\<rparr>"

definition deleted_sample :: Kubeshark where
  "deleted_sample = sample\<lparr>ks_ObjectMeta :=
     (ks_ObjectMeta sample)\<lparr>om_DeletionTimestamp := Some ''2026-01-01T00:00:00Z''\<rparr>\<rparr>"

definition sample_key :: NamespacedName where
  "sample_key = \<lparr>nn_Namespace = ''default'', nn_Name = ''kubeshark-sample''\<rparr>"

definition holding :: "Kubeshark list \<Rightarrow> cluster" where
  "holding crs = \<lparr>cl_crs = crs, cl_objs = []\<rparr>"

lemmas sample_defs = sample_def fresh_sample_def deleted_sample_def sample_key_def holding_def
  zero_Kubeshark_def zero_KubesharkSpec_def zero_ObjectMeta_def zero_SecretKubesharkSpec_def
  zero_KubesharkStatus_def ks_key_def

lemma sample_plan_distinct: "distinct (plan_keys sample)"
  by (simp add: plan_keys_def Let_def name_defs sample_defs)

lemma sample_stored:
  "v_cr ref_view (holding [sample]) sample_key = Some sample"
  "v_cr ref_view (holding [fresh_sample]) sample_key = Some fresh_sample"
  "v_cr ref_view (holding [deleted_sample]) sample_key = Some deleted_sample"
  by (simp_all add: sample_defs)

lemma sample_state:
  "ks_DeletionTimestamp sample = None" "finalizerName \<in> set (ks_Finalizers sample)"
  "ks_DeletionTimestamp fresh_sample = None"
  "finalizerName \<notin> set (ks_Finalizers fresh_sample)"
  "ks_DeletionTimestamp deleted_sample \<noteq> None"
  "ks_Finalizers deleted_sample = [finalizerName]"
  by (simp_all add: sample_defs)

lemma holding_unclaimed: "unclaimed ref_view cr (holding crs)"
  by (simp add: unclaimed_def holding_def)

lemma sample_pass:
  obtains w' where "Reconcile (ref_api []) sample_key (holding [sample]) =
    ((empty_Result, None), w')"
  by (rule prompt_pass [OF ref_lawful ref_prompt sample_stored(1) sample_state(1,2)
        holding_unclaimed sample_plan_distinct])
     (simp add: list_all_iff acceptable_def)

lemma sample_plain: "plain sample" and fresh_sample_fresh: "fresh fresh_sample"
  and deleted_sample_dying: "dying deleted_sample"
  by (simp_all add: plain_def fresh_def dying_def sample_defs)

definition sample_role :: string where
  "sample_role = ''default-kubeshark-sample-kubeshark''"

lemma sample_names:
  "clusterRoleName sample = sample_role" "clusterRoleBindingName sample = sample_role"
  by (simp_all add: name_defs sample_defs sample_role_def)

text \<open>A user creates the sample with its finalizer; one pass later its role exists.\<close>

lemma sample_reachable:
  obtains w' where "Reconcile (ref_api []) sample_key (holding [sample]) =
      ((empty_Result, None), w')"
    and "reachable (ref_api []) ref_view sample_key sample_role sample_role w'"
    and "v_obj ref_view w' (Key ClusterRoleKind '''' sample_role) \<noteq> None"
proof -
  obtain w' where run: "Reconcile (ref_api []) sample_key (holding [sample]) =
      ((empty_Result, None), w')"
    by (rule sample_pass)
  have r0: "reachable (ref_api []) ref_view sample_key sample_role sample_role (holding [])"
    by (rule reachable.start) (simp_all add: cluster_rbac_absent_def holding_def)
  have "user_step ref_view sample_key sample_role sample_role (holding []) (holding [sample])"
    by (rule user_step.create [where c = sample])
       (simp_all add: sample_names, simp_all add: not_made_def sample_defs)
  with r0 have "reachable (ref_api []) ref_view sample_key sample_role sample_role (holding [sample])"
    by (rule reachable.user)
  then have "reachable (ref_api []) ref_view sample_key sample_role sample_role w'"
    using run by (rule reachable.pass)
  moreover obtain w1 w2 where
    "run_all (map (run_child (ref_api [])) (all_children (ref_api []) sample
       (componentLabels sample))) w1 = (None, w2)"
    and "v_obj ref_view w' = v_obj ref_view w2"
    by (rule successful_run [OF ref_lawful sample_stored(1) sample_plain run])
  from run_plan_delivers [OF ref_lawful sample_plan_distinct this(1)] this(2)
  have "v_obj ref_view w' (Key ClusterRoleKind '''' sample_role) \<noteq> None"
    by (auto simp: promises_def plan_keys_def Let_def delivers_def sample_names)
  ultimately show ?thesis using run that by blast
qed

lemma deleted_sample_pass:
  obtains w' where "Reconcile (ref_api []) sample_key (holding [deleted_sample]) =
    ((empty_Result, None), w')"
  by (rule prompt_delete_pass [OF ref_lawful ref_prompt_calls sample_stored(3) sample_state(5)])
     (simp add: sample_state)

lemma sample_read:
  "api_Get (ref_api []) sample_key (holding [sample]) = ((None, sample), holding [sample])"
  "api_Get (ref_api []) sample_key (holding [fresh_sample]) =
     ((None, fresh_sample), holding [fresh_sample])"
  "api_Get (ref_api []) sample_key (holding [deleted_sample]) =
     ((None, deleted_sample), holding [deleted_sample])"
  using sample_stored by (simp_all add: ref_api_def)

lemma sample_tests:
  "api_IsZero (ref_api d) (ks_DeletionTimestamp sample)"
  "api_ContainsFinalizer (ref_api d) sample finalizerName"
  "api_IsZero (ref_api d) (ks_DeletionTimestamp fresh_sample)"
  "\<not> api_ContainsFinalizer (ref_api d) fresh_sample finalizerName"
  "\<not> api_IsZero (ref_api d) (ks_DeletionTimestamp deleted_sample)"
  "api_ContainsFinalizer (ref_api d) deleted_sample finalizerName"
  using sample_state by (simp_all add: ref_api_def)

section \<open>A refused call\<close>

definition config_key :: ObjectKey where
  "config_key = Key ConfigMapKind ''default'' ''kubeshark-sample-config''"

lemma refused_config_child:
  "run_all (map (run_child (ref_api [config_key])) (all_children (ref_api [config_key]) sample ls)) w =
     (Some (LibError RefDenied), w)"
proof -
  have "object_key (ch_object (hubConfigMap_child (ref_api [config_key]) sample ls)) = config_key"
    by (simp add: hubConfigMap_child_def object_key_def config_key_def zero_defs name_defs sample_defs)
  then have "run_child (ref_api [config_key]) (hubConfigMap_child (ref_api [config_key]) sample ls) w =
      (Some (LibError RefDenied), w)"
    by (simp add: run_child_def create_or_update_def hubConfigMap_child_def ref_api_def)
  then show ?thesis
    by (simp add: children_lists and_then_def)
qed

lemma refused_config_pass:
  obtains e w' t c0 where "Reconcile (traced (ref_api [config_key])) sample_key
      (holding [sample], []) = ((empty_Result, Some e), w', t)"
    and "PatchEv c0 sample None \<in> set t"
proof -
  obtain res err w' t where run: "Reconcile (traced (ref_api [config_key])) sample_key
      (holding [sample], []) = ((res, err), w', t)"
    by (metis prod.exhaust)
  have res: "res = empty_Result"
    using Reconcile_result [of "traced (ref_api [config_key])" sample_key "(holding [sample], [])"]
      run by simp
  have get: "api_Get (ref_api [config_key]) sample_key (holding [sample]) =
      ((None, sample), holding [sample])"
    using sample_stored(1) by (simp add: ref_api_def)
  from get sample_tests(1,2) run show ?thesis
  proof (cases rule: traced_apply_pass)
    case (applied w2 p)
    then show ?thesis by (simp add: refused_config_child)
  next
    case (failed pre k post e e0 w2 s p)
    then have "w2 = holding [sample]" by (simp add: refused_config_child)
    moreover have "ks_key sample = sample_key" by (simp add: sample_defs)
    ultimately have "fst (setReadyCondition (ref_api [config_key]) sample False ''ReconcileError''
        (err_Error (ref_api [config_key]) e) w2) = None"
      using sample_stored(1) by (simp add: setReadyCondition_def ref_api_def Let_def)
    with failed(5,7) have "p = None" by simp
    with failed(2,3) run res show ?thesis
      by (intro that [of e w' t "with_ready (ref_api [config_key]) sample False ''ReconcileError''
            (err_Error (ref_api [config_key]) e)"]) simp_all
  qed
qed

section \<open>More worlds\<close>

definition doomed :: Kubeshark where
  "doomed = (named_resource ''a-b'' ''c'')\<lparr>ks_ObjectMeta :=
     (ks_ObjectMeta (named_resource ''a-b'' ''c''))\<lparr>om_Finalizers := [finalizerName],
       om_DeletionTimestamp := Some ''2026-01-01T00:00:00Z''\<rparr>\<rparr>"

definition bystander :: Kubeshark where
  "bystander = named_resource ''a'' ''b-c''"

definition old_role_world :: "Kubeshark \<Rightarrow> cluster" where
  "old_role_world cr = \<lparr>cl_crs = [cr], cl_objs = [ClusterRoleObj
     (zero_ClusterRole\<lparr>crole_ObjectMeta := zero_ObjectMeta\<lparr>om_Name := ''old''\<rparr>\<rparr>)]\<rparr>"

text \<open>Rules that the operator holds itself.\<close>

definition modest :: Kubeshark where
  "modest = sample\<lparr>ks_Spec := (ks_Spec sample)\<lparr>sp_ClusterRoleRules := [zero_PolicyRule\<lparr>
     pol_APIGroups := [''''], pol_Resources := [''configmaps''],
     pol_Verbs := [''get'', ''list'', ''watch'']\<rparr>]\<rparr>\<rparr>"

definition fresh_modest :: Kubeshark where
  "fresh_modest = modest\<lparr>ks_ObjectMeta := (ks_ObjectMeta modest)\<lparr>om_Finalizers := []\<rparr>\<rparr>"

lemmas modest_defs = modest_def fresh_modest_def

lemma modest_state:
  "ks_key modest = sample_key" "ks_key fresh_modest = sample_key" "plain modest"
  "fresh fresh_modest" "distinct (plan_keys fresh_modest)"
  "clusterRoleName modest = sample_role" "clusterRoleBindingName modest = sample_role"
  by (simp_all add: modest_defs plain_def fresh_def plan_keys_def Let_def name_defs sample_role_def,
      simp_all add: sample_defs)

lemma modest_rules: "same_resource fresh_modest c \<Longrightarrow>
    covers manager_rules (sp_ClusterRoleRules (ks_Spec c)) \<and> sp_ClusterRoleRules (ks_Spec c) \<noteq> []"
proof -
  have "covers manager_rules [zero_PolicyRule\<lparr>pol_APIGroups := [''''],
      pol_Resources := [''configmaps''], pol_Verbs := [''get'', ''list'', ''watch'']\<rparr>]"
    by code_simp
  then show ?thesis if "same_resource fresh_modest c"
    using that by (simp add: same_resource_def modest_defs)
qed

lemma modest_acceptable:
  assumes "same_resource fresh_modest c"
  shows "list_all (acceptable ref_view (rbac_accepts manager_rules) (holding [fresh_modest]))
    (all_children strict_api c ls)"
  using modest_rules [OF assms]
  by (simp add: children_lists acceptable_def submitted_def cou_base_def holding_def
      rbac_accepts_def child_key_def child_defs secret_defs on_defs Let_def)

definition stale_binding :: ClusterRoleBinding where
  "stale_binding = zero_ClusterRoleBinding\<lparr>crb_ObjectMeta := zero_ObjectMeta\<lparr>om_Name := sample_role\<rparr>,
     crb_RoleRef := \<lparr>ref_Kind = ''ClusterRole'', ref_Name = ''old'',
       ref_APIGroup = rbacv1_GroupName\<rparr>\<rparr>"

definition stale_binding_world :: cluster where
  "stale_binding_world = \<lparr>cl_crs = [modest], cl_objs = [ClusterRoleBindingObj stale_binding]\<rparr>"

lemma stale_binding_stored:
  "v_cr ref_view stale_binding_world sample_key = Some modest"
  "v_obj ref_view stale_binding_world (Key ClusterRoleBindingKind '''' (clusterRoleBindingName modest)) =
     Some (ClusterRoleBindingObj stale_binding)"
  "ref_Name (crb_RoleRef stale_binding) \<noteq> clusterRoleName modest"
  using modest_state
  by (simp_all add: stale_binding_world_def stale_binding_def object_key_def zero_defs)
     (simp add: sample_role_def)

text \<open>The sample after its ingress class was taken out, with the Ingress of before.\<close>

definition classless :: Kubeshark where
  "classless = sample\<lparr>ks_Spec := (ks_Spec sample)\<lparr>sp_IngressClassName := ''''\<rparr>\<rparr>"

definition class_world :: cluster where
  "class_world = \<lparr>cl_crs = [classless], cl_objs = [IngressObj (zero_Ingress\<lparr>
     ing_ObjectMeta := zero_ObjectMeta\<lparr>om_Name := ''kubeshark-sample-frontend-ingress'',
       om_Namespace := ''default''\<rparr>,
     ing_Spec := (ing_Spec zero_Ingress)\<lparr>igs_IngressClassName := Some ''nginx''\<rparr>\<rparr>)]\<rparr>"

lemma ref_keeps_class: "admission_keeps_class (v_admit ref_view)"
  by (simp add: admission_keeps_class_def ingress_class_def ref_admit_def)

lemma class_world_state:
  "v_cr ref_view class_world sample_key = Some classless" "plain classless"
  "sp_IngressClassName (ks_Spec classless) = ''''"
  "ingress_class (v_obj ref_view class_world
     (Key IngressKind (ks_Namespace classless) (frontendIngressName classless))) = Some ''nginx''"
  "ks_Namespace classless = ''default''" "frontendIngressName classless = ''kubeshark-sample-frontend-ingress''"
  by (simp_all add: class_world_def classless_def plain_def ingress_class_def object_key_def name_defs
      zero_defs sample_defs)

end
