(* ===== verification/Wiring.thy ===== *)
theory Wiring
  imports Convergence
begin

text \<open>
  How the children name each other: a pod template names a ServiceAccount, a binding names a role
  and service accounts, an Ingress names backend Services. \<open>references\<close> lists the keys an object
  points to; what the plan promises for an object mentions only objects that stand earlier in the
  plan.
\<close>

definition account_reference :: "string \<Rightarrow> PodSpec \<Rightarrow> ObjectKey list" where
  "account_reference ns pod =
     (if ps_ServiceAccountName pod = '''' then []
      else [Key ServiceAccountKind ns (ps_ServiceAccountName pod)])"

definition subject_reference :: "Subject \<Rightarrow> ObjectKey list" where
  "subject_reference s =
     (if sub_Kind s = rbacv1_ServiceAccountKind
      then [Key ServiceAccountKind (sub_Namespace s) (sub_Name s)] else [])"

definition backend_references :: "string \<Rightarrow> IngressRule \<Rightarrow> ObjectKey list" where
  "backend_references ns r =
     concat (map (\<lambda>p. case hip_BackendService p of
         None \<Rightarrow> []
       | Some b \<Rightarrow> [Key ServiceKind ns (isb_Name b)])
       (case igr_HTTP r of None \<Rightarrow> [] | Some ps \<Rightarrow> ps))"

fun references :: "k8s_object \<Rightarrow> ObjectKey list" where
  "references (DeploymentObj dep) =
     account_reference (om_Namespace (dep_ObjectMeta dep)) (pt_Spec (dps_Template (dep_Spec dep)))"
| "references (DaemonSetObj ds) =
     account_reference (om_Namespace (dmn_ObjectMeta ds)) (pt_Spec (dms_Template (dmn_Spec ds)))"
| "references (ClusterRoleBindingObj b) =
     (if ref_Kind (crb_RoleRef b) = ''ClusterRole''
      then [Key ClusterRoleKind '''' (ref_Name (crb_RoleRef b))] else []) @
     concat (map subject_reference (crb_Subjects b))"
| "references (IngressObj ing) =
     concat (map (backend_references (om_Namespace (ing_ObjectMeta ing)))
       (igs_Rules (ing_Spec ing)))"
| "references (ConfigMapObj cm) = []"
| "references (ServiceAccountObj sa) = []"
| "references (ServiceObj svc) = []"
| "references (SecretObj s) = []"
| "references (ClusterRoleObj r) = []"

lemma account_reference_set:
  "set (account_reference ns pod) \<subseteq> {Key ServiceAccountKind ns (ps_ServiceAccountName pod)}"
  by (simp add: account_reference_def)

lemma hubDeployment_references:
  assumes "hubDeployment_desired cr ls y"
    and "object_key y = Key DeploymentKind ns n"
  shows "set (references y) \<subseteq> {Key ServiceAccountKind ns (hubServiceAccountName cr)}"
  using assms account_reference_set
  by (cases y) (auto simp: hubDeployment_desired_def object_key_def Let_def account_reference_def)

lemma frontendDeployment_references:
  assumes "frontendDeployment_desired cr ls y"
  shows "references y = []"
  using assms
  by (cases y) (auto simp: frontendDeployment_desired_def Let_def account_reference_def)

lemma worker_references:
  assumes "worker_desired cr ls y" and "object_key y = Key DaemonSetKind ns n"
  shows "set (references y) \<subseteq> {Key ServiceAccountKind ns (workerServiceAccountName cr)}"
  using assms
  by (cases y) (auto simp: worker_desired_def object_key_def Let_def account_reference_def)

lemma clusterRoleBinding_references:
  assumes "clusterRoleBinding_desired cr ls y"
  shows "set (references y) = {Key ClusterRoleKind '''' (clusterRoleName cr),
    Key ServiceAccountKind (ks_Namespace cr) (hubServiceAccountName cr),
    Key ServiceAccountKind (ks_Namespace cr) (workerServiceAccountName cr)}"
proof -
  from assms obtain b where y: "y = ClusterRoleBindingObj b"
    by (cases y) (simp_all add: clusterRoleBinding_desired_def)
  let ?f = "\<lambda>s. (sub_Kind s, sub_Namespace s, sub_Name s)"
  have role: "ref_Kind (crb_RoleRef b) = ''ClusterRole''" "ref_Name (crb_RoleRef b) = clusterRoleName cr"
    and subs: "?f ` set (crb_Subjects b) =
      {(''ServiceAccount'', ks_Namespace cr, hubServiceAccountName cr),
       (''ServiceAccount'', ks_Namespace cr, workerServiceAccountName cr)}"
    using assms by (simp_all add: y clusterRoleBinding_desired_def)
  have "set (concat (map subject_reference (crb_Subjects b))) =
      (\<Union>(k, ns, n) \<in> ?f ` set (crb_Subjects b).
         if k = rbacv1_ServiceAccountKind then {Key ServiceAccountKind ns n} else {})"
    by (auto simp: subject_reference_def split: if_splits)
  also have "\<dots> = {Key ServiceAccountKind (ks_Namespace cr) (hubServiceAccountName cr),
      Key ServiceAccountKind (ks_Namespace cr) (workerServiceAccountName cr)}"
    unfolding subs by auto
  finally show ?thesis by (simp add: y role)
qed

lemma frontendIngress_references:
  assumes "frontendIngress_desired cr ls y" and "object_key y = Key IngressKind ns n"
  shows "set (references y) \<subseteq> {Key ServiceKind ns (frontendServiceName cr)}"
  using assms
  by (cases y) (fastforce simp: frontendIngress_desired_def object_key_def backend_references_def)+

lemma no_references:
  "object_key y = Key ConfigMapKind ns n \<Longrightarrow> references y = []"
  "object_key y = Key ServiceAccountKind ns n \<Longrightarrow> references y = []"
  "object_key y = Key ServiceKind ns n \<Longrightarrow> references y = []"
  "object_key y = Key SecretKind ns n \<Longrightarrow> references y = []"
  "object_key y = Key ClusterRoleKind ns n \<Longrightarrow> references y = []"
  by (cases y; auto simp: object_key_def)+

lemmas promised_references = hubDeployment_references frontendDeployment_references
  worker_references clusterRoleBinding_references frontendIngress_references

lemma length_plan_keys: "length (plan_keys cr) = 12"
  by (simp add: plan_keys_def Let_def)

lemma plan_references:
  assumes i: "i < 12" and P: "snd (promises cr ls ! i) y"
    and key: "object_key y = fst (promises cr ls ! i)"
  shows "set (references y) \<subseteq> set (take i (plan_keys cr))"
proof -
  from i have "i \<in> {0, 1, 2, 3, 4, 5, 6, 7, 8, 9, 10, 11}"
    by (simp add: numeral_eq_Suc less_Suc_eq)
  then show ?thesis
    using P key
    by (auto simp: promises_def plan_keys_def Let_def frontendDeployment_references
        clusterRoleBinding_references no_references
        dest!: hubDeployment_references [THEN subsetD] worker_references [THEN subsetD]
          frontendIngress_references [THEN subsetD])
qed

section \<open>Fields without effect\<close>

definition with_ignored :: "gomap \<Rightarrow> gomap \<Rightarrow> string \<Rightarrow> Kubeshark \<Rightarrow> Kubeshark" where
  "with_ignored hl wl ns cr = cr\<lparr>ks_Spec := (ks_Spec cr)\<lparr>sp_HubLabels := hl, sp_WorkerLabels := wl,
     sp_Namespace := ns\<rparr>\<rparr>"

text \<open>The owner reference is made from the metadata of the owner.\<close>

definition owner_ignores_spec :: "('w, 'e) api \<Rightarrow> bool" where
  "owner_ignores_spec api \<longleftrightarrow>
     (\<forall>cr cr' m. ks_ObjectMeta cr' = ks_ObjectMeta cr \<longrightarrow>
        api_SetControllerReference api cr' m = api_SetControllerReference api cr m)"

lemma with_ignored_meta [simp]: "ks_ObjectMeta (with_ignored hl wl ns cr) = ks_ObjectMeta cr"
  by (simp add: with_ignored_def)

lemma with_ignored_spec [simp]:
  "sp_HubImage (ks_Spec (with_ignored hl wl ns cr)) = sp_HubImage (ks_Spec cr)"
  "sp_FrontendImage (ks_Spec (with_ignored hl wl ns cr)) = sp_FrontendImage (ks_Spec cr)"
  "sp_HubReplicas (ks_Spec (with_ignored hl wl ns cr)) = sp_HubReplicas (ks_Spec cr)"
  "sp_WorkerImage (ks_Spec (with_ignored hl wl ns cr)) = sp_WorkerImage (ks_Spec cr)"
  "sp_IngressHost (ks_Spec (with_ignored hl wl ns cr)) = sp_IngressHost (ks_Spec cr)"
  "sp_IngressClassName (ks_Spec (with_ignored hl wl ns cr)) = sp_IngressClassName (ks_Spec cr)"
  "sp_IngressName (ks_Spec (with_ignored hl wl ns cr)) = sp_IngressName (ks_Spec cr)"
  "sp_ServiceAccountHub (ks_Spec (with_ignored hl wl ns cr)) = sp_ServiceAccountHub (ks_Spec cr)"
  "sp_ServiceAccountWorker (ks_Spec (with_ignored hl wl ns cr)) = sp_ServiceAccountWorker (ks_Spec cr)"
  "sp_HubConfigMapData (ks_Spec (with_ignored hl wl ns cr)) = sp_HubConfigMapData (ks_Spec cr)"
  "sp_ClusterRoleRules (ks_Spec (with_ignored hl wl ns cr)) = sp_ClusterRoleRules (ks_Spec cr)"
  "sp_ClusterRoleName (ks_Spec (with_ignored hl wl ns cr)) = sp_ClusterRoleName (ks_Spec cr)"
  "sp_ClusterRoleBindingName (ks_Spec (with_ignored hl wl ns cr)) = sp_ClusterRoleBindingName (ks_Spec cr)"
  "sp_HubDeploymentName (ks_Spec (with_ignored hl wl ns cr)) = sp_HubDeploymentName (ks_Spec cr)"
  "sp_HubContainerPorts (ks_Spec (with_ignored hl wl ns cr)) = sp_HubContainerPorts (ks_Spec cr)"
  "sp_WorkerDaemonSetName (ks_Spec (with_ignored hl wl ns cr)) = sp_WorkerDaemonSetName (ks_Spec cr)"
  "sp_HubServiceName (ks_Spec (with_ignored hl wl ns cr)) = sp_HubServiceName (ks_Spec cr)"
  "sp_HubConfigMapName (ks_Spec (with_ignored hl wl ns cr)) = sp_HubConfigMapName (ks_Spec cr)"
  "sp_SecretKubeshark (ks_Spec (with_ignored hl wl ns cr)) = sp_SecretKubeshark (ks_Spec cr)"
  by (simp_all add: with_ignored_def)

lemma with_ignored_names [simp]:
  "hubServiceName (with_ignored hl wl ns cr) = hubServiceName cr"
  "hubDeploymentName (with_ignored hl wl ns cr) = hubDeploymentName cr"
  "hubConfigMapName (with_ignored hl wl ns cr) = hubConfigMapName cr"
  "workerDaemonSetName (with_ignored hl wl ns cr) = workerDaemonSetName cr"
  "frontendServiceName (with_ignored hl wl ns cr) = frontendServiceName cr"
  "frontendDeploymentName (with_ignored hl wl ns cr) = frontendDeploymentName cr"
  "frontendIngressName (with_ignored hl wl ns cr) = frontendIngressName cr"
  "kubesharkSecretName (with_ignored hl wl ns cr) = kubesharkSecretName cr"
  "hubServiceAccountName (with_ignored hl wl ns cr) = hubServiceAccountName cr"
  "workerServiceAccountName (with_ignored hl wl ns cr) = workerServiceAccountName cr"
  "clusterRoleName (with_ignored hl wl ns cr) = clusterRoleName cr"
  "clusterRoleBindingName (with_ignored hl wl ns cr) = clusterRoleBindingName cr"
  "workerImage (with_ignored hl wl ns cr) = workerImage cr"
  "hubReplicas (with_ignored hl wl ns cr) = hubReplicas cr"
  "hub_ports (with_ignored hl wl ns cr) = hub_ports cr"
  by (simp_all only: helper_name_defs hubReplicas_def hub_ports_def with_ignored_spec with_ignored_meta)

lemma with_ignored_fills [simp]:
  "hubConfigMap_fill (with_ignored hl wl ns cr) = hubConfigMap_fill cr"
  "hubServiceAccount_fill (with_ignored hl wl ns cr) = hubServiceAccount_fill cr"
  "hubDeployment_fill (with_ignored hl wl ns cr) = hubDeployment_fill cr"
  "hubService_fill (with_ignored hl wl ns cr) = hubService_fill cr"
  "workerServiceAccount_fill (with_ignored hl wl ns cr) = workerServiceAccount_fill cr"
  "worker_fill (with_ignored hl wl ns cr) = worker_fill cr"
  "frontendDeployment_fill (with_ignored hl wl ns cr) = frontendDeployment_fill cr"
  "frontendService_fill (with_ignored hl wl ns cr) = frontendService_fill cr"
  "frontendIngress_fill (with_ignored hl wl ns cr) = frontendIngress_fill cr"
  "secret_fill (with_ignored hl wl ns cr) = secret_fill cr"
  "clusterRole_mutate (with_ignored hl wl ns cr) = clusterRole_mutate cr"
  "clusterRoleBinding_mutate (with_ignored hl wl ns cr) = clusterRoleBinding_mutate cr"
  by (intro ext, simp only: hub_fill_defs workerServiceAccount_fill_def worker_fill_def
      buildWorkerDaemonSetSpec_def frontendDeployment_fill_def frontendService_fill_def
      frontendIngress_fill_def secret_fill_def clusterRole_mutate_def clusterRoleBinding_mutate_def
      with_ignored_names with_ignored_spec with_ignored_meta)+

lemma with_ignored_owner:
  assumes "owner_ignores_spec api"
  shows "with_owner api (with_ignored hl wl ns cr) get put = with_owner api cr get put"
proof (intro ext)
  fix fill x
  have "api_SetControllerReference api (with_ignored hl wl ns cr) m =
      api_SetControllerReference api cr m" for m
    using assms unfolding owner_ignores_spec_def by (metis with_ignored_meta)
  then show "with_owner api (with_ignored hl wl ns cr) get put fill x = with_owner api cr get put fill x"
    by (simp only: with_owner_def)
qed

end
