(* ===== verification/Bounds.thy ===== *)
theory Bounds
  imports Hub Worker Frontend
begin

text \<open>
  The numbers the operator writes, at the widths of the Go types (\<open>int32\<close> for ports, replicas and
  probe settings, \<open>int64\<close> for sizes), against the ranges the API server accepts. Numbers of the source
  are in range; numbers of the resource are handed on, so they are in range exactly when the resource
  has them in range.
\<close>

section \<open>Ranges of the API\<close>

definition port_number :: "int32 \<Rightarrow> bool" where
  "port_number p \<longleftrightarrow> 1 \<le> sint p \<and> sint p \<le> 65535"

definition port_ref :: "IntOrString \<Rightarrow> bool" where
  "port_ref x = (case x of FromInt32 p \<Rightarrow> port_number p | FromString s \<Rightarrow> s \<noteq> '''')"

definition probe_in_range :: "Probe \<Rightarrow> bool" where
  "probe_in_range p \<longleftrightarrow>
     0 \<le> sint (pr_InitialDelaySeconds p) \<and> 1 \<le> sint (pr_PeriodSeconds p) \<and>
     1 \<le> sint (pr_TimeoutSeconds p) \<and> 1 \<le> sint (pr_FailureThreshold p) \<and>
     sint (pr_SuccessThreshold p) = 1 \<and> sint (pr_TimeoutSeconds p) \<le> sint (pr_PeriodSeconds p) \<and>
     port_ref (pr_TCPSocketPort p)"

definition container_in_range :: "Container \<Rightarrow> bool" where
  "container_in_range c \<longleftrightarrow>
     list_all port_number (map cp_ContainerPort (c_Ports c)) \<and>
     pred_option probe_in_range (c_ReadinessProbe c) \<and>
     pred_option probe_in_range (c_LivenessProbe c)"

definition pod_in_range :: "PodTemplateSpec \<Rightarrow> bool" where
  "pod_in_range t = list_all container_in_range (all_containers (pt_Spec t))"

definition service_in_range :: "Service \<Rightarrow> bool" where
  "service_in_range svc =
     list_all (\<lambda>p. port_number (svp_Port p) \<and> port_ref (svp_TargetPort p)) (svs_Ports (svc_Spec svc))"

definition ingress_ports :: "Ingress \<Rightarrow> int32 list" where
  "ingress_ports ing =
     concat (map (\<lambda>r. List.map_filter (\<lambda>p. map_option isb_PortNumber (hip_BackendService p))
       (case igr_HTTP r of None \<Rightarrow> [] | Some ps \<Rightarrow> ps)) (igs_Rules (ing_Spec ing)))"

definition replicas_in_range :: "int32 option \<Rightarrow> bool" where
  "replicas_in_range = pred_option (\<lambda>n. 0 \<le> sint n)"

definition size_limits :: "Volume list \<Rightarrow> int list" where
  "size_limits = List.map_filter (\<lambda>v. case v_Source v of
     EmptyDir (Some (NewQuantity n f)) \<Rightarrow> Some (sint n) | _ \<Rightarrow> None)"

lemmas range_defs = port_number_def port_ref_def container_in_range_def pod_in_range_def
  service_in_range_def all_containers_def

section \<open>The parts\<close>

lemma tcpProbe_in_range: "probe_in_range (tcpProbe p) \<longleftrightarrow> port_number p"
  by (simp add: probe_in_range_def tcpProbe_def port_ref_def)

lemma worker_in_range: "pod_in_range (dms_Template (buildWorkerDaemonSetSpec cr ls))"
  by (simp add: pod_in_range_def all_containers_def buildWorkerDaemonSetSpec_def Let_def
      container_in_range_def buildSnifferContainer_def buildTracerContainer_def
      tcpProbe_in_range zero_defs port_number_def)

lemma frontend_in_range: "pod_in_range (dps_Template (dep_Spec (frontendDeployment_fill cr ls dep)))"
  by (simp add: range_defs frontendDeployment_fill_def zero_defs)

lemma hub_in_range_iff:
  "pod_in_range (dps_Template (dep_Spec (hubDeployment_fill cr ls dep))) \<longleftrightarrow>
     list_all port_number (map cp_ContainerPort (sp_HubContainerPorts (ks_Spec cr)))"
  by (simp add: range_defs hubDeployment_fill_def hub_ports_def zero_defs)

lemma services_in_range:
  "service_in_range (hubService_fill cr ls svc)" "service_in_range (frontendService_fill cr ls svc)"
  by (simp_all add: range_defs hubService_fill_def frontendService_fill_def)

lemma size_limits_worker: "size_limits buildWorkerVolumes = [5 * 1024 * 1024 * 1024]"
  by (simp add: size_limits_def buildWorkerVolumes_def List.map_filter_simps)

section \<open>All numbers\<close>

text \<open>
  C28: bounds. Every port, probe setting, replica count and size of the source is within the range
  of the API, with signed values at the Go widths: the size limit of the data volume is the product
  written in the code, which an \<open>int32\<close> could not hold. The numbers a resource can set are handed on
  unchecked: the hub's pod template is in range exactly when the given ports are (none given is fine),
  and its replicas exactly when the given count is.
\<close>

theorem numeric_bounds:
  "pod_in_range (dms_Template (buildWorkerDaemonSetSpec cr ls)) \<and>
   pod_in_range (dps_Template (dep_Spec (frontendDeployment_fill cr ls dep))) \<and>
   replicas_in_range (dps_Replicas (dep_Spec (frontendDeployment_fill cr ls dep))) \<and>
   service_in_range (hubService_fill cr ls svc) \<and>
   service_in_range (frontendService_fill cr ls svc) \<and>
   ingress_ports (frontendIngress_fill cr ls ing) =
     map svp_Port (svs_Ports (svc_Spec (frontendService_fill cr ls svc))) \<and>
   size_limits buildWorkerVolumes = [5 * 1024 * 1024 * 1024] \<and>
   (pod_in_range (dps_Template (dep_Spec (hubDeployment_fill cr ls dep))) \<longleftrightarrow>
      list_all port_number (map cp_ContainerPort (sp_HubContainerPorts (ks_Spec cr)))) \<and>
   (replicas_in_range (dps_Replicas (dep_Spec (hubDeployment_fill cr ls dep))) \<longleftrightarrow>
      replicas_in_range (sp_HubReplicas (ks_Spec cr)))"
proof (intro conjI)
  show "ingress_ports (frontendIngress_fill cr ls ing) =
      map svp_Port (svs_Ports (svc_Spec (frontendService_fill cr ls svc)))"
    by (simp add: ingress_ports_def frontendIngress_fill_def frontendService_fill_def
        List.map_filter_simps)
  show "replicas_in_range (dps_Replicas (dep_Spec (hubDeployment_fill cr ls dep))) \<longleftrightarrow>
      replicas_in_range (sp_HubReplicas (ks_Spec cr))"
    by (simp add: replicas_in_range_def hubDeployment_fill_def hubReplicas_def)
  show "replicas_in_range (dps_Replicas (dep_Spec (frontendDeployment_fill cr ls dep)))"
    by (simp add: replicas_in_range_def frontendDeployment_fill_def)
qed (rule worker_in_range frontend_in_range services_in_range size_limits_worker hub_in_range_iff)+

end
