(* ===== verification/Interference.thy ===== *)
theory Interference
  imports Effects
begin

text \<open>
  Others act while a pass is running. \<open>interfered api\<close> is the client \<open>api\<close> on a server that others
  use as well: before the n-th call of a pass the world changes by the n-th element of a schedule.
  A pass is then no longer a step of its own: what it read may be out of date by the next call. The
  invariant of \<open>Lifecycle\<close> holds nevertheless, at every interleaving of single calls with steps of
  users and of the API server.
\<close>

section \<open>A client on a shared server\<close>

type_synonym 'w schedule = "nat \<Rightarrow> 'w \<Rightarrow> 'w"

definition interrupted :: "('w \<Rightarrow> 'r \<times> 'w) \<Rightarrow> 'w \<times> 'w schedule \<Rightarrow> 'r \<times> 'w \<times> 'w schedule" where
  "interrupted m ws =
     (case m (snd ws 0 (fst ws)) of (r, w') \<Rightarrow> (r, w', \<lambda>n. snd ws (Suc n)))"

definition interfered :: "('w, 'e) api \<Rightarrow> ('w \<times> 'w schedule, 'e) api" where
  "interfered api = \<lparr>
     api_Get = (\<lambda>nn. interrupted (api_Get api nn)),
     api_Update = (\<lambda>cr. interrupted (api_Update api cr)),
     api_StatusPatch = (\<lambda>cr orig. interrupted (api_StatusPatch api cr orig)),
     api_Delete = (\<lambda>obj. interrupted (api_Delete api obj)),
     api_CreateOrUpdate = (\<lambda>obj f. interrupted (api_CreateOrUpdate api obj f)),
     api_SetControllerReference = api_SetControllerReference api,
     api_ContainsFinalizer = api_ContainsFinalizer api,
     api_AddFinalizer = api_AddFinalizer api,
     api_RemoveFinalizer = api_RemoveFinalizer api,
     api_SetStatusCondition = api_SetStatusCondition api,
     api_IsZero = api_IsZero api,
     api_IsNotFound = api_IsNotFound api,
     api_IgnoreNotFound = api_IgnoreNotFound api,
     api_errorText = api_errorText api\<rparr>"

lemma interfered_simps [simp]:
  "api_Get (interfered api) nn = interrupted (api_Get api nn)"
  "api_Update (interfered api) cr = interrupted (api_Update api cr)"
  "api_StatusPatch (interfered api) cr orig = interrupted (api_StatusPatch api cr orig)"
  "api_Delete (interfered api) obj = interrupted (api_Delete api obj)"
  "api_CreateOrUpdate (interfered api) obj f = interrupted (api_CreateOrUpdate api obj f)"
  "api_ContainsFinalizer (interfered api) = api_ContainsFinalizer api"
  "api_AddFinalizer (interfered api) = api_AddFinalizer api"
  "api_RemoveFinalizer (interfered api) = api_RemoveFinalizer api"
  "api_SetStatusCondition (interfered api) = api_SetStatusCondition api"
  "api_IsZero (interfered api) = api_IsZero api"
  "api_IsNotFound (interfered api) = api_IsNotFound api"
  "api_errorText (interfered api) = api_errorText api"
  by (simp_all add: interfered_def)

lemma interfered_setReadyCondition:
  "setReadyCondition (interfered api) cr b r m = interrupted (setReadyCondition api cr b r m)"
  by (rule ext) (auto simp: setReadyCondition_def interrupted_def with_ready_def Let_def
      split: prod.splits option.splits)

lemma interfered_run_child: "run_child (interfered api) c = interrupted (run_child api c)"
  by (rule ext) (auto simp: run_child_def create_or_update_def wrap_err_def interrupted_def
      split: prod.splits option.splits)

section \<open>Predicates that others keep\<close>

definition user_schedule ::
  "'w view \<Rightarrow> NamespacedName \<Rightarrow> string \<Rightarrow> string \<Rightarrow> 'w schedule \<Rightarrow> bool" where
  "user_schedule vw nn R B s \<longleftrightarrow> (\<forall>n w. user_step vw nn R B w (s n w))"

definition holds ::
  "'w view \<Rightarrow> NamespacedName \<Rightarrow> string \<Rightarrow> string \<Rightarrow> ('w \<Rightarrow> bool) \<Rightarrow> 'w \<times> 'w schedule \<Rightarrow> bool" where
  "holds vw nn R B P ws \<longleftrightarrow> P (fst ws) \<and> user_schedule vw nn R B (snd ws)"

definition user_stable :: "'w view \<Rightarrow> NamespacedName \<Rightarrow> string \<Rightarrow> string \<Rightarrow> ('w \<Rightarrow> bool) \<Rightarrow> bool" where
  "user_stable vw nn R B P \<longleftrightarrow> (\<forall>w w'. user_step vw nn R B w w' \<longrightarrow> P w \<longrightarrow> P w')"

lemma interrupted_holds:
  assumes run: "interrupted m ws = (r, ws')" and pre: "holds vw nn R B P ws"
    and st: "user_stable vw nn R B P" and step: "\<And>w w'. P w \<Longrightarrow> m w = (r, w') \<Longrightarrow> Q w'"
  shows "holds vw nn R B Q ws'"
proof -
  obtain w' where m: "m (snd ws 0 (fst ws)) = (r, w')" and ws': "ws' = (w', \<lambda>n. snd ws (Suc n))"
    using run by (auto simp: interrupted_def split: prod.splits)
  have "P (snd ws 0 (fst ws))"
    using pre st by (auto simp: holds_def user_stable_def user_schedule_def)
  with step m have "Q w'" by blast
  with ws' pre show ?thesis by (simp add: holds_def user_schedule_def)
qed

lemma holds_mono: "holds vw nn R B P ws \<Longrightarrow> (\<And>w. P w \<Longrightarrow> Q w) \<Longrightarrow> holds vw nn R B Q ws"
  by (simp add: holds_def)

text \<open>Others keep the resource guarded, do not rename, and do not make the two objects.\<close>

lemma user_step_facts:
  assumes "user_step vw nn R B w w'"
  shows "guarded vw nn w \<Longrightarrow> guarded vw nn w'" and "named vw nn R B w \<Longrightarrow> named vw nn R B w'"
    and "k \<in> {Key ClusterRoleKind '''' R, Key ClusterRoleBindingKind '''' B} \<Longrightarrow>
      v_obj vw w k = None \<Longrightarrow> v_obj vw w' k = None"
  using assms by (auto simp: not_made_def guarded_def named_def elim!: user_stepE)

definition kept_safe :: "'w view \<Rightarrow> NamespacedName \<Rightarrow> string \<Rightarrow> string \<Rightarrow> 'w \<Rightarrow> bool" where
  "kept_safe vw nn R B w \<longleftrightarrow> guarded vw nn w \<and> named vw nn R B w"

lemma stable_facts:
  "user_stable vw nn R B (no_orphan vw nn R B)"
  "user_stable vw nn R B (kept_safe vw nn R B)"
  "user_stable vw nn R B (\<lambda>w. named vw nn R B w \<and> cluster_rbac_absent vw R B w)"
  "K \<subseteq> {Key ClusterRoleKind '''' R, Key ClusterRoleBindingKind '''' B} \<Longrightarrow>
     user_stable vw nn R B (\<lambda>w. kept_safe vw nn R B w \<and> (\<forall>k \<in> K. v_obj vw w k = None))"
  using user_step_facts [of vw nn R B] user_step_no_orphan [of vw nn R B]
  by (auto simp: user_stable_def kept_safe_def cluster_rbac_absent_def)

lemma kept_safe_kept: "cr_kept vw w w' \<Longrightarrow> kept_safe vw nn R B w \<Longrightarrow> kept_safe vw nn R B w'"
  by (simp add: kept_safe_def guarded_kept named_kept)

lemma kept_safe_no_orphan: "kept_safe vw nn R B w \<Longrightarrow> no_orphan vw nn R B w"
  by (simp add: kept_safe_def no_orphan_def)

section \<open>The parts of a pass\<close>

lemma children_interfered:
  assumes law: "create_or_update_law api vw"
    and run: "run_all (map (run_child (interfered api)) cs) ws = (r, ws')"
    and pre: "holds vw nn R B (kept_safe vw nn R B) ws"
  shows "holds vw nn R B (kept_safe vw nn R B) ws'"
proof -
  let ?R = "\<lambda>ws ws'. holds vw nn R B (kept_safe vw nn R B) ws \<longrightarrow>
    holds vw nn R B (kept_safe vw nn R B) ws'"
  have "keeps ?R (run_child (interfered api) c)" for c
    unfolding keeps_def
  proof (intro allI impI)
    fix ws assume pre: "holds vw nn R B (kept_safe vw nn R B) ws"
    obtain r ws' where run: "interrupted (run_child api c) ws = (r, ws')" by (metis prod.exhaust)
    have "holds vw nn R B (kept_safe vw nn R B) ws'"
      by (rule interrupted_holds [OF run pre stable_facts(2)])
         (blast intro: kept_safe_kept cr_kept_eq run_child_frame(1) [OF law])
    with run show "holds vw nn R B (kept_safe vw nn R B) (snd (run_child (interfered api) c ws))"
      by (simp add: interfered_run_child)
  qed
  then have "keeps ?R (run_all (map (run_child (interfered api)) cs))"
    by (intro keeps_run_all) (auto simp: reflp_def transp_def)
  from keepsD [OF this run] pre show ?thesis by blast
qed

lemma ready_interfered:
  assumes law: "patch_law api vw"
    and run: "setReadyCondition (interfered api) cr b x m ws = (r, ws')"
    and pre: "holds vw nn R B (no_orphan vw nn R B) ws"
  shows "holds vw nn R B (no_orphan vw nn R B) ws'"
  by (rule interrupted_holds [OF run [unfolded interfered_setReadyCondition] pre stable_facts(1)])
     (metis no_orphan_kept setReadyCondition_kept [OF law])

lemma delete_all_interfered:
  assumes law: "delete_law api vw"
    and run: "delete_all (interfered api) objs ws = (r, ws')"
    and keys: "K \<union> object_key ` set objs \<subseteq> {Key ClusterRoleKind '''' R, Key ClusterRoleBindingKind '''' B}"
    and pre: "holds vw nn R B (\<lambda>w. kept_safe vw nn R B w \<and> (\<forall>k \<in> K. v_obj vw w k = None)) ws"
  shows "holds vw nn R B (\<lambda>w. kept_safe vw nn R B w \<and>
    (r = None \<longrightarrow> (\<forall>k \<in> K \<union> object_key ` set objs. v_obj vw w k = None))) ws'"
  using run keys pre
proof (induction objs arbitrary: K ws)
  case Nil
  then show ?case by (auto elim!: holds_mono)
next
  case (Cons obj objs)
  obtain err ws1 where call: "interrupted (api_Delete api obj) ws = (err, ws1)"
    by (metis prod.exhaust)
  have st: "user_stable vw nn R B (\<lambda>w. kept_safe vw nn R B w \<and> (\<forall>k \<in> K. v_obj vw w k = None))"
    using Cons.prems(2) by (intro stable_facts(4)) auto
  have step: "kept_safe vw nn R B w' \<and> (\<forall>k \<in> K. v_obj vw w' k = None) \<and>
      ((case err of None \<Rightarrow> True | Some e \<Rightarrow> api_IsNotFound api e) \<longrightarrow> v_obj vw w' (object_key obj) = None)"
    if "kept_safe vw nn R B w \<and> (\<forall>k \<in> K. v_obj vw w k = None)" and "api_Delete api obj w = (err, w')"
    for w w'
  proof -
    note l = law [unfolded delete_law_def, rule_format, OF that(2)]
    have "kept_safe vw nn R B w'"
      using l that(1) by (blast intro: kept_safe_kept cr_kept_eq)
    moreover have "\<forall>k \<in> K. v_obj vw w' k = None" using l that(1) by metis
    ultimately show ?thesis using l by (auto split: option.splits)
  qed
  note after = interrupted_holds [OF call Cons.prems(3) st step]
  show ?case
  proof (cases "case err of None \<Rightarrow> True | Some e \<Rightarrow> api_IsNotFound api e")
    case True
    with Cons.prems(1) call have rest: "delete_all (interfered api) objs ws1 = (r, ws')"
      by (auto split: option.splits)
    have "holds vw nn R B (\<lambda>w. kept_safe vw nn R B w \<and>
        (\<forall>k \<in> insert (object_key obj) K. v_obj vw w k = None)) ws1"
      using True by (intro holds_mono [OF after]) auto
    from Cons.IH [OF rest _ this] Cons.prems(2) show ?thesis by simp
  next
    case False
    with Cons.prems(1) call have "r = err \<and> ws' = ws1" by (auto split: option.splits)
    with False holds_mono [OF after] show ?thesis by (auto split: option.splits)
  qed
qed

lemma update_interfered:
  assumes law: "update_law api vw" and run: "interrupted (api_Update api c) ws = (r, ws')"
    and own: "clusterRoleName c = R" "clusterRoleBindingName c = B"
    and pre: "holds vw nn R B (\<lambda>w. named vw nn R B w \<and> cluster_rbac_absent vw R B w) ws"
  shows "holds vw nn R B (no_orphan vw nn R B) ws'"
proof (rule interrupted_holds [OF run pre stable_facts(3)])
  fix w w'
  assume pre: "named vw nn R B w \<and> cluster_rbac_absent vw R B w"
    and up: "api_Update api c w = (r, w')"
  have "named vw nn R B w'" and "v_obj vw w' = v_obj vw w"
    by (rule update_named [OF law up conjunct1 [OF pre] own])+
  with pre show "no_orphan vw nn R B w'"
    by (simp add: no_orphan_def absent_cong [of vw w' w])
qed

lemma reconcileDelete_interfered:
  assumes law: "lawful api vw" and inv: "holds vw nn R B (no_orphan vw nn R B) ws"
    and cr: "v_cr vw (fst ws) nn = Some cr"
    and run: "reconcileDelete (interfered api) cr ws = ((res, cr'), ws')"
  shows "holds vw nn R B (no_orphan vw nn R B) ws'"
proof (cases "api_ContainsFinalizer api cr finalizerName")
  case False
  with run inv show ?thesis by (simp add: reconcileDelete_def)
next
  case True
  note laws = lawfulD [OF law]
  from inv cr have own: "clusterRoleName cr = R" "clusterRoleBindingName cr = B"
    and safe: "holds vw nn R B (\<lambda>w. kept_safe vw nn R B w \<and> (\<forall>k \<in> {}. v_obj vw w k = None)) ws"
    using True laws(2)
    by (auto simp: holds_def no_orphan_def named_def kept_safe_def guarded_def finalizer_laws_def)
  obtain d ws1 where del: "delete_all (interfered api) (cluster_objects cr) ws = (d, ws1)"
    by (metis prod.exhaust)
  have keys: "object_key ` set (cluster_objects cr) =
      {Key ClusterRoleKind '''' R, Key ClusterRoleBindingKind '''' B}"
    using arg_cong [OF object_key_cluster_objects [of cr], of set] own by simp
  note after = delete_all_interfered [OF laws(8) del _ safe, unfolded keys, simplified]
  show ?thesis
  proof (cases d)
    case (Some e)
    with run True del have "ws' = ws1" by (simp add: reconcileDelete_def)
    moreover have "holds vw nn R B (no_orphan vw nn R B) ws1"
      by (rule holds_mono [OF after]) (simp add: kept_safe_no_orphan)
    ultimately show ?thesis by simp
  next
    case None
    with run True del have up: "interrupted (api_Update api
        (api_RemoveFinalizer api cr finalizerName)) ws1 = ((res, cr'), ws')"
      by (simp add: reconcileDelete_def)
    have "holds vw nn R B (\<lambda>w. named vw nn R B w \<and> cluster_rbac_absent vw R B w) ws1"
      using None by (intro holds_mono [OF after]) (simp add: kept_safe_def cluster_rbac_absent_def)
    then show ?thesis
      by (intro update_interfered [OF laws(6) up]) (simp_all add: own finalizer_ops [OF laws(2)])
  qed
qed

section \<open>A pass among others\<close>

lemma read_interfered:
  assumes law: "get_law api vw" and inv: "holds vw nn R B (no_orphan vw nn R B) ws"
    and run: "interrupted (api_Get api nn) ws = ((g, cr), ws1)"
  shows "holds vw nn R B (no_orphan vw nn R B) ws1" and "g = None \<Longrightarrow> v_cr vw (fst ws1) nn = Some cr"
proof -
  have "holds vw nn R B (\<lambda>w. no_orphan vw nn R B w \<and> (g = None \<longrightarrow> v_cr vw w nn = Some cr)) ws1"
  proof (rule interrupted_holds [OF run inv stable_facts(1)])
    fix w w'
    assume inv: "no_orphan vw nn R B w" and get: "api_Get api nn w = ((g, cr), w')"
    note l = get_lawD [OF law get]
    have "no_orphan vw nn R B w'"
      by (rule no_orphan_kept [OF cr_kept_eq _ inv]) (rule l)+
    with l show "no_orphan vw nn R B w' \<and> (g = None \<longrightarrow> v_cr vw w' nn = Some cr)" by simp
  qed
  then show "holds vw nn R B (no_orphan vw nn R B) ws1"
    and "g = None \<Longrightarrow> v_cr vw (fst ws1) nn = Some cr"
    by (simp_all add: holds_def)
qed

lemma steps_interfered:
  assumes law: "lawful api vw" and inv: "holds vw nn R B (no_orphan vw nn R B) ws"
    and cr: "v_cr vw (fst ws) nn = Some cr" and fin: "api_ContainsFinalizer api cr finalizerName"
    and kids: "run_all (map (run_child (interfered api)) cs) ws = (s, ws1)"
    and rep: "setReadyCondition (interfered api) cr b x m ws1 = (r, ws')"
  shows "holds vw nn R B (no_orphan vw nn R B) ws'"
proof -
  note laws = lawfulD [OF law]
  have "holds vw nn R B (kept_safe vw nn R B) ws"
    using inv cr fin laws(2)
    by (auto simp: holds_def no_orphan_def kept_safe_def guarded_def finalizer_laws_def)
  then have "holds vw nn R B (no_orphan vw nn R B) ws1"
    by (rule holds_mono [OF children_interfered [OF laws(9) kids]]) (rule kept_safe_no_orphan)
  then show ?thesis by (rule ready_interfered [OF laws(7) rep])
qed

lemma adding_interfered:
  assumes law: "lawful api vw" and inv: "holds vw nn R B (no_orphan vw nn R B) ws"
    and cr: "v_cr vw (fst ws) nn = Some cr" and fin: "\<not> api_ContainsFinalizer api cr finalizerName"
    and run: "interrupted (api_Update api (api_AddFinalizer api cr finalizerName)) ws = (r, ws')"
  shows "holds vw nn R B (no_orphan vw nn R B) ws'"
proof -
  note laws = lawfulD [OF law]
  from fin cr laws(2) have "\<not> guarded vw nn (fst ws)"
    by (simp add: finalizer_laws_def guarded_def)
  with inv have pre: "holds vw nn R B (\<lambda>w. named vw nn R B w \<and> cluster_rbac_absent vw R B w) ws"
    by (auto simp: holds_def no_orphan_def)
  from inv cr have own: "clusterRoleName cr = R" "clusterRoleBindingName cr = B"
    by (auto simp: holds_def no_orphan_def named_def)
  show ?thesis
    by (rule update_interfered [OF laws(6) run _ _ pre])
       (simp_all add: own finalizer_ops [OF laws(2)])
qed

lemma Reconcile_interfered:
  assumes law: "lawful api vw" and inv: "holds vw nn R B (no_orphan vw nn R B) ws"
    and run: "Reconcile (interfered api) nn ws = (r, ws')"
  shows "holds vw nn R B (no_orphan vw nn R B) ws'"
proof -
  note laws = lawfulD [OF law]
  note read = read_interfered [OF laws(5) inv]
  obtain res err where r: "r = (res, err)" by (cases r)
  from run [unfolded r] show ?thesis
  proof (cases rule: Reconcile_cases)
    case (read_failed e cr)
    then show ?thesis using read(1) by simp
  next
    case (deleting_done cr w1 cr')
    note rd = read [OF deleting_done(1) [unfolded interfered_simps]]
    show ?thesis by (rule reconcileDelete_interfered [OF law rd(1) rd(2) [OF refl] deleting_done(3)])
  next
    case (deleting_failed cr w1 e cr' w2 s)
    note rd = read [OF deleting_failed(1) [unfolded interfered_simps]]
    show ?thesis
      by (rule ready_interfered [OF laws(7) deleting_failed(4)])
         (rule reconcileDelete_interfered [OF law rd(1) rd(2) [OF refl] deleting_failed(3)])
  next
    case (adding cr w1 cr')
    note rd = read [OF adding(1) [unfolded interfered_simps]]
    show ?thesis
      by (rule adding_interfered [OF law rd(1) rd(2) [OF refl] adding(3,4) [unfolded interfered_simps]])
  next
    case (step_failed cr w1 e w2 s)
    note rd = read [OF step_failed(1) [unfolded interfered_simps]]
    show ?thesis
      by (rule steps_interfered [OF law rd(1) rd(2) [OF refl] _ step_failed(4,5)])
         (use step_failed(3) in simp)
  next
    case (applied cr w1 w2)
    note rd = read [OF applied(1) [unfolded interfered_simps]]
    show ?thesis
      by (rule steps_interfered [OF law rd(1) rd(2) [OF refl] _ applied(4,5)])
         (use applied(3) in simp)
  qed
qed

section \<open>Reachable states\<close>

text \<open>As \<open>reachable\<close>, with passes during which others act according to any schedule of user steps.\<close>

inductive reachable_shared ::
  "('w, 'e) api \<Rightarrow> 'w view \<Rightarrow> NamespacedName \<Rightarrow> string \<Rightarrow> string \<Rightarrow> 'w \<Rightarrow> bool"
  for api vw nn R B where
  start: "v_cr vw w nn = None \<Longrightarrow> cluster_rbac_absent vw R B w \<Longrightarrow> reachable_shared api vw nn R B w"
| pass: "reachable_shared api vw nn R B w \<Longrightarrow> Reconcile api nn w = (r, w') \<Longrightarrow>
    reachable_shared api vw nn R B w'"
| shared_pass: "reachable_shared api vw nn R B w \<Longrightarrow> user_schedule vw nn R B s \<Longrightarrow>
    Reconcile (interfered api) nn (w, s) = (r, w', s') \<Longrightarrow> reachable_shared api vw nn R B w'"
| user: "reachable_shared api vw nn R B w \<Longrightarrow> user_step vw nn R B w w' \<Longrightarrow>
    reachable_shared api vw nn R B w'"

lemma reachable_shared_no_orphan:
  assumes law: "lawful api vw" and "reachable_shared api vw nn R B w"
  shows "no_orphan vw nn R B w"
  using assms(2)
proof (induction rule: reachable_shared.induct)
  case (start w)
  then show ?case by (simp add: no_orphan_def named_def)
next
  case (pass w r w')
  then show ?case by (blast intro: Reconcile_no_orphan [OF law])
next
  case (shared_pass w s r w' s')
  then have "holds vw nn R B (no_orphan vw nn R B) (w, s)" by (simp add: holds_def)
  from Reconcile_interfered [OF law this shared_pass.hyps(3)] show ?case by (simp add: holds_def)
next
  case (user w w')
  then show ?case by (blast intro: user_step_no_orphan)
qed

text \<open>
  The operator itself, working on another resource, is among the others: such a pass does nothing
  that \<open>user_step\<close> excludes, as long as the other resource has other names for its two objects
  (default names differ for namespaces without a hyphen, C15).
\<close>

lemma other_pass_user_step:
  assumes law: "lawful api vw" and run: "Reconcile api nn' w = (r, w')" and nn: "nn' \<noteq> nn"
    and apart: "\<And>c. v_cr vw w nn' = Some c \<Longrightarrow>
      clusterRoleName c \<noteq> R \<and> clusterRoleBindingName c \<noteq> B"
  shows "user_step vw nn R B w w'"
proof (rule user_step.elsewhere)
  note fr = pass_frame [OF law run]
  show "v_cr vw w' nn = v_cr vw w nn" using fr nn by metis
  have "k \<notin> set (plan_keys c)"
    if "v_cr vw w nn' = Some c" and "k \<in> {Key ClusterRoleKind '''' R, Key ClusterRoleBindingKind '''' B}"
    for k c
    using apart [OF that(1)] that(2) by (auto simp: plan_keys_def Let_def)
  with fr show "not_made vw R B w w'" unfolding not_made_def by metis
qed

lemma reachable_imp_shared: "reachable api vw nn R B w \<Longrightarrow> reachable_shared api vw nn R B w"
  by (induction rule: reachable.induct) (blast intro: reachable_shared.intros)+

end
