(* ===== verification/Legacy.thy ===== *)
theory Legacy
  imports Hub Rbac Frontend SecretStep
begin

text \<open>
  \<open>internal/controller/utils.go\<close>: the earlier generation of the reconcile functions. Nothing calls
  them any more (and the file redeclares functions of \<open>worker.go\<close>), but each is a complete operation
  of its own, with results the live code does not have: the object, a message for the log and the
  error. A \<open>legacy_call\<close> packs the arguments of the one \<open>CreateOrUpdate\<close>, the text that wraps its
  error and the message; \<open>legacy_run\<close> is the body that all twelve functions share.

  Two things the file uses are not under the repository's sources: \<open>getOrDefaultInt\<close>, which is
  declared nowhere, and the text of an \<open>OperationResult\<close>. Both are arguments.

  The lemmas compare each object with the one the live code makes.
\<close>

type_synonym 'e legacy_result = "k8s_object option \<times> string \<times> 'e goerror option"

record 'e legacy_call =
  lc_object :: k8s_object
  lc_mutate :: "('e, k8s_object) mutate_fn"
  lc_wrap :: "string option"
  lc_message :: "OperationResult \<Rightarrow> string"

definition wrap_opt :: "string option \<Rightarrow> 'e goerror \<Rightarrow> 'e goerror" where
  "wrap_opt p err = (case p of None \<Rightarrow> err | Some t \<Rightarrow> Wrapped t err)"

definition legacy_run :: "('w, 'e) api \<Rightarrow> 'e legacy_call \<Rightarrow> 'w \<Rightarrow> 'e legacy_result \<times> 'w" where
  "legacy_run api c w =
     (case api_CreateOrUpdate api (lc_object c) (lc_mutate c) w of
        ((op, Some err, obj), w') \<Rightarrow> ((None, '''', Some (wrap_opt (lc_wrap c) err)), w')
      | ((op, None, obj), w') \<Rightarrow> ((Some obj, lc_message c op, None), w'))"

section \<open>Hub\<close>

definition legacyHubService_mutate :: "gomap \<Rightarrow> ('e, Service) mutate_fn" where
  "legacyHubService_mutate labels svc =
     (None, svc\<lparr>
        svc_ObjectMeta := (svc_ObjectMeta svc)\<lparr>om_Labels := labels\<rparr>,
        svc_Spec := (svc_Spec svc)\<lparr>
          svs_Ports := [\<lparr>svp_Name = '''', svp_Port = 80, svp_TargetPort = FromInt32 8080\<rparr>],
          svs_Selector := labels\<rparr>\<rparr>)"

definition legacyHubService_call ::
  "(OperationResult \<Rightarrow> string) \<Rightarrow> Kubeshark \<Rightarrow> gomap \<Rightarrow> 'e legacy_call" where
  "legacyHubService_call opText cr labels = \<lparr>
     lc_object = ServiceObj (zero_Service\<lparr>svc_ObjectMeta := zero_ObjectMeta\<lparr>
       om_Name := getOrDefaultString (sp_HubServiceName (ks_Spec cr)) ''kubeshark-hub'',
       om_Namespace := ks_Namespace cr\<rparr>\<rparr>),
     lc_mutate = on_Service (legacyHubService_mutate labels),
     lc_wrap = None,
     lc_message = (\<lambda>op. opText op @ '' Service:'')\<rparr>"

definition createOrUpdateHubService ::
  "('w, 'e) api \<Rightarrow> (OperationResult \<Rightarrow> string)
     \<Rightarrow> Kubeshark \<Rightarrow> gomap \<Rightarrow> 'w \<Rightarrow> 'e legacy_result \<times> 'w" where
  "createOrUpdateHubService api opText cr labels =
     legacy_run api (legacyHubService_call opText cr labels)"

definition legacyHubDeployment_mutate ::
  "('w, 'e) api \<Rightarrow> (int32 option \<Rightarrow> int32 \<Rightarrow> int32 option) \<Rightarrow> Kubeshark \<Rightarrow> gomap
     \<Rightarrow> ('e, Deployment) mutate_fn" where
  "legacyHubDeployment_mutate api getOrDefaultInt cr labels dep =
     (let spec = dep_Spec dep in
      (None, dep\<lparr>dep_Spec := spec\<lparr>
         dps_Replicas := getOrDefaultInt (sp_HubReplicas (ks_Spec cr)) 1,
         dps_Selector :=
           (if api_IsZero api (om_CreationTimestamp (dep_ObjectMeta dep))
            then Some \<lparr>ls_MatchLabels = labels\<rparr>
            else dps_Selector spec),
         dps_Template := \<lparr>
           pt_ObjectMeta = zero_ObjectMeta\<lparr>om_Labels := labels,
             om_Annotations := om_Annotations (pt_ObjectMeta (dps_Template spec))\<rparr>,
           pt_Spec = zero_PodSpec\<lparr>
             ps_ServiceAccountName := getOrDefaultString (sp_ServiceAccountHub (ks_Spec cr))
               ''kubeshark-service-account'',
             ps_Containers := [zero_Container\<lparr>
               c_Name := ''kubeshark-hub'',
               c_Image := getOrDefaultString (sp_HubImage (ks_Spec cr))
                 ''docker.io/kubeshark/hub:v52.3.82'',
               c_Ports := [zero_ContainerPort\<lparr>cp_ContainerPort := 8080\<rparr>],
               c_Env := [
                 \<lparr>ev_Name = ''POD_NAME'', ev_Value = '''',
                   ev_ValueFrom = Some (FieldRef ''metadata.name'')\<rparr>,
                 \<lparr>ev_Name = ''POD_NAMESPACE'', ev_Value = '''',
                   ev_ValueFrom = Some (FieldRef ''metadata.namespace'')\<rparr>]\<rparr>]\<rparr>\<rparr>\<rparr>\<rparr>))"

definition legacyHubDeployment_call ::
  "('w, 'e) api \<Rightarrow> (OperationResult \<Rightarrow> string) \<Rightarrow> (int32 option \<Rightarrow> int32 \<Rightarrow> int32 option)
     \<Rightarrow> Kubeshark \<Rightarrow> gomap \<Rightarrow> 'e legacy_call" where
  "legacyHubDeployment_call api opText getOrDefaultInt cr labels = \<lparr>
     lc_object = DeploymentObj (zero_Deployment\<lparr>dep_ObjectMeta := zero_ObjectMeta\<lparr>
       om_Name := getOrDefaultString (sp_HubDeploymentName (ks_Spec cr)) ''kubeshark-hub-deployment'',
       om_Namespace := ks_Namespace cr\<rparr>\<rparr>),
     lc_mutate = on_Deployment (legacyHubDeployment_mutate api getOrDefaultInt cr labels),
     lc_wrap = Some ''failed to create or update Hub Deployment'',
     lc_message = (\<lambda>op. opText op @ '' Deployment:'')\<rparr>"

definition createOrUpdateHubDeployment ::
  "('w, 'e) api \<Rightarrow> (OperationResult \<Rightarrow> string) \<Rightarrow> (int32 option \<Rightarrow> int32 \<Rightarrow> int32 option)
     \<Rightarrow> Kubeshark \<Rightarrow> gomap \<Rightarrow> 'w \<Rightarrow> 'e legacy_result \<times> 'w" where
  "createOrUpdateHubDeployment api opText getOrDefaultInt cr labels =
     legacy_run api (legacyHubDeployment_call api opText getOrDefaultInt cr labels)"

definition legacyDefaultData :: "(string \<times> string) list" where
  "legacyDefaultData = [
     (''POD_REGEX'', ''.*''),
     (''NAMESPACES'', ''''),
     (''EXCLUDED_NAMESPACES'', ''''),
     (''BPF_OVERRIDE'', ''''),
     (''STOPPED'', ''false''),
     (''SCRIPTING_SCRIPTS'', ''{}''),
     (''SCRIPTING_ACTIVE_SCRIPTS'', ''''),
     (''INGRESS_ENABLED'', ''false''),
     (''INGRESS_HOST'', ''ks.svc.cluster.local''),
     (''PROXY_FRONT_PORT'', ''8899''),
     (''AUTH_ENABLED'', ''true''),
     (''AUTH_TYPE'', ''default''),
     (''AUTH_SAML_IDP_METADATA_URL'', ''''),
     (''AUTH_SAML_ROLE_ATTRIBUTE'', ''role''),
     (''AUTH_SAML_ROLES'', ''{\"admin\":{\"canDownloadPCAP\":true,\"canStopTrafficCapturing\":true,\"canUpdateTargetedPods\":true,\"canUseScripting\":true,\"filter\":\"\",\"scriptingPermissions\":{\"canActivate\":true,\"canDelete\":true,\"canSave\":true},\"showAdminConsoleLink\":true}}''),
     (''AUTH_OIDC_ISSUER'', ''not set''),
     (''AUTH_OIDC_REFRESH_TOKEN_LIFETIME'', ''3960h''),
     (''AUTH_OIDC_STATE_PARAM_EXPIRY'', ''10m''),
     (''AUTH_OIDC_BYPASS_SSL_CA_CHECK'', ''false''),
     (''TELEMETRY_DISABLED'', ''false''),
     (''SCRIPTING_DISABLED'', ''false''),
     (''TARGETED_PODS_UPDATE_DISABLED'', ''''),
     (''PRESET_FILTERS_CHANGING_ENABLED'', ''true''),
     (''RECORDING_DISABLED'', ''''),
     (''STOP_TRAFFIC_CAPTURING_DISABLED'', ''false''),
     (''GLOBAL_FILTER'', ''''),
     (''DEFAULT_FILTER'', ''!dns and !error''),
     (''TRAFFIC_SAMPLE_RATE'', ''100''),
     (''JSON_TTL'', ''5m''),
     (''PCAP_TTL'', ''10s''),
     (''PCAP_ERROR_TTL'', ''60s''),
     (''TIMEZONE'', '' ''),
     (''CLOUD_LICENSE_ENABLED'', ''true''),
     (''AI_ASSISTANT_ENABLED'', ''true''),
     (''DUPLICATE_TIMEFRAME'', ''200ms''),
     (''ENABLED_DISSECTORS'', ''amqp,dns,http,icmp,kafka,redis,sctp,ws,ldap,radius,diameter''),
     (''CUSTOM_MACROS'', ''{\"https\":\"tls and (http or http2)\"}''),
     (''DISSECTORS_UPDATING_ENABLED'', ''true''),
     (''DETECT_DUPLICATES'', ''false''),
     (''PCAP_DUMP_ENABLE'', ''true''),
     (''PCAP_TIME_INTERVAL'', ''1m''),
     (''PCAP_MAX_TIME'', ''1h''),
     (''PCAP_MAX_SIZE'', ''500MB''),
     (''PORT_MAPPING'', ''{\"amqp\":[5671,5672],\"diameter\":[3868],\"http\":[80,443,8080],\"kafka\":[9092],\"ldap\":[389],\"redis\":[6379]}'')]"

definition legacyHubConfigMap_mutate :: "Kubeshark \<Rightarrow> gomap \<Rightarrow> ('e, ConfigMap) mutate_fn" where
  "legacyHubConfigMap_mutate cr labels cm =
     (None, cm\<lparr>
        cm_ObjectMeta := (cm_ObjectMeta cm)\<lparr>om_Labels := labels\<rparr>,
        cm_Data := (if sp_HubConfigMapData (ks_Spec cr) \<noteq> None
                    then sp_HubConfigMapData (ks_Spec cr)
                    else Some (map_of legacyDefaultData))\<rparr>)"

definition legacyHubConfigMap_call ::
  "(OperationResult \<Rightarrow> string) \<Rightarrow> Kubeshark \<Rightarrow> gomap \<Rightarrow> 'e legacy_call" where
  "legacyHubConfigMap_call opText cr labels = \<lparr>
     lc_object = ConfigMapObj (zero_ConfigMap\<lparr>cm_ObjectMeta := zero_ObjectMeta\<lparr>
       om_Name := getOrDefaultString (sp_HubConfigMapName (ks_Spec cr)) ''kubeshark-config-map'',
       om_Namespace := ks_Namespace cr\<rparr>\<rparr>),
     lc_mutate = on_ConfigMap (legacyHubConfigMap_mutate cr labels),
     lc_wrap = None,
     lc_message = (\<lambda>op. opText op @ '' ConfigMap:'')\<rparr>"

definition createOrUpdateHubConfigMap ::
  "('w, 'e) api \<Rightarrow> (OperationResult \<Rightarrow> string)
     \<Rightarrow> Kubeshark \<Rightarrow> gomap \<Rightarrow> 'w \<Rightarrow> 'e legacy_result \<times> 'w" where
  "createOrUpdateHubConfigMap api opText cr labels =
     legacy_run api (legacyHubConfigMap_call opText cr labels)"

section \<open>Service accounts and roles\<close>

text \<open>The mutate function \<open>func() error { return nil }\<close> of three of the calls.\<close>

definition no_mutation :: "('e, 'o) mutate_fn" where
  "no_mutation x = (None, x)"

definition legacyServiceAccount_call ::
  "(OperationResult \<Rightarrow> string) \<Rightarrow> Kubeshark \<Rightarrow> gomap \<Rightarrow> 'e legacy_call" where
  "legacyServiceAccount_call opText cr labels = \<lparr>
     lc_object = ServiceAccountObj (zero_ServiceAccount\<lparr>sa_ObjectMeta := zero_ObjectMeta\<lparr>
       om_Name := ''kubeshark-service-account'', om_Namespace := ks_Namespace cr,
       om_Labels := labels\<rparr>\<rparr>),
     lc_mutate = on_ServiceAccount no_mutation,
     lc_wrap = None,
     lc_message = (\<lambda>op. opText op @ '' ServiceAccount'')\<rparr>"

definition createOrUpdateServiceAccount ::
  "('w, 'e) api \<Rightarrow> (OperationResult \<Rightarrow> string)
     \<Rightarrow> Kubeshark \<Rightarrow> gomap \<Rightarrow> 'w \<Rightarrow> 'e legacy_result \<times> 'w" where
  "createOrUpdateServiceAccount api opText cr labels =
     legacy_run api (legacyServiceAccount_call opText cr labels)"

definition legacyWorkerServiceAccount_call ::
  "(OperationResult \<Rightarrow> string) \<Rightarrow> Kubeshark \<Rightarrow> gomap \<Rightarrow> 'e legacy_call" where
  "legacyWorkerServiceAccount_call opText cr labels = \<lparr>
     lc_object = ServiceAccountObj (zero_ServiceAccount\<lparr>sa_ObjectMeta := zero_ObjectMeta\<lparr>
       om_Name := getOrDefaultString (sp_ServiceAccountWorker (ks_Spec cr)) ''kubeshark-worker'',
       om_Namespace := ks_Namespace cr, om_Labels := labels\<rparr>\<rparr>),
     lc_mutate = on_ServiceAccount no_mutation,
     lc_wrap = Some ''failed to create or update Worker ServiceAccount'',
     lc_message = (\<lambda>op. opText op @ '' Worker ServiceAccount'')\<rparr>"

definition createOrUpdateWorkerServiceAccount ::
  "('w, 'e) api \<Rightarrow> (OperationResult \<Rightarrow> string)
     \<Rightarrow> Kubeshark \<Rightarrow> gomap \<Rightarrow> 'w \<Rightarrow> 'e legacy_result \<times> 'w" where
  "createOrUpdateWorkerServiceAccount api opText cr labels =
     legacy_run api (legacyWorkerServiceAccount_call opText cr labels)"

definition legacyClusterRole_mutate :: "('e, ClusterRole) mutate_fn" where
  "legacyClusterRole_mutate role = (None, role\<lparr>crole_Rules := [
     zero_PolicyRule\<lparr>
       pol_APIGroups := [''''],
       pol_Resources := [''configmaps'', ''secrets'', ''nodes'', ''pods'', ''services'',
         ''endpoints'', ''persistentvolumeclaims''],
       pol_Verbs := [''list'', ''get'', ''watch'']\<rparr>,
     zero_PolicyRule\<lparr>
       pol_APIGroups := [''''],
       pol_Resources := [''namespaces''],
       pol_ResourceNames := [''kube-system''],
       pol_Verbs := [''get'']\<rparr>,
     zero_PolicyRule\<lparr>
       pol_APIGroups := [''extensions'', ''apps''],
       pol_Resources := [''deployments''],
       pol_Verbs := [''get'', ''list'', ''watch'']\<rparr>]\<rparr>)"

definition legacyClusterRole_call ::
  "(OperationResult \<Rightarrow> string) \<Rightarrow> gomap \<Rightarrow> 'e legacy_call" where
  "legacyClusterRole_call opText labels = \<lparr>
     lc_object = ClusterRoleObj (zero_ClusterRole\<lparr>crole_ObjectMeta := zero_ObjectMeta\<lparr>
       om_Name := ''kubeshark-cluster-role'', om_Labels := labels\<rparr>\<rparr>),
     lc_mutate = on_ClusterRole legacyClusterRole_mutate,
     lc_wrap = Some ''failed to create or update ClusterRole'',
     lc_message = (\<lambda>op. opText op @ '' ClusterRole'')\<rparr>"

definition createOrUpdateClusterRole ::
  "('w, 'e) api \<Rightarrow> (OperationResult \<Rightarrow> string)
     \<Rightarrow> gomap \<Rightarrow> 'w \<Rightarrow> 'e legacy_result \<times> 'w" where
  "createOrUpdateClusterRole api opText labels =
     legacy_run api (legacyClusterRole_call opText labels)"

definition legacyClusterRoleBinding_mutate ::
  "Kubeshark \<Rightarrow> ('e, ClusterRoleBinding) mutate_fn" where
  "legacyClusterRoleBinding_mutate cr binding =
     (None, binding\<lparr>
        crb_Subjects := [
          \<lparr>sub_Kind = ''ServiceAccount'',
            sub_Name = getOrDefaultString (sp_ServiceAccountHub (ks_Spec cr))
              ''kubeshark-service-account'',
            sub_Namespace = ks_Namespace cr\<rparr>,
          \<lparr>sub_Kind = ''ServiceAccount'',
            sub_Name = getOrDefaultString (sp_ServiceAccountWorker (ks_Spec cr))
              ''kubeshark-worker'',
            sub_Namespace = ks_Namespace cr\<rparr>],
        crb_RoleRef := \<lparr>ref_Kind = ''ClusterRole'',
          ref_Name = getOrDefaultString (sp_ClusterRoleName (ks_Spec cr)) ''kubeshark-cluster-role'',
          ref_APIGroup = ''rbac.authorization.k8s.io''\<rparr>\<rparr>)"

definition legacyClusterRoleBinding_call ::
  "(OperationResult \<Rightarrow> string) \<Rightarrow> Kubeshark \<Rightarrow> gomap \<Rightarrow> 'e legacy_call" where
  "legacyClusterRoleBinding_call opText cr labels = \<lparr>
     lc_object = ClusterRoleBindingObj (zero_ClusterRoleBinding\<lparr>crb_ObjectMeta := zero_ObjectMeta\<lparr>
       om_Name := ''kubeshark-cluster-role-binding'', om_Labels := labels\<rparr>\<rparr>),
     lc_mutate = on_ClusterRoleBinding (legacyClusterRoleBinding_mutate cr),
     lc_wrap = Some ''failed to create or update ClusterRoleBinding'',
     lc_message = (\<lambda>op. opText op @ '' ClusterRoleBinding'')\<rparr>"

definition createOrUpdateClusterRoleBinding ::
  "('w, 'e) api \<Rightarrow> (OperationResult \<Rightarrow> string)
     \<Rightarrow> Kubeshark \<Rightarrow> gomap \<Rightarrow> 'w \<Rightarrow> 'e legacy_result \<times> 'w" where
  "createOrUpdateClusterRoleBinding api opText cr labels =
     legacy_run api (legacyClusterRoleBinding_call opText cr labels)"

section \<open>Frontend\<close>

definition legacyFrontendService_mutate :: "gomap \<Rightarrow> ('e, Service) mutate_fn" where
  "legacyFrontendService_mutate labels svc =
     (None, svc\<lparr>svc_Spec := (svc_Spec svc)\<lparr>
        svs_Selector := labels,
        svs_Ports := [\<lparr>svp_Name = ''http'', svp_Port = 80, svp_TargetPort = FromInt32 8080\<rparr>],
        svs_Type := Some ServiceTypeClusterIP\<rparr>\<rparr>)"

definition legacyFrontendService_call ::
  "(OperationResult \<Rightarrow> string) \<Rightarrow> Kubeshark \<Rightarrow> gomap \<Rightarrow> 'e legacy_call" where
  "legacyFrontendService_call opText cr labels = \<lparr>
     lc_object = ServiceObj (zero_Service\<lparr>svc_ObjectMeta := zero_ObjectMeta\<lparr>
       om_Name := ''kubeshark-frontend-service'', om_Namespace := ks_Namespace cr,
       om_Labels := labels\<rparr>\<rparr>),
     lc_mutate = on_Service (legacyFrontendService_mutate labels),
     lc_wrap = Some ''failed to create or update Frontend Service'',
     lc_message = (\<lambda>op. opText op @ '' Frontend Service'')\<rparr>"

definition createOrUpdateFrontendService ::
  "('w, 'e) api \<Rightarrow> (OperationResult \<Rightarrow> string)
     \<Rightarrow> Kubeshark \<Rightarrow> gomap \<Rightarrow> 'w \<Rightarrow> 'e legacy_result \<times> 'w" where
  "createOrUpdateFrontendService api opText cr labels =
     legacy_run api (legacyFrontendService_call opText cr labels)"

definition legacyFrontendEnv :: "EnvVar list" where
  "legacyFrontendEnv = map (\<lambda>(n, v). \<lparr>ev_Name = n, ev_Value = v, ev_ValueFrom = None\<rparr>) [
     (''REACT_APP_DEFAULT_FILTER'', ''{}''),
     (''REACT_APP_AUTH_ENABLED'', ''false''),
     (''REACT_APP_AUTH_TYPE'', ''none''),
     (''REACT_APP_AUTH_SAML_IDP_METADATA_URL'', ''https://example.com''),
     (''REACT_APP_TIMEZONE'', ''IST''),
     (''REACT_APP_REPLAY_DISABLED'', ''false''),
     (''REACT_APP_RECORDING_DISABLED'', ''false''),
     (''REACT_APP_SCRIPTING_DISABLED'', ''false''),
     (''REACT_APP_TARGETED_PODS_UPDATE_DISABLED'', ''false''),
     (''REACT_APP_BPF_OVERRIDE_DISABLED'', ''false''),
     (''REACT_APP_CLOUD_LICENSE_ENABLED'', ''false''),
     (''REACT_APP_STOP_TRAFFIC_CAPTURING_DISABLED'', ''false''),
     (''REACT_APP_SUPPORT_CHAT_ENABLED'', ''false''),
     (''REACT_APP_DISSECTORS_UPDATING_ENABLED'', ''false''),
     (''REACT_APP_SENTRY_ENABLED'', ''false'')]"

text \<open>The whole specification is in the starting object, and the mutate function is empty.\<close>

definition legacyFrontendDeployment_object :: "Kubeshark \<Rightarrow> gomap \<Rightarrow> Deployment" where
  "legacyFrontendDeployment_object cr labels = zero_Deployment\<lparr>
     dep_ObjectMeta := zero_ObjectMeta\<lparr>om_Name := ''kubeshark-frontend-deployment'',
       om_Namespace := ks_Namespace cr, om_Labels := labels\<rparr>,
     dep_Spec := zero_DeploymentSpec\<lparr>
       dps_Replicas := Some 1,
       dps_Selector := Some \<lparr>ls_MatchLabels = labels\<rparr>,
       dps_Template := \<lparr>
         pt_ObjectMeta = zero_ObjectMeta\<lparr>om_Labels := labels\<rparr>,
         pt_Spec = zero_PodSpec\<lparr>
           ps_Containers := [zero_Container\<lparr>
             c_Name := ''frontend'',
             c_Image := getOrDefaultString (sp_FrontendImage (ks_Spec cr))
               ''docker.io/kubeshark/front:v52.3.82'',
             c_Ports := [zero_ContainerPort\<lparr>cp_ContainerPort := 8080\<rparr>],
             c_Env := legacyFrontendEnv\<rparr>]\<rparr>\<rparr>\<rparr>\<rparr>"

definition legacyFrontendDeployment_call ::
  "(OperationResult \<Rightarrow> string) \<Rightarrow> Kubeshark \<Rightarrow> gomap \<Rightarrow> 'e legacy_call" where
  "legacyFrontendDeployment_call opText cr labels = \<lparr>
     lc_object = DeploymentObj (legacyFrontendDeployment_object cr labels),
     lc_mutate = on_Deployment no_mutation,
     lc_wrap = Some ''failed to create or update Frontend Deployment'',
     lc_message = (\<lambda>op. opText op @ '' Frontend Deployment'')\<rparr>"

definition createOrUpdateFrontendDeployment ::
  "('w, 'e) api \<Rightarrow> (OperationResult \<Rightarrow> string)
     \<Rightarrow> Kubeshark \<Rightarrow> gomap \<Rightarrow> 'w \<Rightarrow> 'e legacy_result \<times> 'w" where
  "createOrUpdateFrontendDeployment api opText cr labels =
     legacy_run api (legacyFrontendDeployment_call opText cr labels)"

definition legacyFrontendIngress_mutate :: "Kubeshark \<Rightarrow> gomap \<Rightarrow> ('e, Ingress) mutate_fn" where
  "legacyFrontendIngress_mutate cr labels ing =
     (None, ing\<lparr>
        ing_ObjectMeta := (ing_ObjectMeta ing)\<lparr>om_Labels := labels\<rparr>,
        ing_Spec := (ing_Spec ing)\<lparr>
          igs_IngressClassName := Some (sp_IngressClassName (ks_Spec cr)),
          igs_Rules := [\<lparr>
            igr_Host = sp_IngressHost (ks_Spec cr),
            igr_HTTP = Some [\<lparr>
              hip_Path = ''/'',
              hip_PathType = Some PathTypeImplementationSpecific,
              hip_BackendService = Some \<lparr>isb_Name = ''kubeshark-frontend-service'',
                isb_PortNumber = 80\<rparr>\<rparr>]\<rparr>]\<rparr>\<rparr>)"

definition legacyFrontendIngress_call ::
  "(OperationResult \<Rightarrow> string) \<Rightarrow> Kubeshark \<Rightarrow> gomap \<Rightarrow> 'e legacy_call" where
  "legacyFrontendIngress_call opText cr labels = \<lparr>
     lc_object = IngressObj (zero_Ingress\<lparr>ing_ObjectMeta := zero_ObjectMeta\<lparr>
       om_Name := ''kubeshark-frontend-ingress'', om_Namespace := ks_Namespace cr,
       om_Labels := labels\<rparr>\<rparr>),
     lc_mutate = on_Ingress (legacyFrontendIngress_mutate cr labels),
     lc_wrap = None,
     lc_message = (\<lambda>op. opText op @ '' Frontend Ingress'')\<rparr>"

definition createOrUpdateFrontendIngress ::
  "('w, 'e) api \<Rightarrow> (OperationResult \<Rightarrow> string)
     \<Rightarrow> Kubeshark \<Rightarrow> gomap \<Rightarrow> 'w \<Rightarrow> 'e legacy_result \<times> 'w" where
  "createOrUpdateFrontendIngress api opText cr labels =
     legacy_run api (legacyFrontendIngress_call opText cr labels)"

section \<open>Secret\<close>

definition legacySecret_mutate :: "Kubeshark \<Rightarrow> ('e, Secret) mutate_fn" where
  "legacySecret_mutate cr secret =
     (let data = (case sec_StringData secret of None \<Rightarrow> Map.empty | Some d \<Rightarrow> d);
          sk = sp_SecretKubeshark (ks_Spec cr)
      in (None, secret\<lparr>
        sec_Type := Some SecretTypeOpaque,
        sec_StringData := Some (data(
          ''LICENSE'' \<mapsto> getOrDefaultString (sk_License sk) '''',
          ''SCRIPTING_ENV'' \<mapsto> getOrDefaultString (sk_ScriptingEnvJson sk) ''{}'',
          ''OIDC_CLIENT_ID'' \<mapsto> getOrDefaultString (sk_OidcClientID sk) ''not set'',
          ''OIDC_CLIENT_SECRET'' \<mapsto>
            getOrDefaultString (sk_OidcClientSecret sk) ''not set''))\<rparr>))"

definition legacyKubesharkSecret_call ::
  "(OperationResult \<Rightarrow> string) \<Rightarrow> Kubeshark \<Rightarrow> gomap \<Rightarrow> 'e legacy_call" where
  "legacyKubesharkSecret_call opText cr labels = \<lparr>
     lc_object = SecretObj (zero_Secret\<lparr>sec_ObjectMeta := zero_ObjectMeta\<lparr>
       om_Name := ''kubeshark-secret'', om_Namespace := ks_Namespace cr,
       om_Labels := labels\<rparr>\<rparr>),
     lc_mutate = on_Secret (legacySecret_mutate cr),
     lc_wrap = Some ''failed to create or update Secret'',
     lc_message = (\<lambda>op. opText op @ '' kubeshark-secret'')\<rparr>"

definition createOrUpdateKubesharkSecret ::
  "('w, 'e) api \<Rightarrow> (OperationResult \<Rightarrow> string)
     \<Rightarrow> Kubeshark \<Rightarrow> gomap \<Rightarrow> 'w \<Rightarrow> 'e legacy_result \<times> 'w" where
  "createOrUpdateKubesharkSecret api opText cr labels =
     legacy_run api (legacyKubesharkSecret_call opText cr labels)"

end
