(* ===== verification/LegacyWorker.thy ===== *)
theory LegacyWorker
  imports Legacy Worker
begin

text \<open>
  The worker's part of \<open>internal/controller/utils.go\<close>: the DaemonSet and the functions that build
  its template, and \<open>cleanupResource\<close>. Four of the builders have the names of functions in
  \<open>worker.go\<close>; here they carry the prefix \<open>legacy_\<close>. The lemmas relate each part to the live one,
  up to \<open>legacy_worker_spec_iff\<close>, which says when the two templates are the same.
\<close>

section \<open>Parts of the template\<close>

definition legacy_buildWorkerVolumes :: "Volume list" where
  "legacy_buildWorkerVolumes = [
     \<lparr>v_Name = ''proc'', v_Source = HostPath ''/proc''\<rparr>,
     \<lparr>v_Name = ''sys'', v_Source = HostPath ''/sys''\<rparr>,
     \<lparr>v_Name = ''lib-modules'', v_Source = HostPath ''/lib/modules''\<rparr>,
     \<lparr>v_Name = ''os-release'', v_Source = HostPath ''/etc/os-release''\<rparr>,
     \<lparr>v_Name = ''root'', v_Source = HostPath ''/''\<rparr>,
     \<lparr>v_Name = ''data'', v_Source =
        EmptyDir (Some (NewQuantity (5 * 1024 * 1024 * 1024) BinarySI))\<rparr>]"

definition getCommonEnv :: "EnvVar list" where
  "getCommonEnv = [
     \<lparr>ev_Name = ''POD_NAME'', ev_Value = '''',
       ev_ValueFrom = Some (FieldRef ''metadata.name'')\<rparr>,
     \<lparr>ev_Name = ''POD_NAMESPACE'', ev_Value = '''',
       ev_ValueFrom = Some (FieldRef ''metadata.namespace'')\<rparr>,
     \<lparr>ev_Name = ''PROFILING_ENABLED'', ev_Value = ''false'', ev_ValueFrom = None\<rparr>,
     \<lparr>ev_Name = ''SENTRY_ENABLED'', ev_Value = ''false'', ev_ValueFrom = None\<rparr>,
     \<lparr>ev_Name = ''SENTRY_ENVIRONMENT'', ev_Value = ''production'', ev_ValueFrom = None\<rparr>]"

definition getDefaultResources :: ResourceRequirements where
  "getDefaultResources = \<lparr>
     rr_Limits = Some [ResourceMemory \<mapsto> MustParse ''5Gi''],
     rr_Requests = Some [
       ResourceCPU \<mapsto> MustParse ''50m'',
       ResourceMemory \<mapsto> MustParse ''50Mi'']\<rparr>"

definition getCommonVolumeMounts :: "VolumeMount list \<Rightarrow> VolumeMount list" where
  "getCommonVolumeMounts extraMounts =
     (let commonMounts = [
        zero_VolumeMount\<lparr>vm_Name := ''proc'', vm_MountPath := ''/hostproc'', vm_ReadOnly := True\<rparr>,
        zero_VolumeMount\<lparr>vm_Name := ''sys'', vm_MountPath := ''/sys'', vm_ReadOnly := True,
          vm_MountPropagation := Some MountPropagationHostToContainer\<rparr>,
        zero_VolumeMount\<lparr>vm_Name := ''data'', vm_MountPath := ''/app/data''\<rparr>]
      in commonMounts @ extraMounts)"

definition getTCPProbe :: "int32 \<Rightarrow> Probe" where
  "getTCPProbe port = \<lparr>
     pr_InitialDelaySeconds = 5,
     pr_PeriodSeconds = 5,
     pr_FailureThreshold = 3,
     pr_SuccessThreshold = 1,
     pr_TimeoutSeconds = 1,
     pr_TCPSocketPort = FromInt32 port\<rparr>"

section \<open>Containers\<close>

definition legacy_buildSnifferContainer :: "Kubeshark \<Rightarrow> Container" where
  "legacy_buildSnifferContainer cr = zero_Container\<lparr>
     c_Name := ''sniffer'',
     c_Image := sp_WorkerImage (ks_Spec cr),
     c_ImagePullPolicy := Some PullAlways,
     c_Command := [
       ''./worker'', ''-i'', ''any'', ''-port'', ''48999'', ''-metrics-port'', ''49100'',
       ''-packet-capture'', ''best'', ''warning'',
       ''-servicemesh'', ''-procfs'', ''/hostproc'',
       ''-enable-watchdog'', ''-resolution-strategy'', ''auto'', ''-staletimeout'', ''30''],
     c_Ports := [zero_ContainerPort\<lparr>cp_Name := ''metrics'', cp_ContainerPort := 49100,
       cp_Protocol := Some ProtocolTCP\<rparr>],
     c_Env := getCommonEnv,
     c_Resources := getDefaultResources,
     c_SecurityContext := Some \<lparr>sc_Privileged = Some True\<rparr>,
     c_ReadinessProbe := Some (getTCPProbe 48999),
     c_LivenessProbe := Some (getTCPProbe 48999),
     c_VolumeMounts := getCommonVolumeMounts [
       zero_VolumeMount\<lparr>vm_Name := ''data'', vm_MountPath := ''/app/sniffer_data''\<rparr>]\<rparr>"

definition legacy_buildTracerContainer :: "Kubeshark \<Rightarrow> Container" where
  "legacy_buildTracerContainer cr = zero_Container\<lparr>
     c_Name := ''tracer'',
     c_Image := sp_WorkerImage (ks_Spec cr),
     c_ImagePullPolicy := Some PullAlways,
     c_Command := [''./tracer'', ''-procfs'', ''/hostproc'', ''-disable-tls-log'', ''warning''],
     c_Env := getCommonEnv,
     c_Resources := getDefaultResources,
     c_SecurityContext := Some \<lparr>sc_Privileged = Some True\<rparr>,
     c_VolumeMounts := getCommonVolumeMounts [
       zero_VolumeMount\<lparr>vm_Name := ''data'', vm_MountPath := ''/app/tracer_data''\<rparr>,
       zero_VolumeMount\<lparr>vm_Name := ''os-release'', vm_MountPath := ''/etc/os-release'',
         vm_ReadOnly := True\<rparr>,
       zero_VolumeMount\<lparr>vm_Name := ''root'', vm_MountPath := ''/hostroot'', vm_ReadOnly := True,
         vm_MountPropagation := Some MountPropagationHostToContainer\<rparr>]\<rparr>"

section \<open>DaemonSet\<close>

definition legacy_buildWorkerDaemonSetSpec :: "Kubeshark \<Rightarrow> gomap \<Rightarrow> DaemonSetSpec" where
  "legacy_buildWorkerDaemonSetSpec cr labels =
     (let serviceAccount =
        (if sp_ServiceAccountWorker (ks_Spec cr) = '''' then ''kubeshark-worker''
         else sp_ServiceAccountWorker (ks_Spec cr)) in
      zero_DaemonSetSpec\<lparr>
        dms_Selector := Some \<lparr>ls_MatchLabels = labels\<rparr>,
        dms_Template := \<lparr>
          pt_ObjectMeta = zero_ObjectMeta\<lparr>om_Labels := labels\<rparr>,
          pt_Spec = zero_PodSpec\<lparr>
            ps_InitContainers := [zero_Container\<lparr>
              c_Name := ''mount-bpf'',
              c_Image := sp_WorkerImage (ks_Spec cr),
              c_ImagePullPolicy := Some PullAlways,
              c_Command := [
                ''/bin/sh'', ''-c'',
                ''mkdir -p /sys/fs/bpf && mount | grep -q '' @ [CHR 0x27] @ ''/sys/fs/bpf'' @
                  [CHR 0x27] @ '' || mount -t bpf bpf /sys/fs/bpf''],
              c_SecurityContext := Some \<lparr>sc_Privileged = Some True\<rparr>,
              c_VolumeMounts := [zero_VolumeMount\<lparr>
                vm_Name := ''sys'', vm_MountPath := ''/sys'',
                vm_MountPropagation := Some MountPropagationBidirectional\<rparr>]\<rparr>],
            ps_Containers := [
              legacy_buildSnifferContainer cr,
              legacy_buildTracerContainer cr],
            ps_ServiceAccountName := serviceAccount,
            ps_HostNetwork := True,
            ps_DNSPolicy := Some DNSClusterFirstWithHostNet,
            ps_Tolerations :=
              [\<lparr>tol_Operator = TolerationOpExists, tol_Effect = TaintEffectNoExecute\<rparr>],
            ps_Affinity := Some \<lparr>aff_RequiredNodeSelectorTerms = [
              \<lparr>nst_MatchExpressions = [
                \<lparr>nsr_Key = ''kubernetes.io/os'', nsr_Operator = NodeSelectorOpIn,
                  nsr_Values = [''linux'']\<rparr>]\<rparr>]\<rparr>,
            ps_Volumes := legacy_buildWorkerVolumes\<rparr>\<rparr>\<rparr>)"

definition legacyWorkerDaemonSet_mutate :: "Kubeshark \<Rightarrow> gomap \<Rightarrow> ('e, DaemonSet) mutate_fn" where
  "legacyWorkerDaemonSet_mutate cr labels ds =
     (None, ds\<lparr>dmn_ObjectMeta := (dmn_ObjectMeta ds)\<lparr>om_Labels := labels\<rparr>,
              dmn_Spec := legacy_buildWorkerDaemonSetSpec cr labels\<rparr>)"

definition legacyWorkerDaemonSet_call ::
  "(OperationResult \<Rightarrow> string) \<Rightarrow> Kubeshark \<Rightarrow> gomap \<Rightarrow> 'e legacy_call" where
  "legacyWorkerDaemonSet_call opText cr labels = \<lparr>
     lc_object = DaemonSetObj (zero_DaemonSet\<lparr>dmn_ObjectMeta := zero_ObjectMeta\<lparr>
       om_Name := ''kubeshark-worker-daemonset'',
       om_Namespace := (if sp_Namespace (ks_Spec cr) = '''' then ks_Namespace cr
                        else sp_Namespace (ks_Spec cr))\<rparr>\<rparr>),
     lc_mutate = on_DaemonSet (legacyWorkerDaemonSet_mutate cr labels),
     lc_wrap = None,
     lc_message = opText\<rparr>"

definition createOrUpdateWorkerDaemonSet ::
  "('w, 'e) api \<Rightarrow> (OperationResult \<Rightarrow> string)
     \<Rightarrow> Kubeshark \<Rightarrow> gomap \<Rightarrow> 'w \<Rightarrow> 'e legacy_result \<times> 'w" where
  "createOrUpdateWorkerDaemonSet api opText cr labels =
     legacy_run api (legacyWorkerDaemonSet_call opText cr labels)"

section \<open>cleanupResource\<close>

text \<open>\<open>resource.SetNamespace(ns)\<close>.\<close>

primrec set_namespace :: "string \<Rightarrow> k8s_object \<Rightarrow> k8s_object" where
  "set_namespace ns (ConfigMapObj x) =
     ConfigMapObj (x\<lparr>cm_ObjectMeta := (cm_ObjectMeta x)\<lparr>om_Namespace := ns\<rparr>\<rparr>)"
| "set_namespace ns (ServiceAccountObj x) =
     ServiceAccountObj (x\<lparr>sa_ObjectMeta := (sa_ObjectMeta x)\<lparr>om_Namespace := ns\<rparr>\<rparr>)"
| "set_namespace ns (DeploymentObj x) =
     DeploymentObj (x\<lparr>dep_ObjectMeta := (dep_ObjectMeta x)\<lparr>om_Namespace := ns\<rparr>\<rparr>)"
| "set_namespace ns (ServiceObj x) =
     ServiceObj (x\<lparr>svc_ObjectMeta := (svc_ObjectMeta x)\<lparr>om_Namespace := ns\<rparr>\<rparr>)"
| "set_namespace ns (DaemonSetObj x) =
     DaemonSetObj (x\<lparr>dmn_ObjectMeta := (dmn_ObjectMeta x)\<lparr>om_Namespace := ns\<rparr>\<rparr>)"
| "set_namespace ns (IngressObj x) =
     IngressObj (x\<lparr>ing_ObjectMeta := (ing_ObjectMeta x)\<lparr>om_Namespace := ns\<rparr>\<rparr>)"
| "set_namespace ns (SecretObj x) =
     SecretObj (x\<lparr>sec_ObjectMeta := (sec_ObjectMeta x)\<lparr>om_Namespace := ns\<rparr>\<rparr>)"
| "set_namespace ns (ClusterRoleObj x) =
     ClusterRoleObj (x\<lparr>crole_ObjectMeta := (crole_ObjectMeta x)\<lparr>om_Namespace := ns\<rparr>\<rparr>)"
| "set_namespace ns (ClusterRoleBindingObj x) =
     ClusterRoleBindingObj (x\<lparr>crb_ObjectMeta := (crb_ObjectMeta x)\<lparr>om_Namespace := ns\<rparr>\<rparr>)"

definition cleanupResource ::
  "('w, 'e) api \<Rightarrow> Kubeshark \<Rightarrow> k8s_object \<Rightarrow> ('w, 'e) action" where
  "cleanupResource api cr resource w =
     (case api_Delete api (set_namespace (ks_Namespace cr) resource) w of
        (Some err, w') \<Rightarrow> if \<not> api_IsNotFound api err then (Some err, w') else (None, w')
      | (None, w') \<Rightarrow> (None, w'))"

lemma object_key_set_namespace [simp]:
  "object_key (set_namespace ns x) = Key (object_kind x)
     (if cluster_scoped (object_kind x) then '''' else ns) (om_Name (object_meta x))"
  by (cases x) (simp_all add: object_key_def)

section \<open>Comparison with the live code\<close>

lemma legacy_worker_parts:
  "legacy_buildWorkerVolumes = buildWorkerVolumes" "getCommonEnv = workerCommonEnv"
  "getDefaultResources = workerDefaultResources" "getCommonVolumeMounts = workerCommonVolumeMounts"
  "getTCPProbe = tcpProbe"
  by (simp_all add: fun_eq_iff legacy_buildWorkerVolumes_def getCommonEnv_def getDefaultResources_def
      getCommonVolumeMounts_def getTCPProbe_def worker_part_defs)

lemma legacy_worker_containers:
  "legacy_buildSnifferContainer cr = buildSnifferContainer (sp_WorkerImage (ks_Spec cr))"
  "legacy_buildTracerContainer cr = buildTracerContainer (sp_WorkerImage (ks_Spec cr))"
  by (simp_all add: legacy_buildSnifferContainer_def legacy_buildTracerContainer_def
      buildSnifferContainer_def buildTracerContainer_def legacy_worker_parts)

end
