(* ===== verification/LegacyFacts.thy ===== *)
theory LegacyFacts
  imports LegacyWorker RefRuns
begin

text \<open>
  What the legacy functions of \<open>utils.go\<close> have in common and where they differ from the live code.
  \<open>legacy_calls\<close> lists the calls of all twelve functions. None fails in its mutate function, none
  touches the owner references of an object, and the names of most are constants.
\<close>

definition legacy_calls ::
  "('w, 'e) api \<Rightarrow> (OperationResult \<Rightarrow> string) \<Rightarrow> (int32 option \<Rightarrow> int32 \<Rightarrow> int32 option)
     \<Rightarrow> Kubeshark \<Rightarrow> gomap \<Rightarrow> 'e legacy_call list" where
  "legacy_calls api opText goi cr labels = [
     legacyHubService_call opText cr labels,
     legacyHubDeployment_call api opText goi cr labels,
     legacyHubConfigMap_call opText cr labels,
     legacyServiceAccount_call opText cr labels,
     legacyClusterRole_call opText labels,
     legacyClusterRoleBinding_call opText cr labels,
     legacyFrontendService_call opText cr labels,
     legacyFrontendDeployment_call opText cr labels,
     legacyFrontendIngress_call opText cr labels,
     legacyWorkerDaemonSet_call opText cr labels,
     legacyWorkerServiceAccount_call opText cr labels,
     legacyKubesharkSecret_call opText cr labels]"

text \<open>The calls whose object has a constant name.\<close>

definition fixed_name_calls ::
  "(OperationResult \<Rightarrow> string) \<Rightarrow> Kubeshark \<Rightarrow> gomap \<Rightarrow> 'e legacy_call list" where
  "fixed_name_calls opText cr labels = [
     legacyServiceAccount_call opText cr labels,
     legacyClusterRole_call opText labels,
     legacyClusterRoleBinding_call opText cr labels,
     legacyFrontendService_call opText cr labels,
     legacyFrontendDeployment_call opText cr labels,
     legacyFrontendIngress_call opText cr labels,
     legacyKubesharkSecret_call opText cr labels]"

lemmas legacy_call_defs = legacyHubService_call_def legacyHubDeployment_call_def
  legacyHubConfigMap_call_def legacyServiceAccount_call_def legacyClusterRole_call_def
  legacyClusterRoleBinding_call_def legacyFrontendService_call_def
  legacyFrontendDeployment_call_def legacyFrontendIngress_call_def legacyWorkerDaemonSet_call_def
  legacyWorkerServiceAccount_call_def legacyKubesharkSecret_call_def

lemmas legacy_mutate_defs = legacyHubService_mutate_def legacyHubDeployment_mutate_def
  legacyHubConfigMap_mutate_def no_mutation_def legacyClusterRole_mutate_def
  legacyClusterRoleBinding_mutate_def legacyFrontendService_mutate_def
  legacyFrontendIngress_mutate_def legacyWorkerDaemonSet_mutate_def legacySecret_mutate_def

section \<open>Results\<close>

lemma legacy_run_cases:
  assumes "legacy_run api c w = ((obj, msg, err), w')"
  obtains (ok) op x where "api_CreateOrUpdate api (lc_object c) (lc_mutate c) w = ((op, None, x), w')"
      and "obj = Some x" and "msg = lc_message c op" and "err = None"
    | (failed) op x e where
        "api_CreateOrUpdate api (lc_object c) (lc_mutate c) w = ((op, Some e, x), w')"
      and "obj = None" and "msg = ''''" and "err = Some (wrap_opt (lc_wrap c) e)"
  using assms by (auto simp: legacy_run_def split: prod.splits option.splits)

lemma legacy_run_law:
  assumes "create_or_update_law api vw" and "legacy_run api c w = ((obj, msg, err), w')"
    and "fst (lc_mutate c (cou_base vw w (lc_object c))) = None"
  shows "v_cr vw w' = v_cr vw w"
    and "k \<noteq> object_key (lc_object c) \<Longrightarrow> v_obj vw w' k = v_obj vw w k"
    and "err = None \<Longrightarrow> v_obj vw w' (object_key (lc_object c)) =
      Some (v_admit vw (snd (lc_mutate c (cou_base vw w (lc_object c)))))"
    and "v_obj vw w' (object_key (lc_object c)) = v_obj vw w (object_key (lc_object c)) \<or>
      v_obj vw w' (object_key (lc_object c)) =
        Some (v_admit vw (snd (lc_mutate c (cou_base vw w (lc_object c)))))"
proof -
  obtain op e x where call:
    "api_CreateOrUpdate api (lc_object c) (lc_mutate c) w = ((op, e, x), w')"
    and e: "err = None \<longleftrightarrow> e = None"
    using assms(2) by (cases rule: legacy_run_cases) auto
  note l = assms(1) [unfolded create_or_update_law_def, rule_format, OF call]
  show "v_cr vw w' = v_cr vw w"
    and "k \<noteq> object_key (lc_object c) \<Longrightarrow> v_obj vw w' k = v_obj vw w k"
    using l by blast+
  from l assms(3) have stored: "v_obj vw w' (object_key (lc_object c)) =
        Some (v_admit vw (snd (lc_mutate c (cou_base vw w (lc_object c))))) \<or>
      e \<noteq> None \<and> v_obj vw w' (object_key (lc_object c)) = v_obj vw w (object_key (lc_object c))"
    by simp
  then show "v_obj vw w' (object_key (lc_object c)) = v_obj vw w (object_key (lc_object c)) \<or>
      v_obj vw w' (object_key (lc_object c)) =
        Some (v_admit vw (snd (lc_mutate c (cou_base vw w (lc_object c)))))"
    by blast
  show "v_obj vw w' (object_key (lc_object c)) =
      Some (v_admit vw (snd (lc_mutate c (cou_base vw w (lc_object c)))))" if "err = None"
    using stored e that by blast
qed

section \<open>Owner references\<close>

definition plain_mutation :: "('e, k8s_object) mutate_fn \<Rightarrow> bool" where
  "plain_mutation f \<longleftrightarrow> (\<forall>x. fst (f x) = None \<and> object_key (snd (f x)) = object_key x \<and>
     om_OwnerReferences (object_meta (snd (f x))) = om_OwnerReferences (object_meta x))"

lemma plain_legacy_mutations:
  "plain_mutation (on_Service (legacyHubService_mutate ls))"
  "plain_mutation (on_Deployment (legacyHubDeployment_mutate api goi cr ls))"
  "plain_mutation (on_ConfigMap (legacyHubConfigMap_mutate cr ls))"
  "plain_mutation (on_ServiceAccount no_mutation)"
  "plain_mutation (on_ClusterRole legacyClusterRole_mutate)"
  "plain_mutation (on_ClusterRoleBinding (legacyClusterRoleBinding_mutate cr))"
  "plain_mutation (on_Service (legacyFrontendService_mutate ls))"
  "plain_mutation (on_Deployment no_mutation)"
  "plain_mutation (on_Ingress (legacyFrontendIngress_mutate cr ls))"
  "plain_mutation (on_DaemonSet (legacyWorkerDaemonSet_mutate cr ls))"
  "plain_mutation (on_Secret (legacySecret_mutate cr))"
  by (auto simp: plain_mutation_def on_defs object_key_def legacy_mutate_defs Let_def
      split: k8s_object.splits)

lemma plain_legacy_call:
  assumes "c \<in> set (legacy_calls api opText goi cr ls)"
  shows "plain_mutation (lc_mutate c)" and "om_OwnerReferences (object_meta (lc_object c)) = []"
  using assms
  by (auto simp: legacy_calls_def legacy_call_defs plain_legacy_mutations zero_defs
      legacyFrontendDeployment_object_def)

lemma plain_mutationD:
  assumes "plain_mutation f"
  shows "fst (f x) = None" and "object_key (snd (f x)) = object_key x"
    and "om_OwnerReferences (object_meta (snd (f x))) = om_OwnerReferences (object_meta x)"
  using assms by (simp_all add: plain_mutation_def)

text \<open>On the reference cluster every legacy call goes through.\<close>

lemma ref_admission_parts:
  "admission_keeps (v_admit ref_view)" "admission_secrets (v_admit ref_view)"
  using admissionD [OF ref_view_admission] by simp_all

lemma ref_legacy_run:
  assumes "plain_mutation (lc_mutate c)"
  obtains x m w' where "legacy_run (ref_api []) c w = ((Some x, m, None), w')"
proof -
  let ?b = "case get_by object_key (object_key (lc_object c)) (cl_objs w) of
      None \<Rightarrow> lc_object c | Some x \<Rightarrow> x"
  have b: "object_key ?b = object_key (lc_object c)"
    by (auto split: option.splits dest: get_by_key)
  obtain y where "lc_mutate c ?b = (None, y)" and "object_key y = object_key ?b"
    using plain_mutationD [OF assms, of ?b] by (metis prod.collapse)
  with b show ?thesis by (intro that) (simp add: legacy_run_def ref_api_def Let_def)
qed

section \<open>Properties\<close>

text \<open>
  C30: the legacy worker template. It is the live one exactly when the resource names an image for
  the worker and either a service account or the one resource name for which the two defaults agree:
  the legacy code has no default image.
\<close>

theorem legacy_worker_spec_iff:
  "legacy_buildWorkerDaemonSetSpec cr ls = buildWorkerDaemonSetSpec cr ls \<longleftrightarrow>
     sp_WorkerImage (ks_Spec cr) \<noteq> '''' \<and>
     (sp_ServiceAccountWorker (ks_Spec cr) = '''' \<longrightarrow> ks_Name cr = ''kubeshark'')"
proof -
  have image: "workerImage cr = sp_WorkerImage (ks_Spec cr) \<longleftrightarrow> sp_WorkerImage (ks_Spec cr) \<noteq> ''''"
    by (auto simp: workerImage_def getOrDefaultString_def defaultWorkerImage_def)
  have "(ks_Name cr @ ''-worker'' = ''kubeshark'' @ ''-worker'') = (ks_Name cr = ''kubeshark'')"
    by (rule append_same_eq)
  then have account: "workerServiceAccountName cr =
      (if sp_ServiceAccountWorker (ks_Spec cr) = '''' then ''kubeshark-worker''
       else sp_ServiceAccountWorker (ks_Spec cr)) \<longleftrightarrow>
      (sp_ServiceAccountWorker (ks_Spec cr) = '''' \<longrightarrow> ks_Name cr = ''kubeshark'')"
    by (simp add: workerServiceAccountName_def getOrDefaultString_def)
  have "legacy_buildWorkerDaemonSetSpec cr ls = buildWorkerDaemonSetSpec cr ls \<longleftrightarrow>
      workerImage cr = sp_WorkerImage (ks_Spec cr) \<and>
      workerServiceAccountName cr =
        (if sp_ServiceAccountWorker (ks_Spec cr) = '''' then ''kubeshark-worker''
         else sp_ServiceAccountWorker (ks_Spec cr))"
    by (auto simp: legacy_buildWorkerDaemonSetSpec_def buildWorkerDaemonSetSpec_def Let_def
        legacy_worker_containers legacy_worker_parts zero_defs)
  with image account show ?thesis by blast
qed

theorem legacy_worker_spec_iff_witness:
  "let cr = (named_resource ''d'' ''kubeshark'')\<lparr>ks_Spec :=
     zero_KubesharkSpec\<lparr>sp_WorkerImage := ''w''\<rparr>\<rparr>
   in legacy_buildWorkerDaemonSetSpec cr None = buildWorkerDaemonSetSpec cr None"
  unfolding Let_def legacy_worker_spec_iff
  by (simp add: named_resource_defs)

text \<open>
  C31: where the legacy objects agree with the live ones. The ConfigMap and the hub Service are
  written alike, defaults included; the rules of the ClusterRole are the live defaults; the frontend
  Service and the Secret differ only in that the labels of a stored object are left alone; the
  frontend Deployment starts as the live one does. Over a stored hub Deployment the legacy code keeps
  the selector and the annotations of the pod template, while the live code drops the annotations
  (and with them a restart that was asked for).
\<close>

theorem legacy_objects_agree:
  "legacyHubConfigMap_mutate cr ls cm = (None, hubConfigMap_fill cr ls cm) \<and>
   legacyHubService_mutate ls svc = (None, hubService_fill cr ls svc) \<and>
   legacyClusterRole_mutate role = (None, role\<lparr>crole_Rules := defaultClusterRoleRules\<rparr>) \<and>
   legacyFrontendService_mutate ls svc =
     (None, (frontendService_fill cr ls svc)\<lparr>svc_ObjectMeta := svc_ObjectMeta svc\<rparr>) \<and>
   legacySecret_mutate cr s = (None, (secret_fill cr ls s)\<lparr>sec_ObjectMeta := sec_ObjectMeta s\<rparr>) \<and>
   legacyFrontendDeployment_object cr ls =
     frontendDeployment_fill cr ls (zero_Deployment\<lparr>dep_ObjectMeta := zero_ObjectMeta\<lparr>
       om_Name := ''kubeshark-frontend-deployment'', om_Namespace := ks_Namespace cr\<rparr>\<rparr>) \<and>
   (let old = dep_Spec dep;
        legacy = dep_Spec (snd (legacyHubDeployment_mutate api goi cr ls dep));
        live = dep_Spec (hubDeployment_fill cr ls dep);
        notes = (\<lambda>spec. om_Annotations (pt_ObjectMeta (dps_Template spec)))
    in notes legacy = notes old \<and> notes live = None \<and>
       dps_Selector live = Some \<lparr>ls_MatchLabels = ls\<rparr> \<and>
       dps_Selector legacy = (if api_IsZero api (om_CreationTimestamp (dep_ObjectMeta dep))
         then Some \<lparr>ls_MatchLabels = ls\<rparr> else dps_Selector old))"
proof (intro conjI)
  have "legacyDefaultData = defaultHubConfigMapData"
    by (simp add: legacyDefaultData_def defaultHubConfigMapData_def)
  then show "legacyHubConfigMap_mutate cr ls cm = (None, hubConfigMap_fill cr ls cm)"
    by (simp add: legacyHubConfigMap_mutate_def hubConfigMap_fill_def)
  have "legacyFrontendEnv = frontendEnv"
    by (simp add: legacyFrontendEnv_def frontendEnv_def)
  then show "legacyFrontendDeployment_object cr ls =
      frontendDeployment_fill cr ls (zero_Deployment\<lparr>dep_ObjectMeta := zero_ObjectMeta\<lparr>
        om_Name := ''kubeshark-frontend-deployment'', om_Namespace := ks_Namespace cr\<rparr>\<rparr>)"
    by (simp add: legacyFrontendDeployment_object_def frontendDeployment_fill_def zero_defs
        defaultFrontendImage_def)
qed (simp_all add: legacy_mutate_defs hubService_fill_def frontendService_fill_def
    defaultClusterRoleRules_def secret_fill_def hubDeployment_fill_def Let_def zero_defs)

text \<open>
  C32: the legacy frontend Deployment never changes. Its specification is in the object the call
  starts from and its mutate function is empty, so a Deployment that is stored stays what it was
  (or what admission makes of it), whatever image the resource names by then. The same holds for
  both service accounts.
\<close>

theorem legacy_frontend_frozen:
  assumes law: "lawful api vw"
    and f: "f \<in> {createOrUpdateFrontendDeployment api opText cr ls,
      createOrUpdateServiceAccount api opText cr ls,
      createOrUpdateWorkerServiceAccount api opText cr ls}"
    and stored: "v_obj vw w k = Some x" and run: "f w = (r, w')"
  shows "v_obj vw w' k = Some x \<or> v_obj vw w' k = Some (v_admit vw x)"
proof -
  note laws = lawfulD [OF law]
  obtain c where c: "f = legacy_run api c" "lc_mutate c \<in> {on_Deployment no_mutation, on_ServiceAccount no_mutation}"
    using f by (auto simp: createOrUpdateFrontendDeployment_def createOrUpdateServiceAccount_def
        createOrUpdateWorkerServiceAccount_def legacy_call_defs)
  have same: "lc_mutate c y = (None, y)" for y
    using c(2) by (auto simp: on_defs no_mutation_def split: k8s_object.splits)
  obtain obj msg err where r: "r = (obj, msg, err)" by (metis prod.exhaust)
  have run': "legacy_run api c w = ((obj, msg, err), w')" using run c(1) r by simp
  note l = legacy_run_law [OF laws(9) run']
  show ?thesis
  proof (cases "k = object_key (lc_object c)")
    case True
    with stored have "cou_base vw w (lc_object c) = x" by (simp add: cou_base_def)
    with l(4) same True stored show ?thesis by auto
  next
    case False
    with l(2) same stored show ?thesis by auto
  qed
qed

text \<open>A frontend Deployment as an earlier resource left it.\<close>

definition old_frontend :: k8s_object where
  "old_frontend = DeploymentObj (legacyFrontendDeployment_object (named_resource ''default'' ''old'') None)"

theorem legacy_frontend_frozen_witness:
  "\<exists>r w'. createOrUpdateFrontendDeployment (ref_api []) (\<lambda>_. ''updated'') sample None
      (\<lparr>cl_crs = [], cl_objs = [old_frontend]\<rparr>) = (r, w') \<and>
    v_obj ref_view w' (object_key old_frontend) = Some old_frontend"
proof -
  let ?w = "\<lparr>cl_crs = [], cl_objs = [old_frontend]\<rparr>"
  obtain r w' where run: "createOrUpdateFrontendDeployment (ref_api []) (\<lambda>_. ''updated'') sample None
      ?w = (r, w')"
    by (metis prod.exhaust)
  have "v_obj ref_view ?w (object_key old_frontend) = Some old_frontend" by simp
  moreover have "ref_admit old_frontend = old_frontend"
    by (simp add: old_frontend_def ref_admit_def legacyFrontendDeployment_object_def)
  ultimately have "v_obj ref_view w' (object_key old_frontend) = Some old_frontend"
    using legacy_frontend_frozen [OF ref_lawful insertI1 _ run] by force
  with run show ?thesis by blast
qed

text \<open>
  C33: legacy names collide. Seven of the legacy names are constants, so for two resources of one
  namespace these calls address the same objects (the cluster-scoped ones for any two resources).
  The second resource to be reconciled overwrites the first one's licence: on a server that puts the
  entries of \<open>stringData\<close> into \<open>data\<close>, as Kubernetes does (\<open>admission_secrets\<close>), the stored \<open>data\<close>
  has the licence of the second.
\<close>

theorem legacy_names_collide:
  fixes api :: "('w, 'e) api"
  assumes law: "lawful api vw" and adm: "admission_secrets (v_admit vw)"
    and ns: "ks_Namespace cr' = ks_Namespace cr"
    and run: "createOrUpdateKubesharkSecret api opText cr' ls' w = ((obj, msg, None), w')"
  shows "map (\<lambda>c. object_key (lc_object c)) (fixed_name_calls opText cr' ls' :: 'e legacy_call list) =
      map (\<lambda>c. object_key (lc_object c)) (fixed_name_calls opText cr ls :: 'e legacy_call list) \<and>
    (\<exists>s d. v_obj vw w' (object_key (lc_object
          (legacyKubesharkSecret_call opText cr ls :: 'e legacy_call))) = Some (SecretObj s) \<and>
        sec_Data s = Some d \<and>
        d ''LICENSE'' = Some (sk_License (sp_SecretKubeshark (ks_Spec cr'))))"
proof -
  note laws = lawfulD [OF law]
  let ?c = "legacyKubesharkSecret_call opText cr' ls' :: 'e legacy_call"
  let ?b = "cou_base vw w (lc_object ?c)"
  have keys: "map (\<lambda>c. object_key (lc_object c)) (fixed_name_calls opText cr' ls' :: 'e legacy_call list) =
      map (\<lambda>c. object_key (lc_object c)) (fixed_name_calls opText cr ls)"
    using ns by (simp add: fixed_name_calls_def legacy_call_defs object_key_def
        legacyFrontendDeployment_object_def zero_defs)
  have same: "object_key (lc_object ?c) =
      object_key (lc_object (legacyKubesharkSecret_call opText cr ls :: 'e legacy_call))"
    using ns by (simp add: legacy_call_defs object_key_def)
  have "plain_mutation (lc_mutate ?c)"
    by (simp add: legacy_call_defs plain_legacy_mutations)
  note stored = legacy_run_law(3) [OF laws(9) run [unfolded createOrUpdateKubesharkSecret_def]
      plain_mutationD(1) [OF this] refl]
  have "object_kind ?b = SecretKind"
    using object_key_kind [OF cou_base_key [OF laws(10)], of w "lc_object ?c"]
    by (simp add: legacy_call_defs)
  then obtain s0 where b: "?b = SecretObj s0" using object_kind_elims(7) by blast
  have "\<exists>s d. snd (lc_mutate ?c ?b) = SecretObj s \<and> sec_StringData s = Some d \<and>
      d ''LICENSE'' = Some (sk_License (sp_SecretKubeshark (ks_Spec cr')))"
    unfolding b by (simp add: legacy_call_defs on_defs legacySecret_mutate_def Let_def
        getOrDefaultString_def)
  then obtain s d where y: "snd (lc_mutate ?c ?b) = SecretObj s"
    and d: "sec_StringData s = Some d" "d ''LICENSE'' = Some (sk_License (sp_SecretKubeshark (ks_Spec cr')))"
    by blast
  have "\<exists>d. sec_Data (stored_secret s) = Some d \<and>
      d ''LICENSE'' = Some (sk_License (sp_SecretKubeshark (ks_Spec cr')))"
    using d by (simp add: stored_secret_def merge_data_def)
  with stored y adm same have "\<exists>s d. v_obj vw w' (object_key (lc_object
          (legacyKubesharkSecret_call opText cr ls :: 'e legacy_call))) = Some (SecretObj s) \<and>
        sec_Data s = Some d \<and> d ''LICENSE'' = Some (sk_License (sp_SecretKubeshark (ks_Spec cr')))"
    by (simp add: admission_secrets_def)
  with keys show ?thesis by blast
qed

theorem legacy_names_collide_witness:
  "\<exists>r w' s. createOrUpdateKubesharkSecret (ref_api []) (\<lambda>_. ''created'') sample None (holding []) =
      (r, w') \<and>
    v_obj ref_view w' (Key SecretKind ''default'' ''kubeshark-secret'') = Some (SecretObj s)"
proof -
  have "plain_mutation (lc_mutate (legacyKubesharkSecret_call (\<lambda>_. ''created'') sample None))"
    by (simp add: legacy_call_defs plain_legacy_mutations)
  then obtain x m w' where "createOrUpdateKubesharkSecret (ref_api []) (\<lambda>_. ''created'') sample None
      (holding []) = ((Some x, m, None), w')"
    unfolding createOrUpdateKubesharkSecret_def by (rule ref_legacy_run)
  with legacy_names_collide [OF ref_lawful ref_admission_parts(2) _ this,
      of "named_resource ''default'' ''old''" None]
  show ?thesis
    by (simp add: legacy_call_defs object_key_def sample_defs named_resource_def) blast
qed

text \<open>
  C34: legacy objects have no owner. On a server whose admission leaves owner references alone, as it
  leaves names alone (\<open>admission_keeps\<close>), no legacy call gives the object it writes an owner
  reference: a new object gets none and a stored one keeps those it had. So the garbage collector does not
  remove them with the resource, and the finalizer does not name them either.
\<close>

theorem legacy_never_owned:
  assumes law: "lawful api vw" and adm: "admission_keeps (v_admit vw)"
    and c: "c \<in> set (legacy_calls api opText goi cr ls)"
    and run: "legacy_run api c w = (r, w')" and y: "v_obj vw w' k = Some y"
  shows "om_OwnerReferences (object_meta y) =
    (case v_obj vw w k of None \<Rightarrow> [] | Some x \<Rightarrow> om_OwnerReferences (object_meta x))"
proof -
  note laws = lawfulD [OF law]
  note plain = plain_legacy_call [OF c]
  obtain obj msg err where r: "r = (obj, msg, err)" by (metis prod.exhaust)
  note l = legacy_run_law [OF laws(9) run [unfolded r] plain_mutationD(1) [OF plain(1)]]
  show ?thesis
  proof (cases "v_obj vw w' k = v_obj vw w k")
    case True
    with y show ?thesis by simp
  next
    case False
    with l(2) have k: "k = object_key (lc_object c)" by blast
    with l(4) y False have "y = v_admit vw (snd (lc_mutate c (cou_base vw w (lc_object c))))"
      by simp
    then have "om_OwnerReferences (object_meta y) =
        om_OwnerReferences (object_meta (cou_base vw w (lc_object c)))"
      by (simp add: admission_keepsD(3) [OF adm] plain_mutationD(3) [OF plain(1)])
    with k plain(2) show ?thesis by (simp add: cou_base_def split: option.splits)
  qed
qed

theorem legacy_never_owned_witness:
  "\<exists>r w' y. legacy_run (ref_api []) (legacyHubService_call (\<lambda>_. ''created'') sample None) (holding []) =
      (r, w') \<and>
    v_obj ref_view w' (Key ServiceKind ''default'' ''kubeshark-hub'') = Some y \<and>
    om_OwnerReferences (object_meta y) = []"
proof -
  let ?c = "legacyHubService_call (\<lambda>_. ''created'') sample None :: ref_error legacy_call"
  have c: "?c \<in> set (legacy_calls (ref_api []) (\<lambda>_. ''created'') (\<lambda>v d. v) sample None)"
    by (simp add: legacy_calls_def)
  note plain = plain_legacy_call(1) [OF c]
  obtain x m w' where run: "legacy_run (ref_api []) ?c (holding []) = ((Some x, m, None), w')"
    using plain by (rule ref_legacy_run)
  have k: "object_key (lc_object ?c) = Key ServiceKind ''default'' ''kubeshark-hub''"
    by (simp add: legacy_call_defs object_key_def sample_defs)
  obtain y where y: "v_obj ref_view w' (object_key (lc_object ?c)) = Some y"
    using legacy_run_law(3) [OF ref_cou_law run plain_mutationD(1) [OF plain] refl] by blast
  have "om_OwnerReferences (object_meta y) = []"
    using legacy_never_owned [OF ref_lawful ref_admission_parts(1) c run y] by (simp add: holding_def)
  with run y k show ?thesis by auto
qed

text \<open>
  C35: \<open>cleanupResource\<close>. Without error the object of that kind and name is gone, in the resource's
  namespace or, for a cluster-scoped kind, in the cluster (the client ignores the namespace that the
  function sets then); an error is never "not found"; and no other object is touched. As for the live
  deletions, the object is taken to carry no finalizers of its own (\<open>delete_law\<close>).
\<close>

theorem cleanup_removes:
  assumes law: "lawful api vw" and run: "cleanupResource api cr x w = (r, w')"
    and key: "key = Key (object_kind x)
      (if cluster_scoped (object_kind x) then '''' else ks_Namespace cr) (om_Name (object_meta x))"
  shows "(case r of None \<Rightarrow> v_obj vw w' key = None | Some e \<Rightarrow> \<not> api_IsNotFound api e) \<and>
    (\<forall>k. k \<noteq> key \<longrightarrow> v_obj vw w' k = v_obj vw w k) \<and> v_cr vw w' = v_cr vw w"
proof -
  obtain e w1 where del: "api_Delete api (set_namespace (ks_Namespace cr) x) w = (e, w1)"
    by (metis prod.exhaust)
  have w1: "w1 = w'" using run del
    by (auto simp: cleanupResource_def split: option.splits if_splits)
  have k: "object_key (set_namespace (ks_Namespace cr) x) = key"
    by (simp add: key)
  note l = lawfulD(8) [OF law, unfolded delete_law_def, rule_format, OF del [unfolded w1], unfolded k]
  have "case r of None \<Rightarrow> v_obj vw w' key = None | Some e \<Rightarrow> \<not> api_IsNotFound api e"
    using run del l by (cases e) (auto simp: cleanupResource_def split: if_splits)
  with l show ?thesis by blast
qed

theorem cleanup_removes_witness:
  "\<exists>w'. cleanupResource (ref_api []) sample old_frontend
      (\<lparr>cl_crs = [], cl_objs = [old_frontend]\<rparr>) = (None, w') \<and>
    v_obj ref_view w' (object_key old_frontend) = None"
proof -
  let ?w = "\<lparr>cl_crs = [], cl_objs = [old_frontend]\<rparr>"
  have k: "object_key old_frontend =
      Key (object_kind old_frontend) (ks_Namespace sample) (om_Name (object_meta old_frontend))"
    and kind: "\<not> cluster_scoped (object_kind old_frontend)"
    by (simp_all add: object_key_def old_frontend_def legacyFrontendDeployment_object_def
        named_resource_def sample_defs)
  have "get_by object_key (object_key (set_namespace (ks_Namespace sample) old_frontend))
      [old_frontend] = Some old_frontend"
    by (simp add: k kind)
  then obtain w' where run: "cleanupResource (ref_api []) sample old_frontend ?w = (None, w')"
    by (simp add: cleanupResource_def ref_api_def)
  from cleanup_removes [OF ref_lawful run refl] run k kind show ?thesis by simp
qed

end
