(* ===== verification/GoHeap.thy ===== *)
theory GoHeap
  imports KubesharkTypes
begin

text \<open>
  The Go heap behind the generated deep copies (\<open>api/v1beta1/zz_generated.deepcopy.go\<close>), and the
  contract of a deep copy.

  A pointer, a map and the array of a slice are addresses; nil is \<open>None\<close>. A struct holds addresses
  where the pure model of \<open>KubesharkTypes\<close> holds values. The structs of the Kubernetes libraries that
  are embedded in the resource are of an opaque type \<open>'x\<close>. The allocator hands out addresses in
  order and never reuses one, so an address below \<open>hp_next\<close> is old and one at or above it is new.

  \<open>deep_copier\<close> is the contract: a copy of a well-formed struct exists (the copy neither panics nor
  runs for ever), reads as the same value, lives at new addresses only, and no old cell has changed.
  The lemmas build such copiers from smaller ones: pairs, the array of a slice, and a struct that
  carries references beside plain fields.
\<close>

type_synonym addr = nat

section \<open>Structs in memory\<close>

record spec_mem =
  sm_HubImage :: string
  sm_FrontendImage :: string
  sm_HubReplicas :: "addr option"
  sm_WorkerImage :: string
  sm_Namespace :: string
  sm_IngressHost :: string
  sm_IngressClassName :: string
  sm_IngressName :: string
  sm_ServiceAccountHub :: string
  sm_ServiceAccountWorker :: string
  sm_HubConfigMapData :: "addr option"
  sm_ClusterRoleRules :: "addr option"
  sm_ClusterRoleName :: string
  sm_ClusterRoleBindingName :: string
  sm_HubDeploymentName :: string
  sm_HubLabels :: "addr option"
  sm_HubContainerPorts :: "addr option"
  sm_WorkerDaemonSetName :: string
  sm_WorkerLabels :: "addr option"
  sm_HubServiceName :: string
  sm_HubConfigMapName :: string
  sm_SecretKubeshark :: SecretKubesharkSpec

record status_mem =
  tm_Conditions :: "addr option"
  tm_ObservedGeneration :: int64

record 'x kubeshark_mem =
  km_TypeMeta :: TypeMeta
  km_ObjectMeta :: 'x
  km_Spec :: spec_mem
  km_Status :: status_mem

record 'x list_mem =
  lm_TypeMeta :: TypeMeta
  lm_ListMeta :: 'x
  lm_Items :: "addr option"

text \<open>What an address can hold: a value behind a pointer, a map, the array of a slice, a struct.\<close>

datatype 'x cell =
    CInt32 int32
  | CMap "string \<rightharpoonup> string"
  | CPorts "ContainerPort list"
  | CRules "'x list"
  | CConditions "'x list"
  | CItems "'x kubeshark_mem list"
  | CKubeshark "'x kubeshark_mem"
  | CKubesharkList "'x list_mem"
  | CSpec spec_mem
  | CStatus status_mem
  | CSecret SecretKubesharkSpec
  | CLib 'x

section \<open>The heap\<close>

record 'x heap =
  hp_next :: addr
  hp_cell :: "addr \<rightharpoonup> 'x cell"

definition wf_heap :: "'x heap \<Rightarrow> bool" where
  "wf_heap h \<longleftrightarrow> (\<forall>a. hp_next h \<le> a \<longrightarrow> hp_cell h a = None)"

definition alloc :: "'x cell \<Rightarrow> 'x heap \<Rightarrow> addr \<times> 'x heap" where
  "alloc c h = (hp_next h,
     h\<lparr>hp_next := Suc (hp_next h), hp_cell := (hp_cell h)(hp_next h \<mapsto> c)\<rparr>)"

definition store :: "addr \<Rightarrow> 'x cell \<Rightarrow> 'x heap \<Rightarrow> 'x heap" where
  "store a c h = h\<lparr>hp_cell := (hp_cell h)(a \<mapsto> c)\<rparr>"

text \<open>Two heaps agree on a set of addresses; \<open>extends\<close>: every old cell is as it was.\<close>

definition agree :: "addr set \<Rightarrow> 'x heap \<Rightarrow> 'x heap \<Rightarrow> bool" where
  "agree A h h' \<longleftrightarrow> (\<forall>a \<in> A. hp_cell h' a = hp_cell h a)"

definition extends :: "'x heap \<Rightarrow> 'x heap \<Rightarrow> bool" where
  "extends h h' \<longleftrightarrow> hp_next h \<le> hp_next h' \<and> agree {..<hp_next h} h h'"

lemma agree_mono: "agree A h h' \<Longrightarrow> B \<subseteq> A \<Longrightarrow> agree B h h'"
  by (auto simp: agree_def)

lemma agree_Un [simp]: "agree (A \<union> B) h h' \<longleftrightarrow> agree A h h' \<and> agree B h h'"
  by (auto simp: agree_def)

lemma extends_refl [simp]: "extends h h"
  by (simp add: extends_def agree_def)

lemma extends_trans [trans]: "extends h h1 \<Longrightarrow> extends h1 h2 \<Longrightarrow> extends h h2"
  by (auto simp: extends_def agree_def)

lemma extends_agree: "extends h h' \<Longrightarrow> A \<subseteq> {..<hp_next h} \<Longrightarrow> agree A h h'"
  by (auto simp: extends_def agree_def)

lemma extends_next: "extends h h' \<Longrightarrow> hp_next h \<le> hp_next h'"
  by (simp add: extends_def)

lemma wf_heap_bound: "wf_heap h \<Longrightarrow> hp_cell h a = Some c \<Longrightarrow> a < hp_next h"
  by (metis wf_heap_def not_less option.distinct(1))

lemma alloc_facts:
  assumes "alloc c h = (a, h')"
  shows "a = hp_next h" and "hp_next h' = Suc (hp_next h)" and "hp_cell h' a = Some c"
    and "extends h h'" and "wf_heap h \<Longrightarrow> wf_heap h'"
  using assms by (auto simp: alloc_def extends_def agree_def wf_heap_def)

lemma store_facts:
  assumes "hp_next h0 \<le> a" and "a < hp_next h"
  shows "hp_next (store a c h) = hp_next h" and "hp_cell (store a c h) a = Some c"
    and "b \<noteq> a \<Longrightarrow> hp_cell (store a c h) b = hp_cell h b"
    and "extends h0 h \<Longrightarrow> extends h0 (store a c h)" and "wf_heap h \<Longrightarrow> wf_heap (store a c h)"
  using assms by (auto simp: store_def extends_def agree_def wf_heap_def)

section \<open>The contract of a deep copy\<close>

type_synonym ('a, 'x) copier = "'a \<Rightarrow> 'x heap \<Rightarrow> ('a \<times> 'x heap) option"

text \<open>
  \<open>ok h x\<close>: every address in the struct \<open>x\<close> leads to a cell of the right kind; \<open>refs h x\<close>: the addresses
  that can be reached from \<open>x\<close>; \<open>val h x\<close>: the value it stands for.
\<close>

locale deep_copier =
  fixes copy :: "('a, 'x) copier"
    and ok :: "'x heap \<Rightarrow> 'a \<Rightarrow> bool"
    and refs :: "'x heap \<Rightarrow> 'a \<Rightarrow> addr set"
    and val :: "'x heap \<Rightarrow> 'a \<Rightarrow> 'v"
  assumes ok_refs: "wf_heap h \<Longrightarrow> ok h x \<Longrightarrow> refs h x \<subseteq> {..<hp_next h}"
    and frame: "ok h x \<Longrightarrow> agree (refs h x) h h' \<Longrightarrow>
      ok h' x \<and> refs h' x = refs h x \<and> val h' x = val h x"
    and copies: "wf_heap h \<Longrightarrow> ok h x \<Longrightarrow>
      \<exists>y h'. copy x h = Some (y, h') \<and> wf_heap h' \<and> extends h h' \<and> ok h' y \<and>
        val h' y = val h x \<and> refs h' y \<subseteq> {hp_next h..<hp_next h'}"
begin

lemma copy_total:
  assumes "wf_heap h" and "ok h x"
  obtains y h' where "copy x h = Some (y, h')" and "wf_heap h'" and "extends h h'" and "ok h' y"
    and "val h' y = val h x" and "refs h' y \<subseteq> {hp_next h..<hp_next h'}"
  using copies [OF assms] by blast

lemma copy_result:
  assumes "wf_heap h" and "ok h x" and "copy x h = Some (y, h')"
  shows "wf_heap h'" and "extends h h'" and "ok h' y" and "val h' y = val h x"
    and "refs h' y \<subseteq> {hp_next h..<hp_next h'}"
  using copies [OF assms(1,2)] assms(3) by auto

text \<open>An extension of the heap keeps everything about an old struct.\<close>

lemma extends_frame:
  assumes "wf_heap h" and "ok h x" and "extends h h'"
  shows "ok h' x" and "refs h' x = refs h x" and "val h' x = val h x"
  using frame [OF assms(2) extends_agree [OF assms(3) ok_refs [OF assms(1,2)]]] by simp_all

text \<open>
  The copy and the original share nothing: whatever is later written at the addresses of one, the
  other still reads as before.
\<close>

theorem independent:
  assumes wf: "wf_heap h" and ok: "ok h x" and run: "copy x h = Some (y, h')"
  shows "refs h' x \<inter> refs h' y = {}"
    and "agree (- refs h' y) h' h'' \<Longrightarrow> val h'' x = val h x"
    and "agree (- refs h' x) h' h'' \<Longrightarrow> val h'' y = val h x"
proof -
  note c = copy_result [OF wf ok run]
  note e = extends_frame [OF wf ok c(2)]
  show disj: "refs h' x \<inter> refs h' y = {}"
    using ok_refs [OF wf ok] c(5) e(2) by fastforce
  show "val h'' x = val h x" if "agree (- refs h' y) h' h''"
    using frame [OF e(1) agree_mono [OF that]] disj e(3) by auto
  show "val h'' y = val h x" if "agree (- refs h' x) h' h''"
    using frame [OF c(3) agree_mono [OF that]] disj c(4) by auto
qed

end

section \<open>Copiers from copiers\<close>

text \<open>Two fields, one after the other.\<close>

definition pair_copy :: "('a, 'x) copier \<Rightarrow> ('b, 'x) copier \<Rightarrow> ('a \<times> 'b, 'x) copier" where
  "pair_copy A B xy h =
     Option.bind (A (fst xy) h) (\<lambda>(x', h1). Option.bind (B (snd xy) h1) (\<lambda>(y', h2).
       Some ((x', y'), h2)))"

lemma deep_copier_pair:
  assumes A: "deep_copier A okA refsA valA" and B: "deep_copier B okB refsB valB"
  shows "deep_copier (pair_copy A B) (\<lambda>h xy. okA h (fst xy) \<and> okB h (snd xy))
    (\<lambda>h xy. refsA h (fst xy) \<union> refsB h (snd xy)) (\<lambda>h xy. (valA h (fst xy), valB h (snd xy)))"
proof
  fix h :: "'b heap" and xy :: "'a \<times> 'd"
  assume "wf_heap h" and "okA h (fst xy) \<and> okB h (snd xy)"
  then show "refsA h (fst xy) \<union> refsB h (snd xy) \<subseteq> {..<hp_next h}"
    using deep_copier.ok_refs [OF A] deep_copier.ok_refs [OF B] by blast
next
  fix h h' :: "'b heap" and xy :: "'a \<times> 'd"
  assume "okA h (fst xy) \<and> okB h (snd xy)" and "agree (refsA h (fst xy) \<union> refsB h (snd xy)) h h'"
  then show "(okA h' (fst xy) \<and> okB h' (snd xy)) \<and>
      refsA h' (fst xy) \<union> refsB h' (snd xy) = refsA h (fst xy) \<union> refsB h (snd xy) \<and>
      (valA h' (fst xy), valB h' (snd xy)) = (valA h (fst xy), valB h (snd xy))"
    using deep_copier.frame [OF A] deep_copier.frame [OF B] by (metis agree_Un)
next
  fix h :: "'b heap" and xy :: "'a \<times> 'd"
  assume wf: "wf_heap h" and ok: "okA h (fst xy) \<and> okB h (snd xy)"
  obtain x' h1 where a: "A (fst xy) h = Some (x', h1)" "wf_heap h1" "extends h h1" "okA h1 x'"
      "valA h1 x' = valA h (fst xy)" "refsA h1 x' \<subseteq> {hp_next h..<hp_next h1}"
    using deep_copier.copy_total [OF A wf] ok by blast
  note y = deep_copier.extends_frame [OF B wf conjunct2 [OF ok] a(3)]
  obtain y' h2 where b: "B (snd xy) h1 = Some (y', h2)" "wf_heap h2" "extends h1 h2" "okB h2 y'"
      "valB h2 y' = valB h1 (snd xy)" "refsB h2 y' \<subseteq> {hp_next h1..<hp_next h2}"
    using deep_copier.copy_total [OF B a(2) y(1)] by blast
  note x = deep_copier.extends_frame [OF A a(2,4) b(3)]
  have "refsA h2 x' \<union> refsB h2 y' \<subseteq> {hp_next h..<hp_next h2}"
    using a(6) b(6) x(2) extends_next [OF a(3)] extends_next [OF b(3)] by fastforce
  then show "\<exists>y h'. pair_copy A B xy h = Some (y, h') \<and> wf_heap h' \<and> extends h h' \<and>
      (okA h' (fst y) \<and> okB h' (snd y)) \<and>
      (valA h' (fst y), valB h' (snd y)) = (valA h (fst xy), valB h (snd xy)) \<and>
      refsA h' (fst y) \<union> refsB h' (snd y) \<subseteq> {hp_next h..<hp_next h'}"
    using a b x y extends_trans [OF a(3) b(3)] by (auto simp: pair_copy_def)
qed

text \<open>
  A struct whose references are \<open>to b\<close>: it is copied by copying them and putting the new ones in.
\<close>

lemma deep_copier_struct:
  assumes C: "deep_copier C ok refs val"
    and copy: "\<And>b h. copy b h = map_option (\<lambda>(a, h'). (put a b, h')) (C (to b) h)"
    and to: "\<And>a b. to (put a b) = a" and F: "\<And>a b. F (put a b) = F b"
  shows "deep_copier copy (\<lambda>h b. ok h (to b)) (\<lambda>h b. refs h (to b)) (\<lambda>h b. F b (val h (to b)))"
proof
  fix h :: "'b heap" and b :: 'd
  assume "wf_heap h" and "ok h (to b)"
  then show "refs h (to b) \<subseteq> {..<hp_next h}"
    by (rule deep_copier.ok_refs [OF C])
next
  fix h h' :: "'b heap" and b :: 'd
  assume "ok h (to b)" and "agree (refs h (to b)) h h'"
  from deep_copier.frame [OF C this]
  show "ok h' (to b) \<and> refs h' (to b) = refs h (to b) \<and> F b (val h' (to b)) = F b (val h (to b))"
    by simp
next
  fix h :: "'b heap" and b :: 'd
  assume "wf_heap h" and "ok h (to b)"
  then obtain y h' where "C (to b) h = Some (y, h')" "wf_heap h'" "extends h h'" "ok h' y"
      "val h' y = val h (to b)" "refs h' y \<subseteq> {hp_next h..<hp_next h'}"
    by (rule deep_copier.copy_total [OF C])
  then show "\<exists>y h'. copy b h = Some (y, h') \<and> wf_heap h' \<and> extends h h' \<and> ok h' (to y) \<and>
      F y (val h' (to y)) = F b (val h (to b)) \<and> refs h' (to y) \<subseteq> {hp_next h..<hp_next h'}"
    by (intro exI [of _ "put y b"] exI [of _ h']) (simp add: copy to F)
qed

text \<open>
  A reference to one cell that holds no further references (an integer behind a pointer, a map of
  strings, an array of flat structs): the new cell is made with the zero value and then filled. \<open>get\<close>
  and \<open>put\<close> convert between the cell and its content.
\<close>

definition deref :: "('x cell \<Rightarrow> 'v option) \<Rightarrow> 'x heap \<Rightarrow> addr \<Rightarrow> 'v option" where
  "deref get h a = Option.bind (hp_cell h a) get"

definition copy_leaf ::
  "('x cell \<Rightarrow> 'v option) \<Rightarrow> ('v \<Rightarrow> 'x cell) \<Rightarrow> ('v \<Rightarrow> 'v) \<Rightarrow> (addr option, 'x) copier" where
  "copy_leaf get put zero p h =
     (case p of
        None \<Rightarrow> Some (None, h)
      | Some a \<Rightarrow> Option.bind (deref get h a) (\<lambda>v.
          case alloc (put (zero v)) h of (b, h1) \<Rightarrow> Some (Some b, store b (put v) h1)))"

definition leaf_ok :: "('v \<Rightarrow> 'x cell) \<Rightarrow> 'x heap \<Rightarrow> addr option \<Rightarrow> bool" where
  "leaf_ok put h p \<longleftrightarrow> (\<forall>a. p = Some a \<longrightarrow> (\<exists>v. hp_cell h a = Some (put v)))"

definition leaf_val :: "('x cell \<Rightarrow> 'v option) \<Rightarrow> 'x heap \<Rightarrow> addr option \<Rightarrow> 'v option" where
  "leaf_val get h p = Option.bind p (deref get h)"

lemma deep_copier_leaf:
  fixes put :: "'v \<Rightarrow> 'x cell"
  assumes gp: "\<And>v. get (put v) = Some v"
  shows "deep_copier (copy_leaf get put zero) (leaf_ok put) (\<lambda>h p. set_option p) (leaf_val get)"
proof
  fix h :: "'x heap" and p
  assume "wf_heap h" and "leaf_ok put h p"
  then show "set_option p \<subseteq> {..<hp_next h}"
    by (auto simp: leaf_ok_def dest: wf_heap_bound)
next
  fix h h' :: "'x heap" and p :: "addr option"
  assume "leaf_ok put h p" and "agree (set_option p) h h'"
  then show "leaf_ok put h' p \<and> set_option p = set_option p \<and> leaf_val get h' p = leaf_val get h p"
    by (cases p) (auto simp: leaf_ok_def leaf_val_def deref_def agree_def)
next
  fix h :: "'x heap" and p :: "addr option"
  assume wf: "wf_heap h" and ok: "leaf_ok put h p"
  show "\<exists>y h'. copy_leaf get put zero p h = Some (y, h') \<and> wf_heap h' \<and> extends h h' \<and>
      leaf_ok put h' y \<and> leaf_val get h' y = leaf_val get h p \<and>
      set_option y \<subseteq> {hp_next h..<hp_next h'}"
  proof (cases p)
    case None
    with wf show ?thesis by (simp add: copy_leaf_def leaf_ok_def leaf_val_def)
  next
    case (Some a)
    with ok obtain v where v: "hp_cell h a = Some (put v)" by (auto simp: leaf_ok_def)
    obtain b h1 where al: "alloc (put (zero v)) h = (b, h1)" by (metis prod.exhaust)
    note f = alloc_facts [OF al]
    have b: "hp_next h \<le> b" "b < hp_next h1" using f(1,2) by simp_all
    note s = store_facts [OF b, where c = "put v"]
    show ?thesis
      using s(4) [OF f(4)] s(5) [OF f(5) [OF wf]] Some v al b s(1,2)
      by (intro exI [of _ "Some b"] exI [of _ "store b (put v) h1"])
         (auto simp: copy_leaf_def leaf_ok_def leaf_val_def deref_def gp)
  qed
qed

text \<open>
  A slice: a new array of zero values, then a loop that copies element after element into it. \<open>front\<close>
  are the elements already in place.
\<close>

fun copy_elems ::
  "('a, 'x) copier \<Rightarrow> ('a list \<Rightarrow> 'x cell) \<Rightarrow> 'a \<Rightarrow> addr \<Rightarrow> 'a list \<Rightarrow> 'a list \<Rightarrow> 'x heap
     \<Rightarrow> 'x heap option" where
  "copy_elems cp put z b front [] h = Some h"
| "copy_elems cp put z b front (x # rest) h =
     Option.bind (cp x h) (\<lambda>(y, h1).
       copy_elems cp put z b (front @ [y]) rest
         (store b (put (front @ y # replicate (length rest) z)) h1))"

definition copy_slice ::
  "('a, 'x) copier \<Rightarrow> ('x cell \<Rightarrow> 'a list option) \<Rightarrow> ('a list \<Rightarrow> 'x cell) \<Rightarrow> 'a
     \<Rightarrow> (addr option, 'x) copier" where
  "copy_slice cp get put z p h =
     (case p of
        None \<Rightarrow> Some (None, h)
      | Some a \<Rightarrow> Option.bind (deref get h a) (\<lambda>xs.
          case alloc (put (replicate (length xs) z)) h of (b, h1) \<Rightarrow>
            map_option (\<lambda>h2. (Some b, h2)) (copy_elems cp put z b [] xs h1)))"

definition slice_ok ::
  "('x heap \<Rightarrow> 'a \<Rightarrow> bool) \<Rightarrow> ('a list \<Rightarrow> 'x cell) \<Rightarrow> 'x heap \<Rightarrow> addr option \<Rightarrow> bool" where
  "slice_ok ok put h p \<longleftrightarrow>
     (\<forall>a. p = Some a \<longrightarrow> (\<exists>xs. hp_cell h a = Some (put xs) \<and> list_all (ok h) xs))"

definition slice_refs ::
  "('x heap \<Rightarrow> 'a \<Rightarrow> addr set) \<Rightarrow> ('x cell \<Rightarrow> 'a list option) \<Rightarrow> 'x heap \<Rightarrow> addr option
     \<Rightarrow> addr set" where
  "slice_refs refs get h p =
     (case p of
        None \<Rightarrow> {}
      | Some a \<Rightarrow> insert a (case deref get h a of None \<Rightarrow> {} | Some xs \<Rightarrow> \<Union> (refs h ` set xs)))"

definition slice_val ::
  "('x heap \<Rightarrow> 'a \<Rightarrow> 'v) \<Rightarrow> ('x cell \<Rightarrow> 'a list option) \<Rightarrow> 'x heap \<Rightarrow> addr option \<Rightarrow> 'v list option"
  where
  "slice_val val get h p = map_option (map (val h)) (Option.bind p (deref get h))"

context deep_copier
begin

text \<open>An element that is in place stays as it is when another cell is written.\<close>

lemma store_frame:
  assumes "ok h x" and "b \<notin> refs h x"
  shows "ok (store b c h) x" and "refs (store b c h) x = refs h x" and "val (store b c h) x = val h x"
proof -
  have "agree (refs h x) h (store b c h)"
    using assms(2) by (auto simp: agree_def store_def)
  with frame [OF assms(1)] show "ok (store b c h) x" "refs (store b c h) x = refs h x"
    "val (store b c h) x = val h x"
    by simp_all
qed

definition placed :: "'x heap \<Rightarrow> addr \<Rightarrow> 'x heap \<Rightarrow> 'a \<Rightarrow> bool" where
  "placed h0 b h y \<longleftrightarrow> ok h y \<and> refs h y \<subseteq> {hp_next h0..<hp_next h} - {b}"

lemma placed_step:
  assumes pl: "placed h0 b h y" and wf: "wf_heap h" and ext: "extends h h1"
    and b: "hp_next h0 \<le> b" "b < hp_next h1"
  shows "placed h0 b (store b c h1) y" and "val (store b c h1) y = val h y"
proof -
  from pl have ok: "ok h y" and refs: "refs h y \<subseteq> {hp_next h0..<hp_next h} - {b}"
    by (simp_all add: placed_def)
  note e = extends_frame [OF wf ok ext]
  have nb: "b \<notin> refs h1 y" using refs e(2) by blast
  note s = store_frame [OF e(1) nb, where c = c]
  show "placed h0 b (store b c h1) y"
    using refs e(2) s extends_next [OF ext] by (fastforce simp: placed_def store_def)
  show "val (store b c h1) y = val h y" using e(3) s(3) by simp
qed

lemma copy_elems_correct:
  assumes "wf_heap h0" and "list_all (ok h0) rest" and "wf_heap h" and "extends h0 h"
    and "hp_next h0 \<le> b" and "b < hp_next h"
    and "hp_cell h b = Some (put (front @ replicate (length rest) z))"
    and "list_all (placed h0 b h) front"
  shows "\<exists>ys h'. copy_elems copy put z b front rest h = Some h' \<and> wf_heap h' \<and> extends h0 h' \<and>
    b < hp_next h' \<and> hp_cell h' b = Some (put ys) \<and> list_all (placed h0 b h') ys \<and>
    map (val h') ys = map (val h) front @ map (val h0) rest"
  using assms(2-)
proof (induction rest arbitrary: front h)
  case Nil
  then show ?case by (intro exI [of _ "front"] exI [of _ h]) simp
next
  case (Cons x rest)
  note x = extends_frame [OF assms(1) _ Cons.prems(3), of x]
  have okx: "ok h0 x" using Cons.prems(1) by simp
  obtain y h1 where y: "copy x h = Some (y, h1)" "wf_heap h1" "extends h h1" "ok h1 y"
      "val h1 y = val h x" "refs h1 y \<subseteq> {hp_next h..<hp_next h1}"
    using copy_total [OF Cons.prems(2) x(1) [OF okx]] by blast
  have b1: "b < hp_next h1" using Cons.prems(5) extends_next [OF y(3)] by simp
  let ?c = "put (front @ y # replicate (length rest) z)"
  let ?h2 = "store b ?c h1"
  note s = store_facts [OF Cons.prems(4) b1, where c = ?c]
  have ext: "extends h0 ?h2" by (rule s(4) [OF extends_trans [OF Cons.prems(3) y(3)]])
  have "b \<notin> refs h1 y" using y(6) Cons.prems(5) by fastforce
  note sy = store_frame [OF y(4) this, where c = ?c]
  have "refs h1 y \<subseteq> {hp_next h0..<hp_next h1} - {b}"
    using y(6) Cons.prems(5) extends_next [OF Cons.prems(3)] by fastforce
  then have py: "placed h0 b ?h2 y" using sy s(1) by (simp add: placed_def)
  have dn: "list_all (placed h0 b ?h2) front" "map (val ?h2) front = map (val h) front"
    using Cons.prems(7) placed_step [OF _ Cons.prems(2) y(3) Cons.prems(4) b1]
    by (auto simp: list_all_iff)
  have "\<exists>ys h'. copy_elems copy put z b (front @ [y]) rest ?h2 = Some h' \<and> wf_heap h' \<and>
      extends h0 h' \<and> b < hp_next h' \<and> hp_cell h' b = Some (put ys) \<and>
      list_all (placed h0 b h') ys \<and>
      map (val h') ys = map (val ?h2) (front @ [y]) @ map (val h0) rest"
    by (rule Cons.IH) (use Cons.prems(1,4) y(2) ext b1 s py dn in simp_all)
  with y(1,5) sy(3) x(3) [OF okx] dn(2) show ?case by (simp del: map_eq_conv)
qed

lemma slice_copies:
  assumes gp: "\<And>xs. get (put xs) = Some xs" and wf: "wf_heap h" and ok: "slice_ok ok put h p"
  shows "\<exists>y h'. copy_slice copy get put z p h = Some (y, h') \<and> wf_heap h' \<and> extends h h' \<and>
    slice_ok ok put h' y \<and> slice_val val get h' y = slice_val val get h p \<and>
    slice_refs refs get h' y \<subseteq> {hp_next h..<hp_next h'}"
proof (cases p)
  case None
  with wf show ?thesis by (simp add: copy_slice_def slice_ok_def slice_val_def slice_refs_def)
next
  case (Some a)
  with ok obtain xs where xs: "hp_cell h a = Some (put xs)" "list_all (ok h) xs"
    by (auto simp: slice_ok_def)
  obtain b h1 where al: "alloc (put (replicate (length xs) z)) h = (b, h1)" by (metis prod.exhaust)
  note f = alloc_facts [OF al]
  obtain ys h' where loop: "copy_elems copy put z b [] xs h1 = Some h'" and wf': "wf_heap h'"
    and ext: "extends h h'" and b: "b < hp_next h'" "hp_cell h' b = Some (put ys)"
    and pl: "list_all (placed h b h') ys" and vals: "map (val h') ys = map (val h) xs"
    using copy_elems_correct [OF wf xs(2) f(5) [OF wf] f(4), of b put "[]" z] f(1,2,3) by auto
  have "list_all (ok h') ys" "\<Union> (refs h' ` set ys) \<subseteq> {hp_next h..<hp_next h'}"
    using pl by (auto simp: placed_def list_all_iff)
  with loop wf' ext b vals f(1) Some xs(1) al show ?thesis
    by (intro exI [of _ "Some b"] exI [of _ h'])
       (auto simp: copy_slice_def slice_ok_def slice_val_def slice_refs_def deref_def gp
         simp del: map_eq_conv)
qed

lemma slice_frame:
  assumes gp: "\<And>xs. get (put xs) = Some xs" and ok: "slice_ok ok put h p"
    and ag: "agree (slice_refs refs get h p) h h'"
  shows "slice_ok ok put h' p \<and> slice_refs refs get h' p = slice_refs refs get h p \<and>
    slice_val val get h' p = slice_val val get h p"
proof (cases p)
  case None
  then show ?thesis by (simp add: slice_ok_def slice_refs_def slice_val_def)
next
  case (Some a)
  with ok obtain xs where xs: "hp_cell h a = Some (put xs)" "list_all (ok h) xs"
    by (auto simp: slice_ok_def)
  have a: "hp_cell h' a = Some (put xs)" and el: "\<forall>x \<in> set xs. agree (refs h x) h h'"
    using ag xs(1) Some by (auto simp: slice_refs_def deref_def gp agree_def)
  have fr: "ok h' x \<and> refs h' x = refs h x \<and> val h' x = val h x" if "x \<in> set xs" for x
    by (rule frame) (use that el xs(2) in \<open>simp_all add: list_all_iff\<close>)
  have "map (val h') xs = map (val h) xs" "list_all (ok h') xs"
    "\<Union> (refs h' ` set xs) = \<Union> (refs h ` set xs)"
    using fr by (simp_all add: list_all_iff)
  with a xs(1) Some show ?thesis
    by (auto simp: slice_ok_def slice_refs_def slice_val_def deref_def gp)
qed

lemma slice_in_heap:
  assumes gp: "\<And>xs. get (put xs) = Some xs" and wf: "wf_heap h" and ok: "slice_ok ok put h p"
  shows "slice_refs refs get h p \<subseteq> {..<hp_next h}"
proof (cases p)
  case (Some a)
  with ok obtain xs where xs: "hp_cell h a = Some (put xs)" "list_all (ok h) xs"
    by (auto simp: slice_ok_def)
  with ok_refs [OF wf] wf_heap_bound [OF wf xs(1)] Some show ?thesis
    by (fastforce simp: slice_refs_def deref_def gp list_all_iff)
qed (simp add: slice_refs_def)

lemma slice_copier:
  assumes "\<And>xs. get (put xs) = Some xs"
  shows "deep_copier (copy_slice copy get put z) (slice_ok ok put) (slice_refs refs get)
    (slice_val val get)"
  using slice_in_heap [of get put] slice_frame [of get put] slice_copies [of get put] assms
  by (intro deep_copier.intro) blast+

end

text \<open>
  \<open>DeepCopy\<close> of a pointer to a struct: nil for nil; otherwise a new struct of zero values that
  \<open>DeepCopyInto\<close> then fills.
\<close>

definition copy_ptr ::
  "('a, 'x) copier \<Rightarrow> ('x cell \<Rightarrow> 'a option) \<Rightarrow> ('a \<Rightarrow> 'x cell) \<Rightarrow> 'a \<Rightarrow> (addr option, 'x) copier"
  where
  "copy_ptr cp get put z p h =
     (case p of
        None \<Rightarrow> Some (None, h)
      | Some a \<Rightarrow> Option.bind (deref get h a) (\<lambda>x.
          case alloc (put z) h of (b, h1) \<Rightarrow>
            Option.bind (cp x h1) (\<lambda>(y, h2). Some (Some b, store b (put y) h2))))"

definition ptr_ok ::
  "('x heap \<Rightarrow> 'a \<Rightarrow> bool) \<Rightarrow> ('a \<Rightarrow> 'x cell) \<Rightarrow> 'x heap \<Rightarrow> addr option \<Rightarrow> bool" where
  "ptr_ok ok put h p \<longleftrightarrow> (\<forall>a. p = Some a \<longrightarrow> (\<exists>x. hp_cell h a = Some (put x) \<and> ok h x))"

definition ptr_refs ::
  "('x heap \<Rightarrow> 'a \<Rightarrow> addr set) \<Rightarrow> ('x cell \<Rightarrow> 'a option) \<Rightarrow> 'x heap \<Rightarrow> addr option \<Rightarrow> addr set"
  where
  "ptr_refs refs get h p =
     (case p of
        None \<Rightarrow> {}
      | Some a \<Rightarrow> insert a (case deref get h a of None \<Rightarrow> {} | Some x \<Rightarrow> refs h x))"

definition ptr_val ::
  "('x heap \<Rightarrow> 'a \<Rightarrow> 'v) \<Rightarrow> ('x cell \<Rightarrow> 'a option) \<Rightarrow> 'x heap \<Rightarrow> addr option \<Rightarrow> 'v option" where
  "ptr_val val get h p = map_option (val h) (Option.bind p (deref get h))"

context deep_copier
begin

lemma ptr_copies:
  assumes gp: "\<And>x. get (put x) = Some x" and wf: "wf_heap h" and ok: "ptr_ok ok put h p"
  shows "\<exists>y h'. copy_ptr copy get put z p h = Some (y, h') \<and> wf_heap h' \<and> extends h h' \<and>
    ptr_ok ok put h' y \<and> ptr_val val get h' y = ptr_val val get h p \<and>
    ptr_refs refs get h' y \<subseteq> {hp_next h..<hp_next h'}"
proof (cases p)
  case None
  with wf show ?thesis by (simp add: copy_ptr_def ptr_ok_def ptr_val_def ptr_refs_def)
next
  case (Some a)
  with ok obtain x where x: "hp_cell h a = Some (put x)" "ok h x"
    by (auto simp: ptr_ok_def)
  obtain b h1 where al: "alloc (put z) h = (b, h1)" by (metis prod.exhaust)
  note f = alloc_facts [OF al]
  note e = extends_frame [OF wf x(2) f(4)]
  obtain y h2 where y: "copy x h1 = Some (y, h2)" "wf_heap h2" "extends h1 h2" "ok h2 y"
      "val h2 y = val h1 x" "refs h2 y \<subseteq> {hp_next h1..<hp_next h2}"
    using copy_total [OF f(5) [OF wf] e(1)] by blast
  have b: "hp_next h \<le> b" "b < hp_next h2" using f(1,2) extends_next [OF y(3)] by simp_all
  note s = store_facts [OF b, where c = "put y"]
  have "b \<notin> refs h2 y" using y(6) f(1,2) by fastforce
  note sy = store_frame [OF y(4) this, where c = "put y"]
  have "refs h2 y \<subseteq> {hp_next h..<hp_next h2}" using y(6) f(2) by fastforce
  with s(4) [OF extends_trans [OF f(4) y(3)]] s(5) [OF y(2)] s(1,2) sy y(1,5) e(3) b al Some x(1)
  show ?thesis
    by (intro exI [of _ "Some b"] exI [of _ "store b (put y) h2"])
       (auto simp: copy_ptr_def ptr_ok_def ptr_val_def ptr_refs_def deref_def gp)
qed

lemma ptr_frame:
  assumes gp: "\<And>x. get (put x) = Some x" and ok: "ptr_ok ok put h p"
    and ag: "agree (ptr_refs refs get h p) h h'"
  shows "ptr_ok ok put h' p \<and> ptr_refs refs get h' p = ptr_refs refs get h p \<and>
    ptr_val val get h' p = ptr_val val get h p"
proof (cases p)
  case None
  then show ?thesis by (simp add: ptr_ok_def ptr_refs_def ptr_val_def)
next
  case (Some a)
  with ok obtain x where x: "hp_cell h a = Some (put x)" "ok h x"
    by (auto simp: ptr_ok_def)
  have a: "hp_cell h' a = Some (put x)" and el: "agree (refs h x) h h'"
    using ag x(1) Some by (auto simp: ptr_refs_def deref_def gp agree_def)
  from a x(1) Some frame [OF x(2) el] show ?thesis
    by (auto simp: ptr_ok_def ptr_refs_def ptr_val_def deref_def gp)
qed

lemma ptr_in_heap:
  assumes gp: "\<And>x. get (put x) = Some x" and wf: "wf_heap h" and ok: "ptr_ok ok put h p"
  shows "ptr_refs refs get h p \<subseteq> {..<hp_next h}"
proof (cases p)
  case (Some a)
  with ok obtain x where x: "hp_cell h a = Some (put x)" "ok h x"
    by (auto simp: ptr_ok_def)
  with ok_refs [OF wf x(2)] wf_heap_bound [OF wf x(1)] Some show ?thesis
    by (simp add: ptr_refs_def deref_def gp)
qed (simp add: ptr_refs_def)

lemma ptr_copier:
  assumes "\<And>x. get (put x) = Some x"
  shows "deep_copier (copy_ptr copy get put z) (ptr_ok ok put) (ptr_refs refs get)
    (ptr_val val get)"
  using ptr_in_heap [of get put] ptr_frame [of get put] ptr_copies [of get put] assms
  by (intro deep_copier.intro) blast+

end

end
