(* ===== verification/DeepCopyFacts.thy ===== *)
theory DeepCopyFacts
  imports DeepCopy
begin

text \<open>
  The generated copies meet the contract \<open>deep_copier\<close>. A struct in memory stands for a value of
  \<open>KubesharkTypes\<close> (\<open>kubeshark_value\<close>); the copies of maps, pointers and flat slices meet the contract
  outright, and the structs do when the library's copies do (\<open>lib_laws\<close>).
\<close>

section \<open>Views\<close>

record 'x deepcopy_view =
  dv_ok :: "'x heap \<Rightarrow> 'x \<Rightarrow> bool"
  dv_refs :: "'x heap \<Rightarrow> 'x \<Rightarrow> addr set"
  dv_ObjectMeta :: "'x heap \<Rightarrow> 'x \<Rightarrow> ObjectMeta"
  dv_ListMeta :: "'x heap \<Rightarrow> 'x \<Rightarrow> opaque"
  dv_PolicyRule :: "'x heap \<Rightarrow> 'x \<Rightarrow> PolicyRule"
  dv_Condition :: "'x heap \<Rightarrow> 'x \<Rightarrow> Condition"

definition lib_laws :: "'x deepcopy_lib \<Rightarrow> 'x deepcopy_view \<Rightarrow> bool" where
  "lib_laws lib vw \<longleftrightarrow>
     deep_copier (dl_ObjectMeta lib) (dv_ok vw) (dv_refs vw) (dv_ObjectMeta vw) \<and>
     deep_copier (dl_ListMeta lib) (dv_ok vw) (dv_refs vw) (dv_ListMeta vw) \<and>
     deep_copier (dl_PolicyRule lib) (dv_ok vw) (dv_refs vw) (dv_PolicyRule vw) \<and>
     deep_copier (dl_Condition lib) (dv_ok vw) (dv_refs vw) (dv_Condition vw)"

text \<open>A nil slice and an empty one are the same value, as in \<open>KubesharkTypes\<close>.\<close>

definition slice_list :: "'v list option \<Rightarrow> 'v list" where
  "slice_list p = (case p of None \<Rightarrow> [] | Some xs \<Rightarrow> xs)"

type_synonym spec_refs = "addr option \<times> addr option \<times> addr option \<times> addr option \<times> addr option \<times> addr option"

definition spec_to :: "spec_mem \<Rightarrow> spec_refs" where
  "spec_to s = (sm_HubReplicas s, sm_HubConfigMapData s, sm_ClusterRoleRules s, sm_HubLabels s,
     sm_HubContainerPorts s, sm_WorkerLabels s)"

definition spec_put :: "spec_refs \<Rightarrow> spec_mem \<Rightarrow> spec_mem" where
  "spec_put r s = (case r of (replicas, data, rules, hubLabels, ports, workerLabels) \<Rightarrow>
     s\<lparr>sm_HubReplicas := replicas, sm_HubConfigMapData := data, sm_ClusterRoleRules := rules,
        sm_HubLabels := hubLabels, sm_HubContainerPorts := ports,
        sm_WorkerLabels := workerLabels\<rparr>)"

definition spec_value ::
  "spec_mem \<Rightarrow> int32 option \<times> gomap \<times> PolicyRule list option \<times> gomap \<times> ContainerPort list option \<times> gomap
     \<Rightarrow> KubesharkSpec" where
  "spec_value s v = (case v of (replicas, data, rules, hubLabels, ports, workerLabels) \<Rightarrow> \<lparr>
     sp_HubImage = sm_HubImage s, sp_FrontendImage = sm_FrontendImage s,
     sp_HubReplicas = replicas, sp_WorkerImage = sm_WorkerImage s,
     sp_Namespace = sm_Namespace s, sp_IngressHost = sm_IngressHost s,
     sp_IngressClassName = sm_IngressClassName s, sp_IngressName = sm_IngressName s,
     sp_ServiceAccountHub = sm_ServiceAccountHub s,
     sp_ServiceAccountWorker = sm_ServiceAccountWorker s, sp_HubConfigMapData = data,
     sp_ClusterRoleRules = slice_list rules, sp_ClusterRoleName = sm_ClusterRoleName s,
     sp_ClusterRoleBindingName = sm_ClusterRoleBindingName s,
     sp_HubDeploymentName = sm_HubDeploymentName s, sp_HubLabels = hubLabels,
     sp_HubContainerPorts = slice_list ports, sp_WorkerDaemonSetName = sm_WorkerDaemonSetName s,
     sp_WorkerLabels = workerLabels, sp_HubServiceName = sm_HubServiceName s,
     sp_HubConfigMapName = sm_HubConfigMapName s, sp_SecretKubeshark = sm_SecretKubeshark s\<rparr>)"

section \<open>Fields\<close>

interpretation secret: deep_copier SecretKubesharkSpec_DeepCopyInto "\<lambda>h s. True" "\<lambda>h s. {}" "\<lambda>h s. s"
  by unfold_locales (auto simp: SecretKubesharkSpec_DeepCopyInto_def)

interpretation int32_ptr: deep_copier "copy_leaf as_int32 CInt32 (\<lambda>_. 0)" "leaf_ok CInt32"
  "\<lambda>h p. set_option p" "leaf_val as_int32"
  by (rule deep_copier_leaf) simp

interpretation string_map: deep_copier copy_string_map "leaf_ok CMap" "\<lambda>h p. set_option p"
  "leaf_val as_map"
  unfolding copy_string_map_def by (rule deep_copier_leaf) simp

interpretation ports: deep_copier
  "copy_leaf as_ports CPorts (\<lambda>ps. replicate (length ps) zero_ContainerPort)" "leaf_ok CPorts"
  "\<lambda>h p. set_option p" "leaf_val as_ports"
  by (rule deep_copier_leaf) simp

text \<open>Ranging over a map and storing each entry makes the same map, in whatever order.\<close>

lemma range_copy:
  "distinct (map fst es) \<Longrightarrow> foldl (\<lambda>m (k, v). m(k \<mapsto> v)) Map.empty es = map_of es"
proof -
  have "foldl (\<lambda>m (k, v). m(k \<mapsto> v)) m es = m ++ map_of es" if "distinct (map fst es)" for m
    using that
  proof (induction es arbitrary: m)
    case (Cons e es)
    have "map_of es (fst e) = None"
      using Cons.prems by (force simp: map_of_eq_None_iff)
    then have "m(fst e \<mapsto> snd e) ++ map_of es = m ++ (map_of es)(fst e \<mapsto> snd e)"
      by (auto simp: map_add_def fun_eq_iff split: option.splits)
    with Cons show ?case by (cases e) (simp del: fun_upd_apply)
  qed simp
  then show "distinct (map fst es) \<Longrightarrow> ?thesis" by simp
qed

section \<open>Structs\<close>

definition spec_copier :: "'x deepcopy_lib \<Rightarrow> (spec_refs, 'x) copier" where
  "spec_copier lib =
     pair_copy (copy_leaf as_int32 CInt32 (\<lambda>_. 0))
       (pair_copy copy_string_map
         (pair_copy (copy_slice (dl_PolicyRule lib) as_rules CRules (dl_zero_PolicyRule lib))
           (pair_copy copy_string_map
             (pair_copy
               (copy_leaf as_ports CPorts (\<lambda>ps. replicate (length ps) zero_ContainerPort))
               copy_string_map))))"

lemma spec_copy:
  "KubesharkSpec_DeepCopyInto lib s h =
     map_option (\<lambda>(r, h'). (spec_put r s, h')) (spec_copier lib (spec_to s) h)"
  by (simp add: KubesharkSpec_DeepCopyInto_def spec_copier_def spec_to_def spec_put_def pair_copy_def
      map_option_bind case_prod_unfold comp_def)

definition tuple_ok :: "'x deepcopy_view \<Rightarrow> 'x heap \<Rightarrow> spec_refs \<Rightarrow> bool" where
  "tuple_ok vw = (\<lambda>h t. leaf_ok CInt32 h (fst t) \<and> leaf_ok CMap h (fst (snd t)) \<and>
     slice_ok (dv_ok vw) CRules h (fst (snd (snd t))) \<and> leaf_ok CMap h (fst (snd (snd (snd t)))) \<and>
     leaf_ok CPorts h (fst (snd (snd (snd (snd t))))) \<and>
     leaf_ok CMap h (snd (snd (snd (snd (snd t))))))"

definition tuple_refs :: "'x deepcopy_view \<Rightarrow> 'x heap \<Rightarrow> spec_refs \<Rightarrow> addr set" where
  "tuple_refs vw = (\<lambda>h t. set_option (fst t) \<union> (set_option (fst (snd t)) \<union>
     (slice_refs (dv_refs vw) as_rules h (fst (snd (snd t))) \<union>
       (set_option (fst (snd (snd (snd t)))) \<union> (set_option (fst (snd (snd (snd (snd t))))) \<union>
         set_option (snd (snd (snd (snd (snd t))))))))))"

definition tuple_val :: "'x deepcopy_view \<Rightarrow> 'x heap \<Rightarrow> spec_refs
     \<Rightarrow> int32 option \<times> gomap \<times> PolicyRule list option \<times> gomap \<times> ContainerPort list option \<times> gomap" where
  "tuple_val vw = (\<lambda>h t. (leaf_val as_int32 h (fst t), leaf_val as_map h (fst (snd t)),
     slice_val (dv_PolicyRule vw) as_rules h (fst (snd (snd t))),
     leaf_val as_map h (fst (snd (snd (snd t)))),
     leaf_val as_ports h (fst (snd (snd (snd (snd t))))),
     leaf_val as_map h (snd (snd (snd (snd (snd t)))))))"

lemma tuple_deep:
  assumes "lib_laws lib vw"
  shows "deep_copier (spec_copier lib) (tuple_ok vw) (tuple_refs vw) (tuple_val vw)"
proof -
  have rule: "deep_copier (dl_PolicyRule lib) (dv_ok vw) (dv_refs vw) (dv_PolicyRule vw)"
    using assms by (simp add: lib_laws_def)
  note rules = deep_copier.slice_copier [OF rule, of as_rules CRules, OF as_rules.simps(1)]
  show ?thesis
    unfolding spec_copier_def tuple_ok_def tuple_refs_def tuple_val_def
    by (intro deep_copier_pair int32_ptr.deep_copier_axioms string_map.deep_copier_axioms
        ports.deep_copier_axioms rules)
qed

definition spec_ok :: "'x deepcopy_view \<Rightarrow> 'x heap \<Rightarrow> spec_mem \<Rightarrow> bool" where
  "spec_ok vw = (\<lambda>h s. tuple_ok vw h (spec_to s))"

definition spec_reach :: "'x deepcopy_view \<Rightarrow> 'x heap \<Rightarrow> spec_mem \<Rightarrow> addr set" where
  "spec_reach vw = (\<lambda>h s. tuple_refs vw h (spec_to s))"

definition spec_at :: "'x deepcopy_view \<Rightarrow> 'x heap \<Rightarrow> spec_mem \<Rightarrow> KubesharkSpec" where
  "spec_at vw = (\<lambda>h s. spec_value s (tuple_val vw h (spec_to s)))"

lemma spec_deep:
  assumes "lib_laws lib vw"
  shows "deep_copier (KubesharkSpec_DeepCopyInto lib) (spec_ok vw) (spec_reach vw) (spec_at vw)"
  unfolding spec_ok_def spec_reach_def spec_at_def
proof (rule deep_copier_struct [OF tuple_deep [OF assms], where put = spec_put])
  show "KubesharkSpec_DeepCopyInto lib s h =
      map_option (\<lambda>(r, h'). (spec_put r s, h')) (spec_copier lib (spec_to s) h)" for s h
    by (rule spec_copy)
  show "spec_to (spec_put r s) = r" for r s
    by (simp add: spec_to_def spec_put_def case_prod_unfold)
  show "spec_value (spec_put r s) = spec_value s" for r s
    by (simp add: fun_eq_iff spec_value_def spec_put_def case_prod_unfold)
qed

definition status_ok :: "'x deepcopy_view \<Rightarrow> 'x heap \<Rightarrow> status_mem \<Rightarrow> bool" where
  "status_ok vw = (\<lambda>h s. slice_ok (dv_ok vw) CConditions h (tm_Conditions s))"

definition status_reach :: "'x deepcopy_view \<Rightarrow> 'x heap \<Rightarrow> status_mem \<Rightarrow> addr set" where
  "status_reach vw = (\<lambda>h s. slice_refs (dv_refs vw) as_conditions h (tm_Conditions s))"

definition status_value :: "status_mem \<Rightarrow> Condition list option \<Rightarrow> KubesharkStatus" where
  "status_value s cs = \<lparr>st_Conditions = slice_list cs, st_ObservedGeneration = tm_ObservedGeneration s\<rparr>"

definition status_at :: "'x deepcopy_view \<Rightarrow> 'x heap \<Rightarrow> status_mem \<Rightarrow> KubesharkStatus" where
  "status_at vw = (\<lambda>h s. status_value s (slice_val (dv_Condition vw) as_conditions h (tm_Conditions s)))"

lemma status_deep:
  assumes "lib_laws lib vw"
  shows "deep_copier (KubesharkStatus_DeepCopyInto lib) (status_ok vw) (status_reach vw) (status_at vw)"
proof -
  have cond: "deep_copier (dl_Condition lib) (dv_ok vw) (dv_refs vw) (dv_Condition vw)"
    using assms by (simp add: lib_laws_def)
  note conds = deep_copier.slice_copier [OF cond, of as_conditions CConditions,
      OF as_conditions.simps(1), where z = "dl_zero_Condition lib"]
  show ?thesis
    unfolding status_ok_def status_reach_def status_at_def
    by (rule deep_copier_struct [OF conds, where put = "\<lambda>cs s. s\<lparr>tm_Conditions := cs\<rparr>"])
       (auto simp: KubesharkStatus_DeepCopyInto_def map_option_bind status_value_def fun_eq_iff
         split: Option.bind_splits)
qed

text \<open>A resource in memory: the value of \<open>KubesharkTypes\<close> it stands for.\<close>

definition kubeshark_to :: "'x kubeshark_mem \<Rightarrow> 'x \<times> spec_mem \<times> status_mem" where
  "kubeshark_to k = (km_ObjectMeta k, km_Spec k, km_Status k)"

definition kubeshark_put :: "'x \<times> spec_mem \<times> status_mem \<Rightarrow> 'x kubeshark_mem \<Rightarrow> 'x kubeshark_mem" where
  "kubeshark_put t k = (case t of (meta, spec, status) \<Rightarrow>
     k\<lparr>km_ObjectMeta := meta, km_Spec := spec, km_Status := status\<rparr>)"

definition kubeshark_value ::
  "'x kubeshark_mem \<Rightarrow> ObjectMeta \<times> KubesharkSpec \<times> KubesharkStatus \<Rightarrow> Kubeshark" where
  "kubeshark_value k v = (case v of (meta, spec, status) \<Rightarrow>
     \<lparr>ks_TypeMeta = km_TypeMeta k, ks_ObjectMeta = meta, ks_Spec = spec, ks_Status = status\<rparr>)"

definition kubeshark_ok :: "'x deepcopy_view \<Rightarrow> 'x heap \<Rightarrow> 'x kubeshark_mem \<Rightarrow> bool" where
  "kubeshark_ok vw = (\<lambda>h k. dv_ok vw h (fst (kubeshark_to k)) \<and>
     spec_ok vw h (fst (snd (kubeshark_to k))) \<and> status_ok vw h (snd (snd (kubeshark_to k))))"

definition kubeshark_reach :: "'x deepcopy_view \<Rightarrow> 'x heap \<Rightarrow> 'x kubeshark_mem \<Rightarrow> addr set" where
  "kubeshark_reach vw = (\<lambda>h k. dv_refs vw h (fst (kubeshark_to k)) \<union>
     (spec_reach vw h (fst (snd (kubeshark_to k))) \<union> status_reach vw h (snd (snd (kubeshark_to k)))))"

definition kubeshark_at :: "'x deepcopy_view \<Rightarrow> 'x heap \<Rightarrow> 'x kubeshark_mem \<Rightarrow> Kubeshark" where
  "kubeshark_at vw = (\<lambda>h k. kubeshark_value k (dv_ObjectMeta vw h (fst (kubeshark_to k)),
     spec_at vw h (fst (snd (kubeshark_to k))), status_at vw h (snd (snd (kubeshark_to k)))))"

lemma kubeshark_deep:
  assumes "lib_laws lib vw"
  shows "deep_copier (Kubeshark_DeepCopyInto lib) (kubeshark_ok vw) (kubeshark_reach vw) (kubeshark_at vw)"
proof -
  have meta: "deep_copier (dl_ObjectMeta lib) (dv_ok vw) (dv_refs vw) (dv_ObjectMeta vw)"
    using assms by (simp add: lib_laws_def)
  note parts = deep_copier_pair [OF meta deep_copier_pair [OF spec_deep [OF assms] status_deep [OF assms]]]
  show ?thesis
    unfolding kubeshark_ok_def kubeshark_reach_def kubeshark_at_def
  proof (rule deep_copier_struct [OF parts, where put = kubeshark_put])
    show "Kubeshark_DeepCopyInto lib k h = map_option (\<lambda>(a, h'). (kubeshark_put a k, h'))
        (pair_copy (dl_ObjectMeta lib)
          (pair_copy (KubesharkSpec_DeepCopyInto lib) (KubesharkStatus_DeepCopyInto lib))
          (kubeshark_to k) h)" for k h
      by (simp add: Kubeshark_DeepCopyInto_def kubeshark_to_def kubeshark_put_def pair_copy_def
          map_option_bind case_prod_unfold comp_def)
    show "kubeshark_to (kubeshark_put t k) = t" for t and k :: "'a kubeshark_mem"
      by (simp add: kubeshark_to_def kubeshark_put_def case_prod_unfold)
    show "kubeshark_value (kubeshark_put t k) = kubeshark_value k" for t and k :: "'a kubeshark_mem"
      by (simp add: fun_eq_iff kubeshark_value_def kubeshark_put_def case_prod_unfold)
  qed
qed

text \<open>A list in memory: its type, its metadata and the values of its items.\<close>

definition list_to :: "'x list_mem \<Rightarrow> 'x \<times> addr option" where
  "list_to l = (lm_ListMeta l, lm_Items l)"

definition list_put :: "'x \<times> addr option \<Rightarrow> 'x list_mem \<Rightarrow> 'x list_mem" where
  "list_put t l = l\<lparr>lm_ListMeta := fst t, lm_Items := snd t\<rparr>"

definition list_value ::
  "'x list_mem \<Rightarrow> opaque \<times> Kubeshark list option
     \<Rightarrow> TypeMeta \<times> opaque \<times> Kubeshark list option" where
  "list_value l v = (lm_TypeMeta l, v)"

definition list_ok :: "'x deepcopy_view \<Rightarrow> 'x heap \<Rightarrow> 'x list_mem \<Rightarrow> bool" where
  "list_ok vw = (\<lambda>h l. dv_ok vw h (fst (list_to l)) \<and>
     slice_ok (kubeshark_ok vw) CItems h (snd (list_to l)))"

definition list_reach :: "'x deepcopy_view \<Rightarrow> 'x heap \<Rightarrow> 'x list_mem \<Rightarrow> addr set" where
  "list_reach vw = (\<lambda>h l. dv_refs vw h (fst (list_to l)) \<union>
     slice_refs (kubeshark_reach vw) as_items h (snd (list_to l)))"

definition list_at ::
  "'x deepcopy_view \<Rightarrow> 'x heap \<Rightarrow> 'x list_mem
     \<Rightarrow> TypeMeta \<times> opaque \<times> Kubeshark list option" where
  "list_at vw = (\<lambda>h l. list_value l (dv_ListMeta vw h (fst (list_to l)),
     slice_val (kubeshark_at vw) as_items h (snd (list_to l))))"

lemma list_deep:
  assumes "lib_laws lib vw"
  shows "deep_copier (KubesharkList_DeepCopyInto lib) (list_ok vw) (list_reach vw) (list_at vw)"
proof -
  have meta: "deep_copier (dl_ListMeta lib) (dv_ok vw) (dv_refs vw) (dv_ListMeta vw)"
    using assms by (simp add: lib_laws_def)
  note items = deep_copier.slice_copier [OF kubeshark_deep [OF assms], of as_items CItems,
      OF as_items.simps(1), where z = "zero_kubeshark_mem lib"]
  note parts = deep_copier_pair [OF meta items]
  show ?thesis
    unfolding list_ok_def list_reach_def list_at_def
  proof (rule deep_copier_struct [OF parts, where put = list_put])
    show "KubesharkList_DeepCopyInto lib l h = map_option (\<lambda>(a, h'). (list_put a l, h'))
        (pair_copy (dl_ListMeta lib) (copy_slice (Kubeshark_DeepCopyInto lib) as_items CItems
          (zero_kubeshark_mem lib)) (list_to l) h)" for l h
      by (simp add: KubesharkList_DeepCopyInto_def list_to_def list_put_def pair_copy_def
          map_option_bind case_prod_unfold comp_def)
  qed (simp_all add: list_to_def list_put_def list_value_def fun_eq_iff)
qed

section \<open>Pointers\<close>

definition resource_ok :: "'x deepcopy_view \<Rightarrow> 'x heap \<Rightarrow> addr option \<Rightarrow> bool" where
  "resource_ok vw = ptr_ok (kubeshark_ok vw) CKubeshark"

definition resource_refs :: "'x deepcopy_view \<Rightarrow> 'x heap \<Rightarrow> addr option \<Rightarrow> addr set" where
  "resource_refs vw = ptr_refs (kubeshark_reach vw) as_kubeshark"

definition resource_val :: "'x deepcopy_view \<Rightarrow> 'x heap \<Rightarrow> addr option \<Rightarrow> Kubeshark option"
  where
  "resource_val vw = ptr_val (kubeshark_at vw) as_kubeshark"

definition resources_ok :: "'x deepcopy_view \<Rightarrow> 'x heap \<Rightarrow> addr option \<Rightarrow> bool" where
  "resources_ok vw = ptr_ok (list_ok vw) CKubesharkList"

definition resources_refs :: "'x deepcopy_view \<Rightarrow> 'x heap \<Rightarrow> addr option \<Rightarrow> addr set" where
  "resources_refs vw = ptr_refs (list_reach vw) as_list"

definition resources_val ::
  "'x deepcopy_view \<Rightarrow> 'x heap \<Rightarrow> addr option
     \<Rightarrow> (TypeMeta \<times> opaque \<times> Kubeshark list option) option" where
  "resources_val vw = ptr_val (list_at vw) as_list"

lemma resource_deep:
  assumes "lib_laws lib vw"
  shows "deep_copier (Kubeshark_DeepCopy lib) (resource_ok vw) (resource_refs vw) (resource_val vw)"
  unfolding Kubeshark_DeepCopy_def resource_ok_def resource_refs_def resource_val_def
  by (rule deep_copier.ptr_copier [OF kubeshark_deep [OF assms]]) simp

lemma resources_deep:
  assumes "lib_laws lib vw"
  shows "deep_copier (KubesharkList_DeepCopy lib) (resources_ok vw) (resources_refs vw)
    (resources_val vw)"
  unfolding KubesharkList_DeepCopy_def resources_ok_def resources_refs_def resources_val_def
  by (rule deep_copier.ptr_copier [OF list_deep [OF assms]]) simp

lemma copy_ptr_nil: "copy_ptr cp get put z p h = Some (q, h') \<Longrightarrow> q = None \<longleftrightarrow> p = None"
  by (auto simp: copy_ptr_def split: option.splits prod.splits Option.bind_splits)

section \<open>An instance\<close>

text \<open>Library structs that are plain values: nothing to copy and nothing to reach.\<close>

datatype lib_struct =
  LibObjectMeta ObjectMeta | LibListMeta opaque | LibPolicyRule PolicyRule | LibCondition Condition

definition plain_lib :: "lib_struct deepcopy_lib" where
  "plain_lib = \<lparr>dl_ObjectMeta = (\<lambda>x h. Some (x, h)), dl_ListMeta = (\<lambda>x h. Some (x, h)),
     dl_PolicyRule = (\<lambda>x h. Some (x, h)), dl_Condition = (\<lambda>x h. Some (x, h)),
     dl_zero_ObjectMeta = LibObjectMeta zero_ObjectMeta, dl_zero_ListMeta = LibListMeta '''',
     dl_zero_PolicyRule = LibPolicyRule zero_PolicyRule,
     dl_zero_Condition = LibCondition (\<lparr>cond_Type = '''', cond_Status = ConditionFalse,
       cond_ObservedGeneration = 0, cond_LastTransitionTime = None, cond_Reason = '''',
       cond_Message = ''''\<rparr>)\<rparr>"

definition plain_view :: "lib_struct deepcopy_view" where
  "plain_view = \<lparr>dv_ok = (\<lambda>h x. True), dv_refs = (\<lambda>h x. {}),
     dv_ObjectMeta = (\<lambda>h x. case x of LibObjectMeta m \<Rightarrow> m | _ \<Rightarrow> zero_ObjectMeta),
     dv_ListMeta = (\<lambda>h x. case x of LibListMeta m \<Rightarrow> m | _ \<Rightarrow> ''''),
     dv_PolicyRule = (\<lambda>h x. case x of LibPolicyRule r \<Rightarrow> r | _ \<Rightarrow> zero_PolicyRule),
     dv_Condition = (\<lambda>h x. case x of LibCondition c \<Rightarrow> c
       | _ \<Rightarrow> \<lparr>cond_Type = '''', cond_Status = ConditionFalse, cond_ObservedGeneration = 0,
            cond_LastTransitionTime = None, cond_Reason = '''', cond_Message = ''''\<rparr>)\<rparr>"

lemma plain_lib_laws: "lib_laws plain_lib plain_view"
  by (simp add: lib_laws_def plain_lib_def plain_view_def deep_copier_def)

text \<open>A resource with two replicas and a label of the hub, and a list that holds it twice.\<close>

definition mem_sample :: "lib_struct kubeshark_mem" where
  "mem_sample = (zero_kubeshark_mem plain_lib)\<lparr>km_Spec :=
     zero_spec_mem\<lparr>sm_HubReplicas := Some 0, sm_HubLabels := Some 1\<rparr>\<rparr>"

definition heap_sample :: "lib_struct heap" where
  "heap_sample = \<lparr>hp_next = 5, hp_cell = [
     0 \<mapsto> CInt32 2, 1 \<mapsto> CMap [''app'' \<mapsto> ''hub''], 2 \<mapsto> CKubeshark mem_sample,
     3 \<mapsto> CItems [mem_sample, mem_sample],
     4 \<mapsto> CKubesharkList ((zero_list_mem plain_lib)\<lparr>lm_Items := Some 3\<rparr>)]\<rparr>"

lemma heap_sample_wf: "wf_heap heap_sample"
  by (simp add: wf_heap_def heap_sample_def)

lemma mem_sample_ok: "kubeshark_ok plain_view heap_sample mem_sample"
  by (auto simp: kubeshark_ok_def kubeshark_to_def spec_ok_def status_ok_def tuple_ok_def spec_to_def
      slice_ok_def leaf_ok_def mem_sample_def heap_sample_def zero_kubeshark_mem_def
      zero_spec_mem_def zero_status_mem_def plain_view_def)

lemma heap_sample_ok:
  "resource_ok plain_view heap_sample (Some 2)" "resources_ok plain_view heap_sample (Some 4)"
proof -
  show "resource_ok plain_view heap_sample (Some 2)"
    using mem_sample_ok by (auto simp: resource_ok_def ptr_ok_def heap_sample_def)
  show "resources_ok plain_view heap_sample (Some 4)"
    using mem_sample_ok by (auto simp: resources_ok_def ptr_ok_def heap_sample_def list_ok_def
        list_to_def slice_ok_def plain_view_def zero_list_mem_def)
qed

section \<open>Properties\<close>

text \<open>
  C36: a deep copy is the same resource elsewhere. For every well-formed resource in memory
  \<open>DeepCopy\<close> returns (nil for nil), the copy reads as the same value, the original reads as before,
  no old cell was written, and everything the copy reaches is new.
\<close>

theorem deep_copy_same_value:
  assumes "lib_laws lib vw" and "wf_heap h" and "resource_ok vw h p"
  shows "\<exists>q h'. Kubeshark_DeepCopy lib p h = Some (q, h') \<and> (q = None \<longleftrightarrow> p = None) \<and>
    resource_val vw h' q = resource_val vw h p \<and> resource_val vw h' p = resource_val vw h p \<and>
    wf_heap h' \<and> extends h h' \<and> resource_refs vw h' q \<subseteq> {hp_next h..<hp_next h'}"
proof -
  note D = resource_deep [OF assms(1)]
  obtain q h' where run: "Kubeshark_DeepCopy lib p h = Some (q, h')" and wf: "wf_heap h'"
    and ext: "extends h h'" and "resource_val vw h' q = resource_val vw h p"
    and "resource_refs vw h' q \<subseteq> {hp_next h..<hp_next h'}"
    by (rule deep_copier.copy_total [OF D assms(2,3)])
  moreover have "q = None \<longleftrightarrow> p = None"
    using run unfolding Kubeshark_DeepCopy_def by (rule copy_ptr_nil)
  ultimately show ?thesis
    using deep_copier.extends_frame(3) [OF D assms(2,3) ext] by blast
qed

theorem deep_copy_same_value_witness:
  "\<exists>q h'. Kubeshark_DeepCopy plain_lib (Some 2) heap_sample = Some (q, h') \<and> q \<noteq> Some 2 \<and>
    resource_val plain_view h' q = resource_val plain_view heap_sample (Some 2)"
proof -
  obtain q h' where "Kubeshark_DeepCopy plain_lib (Some 2) heap_sample = Some (q, h')"
    and "resource_val plain_view h' q = resource_val plain_view heap_sample (Some 2)"
    and new: "resource_refs plain_view h' q \<subseteq> {hp_next heap_sample..<hp_next h'}"
    using deep_copy_same_value [OF plain_lib_laws heap_sample_wf heap_sample_ok(1)] by blast
  moreover have "2 \<notin> resource_refs plain_view h' q"
    using new by (auto simp: heap_sample_def)
  then have "q \<noteq> Some 2" by (auto simp: resource_refs_def ptr_refs_def)
  ultimately show ?thesis by blast
qed

text \<open>
  C37: a deep copy shares nothing with the original. Whatever is written afterwards at the addresses
  the copy reaches, the original still reads as when it was copied; and whatever is written at the
  addresses the original reaches, the copy does.
\<close>

theorem deep_copy_independent:
  assumes "lib_laws lib vw" and "wf_heap h" and "resource_ok vw h p"
    and "Kubeshark_DeepCopy lib p h = Some (q, h')"
  shows "(agree (- resource_refs vw h' q) h' h1 \<longrightarrow> resource_val vw h1 p = resource_val vw h p) \<and>
    (agree (- resource_refs vw h' p) h' h2 \<longrightarrow> resource_val vw h2 q = resource_val vw h p)"
  using deep_copier.independent(2,3) [OF resource_deep [OF assms(1)] assms(2-4)] by blast

theorem deep_copy_independent_witness:
  "\<exists>q h'. Kubeshark_DeepCopy plain_lib (Some 2) heap_sample = Some (q, h') \<and>
    resource_val plain_view (store 1 (CMap Map.empty) h') q =
      resource_val plain_view heap_sample (Some 2)"
proof -
  obtain q h' where run: "Kubeshark_DeepCopy plain_lib (Some 2) heap_sample = Some (q, h')"
    and ext: "extends heap_sample h'"
    by (rule deep_copier.copy_total [OF resource_deep [OF plain_lib_laws] heap_sample_wf
          heap_sample_ok(1)])
  note frame = deep_copier.extends_frame [OF resource_deep [OF plain_lib_laws] heap_sample_wf
      heap_sample_ok(1) ext]
  have "1 \<in> resource_refs plain_view heap_sample (Some 2)"
    by (simp add: resource_refs_def ptr_refs_def deref_def heap_sample_def kubeshark_reach_def
        kubeshark_to_def spec_reach_def tuple_refs_def spec_to_def mem_sample_def)
  then have "agree (- resource_refs plain_view h' (Some 2)) h' (store 1 (CMap Map.empty) h')"
    using frame(2) by (auto simp: agree_def store_def)
  with deep_copy_independent [OF plain_lib_laws heap_sample_wf heap_sample_ok(1) run] run
  show ?thesis by blast
qed

text \<open>
  C38: the copy of a list. The loop over the items ends without a panic, a nil list of items stays
  nil, every item of the copy reads as the item it was made from, nothing old was written, and
  \<open>DeepCopyObject\<close> wraps exactly this copy (and nil for nil).
\<close>

theorem list_copy_same_items:
  assumes "lib_laws lib vw" and "wf_heap h" and "resources_ok vw h (Some a)"
  shows "\<exists>b h'. KubesharkList_DeepCopy lib (Some a) h = Some (Some b, h') \<and>
    resources_val vw h' (Some b) = resources_val vw h (Some a) \<and> extends h h' \<and>
    resources_refs vw h' (Some b) \<subseteq> {hp_next h..<hp_next h'} \<and>
    KubesharkList_DeepCopyObject lib (Some a) h = Some (Some (KubesharkListObject b), h') \<and>
    KubesharkList_DeepCopyObject lib None h = Some (None, h)"
proof -
  obtain q h' where run: "KubesharkList_DeepCopy lib (Some a) h = Some (q, h')" and "extends h h'"
    and "resources_val vw h' q = resources_val vw h (Some a)"
    and "resources_refs vw h' q \<subseteq> {hp_next h..<hp_next h'}"
    by (rule deep_copier.copy_total [OF resources_deep [OF assms(1)] assms(2,3)])
  moreover obtain b where "q = Some b"
    using copy_ptr_nil [OF run [unfolded KubesharkList_DeepCopy_def]] by auto
  moreover have "KubesharkList_DeepCopy lib None h = Some (None, h)"
    by (simp add: KubesharkList_DeepCopy_def copy_ptr_def)
  ultimately show ?thesis by (auto simp: KubesharkList_DeepCopyObject_def)
qed

theorem list_copy_same_items_witness:
  "\<exists>b h'. KubesharkList_DeepCopy plain_lib (Some 4) heap_sample = Some (Some b, h') \<and>
    resources_val plain_view h' (Some b) = resources_val plain_view heap_sample (Some 4)"
  using list_copy_same_items [OF plain_lib_laws heap_sample_wf heap_sample_ok(2)] by blast

end
