(* ===== verification/GoFlags.thy ===== *)
theory GoFlags
  imports Prelude
begin

text \<open>
  The part of Go's standard package \<open>flag\<close> that \<open>cmd/main.go\<close> uses: a flag has a name, may be boolean,
  and sets a value; \<open>Parse\<close> takes the leading flags off the command line. \<open>parse_args\<close> follows
  \<open>FlagSet.parseOne\<close>: an argument is a flag when it starts with one or two hyphens and is longer than
  one character, \<open>--\<close> ends the flags, the first \<open>=\<close> separates name and value, a boolean flag without
  value means true, and any other flag takes the next argument when it has none of its own. The
  command line flag set exits on an error.
\<close>

record 'f goflag =
  gf_isBool :: bool
  gf_Set :: "string \<Rightarrow> 'f \<Rightarrow> 'f option"

definition ParseBool :: "string \<Rightarrow> bool option" where
  "ParseBool s =
     (if s \<in> set [''1'', ''t'', ''T'', ''TRUE'', ''true'', ''True''] then Some True
      else if s \<in> set [''0'', ''f'', ''F'', ''FALSE'', ''false'', ''False''] then Some False
      else None)"

text \<open>\<open>flag.StringVar\<close> and \<open>flag.BoolVar\<close>, with the assignment to the variable as an argument.\<close>

definition StringVar :: "(string \<Rightarrow> 'f \<Rightarrow> 'f) \<Rightarrow> 'f goflag" where
  "StringVar assign = \<lparr>gf_isBool = False, gf_Set = (\<lambda>s f. Some (assign s f))\<rparr>"

definition BoolVar :: "(bool \<Rightarrow> 'f \<Rightarrow> 'f) \<Rightarrow> 'f goflag" where
  "BoolVar assign =
     \<lparr>gf_isBool = True, gf_Set = (\<lambda>s f. map_option (\<lambda>b. assign b f) (ParseBool s))\<rparr>"

datatype 'f parse_result = Parsed 'f "string list" | HelpRequested | BadFlags

text \<open>The text before the first \<open>=\<close>, and the text after it if there is one.\<close>

fun split_eq :: "string \<Rightarrow> string \<times> string option" where
  "split_eq [] = ([], None)"
| "split_eq (c # cs) =
     (if c = CHR ''='' then ([], Some cs)
      else (case split_eq cs of (n, v) \<Rightarrow> (c # n, v)))"

text \<open>The name and value of a flag argument, without its hyphens; the first character is not \<open>=\<close>.\<close>

definition strip_minus :: "string \<Rightarrow> string" where
  "strip_minus s = (if take 2 s = ''--'' then drop 2 s else drop 1 s)"

fun parse_args :: "(string \<Rightarrow> 'f goflag option) \<Rightarrow> string list \<Rightarrow> 'f \<Rightarrow> 'f parse_result" where
  "parse_args formal [] f = Parsed f []"
| "parse_args formal (s # args) f =
     (if length s < 2 \<or> hd s \<noteq> CHR ''-'' then Parsed f (s # args)
      else if s = ''--'' then Parsed f args
      else (let body = strip_minus s in
        if body = [] \<or> hd body = CHR ''-'' \<or> hd body = CHR ''='' then BadFlags
        else (case split_eq body of (name, given) \<Rightarrow>
          (case formal name of
             None \<Rightarrow> if name = ''help'' \<or> name = ''h'' then HelpRequested else BadFlags
           | Some flag \<Rightarrow>
               if gf_isBool flag then
                 (case gf_Set flag (case given of Some v \<Rightarrow> v | None \<Rightarrow> ''true'') f of
                    Some f' \<Rightarrow> parse_args formal args f'
                  | None \<Rightarrow> BadFlags)
               else (case given of
                 Some v \<Rightarrow>
                   (case gf_Set flag v f of
                      Some f' \<Rightarrow> parse_args formal args f'
                    | None \<Rightarrow> BadFlags)
               | None \<Rightarrow>
                   (case args of
                      [] \<Rightarrow> BadFlags
                    | v # args' \<Rightarrow>
                        (case gf_Set flag v f of
                           Some f' \<Rightarrow> parse_args formal args' f'
                         | None \<Rightarrow> BadFlags)))))))"

section \<open>Rendering\<close>

text \<open>A flag with its value in one argument, and how it is read back.\<close>

definition flag_arg :: "string \<Rightarrow> string \<Rightarrow> string" where
  "flag_arg name v = ''--'' @ name @ CHR ''='' # v"

definition flag_name :: "string \<Rightarrow> bool" where
  "flag_name name \<longleftrightarrow> name \<noteq> [] \<and> hd name \<noteq> CHR ''-'' \<and> CHR ''='' \<notin> set name"

definition bool_text :: "bool \<Rightarrow> string" where
  "bool_text b = (if b then ''true'' else ''false'')"

lemma split_eq_append: "CHR ''='' \<notin> set n \<Longrightarrow> split_eq (n @ CHR ''='' # v) = (n, Some v)"
  by (induction n) auto

lemma split_eq_plain: "CHR ''='' \<notin> set n \<Longrightarrow> split_eq n = (n, None)"
  by (induction n) auto

lemma parse_flag_step:
  assumes "s = ''--'' @ body" and "body \<noteq> []" and "hd body \<noteq> CHR ''-''" and "hd body \<noteq> CHR ''=''"
    and "split_eq body = (name, given)" and "formal name = Some flag"
    and "gf_isBool flag \<or> given \<noteq> None"
    and "gf_Set flag (case given of Some v \<Rightarrow> v | None \<Rightarrow> ''true'') f = Some f'"
  shows "parse_args formal (s # args) f = parse_args formal args f'"
proof -
  have "\<not> (length s < 2 \<or> hd s \<noteq> CHR ''-'')" "s \<noteq> ''--''" "strip_minus s = body"
    using assms(1,2) by (simp_all add: strip_minus_def)
  moreover have "\<not> (body = [] \<or> hd body = CHR ''-'' \<or> hd body = CHR ''='')"
    using assms(2-4) by simp
  ultimately have "parse_args formal (s # args) f =
      (if gf_isBool flag then
         (case gf_Set flag (case given of Some v \<Rightarrow> v | None \<Rightarrow> ''true'') f of
            Some f' \<Rightarrow> parse_args formal args f' | None \<Rightarrow> BadFlags)
       else (case given of
         Some v \<Rightarrow> (case gf_Set flag v f of Some f' \<Rightarrow> parse_args formal args f' | None \<Rightarrow> BadFlags)
       | None \<Rightarrow> (case args of
           [] \<Rightarrow> BadFlags
         | v # args' \<Rightarrow>
             (case gf_Set flag v f of
                Some f' \<Rightarrow> parse_args formal args' f' | None \<Rightarrow> BadFlags))))"
    by (simp only: parse_args.simps(2) Let_def assms(5,6) if_False split_conv option.case)
  with assms(7,8) show ?thesis by (cases given; cases "gf_isBool flag"; simp)
qed

lemma flag_name_cases:
  assumes "flag_name name"
  obtains c cs where "name = c # cs" and "c \<noteq> CHR ''-''" and "c \<noteq> CHR ''=''" and "CHR ''='' \<notin> set cs"
  using assms by (cases name) (auto simp: flag_name_def)

lemma parse_flag_arg:
  assumes "flag_name name" and "formal name = Some flag" and "gf_Set flag v f = Some f'"
  shows "parse_args formal (flag_arg name v # args) f = parse_args formal args f'"
proof -
  obtain c cs where name: "name = c # cs" "c \<noteq> CHR ''-''" "c \<noteq> CHR ''=''" "CHR ''='' \<notin> set cs"
    using assms(1) by (rule flag_name_cases)
  show ?thesis
  proof (rule parse_flag_step)
    show "flag_arg name v = ''--'' @ (name @ CHR ''='' # v)" by (simp add: flag_arg_def)
    show "split_eq (name @ CHR ''='' # v) = (name, Some v)"
      by (rule split_eq_append) (use name in simp)
    show "formal name = Some flag" by (rule assms(2))
    show "gf_Set flag (case Some v of Some v \<Rightarrow> v | None \<Rightarrow> ''true'') f = Some f'"
      using assms(3) by simp
  qed (use name in simp_all)
qed

lemma parse_bool_switch:
  assumes "flag_name name" and "formal name = Some flag" and "gf_isBool flag"
    and "gf_Set flag ''true'' f = Some f'"
  shows "parse_args formal ((''--'' @ name) # args) f = parse_args formal args f'"
proof -
  obtain c cs where name: "name = c # cs" "c \<noteq> CHR ''-''" "c \<noteq> CHR ''=''" "CHR ''='' \<notin> set cs"
    using assms(1) by (rule flag_name_cases)
  show ?thesis
  proof (rule parse_flag_step)
    show "split_eq name = (name, None)" by (rule split_eq_plain) (use name in simp)
    show "formal name = Some flag" by (rule assms(2))
    show "gf_isBool flag \<or> None \<noteq> None" using assms(3) by simp
    show "gf_Set flag (case None of Some v \<Rightarrow> v | None \<Rightarrow> ''true'') f = Some f'"
      using assms(4) by simp
  qed (use name in simp_all)
qed

lemma StringVar_simps [simp]:
  "gf_Set (StringVar assign) v f = Some (assign v f)" "\<not> gf_isBool (StringVar assign)"
  by (simp_all add: StringVar_def)

lemma BoolVar_simps [simp]:
  "gf_Set (BoolVar assign) (bool_text b) f = Some (assign b f)"
  "gf_Set (BoolVar assign) ''true'' f = Some (assign True f)" "gf_isBool (BoolVar assign)"
  by (cases b; simp add: BoolVar_def bool_text_def ParseBool_def)
     (simp_all add: BoolVar_def ParseBool_def)

end
