(* ===== verification/ManagerMain.thy ===== *)
theory ManagerMain
  imports GoFlags Controller
begin

text \<open>
  \<open>cmd/main.go\<close> with \<open>api/v1beta1/groupversion_info.go\<close>: registration of the types, the flags with
  their defaults, the options of the two servers and of the manager, and the start-up sequence, in
  which any failure ends the process with code 1. The manager itself, the client configuration and
  the flags that libraries define (of the logger and of the client configuration) are parameters.
\<close>

section \<open>Types and registration\<close>

record GroupVersion =
  gv_Group :: string
  gv_Version :: string

definition SchemeGroupVersion :: GroupVersion where
  "SchemeGroupVersion = \<lparr>gv_Group = ''kubeshark.opstreelabs.in'', gv_Version = ''v1beta1''\<rparr>"

definition GroupVersion_alias :: GroupVersion where
  "GroupVersion_alias = SchemeGroupVersion"

text \<open>\<open>scheme.Builder\<close>: a group version and the types registered with it so far.\<close>

record Builder =
  sb_GroupVersion :: GroupVersion
  sb_types :: "string list"

definition SchemeBuilder :: Builder where
  "SchemeBuilder = \<lparr>sb_GroupVersion = SchemeGroupVersion, sb_types = []\<rparr>"

text \<open>The \<open>init\<close> function of the package: \<open>SchemeBuilder.Register(&Kubeshark{}, &KubesharkList{})\<close>.\<close>

definition registered_builder :: Builder where
  "registered_builder =
     SchemeBuilder\<lparr>sb_types := sb_types SchemeBuilder @ [''Kubeshark'', ''KubesharkList'']\<rparr>"

section \<open>Flags\<close>

record 'z flags =
  fl_metricsAddr :: string
  fl_metricsCertPath :: string
  fl_metricsCertName :: string
  fl_metricsCertKey :: string
  fl_webhookCertPath :: string
  fl_webhookCertName :: string
  fl_webhookCertKey :: string
  fl_enableLeaderElection :: bool
  fl_probeAddr :: string
  fl_secureMetrics :: bool
  fl_enableHTTP2 :: bool
  fl_library :: 'z

definition default_flags :: "'z \<Rightarrow> 'z flags" where
  "default_flags z = \<lparr>fl_metricsAddr = ''0'', fl_metricsCertPath = '''',
     fl_metricsCertName = ''tls.crt'', fl_metricsCertKey = ''tls.key'', fl_webhookCertPath = '''',
     fl_webhookCertName = ''tls.crt'', fl_webhookCertKey = ''tls.key'',
     fl_enableLeaderElection = False, fl_probeAddr = '':8081'', fl_secureMetrics = True,
     fl_enableHTTP2 = False, fl_library = z\<rparr>"

definition main_flags :: "(string \<times> 'z flags goflag) list" where
  "main_flags = [
     (''metrics-bind-address'', StringVar (\<lambda>s f. f\<lparr>fl_metricsAddr := s\<rparr>)),
     (''health-probe-bind-address'', StringVar (\<lambda>s f. f\<lparr>fl_probeAddr := s\<rparr>)),
     (''leader-elect'', BoolVar (\<lambda>b f. f\<lparr>fl_enableLeaderElection := b\<rparr>)),
     (''metrics-secure'', BoolVar (\<lambda>b f. f\<lparr>fl_secureMetrics := b\<rparr>)),
     (''webhook-cert-path'', StringVar (\<lambda>s f. f\<lparr>fl_webhookCertPath := s\<rparr>)),
     (''webhook-cert-name'', StringVar (\<lambda>s f. f\<lparr>fl_webhookCertName := s\<rparr>)),
     (''webhook-cert-key'', StringVar (\<lambda>s f. f\<lparr>fl_webhookCertKey := s\<rparr>)),
     (''metrics-cert-path'', StringVar (\<lambda>s f. f\<lparr>fl_metricsCertPath := s\<rparr>)),
     (''metrics-cert-name'', StringVar (\<lambda>s f. f\<lparr>fl_metricsCertName := s\<rparr>)),
     (''metrics-cert-key'', StringVar (\<lambda>s f. f\<lparr>fl_metricsCertKey := s\<rparr>)),
     (''enable-http2'', BoolVar (\<lambda>b f. f\<lparr>fl_enableHTTP2 := b\<rparr>))]"

text \<open>A flag of a library works on the library's own values.\<close>

definition library_flag :: "'z goflag \<Rightarrow> 'z flags goflag" where
  "library_flag g = \<lparr>gf_isBool = gf_isBool g,
     gf_Set = (\<lambda>s f. map_option (\<lambda>z. f\<lparr>fl_library := z\<rparr>) (gf_Set g s (fl_library f)))\<rparr>"

definition formal_flags ::
  "(string \<Rightarrow> 'z goflag option) \<Rightarrow> string \<Rightarrow> 'z flags goflag option" where
  "formal_flags library name =
     (case map_of main_flags name of
        Some g \<Rightarrow> Some g
      | None \<Rightarrow> map_option library_flag (library name))"

definition parse_flags ::
  "(string \<Rightarrow> 'z goflag option) \<Rightarrow> 'z \<Rightarrow> string list \<Rightarrow> 'z flags parse_result" where
  "parse_flags library z args = parse_args (formal_flags library) args (default_flags z)"

section \<open>Options of the servers and of the manager\<close>

record tls_Config =
  tls_NextProtos :: "string list"
  tls_rest :: opaque

definition disableHTTP2 :: "tls_Config \<Rightarrow> tls_Config" where
  "disableHTTP2 c = c\<lparr>tls_NextProtos := [''http/1.1'']\<rparr>"

definition tlsOpts :: "'z flags \<Rightarrow> (tls_Config \<Rightarrow> tls_Config) list" where
  "tlsOpts f = (if \<not> fl_enableHTTP2 f then [] @ [disableHTTP2] else [])"

record webhook_Options =
  wo_TLSOpts :: "(tls_Config \<Rightarrow> tls_Config) list"
  wo_CertDir :: string
  wo_CertName :: string
  wo_KeyName :: string

definition webhookServerOptions :: "'z flags \<Rightarrow> webhook_Options" where
  "webhookServerOptions f =
     (let opts = \<lparr>wo_TLSOpts = tlsOpts f, wo_CertDir = '''', wo_CertName = '''', wo_KeyName = ''''\<rparr>
      in if length (fl_webhookCertPath f) > 0
         then opts\<lparr>wo_CertDir := fl_webhookCertPath f, wo_CertName := fl_webhookCertName f,
                wo_KeyName := fl_webhookCertKey f\<rparr>
         else opts)"

datatype FilterProvider = WithAuthenticationAndAuthorization

record metrics_Options =
  mo_BindAddress :: string
  mo_SecureServing :: bool
  mo_TLSOpts :: "(tls_Config \<Rightarrow> tls_Config) list"
  mo_FilterProvider :: "FilterProvider option"
  mo_CertDir :: string
  mo_CertName :: string
  mo_KeyName :: string

definition metricsServerOptions :: "'z flags \<Rightarrow> metrics_Options" where
  "metricsServerOptions f =
     (let opts = \<lparr>mo_BindAddress = fl_metricsAddr f, mo_SecureServing = fl_secureMetrics f,
            mo_TLSOpts = tlsOpts f, mo_FilterProvider = None, mo_CertDir = '''',
            mo_CertName = '''', mo_KeyName = ''''\<rparr>;
          opts = (if fl_secureMetrics f
            then opts\<lparr>mo_FilterProvider := Some WithAuthenticationAndAuthorization\<rparr> else opts)
      in if length (fl_metricsCertPath f) > 0
         then opts\<lparr>mo_CertDir := fl_metricsCertPath f, mo_CertName := fl_metricsCertName f,
                mo_KeyName := fl_metricsCertKey f\<rparr>
         else opts)"

record manager_Options =
  mg_Metrics :: metrics_Options
  mg_WebhookServer :: webhook_Options
  mg_HealthProbeBindAddress :: string
  mg_LeaderElection :: bool
  mg_LeaderElectionID :: string

definition manager_options :: "'z flags \<Rightarrow> manager_Options" where
  "manager_options f = \<lparr>mg_Metrics = metricsServerOptions f,
     mg_WebhookServer = webhookServerOptions f, mg_HealthProbeBindAddress = fl_probeAddr f,
     mg_LeaderElection = fl_enableLeaderElection f,
     mg_LeaderElectionID = ''47c73190.opstreelabs.in''\<rparr>"

section \<open>Start-up\<close>

record controller_builder =
  cb_For :: string
  cb_Owns :: "kind list"
  cb_Named :: string

text \<open>
  What the manager's library does, over the state of the process. The configuration of the client is
  there, or the library ends the process with a code.
\<close>

record ('w, 'e) manager_api =
  ma_AddClientGo :: "('w, 'e) action"
  ma_AddTypes :: "GroupVersion \<Rightarrow> string list \<Rightarrow> ('w, 'e) action"
  ma_GetConfigOrDie :: "'w \<Rightarrow> nat option \<times> 'w"
  ma_NewManager :: "manager_Options \<Rightarrow> ('w, 'e) action"
  ma_Complete :: "controller_builder \<Rightarrow> ('w, 'e) action"
  ma_AddHealthzCheck :: "string \<Rightarrow> ('w, 'e) action"
  ma_AddReadyzCheck :: "string \<Rightarrow> ('w, 'e) action"
  ma_Start :: "('w, 'e) action"

datatype outcome = Returned | Exit nat | Panicked

text \<open>\<open>utilruntime.Must\<close> panics on an error.\<close>

definition must :: "('w, 'e) action \<Rightarrow> ('w \<Rightarrow> outcome \<times> 'w) \<Rightarrow> 'w \<Rightarrow> outcome \<times> 'w" where
  "must m k w = (case m w of (Some err, w') \<Rightarrow> (Panicked, w') | (None, w') \<Rightarrow> k w')"

text \<open>\<open>if err := m(); err != nil { setupLog.Error(\<dots>); os.Exit(1) }\<close>.\<close>

definition or_exit :: "('w, 'e) action \<Rightarrow> ('w \<Rightarrow> outcome \<times> 'w) \<Rightarrow> 'w \<Rightarrow> outcome \<times> 'w" where
  "or_exit m k w = (case m w of (Some err, w') \<Rightarrow> (Exit 1, w') | (None, w') \<Rightarrow> k w')"

definition SetupWithManager :: "('w, 'e) manager_api \<Rightarrow> ('w, 'e) action" where
  "SetupWithManager api =
     ma_Complete api \<lparr>cb_For = ''Kubeshark'', cb_Owns = watched_kinds, cb_Named = ''kubeshark''\<rparr>"

definition main_body :: "('w, 'e) manager_api \<Rightarrow> 'z flags \<Rightarrow> 'w \<Rightarrow> outcome \<times> 'w" where
  "main_body api f w =
     (case ma_GetConfigOrDie api w of
        (Some code, w') \<Rightarrow> (Exit code, w')
      | (None, w') \<Rightarrow>
          or_exit (ma_NewManager api (manager_options f))
            (or_exit (SetupWithManager api)
              (or_exit (ma_AddHealthzCheck api ''healthz'')
                (or_exit (ma_AddReadyzCheck api ''readyz'')
                  (or_exit (ma_Start api) (\<lambda>w. (Returned, w)))))) w')"

definition main ::
  "('w, 'e) manager_api \<Rightarrow> (string \<Rightarrow> 'z goflag option) \<Rightarrow> 'z \<Rightarrow> string list \<Rightarrow> 'w \<Rightarrow> outcome \<times> 'w"
  where
  "main api library z args w =
     (case parse_flags library z args of
        HelpRequested \<Rightarrow> (Exit 0, w)
      | BadFlags \<Rightarrow> (Exit 2, w)
      | Parsed f rest \<Rightarrow> main_body api f w)"

text \<open>The \<open>init\<close> function, which runs before \<open>main\<close>.\<close>

definition process ::
  "('w, 'e) manager_api \<Rightarrow> (string \<Rightarrow> 'z goflag option) \<Rightarrow> 'z \<Rightarrow> string list \<Rightarrow> 'w \<Rightarrow> outcome \<times> 'w"
  where
  "process api library z args =
     must (ma_AddClientGo api)
       (must (ma_AddTypes api (sb_GroupVersion registered_builder) (sb_types registered_builder))
          (main api library z args))"

end
