(* ===== verification/MainFacts.thy ===== *)
theory MainFacts
  imports ManagerMain Permissions
begin

text \<open>
  Facts about \<open>cmd/main.go\<close>: the flags read back what is rendered from them, and start-up is
  fail-stop. A recorder around the manager's library makes the calls visible.
\<close>

section \<open>Flags\<close>

definition render_flags :: "'z flags \<Rightarrow> string list" where
  "render_flags f = [
     flag_arg ''metrics-bind-address'' (fl_metricsAddr f),
     flag_arg ''health-probe-bind-address'' (fl_probeAddr f),
     flag_arg ''leader-elect'' (bool_text (fl_enableLeaderElection f)),
     flag_arg ''metrics-secure'' (bool_text (fl_secureMetrics f)),
     flag_arg ''webhook-cert-path'' (fl_webhookCertPath f),
     flag_arg ''webhook-cert-name'' (fl_webhookCertName f),
     flag_arg ''webhook-cert-key'' (fl_webhookCertKey f),
     flag_arg ''metrics-cert-path'' (fl_metricsCertPath f),
     flag_arg ''metrics-cert-name'' (fl_metricsCertName f),
     flag_arg ''metrics-cert-key'' (fl_metricsCertKey f),
     flag_arg ''enable-http2'' (bool_text (fl_enableHTTP2 f))]"

lemma formal_main_flags:
  "formal_flags lib ''metrics-bind-address'' = Some (StringVar (\<lambda>s f. f\<lparr>fl_metricsAddr := s\<rparr>))"
  "formal_flags lib ''health-probe-bind-address'' = Some (StringVar (\<lambda>s f. f\<lparr>fl_probeAddr := s\<rparr>))"
  "formal_flags lib ''leader-elect'' = Some (BoolVar (\<lambda>b f. f\<lparr>fl_enableLeaderElection := b\<rparr>))"
  "formal_flags lib ''metrics-secure'' = Some (BoolVar (\<lambda>b f. f\<lparr>fl_secureMetrics := b\<rparr>))"
  "formal_flags lib ''webhook-cert-path'' = Some (StringVar (\<lambda>s f. f\<lparr>fl_webhookCertPath := s\<rparr>))"
  "formal_flags lib ''webhook-cert-name'' = Some (StringVar (\<lambda>s f. f\<lparr>fl_webhookCertName := s\<rparr>))"
  "formal_flags lib ''webhook-cert-key'' = Some (StringVar (\<lambda>s f. f\<lparr>fl_webhookCertKey := s\<rparr>))"
  "formal_flags lib ''metrics-cert-path'' = Some (StringVar (\<lambda>s f. f\<lparr>fl_metricsCertPath := s\<rparr>))"
  "formal_flags lib ''metrics-cert-name'' = Some (StringVar (\<lambda>s f. f\<lparr>fl_metricsCertName := s\<rparr>))"
  "formal_flags lib ''metrics-cert-key'' = Some (StringVar (\<lambda>s f. f\<lparr>fl_metricsCertKey := s\<rparr>))"
  "formal_flags lib ''enable-http2'' = Some (BoolVar (\<lambda>b f. f\<lparr>fl_enableHTTP2 := b\<rparr>))"
  by (simp_all add: formal_flags_def main_flags_def)

lemma main_flag_names:
  "flag_name ''metrics-bind-address''" "flag_name ''health-probe-bind-address''"
  "flag_name ''leader-elect''" "flag_name ''metrics-secure''" "flag_name ''webhook-cert-path''"
  "flag_name ''webhook-cert-name''" "flag_name ''webhook-cert-key''"
  "flag_name ''metrics-cert-path''" "flag_name ''metrics-cert-name''"
  "flag_name ''metrics-cert-key''" "flag_name ''enable-http2''"
  by (simp_all add: flag_name_def)

lemma parse_string_flag:
  "flag_name name \<Longrightarrow> formal_flags lib name = Some (StringVar assign) \<Longrightarrow>
     parse_args (formal_flags lib) (flag_arg name v # args) f =
       parse_args (formal_flags lib) args (assign v f)"
  by (rule parse_flag_arg, assumption, assumption) simp

lemma parse_bool_flag:
  "flag_name name \<Longrightarrow> formal_flags lib name = Some (BoolVar assign) \<Longrightarrow>
     parse_args (formal_flags lib) (flag_arg name (bool_text b) # args) f =
       parse_args (formal_flags lib) args (assign b f)"
  by (rule parse_flag_arg, assumption, assumption) simp

lemmas main_flag_steps =
  parse_string_flag [OF main_flag_names(1) formal_main_flags(1)]
  parse_string_flag [OF main_flag_names(2) formal_main_flags(2)]
  parse_bool_flag [OF main_flag_names(3) formal_main_flags(3)]
  parse_bool_flag [OF main_flag_names(4) formal_main_flags(4)]
  parse_string_flag [OF main_flag_names(5) formal_main_flags(5)]
  parse_string_flag [OF main_flag_names(6) formal_main_flags(6)]
  parse_string_flag [OF main_flag_names(7) formal_main_flags(7)]
  parse_string_flag [OF main_flag_names(8) formal_main_flags(8)]
  parse_string_flag [OF main_flag_names(9) formal_main_flags(9)]
  parse_string_flag [OF main_flag_names(10) formal_main_flags(10)]
  parse_bool_flag [OF main_flag_names(11) formal_main_flags(11)]

text \<open>The arguments of the deployed manager, as its manifests write them.\<close>

definition deployed_args :: "string list" where
  "deployed_args =
     [''--metrics-bind-address=:8443'', ''--leader-elect'', ''--health-probe-bind-address=:8081'']"

lemma deployed_args_flags:
  "deployed_args = [flag_arg ''metrics-bind-address'' '':8443'', ''--'' @ ''leader-elect'',
     flag_arg ''health-probe-bind-address'' '':8081'']"
  by (simp add: deployed_args_def flag_arg_def)

lemma parse_leader_elect:
  "parse_args (formal_flags lib) ((''--'' @ ''leader-elect'') # args) f =
     parse_args (formal_flags lib) args (f\<lparr>fl_enableLeaderElection := True\<rparr>)"
  by (rule parse_bool_switch, rule main_flag_names(3), rule formal_main_flags(3)) simp_all

lemma parse_deployed:
  "parse_flags lib z deployed_args =
     Parsed ((default_flags z)\<lparr>fl_metricsAddr := '':8443'', fl_enableLeaderElection := True\<rparr>) []"
  unfolding parse_flags_def deployed_args_flags main_flag_steps parse_leader_elect
    parse_args.simps(1)
  by (simp add: default_flags_def)

text \<open>
  C39: the flags are read back. Every setting of the flags, rendered as arguments, is parsed into
  exactly this setting, whatever the texts are; and the arguments of the deployed manager
  (\<open>config/manager\<close>, with the metrics patch of \<open>config/default\<close>) turn leader election and the metrics
  server on and leave the defaults otherwise.
\<close>

theorem flags_roundtrip:
  "parse_flags lib (fl_library f) (render_flags f) = Parsed f [] \<and>
   parse_flags lib z deployed_args =
     Parsed ((default_flags z)\<lparr>fl_metricsAddr := '':8443'', fl_enableLeaderElection := True\<rparr>) []"
proof
  show "parse_flags lib (fl_library f) (render_flags f) = Parsed f []"
    unfolding parse_flags_def render_flags_def main_flag_steps parse_args.simps(1)
    by (simp add: default_flags_def)
  show "parse_flags lib z deployed_args =
      Parsed ((default_flags z)\<lparr>fl_metricsAddr := '':8443'', fl_enableLeaderElection := True\<rparr>) []"
    by (rule parse_deployed)
qed

section \<open>Start-up\<close>

datatype 'e start_event =
    NewManagerEv manager_Options "'e goerror option"
  | CompleteEv controller_builder "'e goerror option"
  | HealthzEv string "'e goerror option"
  | ReadyzEv string "'e goerror option"
  | StartEv "'e goerror option"

definition recorded ::
  "('e goerror option \<Rightarrow> 'e start_event) \<Rightarrow> ('w, 'e) action \<Rightarrow> ('w \<times> 'e start_event list, 'e) action"
  where
  "recorded ev m wt = (case m (fst wt) of (r, w') \<Rightarrow> (r, (w', snd wt @ [ev r])))"

definition recording ::
  "('w, 'e) manager_api \<Rightarrow> ('w \<times> 'e start_event list, 'e) manager_api" where
  "recording api = \<lparr>
     ma_AddClientGo = (\<lambda>(w, t). map_prod id (\<lambda>w. (w, t)) (ma_AddClientGo api w)),
     ma_AddTypes = (\<lambda>gv ks (w, t). map_prod id (\<lambda>w. (w, t)) (ma_AddTypes api gv ks w)),
     ma_GetConfigOrDie = (\<lambda>(w, t). map_prod id (\<lambda>w. (w, t)) (ma_GetConfigOrDie api w)),
     ma_NewManager = (\<lambda>opts. recorded (NewManagerEv opts) (ma_NewManager api opts)),
     ma_Complete = (\<lambda>b. recorded (CompleteEv b) (ma_Complete api b)),
     ma_AddHealthzCheck = (\<lambda>n. recorded (HealthzEv n) (ma_AddHealthzCheck api n)),
     ma_AddReadyzCheck = (\<lambda>n. recorded (ReadyzEv n) (ma_AddReadyzCheck api n)),
     ma_Start = recorded StartEv (ma_Start api)\<rparr>"

text \<open>The five calls of a start, in order, as functions of what they return.\<close>

definition start_calls :: "'z flags \<Rightarrow> ('e goerror option \<Rightarrow> 'e start_event) list" where
  "start_calls f = [NewManagerEv (manager_options f),
     CompleteEv \<lparr>cb_For = ''Kubeshark'', cb_Owns = watched_kinds, cb_Named = ''kubeshark''\<rparr>,
     HealthzEv ''healthz'', ReadyzEv ''readyz'', StartEv]"

text \<open>
  A fail-stop run: some of the calls were made, in order; all but the last returned nil; the outcome
  follows the last.
\<close>

definition fail_stop ::
  "('e goerror option \<Rightarrow> 'e start_event) list \<Rightarrow> 'e start_event list \<Rightarrow> outcome \<Rightarrow> bool" where
  "fail_stop calls t out \<longleftrightarrow>
     (\<exists>n. n < length calls \<and> out = Exit 1 \<and>
        (\<exists>e. t = map (\<lambda>ev. ev None) (take n calls) @ [(calls ! n) (Some e)])) \<or>
     out = Returned \<and> t = map (\<lambda>ev. ev None) calls"

lemma fail_stop_Nil: "fail_stop [] [] Returned"
  by (simp add: fail_stop_def)

lemma fail_stop_Cons_fail: "fail_stop (ev # calls) [ev (Some e)] (Exit 1)"
  by (auto simp: fail_stop_def)

lemma fail_stop_Cons_ok:
  assumes "fail_stop calls t out"
  shows "fail_stop (ev # calls) (ev None # t) out"
  using assms unfolding fail_stop_def
proof (elim disjE exE conjE)
  fix n e
  assume "n < length calls" "out = Exit 1"
    "t = map (\<lambda>ev. ev None) (take n calls) @ [(calls ! n) (Some e)]"
  then have "Suc n < length (ev # calls) \<and> out = Exit 1 \<and>
      ev None # t = map (\<lambda>ev. ev None) (take (Suc n) (ev # calls)) @ [((ev # calls) ! Suc n) (Some e)]"
    by simp
  then show "(\<exists>n<length (ev # calls). out = Exit 1 \<and> (\<exists>e. ev None # t =
      map (\<lambda>ev. ev None) (take n (ev # calls)) @ [((ev # calls) ! n) (Some e)])) \<or>
      out = Returned \<and> ev None # t = map (\<lambda>ev. ev None) (ev # calls)"
    by blast
qed simp

lemma or_exit_recorded:
  assumes run: "or_exit (recorded ev m) k (w, t) = (out, w', t')"
    and rest: "\<And>w1 t1. k (w1, t @ [ev None]) = (out, w', t1) \<Longrightarrow>
      \<exists>u. t1 = (t @ [ev None]) @ u \<and> fail_stop calls u out"
  shows "\<exists>u. t' = t @ u \<and> fail_stop (ev # calls) u out"
proof (cases "m w")
  case (Pair r w1)
  show ?thesis
  proof (cases r)
    case None
    with Pair run have "k (w1, t @ [ev None]) = (out, w', t')"
      by (simp add: or_exit_def recorded_def)
    with rest obtain u where "t' = (t @ [ev None]) @ u" "fail_stop calls u out" by blast
    then show ?thesis by (intro exI [of _ "ev None # u"]) (simp add: fail_stop_Cons_ok)
  next
    case (Some e)
    with Pair run have "out = Exit 1" "t' = t @ [ev (Some e)]"
      by (auto simp: or_exit_def recorded_def)
    then show ?thesis using fail_stop_Cons_fail by blast
  qed
qed

lemma main_body_fail_stop:
  assumes "ma_GetConfigOrDie api w = (None, w1)"
    and "main_body (recording api) f (w, []) = (out, w', t)"
  shows "fail_stop (start_calls f) t out"
proof -
  have run: "or_exit (recorded (NewManagerEv (manager_options f)) (ma_NewManager api (manager_options f)))
      (or_exit (recorded (CompleteEv \<lparr>cb_For = ''Kubeshark'', cb_Owns = watched_kinds,
            cb_Named = ''kubeshark''\<rparr>)
          (ma_Complete api \<lparr>cb_For = ''Kubeshark'', cb_Owns = watched_kinds, cb_Named = ''kubeshark''\<rparr>))
        (or_exit (recorded (HealthzEv ''healthz'') (ma_AddHealthzCheck api ''healthz''))
          (or_exit (recorded (ReadyzEv ''readyz'') (ma_AddReadyzCheck api ''readyz''))
            (or_exit (recorded StartEv (ma_Start api)) (\<lambda>w. (Returned, w))))))
      (w1, []) = (out, w', t)"
    using assms by (simp add: main_body_def SetupWithManager_def recording_def)
  have "\<exists>u. t = [] @ u \<and> fail_stop (start_calls f) u out"
    unfolding start_calls_def
    by (rule or_exit_recorded [OF run], erule or_exit_recorded, erule or_exit_recorded,
        erule or_exit_recorded, erule or_exit_recorded) (simp add: fail_stop_Nil)
  then show ?thesis by simp
qed

text \<open>Applying the TLS options of a server to a configuration.\<close>

definition apply_tls :: "(tls_Config \<Rightarrow> tls_Config) list \<Rightarrow> tls_Config \<Rightarrow> tls_Config" where
  "apply_tls opts c = foldl (\<lambda>c f. f c) c opts"

lemma main_is_fail_stop:
  assumes run: "main (recording api) lib z args (w, []) = (out, w', t)"
  shows "case parse_flags lib z args of
      HelpRequested \<Rightarrow> out = Exit 0 \<and> t = []
    | BadFlags \<Rightarrow> out = Exit 2 \<and> t = []
    | Parsed f rest \<Rightarrow>
        (case fst (ma_GetConfigOrDie api w) of
           Some code \<Rightarrow> out = Exit code \<and> t = []
         | None \<Rightarrow> fail_stop (start_calls f) t out) \<and>
        (\<forall>c. tls_NextProtos (apply_tls (wo_TLSOpts (mg_WebhookServer (manager_options f))) c) =
               (if fl_enableHTTP2 f then tls_NextProtos c else [''http/1.1'']) \<and>
             tls_NextProtos (apply_tls (mo_TLSOpts (mg_Metrics (manager_options f))) c) =
               (if fl_enableHTTP2 f then tls_NextProtos c else [''http/1.1''])) \<and>
        (mo_SecureServing (mg_Metrics (manager_options f)) \<longleftrightarrow>
           mo_FilterProvider (mg_Metrics (manager_options f)) = Some WithAuthenticationAndAuthorization)"
proof (cases "parse_flags lib z args")
  case (Parsed f rest)
  have servers: "wo_TLSOpts (mg_WebhookServer (manager_options f)) = tlsOpts f"
    "mo_TLSOpts (mg_Metrics (manager_options f)) = tlsOpts f"
    "mo_SecureServing (mg_Metrics (manager_options f)) = fl_secureMetrics f"
    "mo_FilterProvider (mg_Metrics (manager_options f)) =
      (if fl_secureMetrics f then Some WithAuthenticationAndAuthorization else None)"
    by (simp_all add: manager_options_def webhookServerOptions_def metricsServerOptions_def Let_def)
  have protos: "tls_NextProtos (apply_tls (tlsOpts f) c) =
      (if fl_enableHTTP2 f then tls_NextProtos c else [''http/1.1''])" for c
    by (simp add: apply_tls_def tlsOpts_def disableHTTP2_def)
  have body: "main_body (recording api) f (w, []) = (out, w', t)"
    using run Parsed by (simp add: main_def)
  obtain r w1 where cfg: "ma_GetConfigOrDie api w = (r, w1)" by (metis prod.exhaust)
  have "case r of Some code \<Rightarrow> out = Exit code \<and> t = [] | None \<Rightarrow> fail_stop (start_calls f) t out"
  proof (cases r)
    case None
    with main_body_fail_stop [OF _ body] cfg show ?thesis by simp
  next
    case (Some code)
    with body cfg show ?thesis by (simp add: main_body_def recording_def)
  qed
  with Parsed cfg servers protos show ?thesis by simp
qed (use run in \<open>simp_all add: main_def\<close>)

text \<open>
  C40: start-up. A type that cannot be registered is a panic before anything else. Bad arguments end the process with code 2 (a request for help with 0) before
  anything is called. Otherwise the five calls (manager, controller, health check, ready check, start)
  are made in this order, the first failure ends the process with code 1, and \<open>main\<close> returns only
  after a clean stop; so the manager is never started without its controller and both checks. Unless
  HTTP/2 is asked for, both servers offer HTTP/1.1 only, and a secure metrics server always
  authenticates and authorises its clients.
\<close>

theorem startup_is_fail_stop:
  assumes run: "process (recording api) lib z args (w, []) = (out, w', t)"
  shows "case and_then (ma_AddClientGo api)
      (ma_AddTypes api SchemeGroupVersion [''Kubeshark'', ''KubesharkList'']) w of
      (Some err, _) \<Rightarrow> out = Panicked \<and> t = []
    | (None, w1) \<Rightarrow> (case parse_flags lib z args of
          HelpRequested \<Rightarrow> out = Exit 0 \<and> t = []
        | BadFlags \<Rightarrow> out = Exit 2 \<and> t = []
        | Parsed f rest \<Rightarrow>
            (case fst (ma_GetConfigOrDie api w1) of
               Some code \<Rightarrow> out = Exit code \<and> t = []
             | None \<Rightarrow> fail_stop (start_calls f) t out) \<and>
            (\<forall>c. tls_NextProtos (apply_tls (wo_TLSOpts (mg_WebhookServer (manager_options f))) c) =
                   (if fl_enableHTTP2 f then tls_NextProtos c else [''http/1.1'']) \<and>
                 tls_NextProtos (apply_tls (mo_TLSOpts (mg_Metrics (manager_options f))) c) =
                   (if fl_enableHTTP2 f then tls_NextProtos c else [''http/1.1''])) \<and>
            (mo_SecureServing (mg_Metrics (manager_options f)) \<longleftrightarrow>
               mo_FilterProvider (mg_Metrics (manager_options f)) = Some WithAuthenticationAndAuthorization))"
proof -
  let ?reg = "and_then (ma_AddClientGo api)
    (ma_AddTypes api SchemeGroupVersion [''Kubeshark'', ''KubesharkList''])"
  have "process (recording api) lib z args (w, []) =
      (case ?reg w of (Some err, w1) \<Rightarrow> (Panicked, w1, [])
       | (None, w1) \<Rightarrow> main (recording api) lib z args (w1, []))"
    by (auto simp: process_def must_def and_then_def recording_def registered_builder_def
        SchemeBuilder_def split: prod.splits option.splits)
  with run show ?thesis
    using main_is_fail_stop [of api lib z args _ out w' t]
    by (cases "?reg w"; cases "fst (?reg w)") auto
qed

text \<open>A manager that refuses the ready check.\<close>

definition unready_manager :: "(unit, string) manager_api" where
  "unready_manager = \<lparr>ma_AddClientGo = return_nil, ma_AddTypes = (\<lambda>gv ks. return_nil),
     ma_GetConfigOrDie = (\<lambda>w. (None, w)), ma_NewManager = (\<lambda>opts. return_nil),
     ma_Complete = (\<lambda>b. return_nil), ma_AddHealthzCheck = (\<lambda>n. return_nil),
     ma_AddReadyzCheck = (\<lambda>n w. (Some (LibError ''started already''), w)),
     ma_Start = return_nil\<rparr>"

theorem startup_is_fail_stop_witness:
  "\<exists>w' t. process (recording unready_manager) (\<lambda>_. None) () deployed_args ((), []) = (Exit 1, w', t) \<and>
     (\<forall>e. StartEv e \<notin> set t)"
proof -
  obtain out w' t where run: "process (recording unready_manager) (\<lambda>_. None) () deployed_args ((), []) =
      (out, w', t)"
    by (metis prod.exhaust)
  have "out = Exit 1 \<and> (\<forall>e. StartEv e \<notin> set t)"
    using run
    by (auto simp: process_def must_def main_def parse_deployed main_body_def SetupWithManager_def recording_def unready_manager_def or_exit_def
        recorded_def return_nil_def)
  with startup_is_fail_stop [OF run] run show ?thesis by blast
qed

section \<open>Names of the API group\<close>

text \<open>
  The group of the registered types is the group of the finalizer and the group in the RBAC markers,
  and its plural resource is the one the markers grant.
\<close>

lemma api_group_consistent:
  "take (length (gv_Group SchemeGroupVersion)) finalizerName = gv_Group SchemeGroupVersion"
  "gv_Group GroupVersion_alias = gv_Group SchemeGroupVersion"
  "list_all (\<lambda>verb. allowed manager_rules (verb, gv_Group SchemeGroupVersion, ''kubesharks''))
     [''get'', ''list'', ''watch'', ''update'', ''patch'']"
  by (simp_all add: SchemeGroupVersion_def GroupVersion_alias_def finalizerName_def allowed_def
      manager_rules_def matches_rule_def all_verbs_def zero_PolicyRule_def)

end
