(* ===== verification/Spec2Isabelle.thy ===== *)
theory Spec2Isabelle
  imports RefRuns Wiring Bounds Interference LegacyFacts DeepCopyFacts MainFacts
begin

text \<open>
  A model of the Kubeshark operator, a Kubernetes controller written in Go with controller-runtime,
  and the theorems that make it correct. The operator watches custom resources of kind \<open>Kubeshark\<close>;
  for each it keeps a fixed set of twelve child objects (a ConfigMap, two ServiceAccounts, two
  Deployments, two Services, a DaemonSet, an Ingress, a Secret, a ClusterRole and a
  ClusterRoleBinding) on the API server as the resource asks, and reports in the resource's status.

  \<^bold>\<open>Parts and theories.\<close>

  \<^item> \<open>Prelude\<close>: Go idioms (errors with a chain of wrapped causes, fail-stop sequencing \<open>and_then\<close>,
    \<open>wrap_err\<close>, \<open>run_all\<close>, relations every action keeps) and shared lemmas.
  \<^item> \<open>K8sTypes\<close>, \<open>KubesharkTypes\<close>: the Kubernetes types with the fields the source names (other fields
    are kept as an uninterpreted rest), and \<open>api/v1beta1/kubeshark_types.go\<close>.
  \<^item> \<open>ClientApi\<close>: the API client and \<open>controllerutil\<close>, which are not part of the repository, as a
    record \<open>api\<close> of functions over a state \<open>'w\<close>; their documented behaviour as named laws relative to
    a view of the server (\<open>lawful\<close>). \<open>create_or_update\<close> is the one way objects are written.
    \<open>Admission\<close>: what a server makes of an object before it stores it, as a contract (\<open>admission\<close>)
    that leaves room for defaulting and for the write-only \<open>stringData\<close> of a Secret.
  \<^item> \<open>Helpers\<close> (\<open>internal/controller/helpers.go\<close>): defaults, labels, names.
  \<^item> \<open>ManagedObject\<close>: the contract of a child as the locales \<open>managed_object\<close> and \<open>owned_object\<close>:
    convergence, stability under repetition, ownership, proved once and interpreted for each of the
    twelve children in \<open>Hub\<close>, \<open>Rbac\<close>, \<open>Worker\<close>, \<open>Frontend\<close>, \<open>SecretStep\<close>
    (\<open>hub.go\<close>, \<open>rbac.go\<close>, \<open>worker.go\<close>, \<open>frontend.go\<close>, \<open>secret.go\<close>). For a child X, \<open>X_fill\<close> are the
    assignments of its mutate function, \<open>X_mutate\<close> the function, \<open>X_child\<close> the arguments of the call,
    \<open>reconcileX\<close> the Go function and \<open>X_desired\<close> what the child promises.
  \<^item> \<open>Status\<close>, \<open>Finalizer\<close>, \<open>Controller\<close> (\<open>status.go\<close>, \<open>finalizer.go\<close>,
    \<open>kubeshark_controller.go\<close>): the Ready condition, the removal of the cluster-scoped objects, and
    \<open>Reconcile\<close>, one pass of the loop with every early return. \<open>Permissions\<close> holds the RBAC markers,
    the requests a pass makes, and the check a server makes on the rules of a role.
  \<^item> \<open>Trace\<close>, \<open>PassTraces\<close>: a client that records its calls, and which sequences of calls a pass makes.
  \<^item> \<open>Convergence\<close>, \<open>Effects\<close>: the flat plan of a pass, what a successful pass leaves behind, what a
    pass cannot touch. \<open>Lifecycle\<close>: all worlds reachable by passes, users and the API server
    (\<open>reachable\<close>), with the invariant behind C1. \<open>Interference\<close>: a pass during which others act
    between any two of its calls, and the same invariant there (\<open>reachable_shared\<close>). \<open>Liveness\<close>:
    servers without faults (\<open>prompt\<close>), with what they refuse as a parameter.
  \<^item> \<open>Wiring\<close>: which objects a child names, and fields of the resource that no child depends on.
    \<open>Bounds\<close>: the numbers the operator writes, at their Go widths, against the ranges of the API.
  \<^item> \<open>Legacy\<close>, \<open>LegacyWorker\<close>, \<open>LegacyFacts\<close> (\<open>utils.go\<close>): the earlier functions that nothing calls
    any more, and how they differ from the live ones.
  \<^item> \<open>GoHeap\<close>, \<open>DeepCopy\<close>, \<open>DeepCopyFacts\<close> (\<open>api/v1beta1/zz_generated.deepcopy.go\<close>): the generated
    copies over a heap of addresses; the locale \<open>deep_copier\<close> is the contract of a deep copy.
  \<^item> \<open>GoFlags\<close>, \<open>ManagerMain\<close>, \<open>MainFacts\<close> (\<open>cmd/main.go\<close>, \<open>groupversion_info.go\<close>): flags, options of
    the servers, registration of the types, the start-up sequence.
  \<^item> \<open>RefCluster\<close>, \<open>RefScreened\<close>, \<open>RefRuns\<close>: a concrete cluster that meets every law, the same with
    a policy (and so a server with RBAC), and runs of the operator on them; they instantiate the
    hypotheses of the theorems and no theorem about the operator rests on them.

  \<^bold>\<open>What the theorems show.\<close> Cluster-scoped objects never outlive their resource, as long as nobody
  renames them, makes them or takes the finalizer off by hand, and deletion is complete, ordered and
  fail-stop (C1 to C3). A pass that ends without error has delivered all twelve children and said so;
  the next pass changes nothing; calls come in plan order, once each, and only when the resource allows
  them (C4 to C8). On a server without faults that accepts its objects a new resource is reconciled by
  its second pass, and one pass finishes a dying one (C9, C10). Failures are visible and the status
  tells the outcome (C11, C16, C27). Children are owned and watched, references resolve, names collide
  only in known ways, a pass stays within its plan (C12 to C15, C19, C20, C29); what a changed name
  does (C17, C18). Permissions suffice for what the operator does (C21) and not for what it grants: on
  a server with RBAC the default role is refused (C22). Selectors, pod template, Secret, Ingress (C23
  to C26). Numbers are in range (C28). The legacy code against the live one (C30 to C35), deep copies
  (C36 to C38), the entry point (C39, C40).

  \<^bold>\<open>Assumptions and bounds.\<close> Integers have their Go width (\<open>int32\<close>, \<open>int64\<close> as words); no loop needs fuel:
  every loop of the source runs over a list, and the recursions here are structural. A nil map differs
  from an empty one; a nil slice and an empty one are identified, for the code only asks for lengths.
  The twelve objects of a pass share one labels map in Go; it is never written after
  \<open>componentLabels\<close> made it, so the model passes it by value. \<open>setReadyCondition\<close> compares with a deep
  copy; C36 and C37 justify keeping the value. A name given twice in a resource (two overrides for
  objects of one kind) makes two children share a key: theorems about all children assume distinct
  keys, and C14 says when they are. Hypotheses of a theorem are the laws it names; each such theorem
  has an instance on a reference cluster. The deletion law is read for objects without finalizers of
  their own, which holds for the two objects the operator deletes unless someone adds one. No theorem
  assumes that the server stores what it is sent: C4, C12 and C13 speak of the admitted form of what
  was submitted, C5 assumes \<open>admission\<close>, C26, C33 and C34 the part of it they name. Of the checks on
  the author of a role, the one on new rules is modelled (\<open>escalation_checked\<close>, C22); the one on
  bindings (\<open>bind\<close>) comes after it and is not.

  \<^bold>\<open>Not modelled.\<close> Logging, contexts and cancellation; the work queue, caches and leader election of
  controller-runtime, and so the timing of passes. C1 covers steps of users and of the server between
  any two calls of a pass; C3, C6, C7, C27 and C29 hold for every client, so for \<open>interfered\<close> ones
  as well; the theorems on what a pass achieves (C2, C4, C5, C9, C10) are about a pass that no one
  disturbs. Not modelled either: JSON
  encoding and the OpenAPI schema of the custom resource (the types themselves have every field, with
  \<open>TypeMeta\<close> and \<open>ListMeta\<close>); the tests, the end-to-end utilities and the
  YAML manifests, except the RBAC rules and the manager's arguments, which are taken from the source.
  \<open>utils.go\<close> declares four functions a second time and uses one that does not exist, so the package
  does not compile as it stands; each file is modelled on its own.
\<close>

section \<open>Cluster-scoped objects and the finalizer\<close>

text \<open>
  C1: no orphans. Take the two names of the cluster-scoped objects of a resource, and start where
  neither the resource nor the two objects exist. However the API calls of passes over the resource
  are interleaved with what others do, in every reachable state a ClusterRole or ClusterRoleBinding of
  these names exists only while the resource exists and carries the operator's finalizer. Others are
  users, the API server, and the operator at work on other
  resources; they may do anything, except (\<open>user_step\<close>) make an object with one of the two names,
  give the resource other names (C17 shows what a renaming does), or take the operator's finalizer
  off. That a pass over another resource, with other names, is among these steps is
  \<open>other_pass_user_step\<close>. The garbage collector cannot remove the two objects (they have no owner
  reference), so this is what keeps them from outliving the resource.
\<close>

theorem no_orphaned_cluster_rbac:
  assumes "lawful api vw" and "reachable_shared api vw nn R B w"
    and "v_obj vw w (Key ClusterRoleKind '''' R) \<noteq> None \<or>
         v_obj vw w (Key ClusterRoleBindingKind '''' B) \<noteq> None"
  shows "\<exists>c. v_cr vw w nn = Some c \<and> finalizerName \<in> set (ks_Finalizers c) \<and>
    clusterRoleName c = R \<and> clusterRoleBindingName c = B"
  using reachable_shared_no_orphan [OF assms(1,2)] assms(3)
  by (auto simp: no_orphan_def named_def guarded_def cluster_rbac_absent_def)

theorem no_orphaned_cluster_rbac_witness:
  "\<exists>w c. reachable_shared (ref_api []) ref_view sample_key sample_role sample_role w \<and>
     v_obj ref_view w (Key ClusterRoleKind '''' sample_role) \<noteq> None \<and>
     v_cr ref_view w sample_key = Some c \<and> finalizerName \<in> set (ks_Finalizers c)"
proof -
  obtain w where r: "reachable (ref_api []) ref_view sample_key sample_role sample_role w"
    and o: "v_obj ref_view w (Key ClusterRoleKind '''' sample_role) \<noteq> None"
    by (rule sample_reachable)
  note s = reachable_imp_shared [OF r]
  from no_orphaned_cluster_rbac [OF ref_lawful s disjI1 [OF o]] s o show ?thesis by blast
qed

text \<open>
  C2: deletion is complete and touches nothing else. A pass over a resource that is being deleted
  and that ends without error has removed both cluster-scoped objects and has left every other
  object as it was; the resource is gone when the operator's finalizer was the last one.
\<close>

theorem successful_deletion:
  assumes "lawful api vw" and "v_cr vw w nn = Some cr" and "dying cr"
    and "Reconcile api nn w = ((res, None), w')"
  shows "cluster_rbac_absent vw (clusterRoleName cr) (clusterRoleBindingName cr) w' \<and>
    (\<forall>k. k \<noteq> Key ClusterRoleKind '''' (clusterRoleName cr) \<and>
         k \<noteq> Key ClusterRoleBindingKind '''' (clusterRoleBindingName cr) \<longrightarrow>
         v_obj vw w' k = v_obj vw w k) \<and>
    (ks_Finalizers cr = [finalizerName] \<longrightarrow> v_cr vw w' nn = None)"
  using dying_pass [OF assms] by blast

theorem successful_deletion_witness:
  "\<exists>w'. Reconcile (ref_api []) sample_key (holding [deleted_sample]) = ((empty_Result, None), w') \<and>
     v_cr ref_view w' sample_key = None"
proof -
  obtain w' where run: "Reconcile (ref_api []) sample_key (holding [deleted_sample]) =
      ((empty_Result, None), w')"
    by (rule deleted_sample_pass)
  from successful_deletion [OF ref_lawful sample_stored(3) deleted_sample_dying run] run
  show ?thesis by (simp add: sample_state)
qed

text \<open>
  C3: order of a deletion pass, for every API client. The finalizer is taken off by the one update
  of the pass, and that update is sent only after both deletions were answered with success or "not
  found"; the first other answer ends the pass. Any failure is reported once, as DeleteFailed.
\<close>

theorem deletion_pass_events:
  assumes get: "api_Get api nn w = ((None, cr), w1)"
    and del: "\<not> api_IsZero api (ks_DeletionTimestamp cr)"
    and fin: "api_ContainsFinalizer api cr finalizerName"
    and run: "Reconcile (traced api) nn (w, []) = ((res, err), w', t)"
  shows "(\<exists>rs u cr' rep. length rs = 2 \<and> list_all (deleted api) rs \<and> err = u \<and>
      t = GetEv nn None # removal_events cr rs @
          UpdateEv (api_RemoveFinalizer api cr finalizerName) u # rep \<and>
      report api cr' ''DeleteFailed'' u rep) \<or>
    (\<exists>rs e rep. rs \<noteq> [] \<and> length rs \<le> 2 \<and> last rs = Some e \<and> \<not> api_IsNotFound api e \<and>
      list_all (deleted api) (butlast rs) \<and> err = Some e \<and>
      t = GetEv nn None # removal_events cr rs @ rep \<and>
      report api cr ''DeleteFailed'' (Some e) rep)"
proof -
  note tget = traced_get_Some [OF get, of "[]"]
  obtain d cr' w2 t2 where rd: "reconcileDelete (traced api) cr (w1, [GetEv nn None]) =
      ((d, cr'), w2, t2)"
    by (metis prod.exhaust)
  have rep: "err = d \<and> (\<exists>rep. t = t2 @ rep \<and> report api cr' ''DeleteFailed'' d rep)"
  proof (cases d)
    case None
    with run tget del rd show ?thesis by (simp add: Reconcile_def report_def)
  next
    case (Some e)
    obtain r y where st: "setReadyCondition (traced api) cr' False ''DeleteFailed''
        (err_Error api e) (w2, t2) = (r, y)"
      by (metis prod.exhaust)
    with run tget del rd Some have "y = (w', t)" "err = Some e"
      by (simp_all add: Reconcile_def)
    with st Some show ?thesis by (auto simp: report_def elim: traced_setReadyE)
  qed
  from rd show ?thesis
  proof (cases rule: traced_reconcileDelete)
    case untouched
    with fin show ?thesis by simp
  next
    case (removed rs)
    with rep show ?thesis by (intro disjI1) fastforce
  next
    case (stopped rs e)
    with rep show ?thesis by (intro disjI2) fastforce
  qed
qed

theorem deletion_pass_events_witness:
  "\<exists>w' t rs u cr' rep. Reconcile (traced (ref_api [])) sample_key (holding [deleted_sample], []) =
      ((empty_Result, u), w', t) \<and>
    t = GetEv sample_key None # removal_events deleted_sample rs @ rep \<and>
    (report (ref_api []) cr' ''DeleteFailed'' u rep \<or>
     (\<exists>rep'. rep = UpdateEv (api_RemoveFinalizer (ref_api []) deleted_sample finalizerName) u # rep'
        \<and> report (ref_api []) cr' ''DeleteFailed'' u rep'))"
proof -
  obtain res err w' t where run: "Reconcile (traced (ref_api [])) sample_key
      (holding [deleted_sample], []) = ((res, err), w', t)"
    by (metis prod.exhaust)
  have res: "res = empty_Result"
    using Reconcile_result [of "traced (ref_api [])" sample_key "(holding [deleted_sample], [])"] run
    by simp
  from deletion_pass_events [OF sample_read(3) sample_tests(5,6) run] run res show ?thesis
    by (elim disjE exE conjE) blast+
qed

section \<open>What a pass achieves\<close>

text \<open>
  C4: convergence. A pass over a resource that has the finalizer and is not being deleted, and that
  ends without error, leaves every one of the twelve children on the server with the content its
  specification asks for (\<open>promises\<close>), and the resource's status says so: the Ready condition is
  True for the generation that was read.
\<close>

theorem successful_pass_delivers:
  assumes law: "lawful api vw" and cr: "v_cr vw w nn = Some cr" and pl: "plain cr"
    and dist: "distinct (plan_keys cr)" and run: "Reconcile api nn w = ((res, None), w')"
  shows "list_all (delivers vw w') (promises cr (componentLabels cr)) \<and>
    (\<exists>c d. v_cr vw w' nn = Some c \<and> same_spec_meta cr c \<and>
       st_ObservedGeneration (ks_Status c) = ks_Generation cr \<and>
       find_condition ''Ready'' (st_Conditions (ks_Status c)) = Some d \<and>
       cond_Status d = ConditionTrue \<and> cond_Reason d = ''Reconciled'' \<and>
       cond_ObservedGeneration d = ks_Generation cr)"
proof -
  obtain w1 w2 where crs: "v_cr vw w2 = v_cr vw w" and objs: "v_obj vw w' = v_obj vw w2"
    and kids: "run_all (map (run_child api) (all_children api cr (componentLabels cr))) w1 =
      (None, w2)"
    and st: "setReadyCondition api cr True ''Reconciled'' ''All components reconciled'' w2 = (None, w')"
    by (rule successful_run [OF law cr pl run])
  have "list_all (delivers vw w') (promises cr (componentLabels cr))"
    using run_plan_delivers [OF law dist kids] objs by (simp add: list_all_iff delivers_def)
  moreover have "ks_key cr = nn" by (rule stored_key [OF law cr run])
  ultimately show ?thesis
    using status_written [OF law _ st] crs cr by fastforce
qed

theorem successful_pass_delivers_witness:
  "\<exists>w'. Reconcile (ref_api []) sample_key (holding [sample]) = ((empty_Result, None), w') \<and>
     list_all (delivers ref_view w') (promises sample (componentLabels sample))"
proof -
  obtain w' where run: "Reconcile (ref_api []) sample_key (holding [sample]) =
      ((empty_Result, None), w')"
    by (rule sample_pass)
  from successful_pass_delivers [OF ref_lawful sample_stored(1) sample_plain sample_plan_distinct
      run] run
  show ?thesis by blast
qed

text \<open>
  C5: idempotence. If the server admits objects as Kubernetes documents it (\<open>admission\<close>: defaulting is
  idempotent, identity and owner references are kept, \<open>stringData\<close> of a Secret goes into \<open>data\<close>), the
  pass that follows a successful one finds every child settled: whatever its outcome, it leaves every
  object of the cluster as it was.
\<close>

theorem second_pass_changes_nothing:
  assumes law: "lawful api vw" and adm: "admission (v_admit vw)"
    and cr: "v_cr vw w nn = Some cr" and pl: "plain cr" and dist: "distinct (plan_keys cr)"
    and run: "Reconcile api nn w = ((res, None), w')" and again: "Reconcile api nn w' = (r, w'')"
  shows "v_obj vw w'' = v_obj vw w'"
proof -
  note laws = lawfulD [OF law]
  obtain w1 w2 where crs: "v_cr vw w2 = v_cr vw w" and objs: "v_obj vw w' = v_obj vw w2"
    and kids: "run_all (map (run_child api) (all_children api cr (componentLabels cr))) w1 =
      (None, w2)"
    and st: "setReadyCondition api cr True ''Reconciled'' ''All components reconciled'' w2 = (None, w')"
    by (rule successful_run [OF law cr pl run])
  obtain c where c: "v_cr vw w' nn = Some c" and same: "same_spec_meta cr c"
    using cr_keptD [OF setReadyCondition_kept(1) [OF laws(7) st]] crs cr by metis
  have pl': "plain c" using pl same by (simp add: plain_def same_spec_meta_def)
  have settled: "\<forall>d \<in> set (all_children api c (componentLabels c)). settled vw w' d"
    using run_plan_settles [OF law adm dist _ kids, of c] same
    by (simp add: same_spec_meta_def same_resource_def componentLabels_def settled_cong [OF objs])
  have quiet: "v_obj vw y = v_obj vw w'"
    if "run_all (map (run_child api) (all_children api c (componentLabels c))) x = (s, y)"
      and "v_obj vw x = v_obj vw w'" for x y s
    using settled_run_all [OF laws(9) _ that(1)] settled that(2)
    by (simp add: settled_cong [OF that(2)])
  obtain res' err where r: "r = (res', err)" by (cases r)
  from law c pl' again [unfolded r] show ?thesis
  proof (cases rule: Reconcile_plain)
    case (failed x e y s)
    then show ?thesis
      using quiet [OF failed(3,2)] setReadyCondition_frame(1) [OF laws(7) failed(4)] by simp
  next
    case (applied x y)
    then show ?thesis
      using quiet [OF applied(3,2)] setReadyCondition_frame(1) [OF laws(7) applied(4)] by simp
  qed
qed

theorem second_pass_changes_nothing_witness:
  "\<exists>w' w'' r. Reconcile (ref_api []) sample_key (holding [sample]) = ((empty_Result, None), w') \<and>
     Reconcile (ref_api []) sample_key w' = (r, w'') \<and> v_obj ref_view w'' = v_obj ref_view w'"
proof -
  obtain w' where run: "Reconcile (ref_api []) sample_key (holding [sample]) =
      ((empty_Result, None), w')"
    by (rule sample_pass)
  obtain r w'' where again: "Reconcile (ref_api []) sample_key w' = (r, w'')"
    by (metis prod.exhaust)
  from second_pass_changes_nothing [OF ref_lawful ref_view_admission sample_stored(1) sample_plain
      sample_plan_distinct run again] run again
  show ?thesis by blast
qed


section \<open>The calls of a pass\<close>

text \<open>
  C6: order and fail-stop of an applying pass, for every API client. The twelve children are
  applied in the order of the plan, one call each; the first failure ends the sequence; the pass
  makes exactly one status patch, at the end, and returns the failure (wrapped at most) or the
  error of the patch.
\<close>

theorem apply_pass_events:
  assumes get: "api_Get api nn w = ((None, cr), w1)"
    and z: "api_IsZero api (ks_DeletionTimestamp cr)"
    and fin: "api_ContainsFinalizer api cr finalizerName"
    and run: "Reconcile (traced api) nn (w, []) = ((res, err), w', t)"
  shows "(\<exists>p. t = GetEv nn None # map (\<lambda>k. ApplyEv k None) (plan_keys cr) @
         [PatchEv (with_ready api cr True ''Reconciled'' ''All components reconciled'') cr p] \<and>
       (err = None \<longleftrightarrow> p = None)) \<or>
    (\<exists>pre k post e e0 p. plan_keys cr = pre @ k # post \<and>
       t = GetEv nn None # map (\<lambda>k. ApplyEv k None) pre @
         [ApplyEv k (Some e0),
          PatchEv (with_ready api cr False ''ReconcileError'' (err_Error api e)) cr p] \<and>
       err = Some e \<and> error_cause e = error_cause e0)"
  using get z fin run
proof (cases rule: traced_apply_pass)
  case (applied w2 p)
  then show ?thesis by (intro disjI1 exI conjI)
next
  case (failed pre k post e e0 w2 s p)
  then show ?thesis by (intro disjI2 exI conjI)
qed

theorem apply_pass_events_witness:
  "\<exists>w' t p. Reconcile (traced (ref_api [])) sample_key (holding [sample], []) =
       ((empty_Result, None), w', t) \<and>
     t = GetEv sample_key None # map (\<lambda>k. ApplyEv k None) (plan_keys sample) @
       [PatchEv (with_ready (ref_api []) sample True ''Reconciled''
          ''All components reconciled'') sample p]"
proof -
  obtain res err w' t where run: "Reconcile (traced (ref_api [])) sample_key
      (holding [sample], []) = ((res, err), w', t)"
    by (metis prod.exhaust)
  obtain x where "Reconcile (ref_api []) sample_key (holding [sample]) = ((empty_Result, None), x)"
    by (rule sample_pass)
  with traced_Reconcile_erase [OF run] have "err = None" by simp
  moreover have "res = empty_Result"
    using Reconcile_result [of "traced (ref_api [])" sample_key "(holding [sample], [])"] run
    by simp
  ultimately show ?thesis
    using apply_pass_events [OF sample_read(1) sample_tests(1,2) run] run by auto
qed

text \<open>
  C7: gates. For every API client: if a pass applies an object, it read a resource with the
  finalizer and without a deletion time, and the object is in that resource's plan; if a pass
  deletes an object, it read a resource with the finalizer and a deletion time, and the object is
  one of its two cluster-scoped objects.
\<close>

theorem calls_are_gated:
  assumes run: "Reconcile (traced api) nn (w, []) = ((res, err), w', t)"
  shows "(ApplyEv k r \<in> set t \<longrightarrow>
      (\<exists>cr w1. api_Get api nn w = ((None, cr), w1) \<and> api_IsZero api (ks_DeletionTimestamp cr) \<and>
         api_ContainsFinalizer api cr finalizerName \<and> k \<in> set (plan_keys cr))) \<and>
    (DeleteEv k r \<in> set t \<longrightarrow>
      (\<exists>cr w1. api_Get api nn w = ((None, cr), w1) \<and> \<not> api_IsZero api (ks_DeletionTimestamp cr) \<and>
         api_ContainsFinalizer api cr finalizerName \<and>
         k \<in> object_key ` set (cluster_objects cr)))"
  by (rule traced_pass_gates [OF run])

theorem calls_are_gated_witness:
  "\<exists>r w' t. Reconcile (traced (ref_api [])) sample_key (holding [sample], []) = (r, w', t) \<and>
     (\<forall>k e. ApplyEv k e \<in> set t \<longrightarrow> k \<in> set (plan_keys sample)) \<and> (\<forall>k e. DeleteEv k e \<notin> set t)"
proof -
  obtain res err w' t where run: "Reconcile (traced (ref_api [])) sample_key
      (holding [sample], []) = ((res, err), w', t)"
    by (metis prod.exhaust)
  from calls_are_gated [OF run] sample_read(1) sample_tests(1)
  have "(ApplyEv k e \<in> set t \<longrightarrow> k \<in> set (plan_keys sample)) \<and> DeleteEv k e \<notin> set t" for k e
    by fastforce
  with run show ?thesis by blast
qed

text \<open>
  C8: the first pass over a new resource sends one update, which adds the finalizer and changes
  nothing else, and no other write: no child exists before the finalizer does.
\<close>

theorem first_pass_events:
  assumes get: "api_Get api nn w = ((None, cr), w1)"
    and z: "api_IsZero api (ks_DeletionTimestamp cr)"
    and fin: "\<not> api_ContainsFinalizer api cr finalizerName"
    and run: "Reconcile (traced api) nn (w, []) = ((res, err), w', t)"
  shows "t = [GetEv nn None, UpdateEv (api_AddFinalizer api cr finalizerName) err]"
proof -
  obtain u cr' w2 t2 where up: "api_Update (traced api) (api_AddFinalizer api cr finalizerName)
      (w1, [GetEv nn None]) = ((u, cr'), w2, t2)"
    by (metis prod.exhaust)
  with run z fin traced_get_Some [OF get, of "[]"] have "u = err" "t2 = t"
    by (cases u; simp add: Reconcile_def)+
  with traced_update [OF up] show ?thesis by simp
qed

theorem first_pass_events_witness:
  "\<exists>r w' t. Reconcile (traced (ref_api [])) sample_key (holding [fresh_sample], []) = (r, w', t) \<and>
     t = [GetEv sample_key None,
          UpdateEv (api_AddFinalizer (ref_api []) fresh_sample finalizerName) (snd r)]"
proof -
  obtain res err w' t where run: "Reconcile (traced (ref_api [])) sample_key
      (holding [fresh_sample], []) = ((res, err), w', t)"
    by (metis prod.exhaust)
  from first_pass_events [OF sample_read(2) sample_tests(3,4) run] run show ?thesis by simp
qed

section \<open>Progress\<close>

text \<open>
  C9: progress. Take a server without faults: it refuses an object only for a reason that lies in the
  object and in what is stored under its key (the policy \<open>accepts\<close>: validation, fields that cannot
  change, the check of what a role grants). If it accepts the twelve objects of a new resource, and none
  of them is under another controller, the resource is reconciled by its second pass: the first adds
  the finalizer, the second ends without error and delivers every child.
\<close>

theorem two_passes_suffice:
  assumes law: "lawful api vw" and pr: "prompt api vw accepts" and cr: "v_cr vw w nn = Some cr"
    and fr: "fresh cr" and dist: "distinct (plan_keys cr)" and us: "unclaimed vw cr w"
    and ok: "\<And>c. same_resource cr c \<Longrightarrow>
      list_all (acceptable vw accepts w) (all_children api c (componentLabels c))"
  shows "\<exists>w1 w2. Reconcile api nn w = ((empty_Result, None), w1) \<and>
    Reconcile api nn w1 = ((empty_Result, None), w2) \<and>
    list_all (delivers vw w2) (promises cr (componentLabels cr))"
proof -
  obtain w1 c where one: "Reconcile api nn w = ((empty_Result, None), w1)"
    and c: "v_cr vw w1 nn = Some c" and same: "same_resource cr c"
    and del: "ks_DeletionTimestamp c = None"
    and fin: "ks_Finalizers c = ks_Finalizers cr @ [finalizerName]"
    and objs: "v_obj vw w1 = v_obj vw w"
    by (rule prompt_first_pass [OF law promptD(1) [OF pr] cr]) (use fr in \<open>auto simp: fresh_def\<close>)
  have pl: "plain c" using del fin by (simp add: plain_def)
  have us': "unclaimed vw c w1" and dist': "distinct (plan_keys c)"
    using us dist unclaimed_same [OF same objs] same_resource_plan [OF same] by simp_all
  have ok': "list_all (acceptable vw accepts w1) (all_children api c (componentLabels c))"
    using ok [OF same] objs by (simp add: list_all_iff acceptable_cong [where w' = w1 and w = w])
  obtain w2 where two: "Reconcile api nn w1 = ((empty_Result, None), w2)"
    using prompt_pass [OF law pr c del _ us' dist' ok'] fin by auto
  obtain x1 x2 where kids:
      "run_all (map (run_child api) (all_children api c (componentLabels c))) x1 = (None, x2)"
    and o2: "v_obj vw w2 = v_obj vw x2"
    by (rule successful_run [OF law c pl two])
  have "list_all (delivers vw w2) (promises c (componentLabels c))"
    using run_plan_delivers [OF law dist' kids] o2 by (simp add: list_all_iff delivers_def)
  then show ?thesis
    using one two by (auto simp: same_resource_promises [OF same])
qed

text \<open>A server with RBAC, and a resource that asks for a role the operator may grant.\<close>

theorem two_passes_suffice_witness:
  "\<exists>w1 w2. Reconcile strict_api sample_key (holding [fresh_modest]) = ((empty_Result, None), w1) \<and>
     Reconcile strict_api sample_key w1 = ((empty_Result, None), w2)"
proof -
  have "v_cr ref_view (holding [fresh_modest]) sample_key = Some fresh_modest"
    by (simp add: holding_def modest_state)
  from two_passes_suffice [OF strict_server this modest_state(4,5) holding_unclaimed modest_acceptable]
  show ?thesis by blast
qed

text \<open>
  C10: deletion makes progress. If the server answers its calls, one pass over a resource that is being
  deleted and has the operator's finalizer ends without error and removes its cluster-scoped objects.
  The resource itself is removed if it carried no other finalizer; otherwise it is left with exactly
  the other ones.
\<close>

theorem deletion_in_one_pass:
  assumes law: "lawful api vw" and pr: "prompt_calls api vw" and cr: "v_cr vw w nn = Some cr"
    and dy: "dying cr"
  shows "\<exists>w'. Reconcile api nn w = ((empty_Result, None), w') \<and>
    cluster_rbac_absent vw (clusterRoleName cr) (clusterRoleBindingName cr) w' \<and>
    (let rest = filter (\<lambda>f. f \<noteq> finalizerName) (ks_Finalizers cr) in
       if rest = [] then v_cr vw w' nn = None
       else (\<exists>c. v_cr vw w' nn = Some c \<and> same_resource cr c \<and> ks_Finalizers c = rest))"
proof -
  obtain w' where run: "Reconcile api nn w = ((empty_Result, None), w')"
    by (rule prompt_delete_pass [OF law pr cr]) (use dy in \<open>simp_all add: dying_def\<close>)
  from dying_pass [OF law cr dy this] run show ?thesis by blast
qed

theorem deletion_in_one_pass_witness:
  "\<exists>w'. Reconcile strict_api sample_key (holding [deleted_sample]) = ((empty_Result, None), w') \<and>
     v_cr ref_view w' sample_key = None"
proof -
  have "filter (\<lambda>f. f \<noteq> finalizerName) (ks_Finalizers deleted_sample) = []"
    by (simp add: sample_state)
  with deletion_in_one_pass [OF strict_server(1) promptD(1) [OF strict_server(2)] sample_stored(3)
      deleted_sample_dying]
  show ?thesis by (auto simp: Let_def)
qed


section \<open>Errors and status\<close>

text \<open>
  C11: a failed pass is visible. If a step failed and the server accepted the status patch, the
  stored resource has Ready False with reason ReconcileError and the text of the returned error.
  Its observed generation is the one that was read, although that generation was not reconciled
  successfully.
\<close>

theorem failure_is_reported:
  assumes law: "lawful api vw" and cr: "v_cr vw w nn = Some cr" and pl: "plain cr"
    and run: "Reconcile (traced api) nn (w, []) = ((res, Some e), w', t)"
    and accepted: "PatchEv c0 orig None \<in> set t"
  shows "\<exists>c d. v_cr vw w' nn = Some c \<and> st_ObservedGeneration (ks_Status c) = ks_Generation cr \<and>
    find_condition ''Ready'' (st_Conditions (ks_Status c)) = Some d \<and>
    cond_Status d = ConditionFalse \<and> cond_Reason d = ''ReconcileError'' \<and>
    cond_Message d = err_Error api e"
proof -
  note laws = lawfulD [OF law]
  obtain w1 w2 r m where w1: "v_cr vw w1 = v_cr vw w" and key: "ks_key cr = nn"
    and kids: "run_all (map (run_child api) (all_children api cr (componentLabels cr))) w1 = (Some e, w2)"
    and st: "setReadyCondition api cr (Some e = None) r m w2 = (None, w')"
    and rm: "r = ''ReconcileError'' \<and> m = err_Error api e"
    using traced_plain_patch [OF law cr pl run accepted] by metis
  have "v_cr vw w2 (ks_key cr) = Some cr"
    using run_children_frame [OF laws(9) kids] w1 cr key by simp
  from status_written [OF law this st] key rm show ?thesis by auto
qed

text \<open>The sample on a server that refuses its ConfigMap.\<close>

theorem failure_is_reported_witness:
  "\<exists>e w' t c d. Reconcile (traced (ref_api [config_key])) sample_key (holding [sample], []) =
       ((empty_Result, Some e), w', t) \<and>
     v_cr ref_view w' sample_key = Some c \<and>
     find_condition ''Ready'' (st_Conditions (ks_Status c)) = Some d \<and>
     cond_Status d = ConditionFalse"
proof -
  obtain e w' t c0 where run: "Reconcile (traced (ref_api [config_key])) sample_key
      (holding [sample], []) = ((empty_Result, Some e), w', t)"
    and p: "PatchEv c0 sample None \<in> set t"
    by (rule refused_config_pass)
  from failure_is_reported [OF ref_lawful sample_stored(1) sample_plain run p] run
  show ?thesis by blast
qed


text \<open>
  C16: the status tells the outcome, and a pass writes nothing else into the resource. After a pass over
  a live resource with the finalizer whose status patch the server accepted, the Ready condition is
  True exactly if the pass returned no error, and False otherwise, with the generation that was read;
  every other condition, the specification, the names, the finalizers and the deletion time are what
  they were before the pass.
\<close>

theorem status_tells_outcome:
  assumes law: "lawful api vw" and cr: "v_cr vw w nn = Some cr" and pl: "plain cr"
    and run: "Reconcile (traced api) nn (w, []) = ((res, err), w', t)"
    and accepted: "PatchEv c0 orig None \<in> set t"
  shows "\<exists>c d. v_cr vw w' nn = Some c \<and> same_spec_meta cr c \<and>
    st_ObservedGeneration (ks_Status c) = ks_Generation cr \<and>
    find_condition ''Ready'' (st_Conditions (ks_Status c)) = Some d \<and>
    cond_Status d = (if err = None then ConditionTrue else ConditionFalse) \<and>
    cond_ObservedGeneration d = ks_Generation cr \<and>
    (\<forall>ty. ty \<noteq> ''Ready'' \<longrightarrow>
       find_condition ty (st_Conditions (ks_Status c)) = find_condition ty (st_Conditions (ks_Status cr)))"
proof -
  note laws = lawfulD [OF law]
  obtain w1 w2 r m where w1: "v_cr vw w1 = v_cr vw w" and key: "ks_key cr = nn"
    and kids: "run_all (map (run_child api) (all_children api cr (componentLabels cr))) w1 = (err, w2)"
    and st: "setReadyCondition api cr (err = None) r m w2 = (None, w')"
    by (rule traced_plain_patch [OF law cr pl run accepted])
  have "v_cr vw w2 (ks_key cr) = Some cr"
    using run_children_frame [OF laws(9) kids] w1 cr key by simp
  from status_written [OF law this st] other_conditions_kept [OF law this st] key show ?thesis
    by fastforce
qed

text \<open>The sample on a server that refuses its ConfigMap.\<close>

theorem status_tells_outcome_witness:
  "\<exists>e w' t c d. Reconcile (traced (ref_api [config_key])) sample_key (holding [sample], []) =
       ((empty_Result, Some e), w', t) \<and>
     v_cr ref_view w' sample_key = Some c \<and> ks_Spec c = ks_Spec sample \<and>
     find_condition ''Ready'' (st_Conditions (ks_Status c)) = Some d \<and>
     cond_Status d = ConditionFalse"
proof -
  obtain e w' t c0 where run: "Reconcile (traced (ref_api [config_key])) sample_key
      (holding [sample], []) = ((empty_Result, Some e), w', t)"
    and p: "PatchEv c0 sample None \<in> set t"
    by (rule refused_config_pass)
  from status_tells_outcome [OF ref_lawful sample_stored(1) sample_plain run p] run
  show ?thesis by (fastforce simp: same_spec_meta_def same_resource_def)
qed


section \<open>Ownership and wiring of the children\<close>

text \<open>
  C12: ownership. After a successful pass the resource is the controller of all ten namespaced
  children, so the garbage collector removes them with it. The kinds that are watched are exactly
  the namespaced ones, so a change to any of these children triggers a pass, and a change to one of
  the two cluster-scoped objects does not.
\<close>

theorem namespaced_children_are_owned:
  assumes law: "lawful api vw" and cr: "v_cr vw w nn = Some cr" and pl: "plain cr"
    and dist: "distinct (plan_keys cr)" and run: "Reconcile api nn w = ((res, None), w')"
  shows "(\<forall>k \<in> set (plan_keys cr). \<not> cluster_scoped (key_kind k) \<longrightarrow>
       owned_in vw w' cr k \<and> key_namespace k = ks_Namespace cr) \<and>
    length (filter (\<lambda>k. \<not> cluster_scoped (key_kind k)) (plan_keys cr)) = 10 \<and>
    (\<forall>k. k \<in> set watched_kinds \<longleftrightarrow> \<not> cluster_scoped k)"
proof -
  obtain w1 w2 where objs: "v_obj vw w' = v_obj vw w2"
    and kids: "run_all (map (run_child api) (all_children api cr (componentLabels cr))) w1 =
      (None, w2)"
    by (rule successful_run [OF law cr pl run])
  have "owned_in vw w' cr k" if "k \<in> set (plan_keys cr)" "\<not> cluster_scoped (key_kind k)" for k
    using run_plan_owned [OF law dist kids that] objs by (simp add: owned_in_def)
  moreover have "\<forall>k \<in> set (plan_keys cr). \<not> cluster_scoped (key_kind k) \<longrightarrow>
      key_namespace k = ks_Namespace cr"
    by (simp add: plan_keys_def Let_def)
  moreover have "length (filter (\<lambda>k. \<not> cluster_scoped (key_kind k)) (plan_keys cr)) = 10"
    by (simp add: plan_keys_def Let_def)
  ultimately show ?thesis using watched_are_namespaced by blast
qed

theorem namespaced_children_are_owned_witness:
  "\<exists>w'. Reconcile (ref_api []) sample_key (holding [sample]) = ((empty_Result, None), w') \<and>
     owned_in ref_view w' sample (Key SecretKind ''default'' ''kubeshark-sample-secret'')"
proof -
  obtain w' where run: "Reconcile (ref_api []) sample_key (holding [sample]) =
      ((empty_Result, None), w')"
    by (rule sample_pass)
  have "Key SecretKind ''default'' ''kubeshark-sample-secret'' \<in> set (plan_keys sample)"
    by (simp add: plan_keys_def Let_def name_defs sample_defs)
  with namespaced_children_are_owned [OF ref_lawful sample_stored(1) sample_plain
      sample_plan_distinct run] run
  show ?thesis by auto
qed

text \<open>
  C13: wiring. After a successful pass the server holds, under every key of the plan, what it admitted
  of the object that was submitted, and every object this one names (the service account of a pod, the
  role and the subjects of the binding, the Service behind the Ingress) stands earlier in the plan, so
  was applied before it, and exists.
\<close>

theorem references_resolve:
  assumes law: "lawful api vw" and cr: "v_cr vw w nn = Some cr" and pl: "plain cr"
    and dist: "distinct (plan_keys cr)" and run: "Reconcile api nn w = ((res, None), w')"
    and i: "i < length (plan_keys cr)"
  shows "\<exists>y. v_obj vw w' (plan_keys cr ! i) = Some (v_admit vw y) \<and>
    object_key y = plan_keys cr ! i \<and>
    (\<forall>k \<in> set (references y). k \<in> set (take i (plan_keys cr)) \<and> v_obj vw w' k \<noteq> None)"
proof -
  let ?ps = "promises cr (componentLabels cr)"
  obtain w1 w2 where objs: "v_obj vw w' = v_obj vw w2"
    and kids: "run_all (map (run_child api) (all_children api cr (componentLabels cr))) w1 =
      (None, w2)"
    by (rule successful_run [OF law cr pl run])
  have keys: "map fst ?ps = plan_keys cr" by (simp add: promises_def length_plan_keys)
  have all: "delivers vw w' (?ps ! j)" if "j < 12" for j
    using run_plan_delivers [OF law dist kids] that objs keys length_plan_keys [of cr]
    by (simp add: list_all_length delivers_def) (metis length_map)
  have fst: "fst (?ps ! j) = plan_keys cr ! j" if "j < 12" for j
    using that keys length_plan_keys [of cr] by (metis length_map nth_map)
  have i12: "i < 12" using i by (simp add: length_plan_keys)
  from all [OF i12] fst [OF i12] obtain y where
    y: "v_obj vw w' (plan_keys cr ! i) = Some (v_admit vw y)" "object_key y = fst (?ps ! i)" "snd (?ps ! i) y"
    by (auto simp: delivers_def)
  have "v_obj vw w' (plan_keys cr ! j) \<noteq> None" if "j < 12" for j
    using all [OF that] fst [OF that] by (auto simp: delivers_def)
  then have "v_obj vw w' k \<noteq> None" if "k \<in> set (plan_keys cr)" for k
    using that by (metis in_set_conv_nth length_plan_keys)
  with y fst [OF i12] plan_references [OF i12 y(3,2)] show ?thesis
    by (metis in_set_takeD subsetD)
qed

theorem references_resolve_witness:
  "\<exists>w' y. Reconcile (ref_api []) sample_key (holding [sample]) = ((empty_Result, None), w') \<and>
     v_obj ref_view w' (plan_keys sample ! 6) = Some (ref_admit y) \<and>
     (\<forall>k \<in> set (references y). v_obj ref_view w' k \<noteq> None)"
proof -
  obtain w' where run: "Reconcile (ref_api []) sample_key (holding [sample]) =
      ((empty_Result, None), w')"
    by (rule sample_pass)
  have "6 < length (plan_keys sample)" by (simp add: length_plan_keys)
  from references_resolve [OF ref_lawful sample_stored(1) sample_plain
      sample_plan_distinct run this] run
  show ?thesis by auto
qed

text \<open>
  C14: when names collide. The twelve keys of the plan are distinct exactly when the overrides in
  the resource give the two service accounts, the two Deployments and the two Services different
  names; without overrides they always are.
\<close>

theorem plan_keys_distinct_iff:
  "(distinct (plan_keys cr) \<longleftrightarrow>
      hubServiceAccountName cr \<noteq> workerServiceAccountName cr \<and>
      hubDeploymentName cr \<noteq> frontendDeploymentName cr \<and>
      hubServiceName cr \<noteq> frontendServiceName cr) \<and>
   (sp_ServiceAccountHub (ks_Spec cr) = '''' \<and> sp_ServiceAccountWorker (ks_Spec cr) = '''' \<and>
    sp_HubDeploymentName (ks_Spec cr) = '''' \<and> sp_HubServiceName (ks_Spec cr) = '''' \<longrightarrow>
      distinct (plan_keys cr))"
proof -
  have "distinct (plan_keys cr) \<longleftrightarrow>
      hubServiceAccountName cr \<noteq> workerServiceAccountName cr \<and>
      hubDeploymentName cr \<noteq> frontendDeploymentName cr \<and>
      hubServiceName cr \<noteq> frontendServiceName cr"
    by (auto simp: plan_keys_def Let_def)
  then show ?thesis by (auto simp: name_defs)
qed

theorem plan_keys_distinct_iff_witness: "distinct (plan_keys fresh_sample)"
proof -
  have "sp_ServiceAccountHub (ks_Spec fresh_sample) = '''' \<and>
      sp_ServiceAccountWorker (ks_Spec fresh_sample) = '''' \<and>
      sp_HubDeploymentName (ks_Spec fresh_sample) = '''' \<and>
      sp_HubServiceName (ks_Spec fresh_sample) = ''''"
    by (simp add: sample_defs)
  with plan_keys_distinct_iff [of fresh_sample] show ?thesis by blast
qed


section \<open>Names of cluster-scoped objects\<close>

text \<open>
  C17: renaming leaks. No pass over a resource touches a ClusterRole whose name is not the
  resource's current role name: after \<open>clusterRoleName\<close> is changed in the resource, the role with
  the old name stays, also when the resource is deleted.
\<close>

theorem renamed_role_leaks:
  assumes law: "lawful api vw" and cr: "v_cr vw w nn = Some cr" and old: "R \<noteq> clusterRoleName cr"
    and run: "Reconcile api nn w = (r, w')"
  shows "v_obj vw w' (Key ClusterRoleKind '''' R) = v_obj vw w (Key ClusterRoleKind '''' R)"
proof (rule ccontr)
  assume "v_obj vw w' (Key ClusterRoleKind '''' R) \<noteq> v_obj vw w (Key ClusterRoleKind '''' R)"
  with pass_frame [OF law run] cr have "Key ClusterRoleKind '''' R \<in> set (plan_keys cr)" by auto
  with old show False by (simp add: plan_keys_def Let_def)
qed

theorem renamed_role_leaks_witness:
  "\<exists>w' x. Reconcile (ref_api []) sample_key (old_role_world deleted_sample) =
       ((empty_Result, None), w') \<and>
     v_cr ref_view w' sample_key = None \<and>
     v_obj ref_view w' (Key ClusterRoleKind '''' ''old'') = Some x"
proof -
  have cr: "v_cr ref_view (old_role_world deleted_sample) sample_key = Some deleted_sample"
    and "''old'' \<noteq> clusterRoleName deleted_sample"
    and old: "v_obj ref_view (old_role_world deleted_sample) (Key ClusterRoleKind '''' ''old'') \<noteq> None"
    by (simp_all add: old_role_world_def object_key_def sample_defs name_defs zero_defs)
  moreover obtain w' where run: "Reconcile (ref_api []) sample_key (old_role_world deleted_sample) =
      ((empty_Result, None), w')"
    by (rule prompt_delete_pass [OF ref_lawful ref_prompt_calls cr sample_state(5)])
       (simp add: sample_state)
  ultimately have "v_obj ref_view w' (Key ClusterRoleKind '''' ''old'') \<noteq> None"
    using renamed_role_leaks [OF ref_lawful cr _ run] by simp
  moreover have "v_cr ref_view w' sample_key = None"
    using dying_pass [OF ref_lawful cr deleted_sample_dying run] sample_state(6) by blast
  ultimately show ?thesis using run by blast
qed

text \<open>
  C18: renaming the role can wedge a resource. The API server refuses to change the role of an
  existing binding. If the stored binding names another role than the resource does, no pass over the
  live resource (with the finalizer, not being deleted) ends without error, and none changes the
  binding. The way out is the deletion of the resource or of the binding: C2 and C10 hold whatever the
  binding says.
\<close>

theorem changed_role_wedges:
  assumes law: "lawful api vw" and fixed: "roleref_fixed api vw"
    and cr: "v_cr vw w nn = Some cr" and pl: "plain cr"
    and stored: "v_obj vw w (Key ClusterRoleBindingKind '''' (clusterRoleBindingName cr)) =
      Some (ClusterRoleBindingObj b)"
    and other: "ref_Name (crb_RoleRef b) \<noteq> clusterRoleName cr"
    and run: "Reconcile api nn w = ((res, err), w')"
  shows "err \<noteq> None \<and> v_obj vw w' (Key ClusterRoleBindingKind '''' (clusterRoleBindingName cr)) =
    Some (ClusterRoleBindingObj b)"
proof -
  note laws = lawfulD [OF law]
  let ?K = "Key ClusterRoleBindingKind '''' (clusterRoleBindingName cr)"
  let ?cs = "all_children api cr (componentLabels cr)"
  let ?c = "clusterRoleBinding_child api cr (componentLabels cr)"
  have c: "?c \<in> set ?cs" and key: "child_key ?c = ?K"
    by (simp_all add: children_lists child_key_def object_key_def clusterRoleBinding_child_def zero_defs)
  have once: "child_key d \<noteq> child_key ?c" if "d \<in> set ?cs" "d \<noteq> ?c" for d
    using that unfolding key
    by (auto simp: children_lists child_key_def object_key_def child_defs)
  have refuse: "r \<noteq> None \<and> v_obj vw y ?K = Some (ClusterRoleBindingObj b)"
    if "v_obj vw x ?K = Some (ClusterRoleBindingObj b)" "run_child api ?c x = (r, y)" for x y r
    by (rule binding_refused [OF fixed that other])
  have kept: "v_obj vw y ?K = Some (ClusterRoleBindingObj b)"
    if "run_all (map (run_child api) ?cs) x = (r, y)"
      and "v_obj vw x ?K = Some (ClusterRoleBindingObj b)" for x y r
    by (rule run_children_keep_one [where c = ?c, OF laws(9) that(1) once [unfolded key]
          refuse [THEN conjunct2] that(2)])
  from law cr pl run show ?thesis
  proof (cases rule: Reconcile_plain)
    case (unread e)
    with stored show ?thesis by simp
  next
    case (failed w1 e w2 s)
    with kept [OF failed(3)] stored setReadyCondition_frame(1) [OF laws(7) failed(4)]
    show ?thesis by simp
  next
    case (applied w1 w2)
    obtain x y where "run_child api ?c x = (None, y)" and "v_obj vw x ?K = v_obj vw w1 ?K"
      using run_children_split [OF laws(9) applied(3) c once] key by metis
    with refuse stored applied(2) show ?thesis by force
  qed
qed

text \<open>
  A server with RBAC, a resource whose role it accepts, and a binding left from before the role was
  renamed.
\<close>

theorem changed_role_wedges_witness:
  "\<exists>e w'. Reconcile strict_api sample_key stale_binding_world = ((empty_Result, Some e), w')"
proof -
  obtain res err w' where run: "Reconcile strict_api sample_key stale_binding_world =
      ((res, err), w')"
    by (metis prod.exhaust)
  have "res = empty_Result" using Reconcile_result [of strict_api sample_key stale_binding_world] run
    by simp
  with changed_role_wedges [OF strict_server(1) strict_fixed stale_binding_stored(1) modest_state(3)
      stale_binding_stored(2,3) run] run
  show ?thesis by auto
qed


section \<open>What a pass leaves alone\<close>

text \<open>
  C19: frame. A pass touches no other Kubeshark resource and no object outside the plan of the
  resource it was asked for; if that resource does not exist, it changes nothing at all.
\<close>

theorem pass_touches_only_plan:
  assumes law: "lawful api vw" and run: "Reconcile api nn w = (r, w')"
  shows "(nn' \<noteq> nn \<longrightarrow> v_cr vw w' nn' = v_cr vw w nn') \<and>
    (case v_cr vw w nn of
       None \<Rightarrow> v_cr vw w' = v_cr vw w \<and> v_obj vw w' = v_obj vw w
     | Some cr \<Rightarrow> (k \<notin> set (plan_keys cr) \<longrightarrow> v_obj vw w' k = v_obj vw w k))"
proof (cases "v_cr vw w nn")
  case (Some cr)
  with pass_frame [OF law run] show ?thesis by auto
next
  case None
  note laws = lawfulD [OF law]
  obtain g c w1 where get: "api_Get api nn w = ((g, c), w1)" by (metis prod.exhaust)
  note l = get_lawD [OF laws(5) get]
  from l(3) None obtain e where "g = Some e" by (cases g) auto
  with get run have "w' = w1" by (simp add: Reconcile_def)
  with l(1,2) None show ?thesis by simp
qed

theorem pass_touches_only_plan_witness:
  "\<exists>r w'. Reconcile (ref_api []) (ks_key doomed) (holding [doomed, bystander]) = (r, w') \<and>
     v_cr ref_view w' (ks_key bystander) = v_cr ref_view (holding [doomed, bystander]) (ks_key bystander)"
proof -
  obtain r w' where run: "Reconcile (ref_api []) (ks_key doomed) (holding [doomed, bystander]) = (r, w')"
    by (metis prod.exhaust)
  have "ks_key bystander \<noteq> ks_key doomed"
    by (simp add: doomed_def bystander_def named_resource_defs ks_key_def)
  with pass_touches_only_plan [OF ref_lawful run] run show ?thesis by blast
qed

text \<open>
  C20: fields without effect. Whatever a resource says in \<open>hubLabels\<close>, \<open>workerLabels\<close> and
  \<open>namespace\<close>, its plan, its labels and every child with its mutation are the same (if the owner
  reference does not depend on the specification, as it does not).
\<close>

theorem fields_without_effect:
  assumes "owner_ignores_spec api"
  shows "plan_keys (with_ignored hl wl ns cr) = plan_keys cr \<and>
    componentLabels (with_ignored hl wl ns cr) = componentLabels cr \<and>
    all_children api (with_ignored hl wl ns cr) ls = all_children api cr ls"
proof -
  note owner = with_ignored_owner [OF assms]
  show ?thesis
    by (simp add: plan_keys_def componentLabels_def children_lists hub_child_defs rbac_child_defs
        frontend_child_defs hub_mutate_defs workerServiceAccount_mutate_def worker_child_def
        worker_mutate_def frontendDeployment_mutate_def frontendService_mutate_def
        frontendIngress_mutate_def secret_defs owner)
qed

theorem fields_without_effect_witness:
  "all_children (ref_api []) (with_ignored (Some [''a'' \<mapsto> ''b'']) None ''elsewhere'' sample) None =
     all_children (ref_api []) sample None"
proof -
  have "owner_ignores_spec (ref_api [])"
    unfolding owner_ignores_spec_def
  proof (intro allI impI)
    fix cr cr' :: Kubeshark and m
    assume "ks_ObjectMeta cr' = ks_ObjectMeta cr"
    then show "api_SetControllerReference (ref_api []) cr' m =
        api_SetControllerReference (ref_api []) cr m"
      by (simp add: ref_api_def ref_SetControllerReference_def Let_def)
  qed
  from fields_without_effect [OF this] show ?thesis by blast
qed

section \<open>Permissions\<close>

text \<open>
  C21: the operator may do what it does. Every request an API server authorises for the calls of a pass,
  in whatever order and with whatever outcome, is one of \<open>needed_requests\<close> and is granted by the rules
  generated from the RBAC markers. Among them are deletions of ClusterRoles and ClusterRoleBindings
  only; that the rules also grant the deletion of the namespaced kinds is more than any pass uses. (What
  a server checks beyond requests, the rules that a role hands on, is C22.)
\<close>

theorem permissions_suffice:
  assumes run: "Reconcile (traced api) nn (w, []) = ((res, err), w', t)"
  shows "(\<forall>ev \<in> set t. \<forall>rq \<in> set (event_requests ev).
       rq \<in> set needed_requests \<and> allowed manager_rules rq) \<and>
    (\<forall>k. allowed manager_rules (''delete'', kind_resource k) \<and>
       ((''delete'', kind_resource k) \<in> set needed_requests \<longleftrightarrow> cluster_scoped k))"
proof -
  have "set (event_requests ev) \<subseteq> set needed_requests" if "ev \<in> set t" for ev
    using that pass_deletes [OF run] by (intro event_requests_needed) auto
  moreover have "allowed manager_rules (''delete'', kind_resource k)" for k
    using manager_kinds [of k] by (simp add: all_verbs_def)
  moreover have "(''delete'', kind_resource k) \<in> set needed_requests \<longleftrightarrow> cluster_scoped k" for k
    by (rule needed_deletions)
  ultimately show ?thesis using needed_allowed by blast
qed

theorem permissions_suffice_witness:
  "\<exists>r w' t. Reconcile (traced (ref_api [])) sample_key (holding [deleted_sample], []) = (r, w', t) \<and>
     (\<forall>k e. DeleteEv k e \<in> set t \<longrightarrow> allowed manager_rules (''delete'', kind_resource (key_kind k)))"
proof -
  obtain res err w' t where run: "Reconcile (traced (ref_api [])) sample_key
      (holding [deleted_sample], []) = ((res, err), w', t)"
    by (metis prod.exhaust)
  from permissions_suffice [OF run] run show ?thesis by fastforce
qed

text \<open>
  C22: the operator may not grant what it grants. A server that checks escalation refuses a ClusterRole
  with new rules unless its author holds all of them, or \<open>escalate\<close>. The operator has neither for its
  own default rules (reading pods, nodes and others): with them, or with any rules the markers do not
  cover, every pass over a live resource whose role does not exist yet fails, at the sixth child, so
  that no object but the first five children is written: no role, no binding, no worker, no frontend,
  no Secret.
\<close>

theorem default_role_is_refused:
  assumes law: "lawful api vw" and chk: "escalation_checked api vw manager_rules"
    and cr: "v_cr vw w nn = Some cr" and pl: "plain cr"
    and rules: "sp_ClusterRoleRules (ks_Spec cr) = [] \<or>
      \<not> covers manager_rules (sp_ClusterRoleRules (ks_Spec cr))"
    and none: "v_obj vw w (Key ClusterRoleKind '''' (clusterRoleName cr)) = None"
    and run: "Reconcile api nn w = ((res, err), w')"
  shows "err \<noteq> None \<and> (\<forall>k. k \<notin> set (take 5 (plan_keys cr)) \<longrightarrow> v_obj vw w' k = v_obj vw w k)"
proof -
  note laws = lawfulD [OF law]
  let ?K = "Key ClusterRoleKind '''' (clusterRoleName cr)"
  let ?cs = "all_children api cr (componentLabels cr)"
  let ?c = "clusterRole_child api cr (componentLabels cr)"
  have key: "child_key ?c = ?K"
    by (simp add: child_key_def object_key_def clusterRole_child_def zero_defs)
  obtain pre post where cs: "?cs = pre @ ?c # post"
    and pre: "set (map child_key pre) = set (take 5 (plan_keys cr))"
  proof (rule that)
    show "?cs = take 5 ?cs @ ?c # drop 6 ?cs" by (simp add: children_lists)
    show "set (map child_key (take 5 ?cs)) = set (take 5 (plan_keys cr))"
      by (simp only: take_map [symmetric] all_children_keys)
  qed
  have new: "child_key ?c \<notin> set (map child_key pre)"
    unfolding pre key by (simp add: plan_keys_def Let_def)
  have refuse: "r \<noteq> None \<and> v_obj vw y (child_key ?c) = None"
    if "run_child api ?c x = (r, y)" "v_obj vw x (child_key ?c) = None" for x y r
    using role_refused [OF chk rules refl that] .
  have stop: "r \<noteq> None \<and> (\<forall>k. k \<notin> set (take 5 (plan_keys cr)) \<longrightarrow> v_obj vw y k = v_obj vw x k)"
    if "run_all (map (run_child api) ?cs) x = (r, y)" and "v_obj vw x = v_obj vw w" for x y r
  proof -
    have "v_obj vw x (child_key ?c) = None" using that(2) none key by simp
    then show ?thesis unfolding pre [symmetric]
      by (rule run_children_stopped [OF laws(9) that(1) [unfolded cs] new]) (rule refuse)
  qed
  from law cr pl run show ?thesis
  proof (cases rule: Reconcile_plain)
    case (unread e)
    then show ?thesis by simp
  next
    case (failed w1 e w2 s)
    with stop [OF failed(3,2)] setReadyCondition_frame(1) [OF laws(7) failed(4)] show ?thesis by simp
  next
    case (applied w1 w2)
    with stop [OF applied(3,2)] show ?thesis by simp
  qed
qed

theorem default_role_is_refused_witness:
  "\<exists>e w'. Reconcile strict_api sample_key (holding [sample]) = ((empty_Result, Some e), w') \<and>
     v_obj ref_view w' (Key SecretKind ''default'' ''kubeshark-sample-secret'') = None"
proof -
  obtain res err w' where run: "Reconcile strict_api sample_key (holding [sample]) = ((res, err), w')"
    by (metis prod.exhaust)
  have res: "res = empty_Result"
    using Reconcile_result [of strict_api sample_key "holding [sample]"] run by simp
  have rules: "sp_ClusterRoleRules (ks_Spec sample) = [] \<or>
      \<not> covers manager_rules (sp_ClusterRoleRules (ks_Spec sample))"
    by (simp add: sample_defs)
  have none: "v_obj ref_view (holding [sample]) (Key ClusterRoleKind '''' (clusterRoleName sample)) = None"
    by (simp add: holding_def)
  have "Key SecretKind ''default'' ''kubeshark-sample-secret'' \<notin> set (take 5 (plan_keys sample))"
    by (simp add: plan_keys_def Let_def)
  with default_role_is_refused [OF strict_server(1) strict_escalation sample_stored(1) sample_plain rules
      none run] run res
  show ?thesis by (auto simp: holding_def)
qed

section \<open>The class of the Ingress\<close>

text \<open>
  C26: the ingress class sticks. If the stored Ingress has a class and the resource names none, every
  applying pass leaves the Ingress with the class it had, whatever the pass's outcome: a class that was
  once set survives its removal from the resource. (Admission is assumed not to change a class that is
  set.)
\<close>

theorem ingress_class_sticks:
  assumes law: "lawful api vw" and adm: "admission_keeps_class (v_admit vw)"
    and cr: "v_cr vw w nn = Some cr" and pl: "plain cr"
    and unset: "sp_IngressClassName (ks_Spec cr) = ''''"
    and old: "ingress_class (v_obj vw w
      (Key IngressKind (ks_Namespace cr) (frontendIngressName cr))) = Some c"
    and run: "Reconcile api nn w = ((res, err), w')"
  shows "ingress_class (v_obj vw w'
    (Key IngressKind (ks_Namespace cr) (frontendIngressName cr))) = Some c"
proof -
  note laws = lawfulD [OF law]
  let ?K = "Key IngressKind (ks_Namespace cr) (frontendIngressName cr)"
  let ?cs = "all_children api cr (componentLabels cr)"
  let ?c = "frontendIngress_child api cr (componentLabels cr)"
  have key: "child_key ?c = ?K"
    by (simp add: child_key_def object_key_def frontendIngress_child_def zero_defs)
  have once: "child_key d \<noteq> ?K" if "d \<in> set ?cs" "d \<noteq> ?c" for d
    using that by (auto simp: children_lists child_key_def object_key_def child_defs)
  have keep: "ingress_class (v_obj vw y ?K) = Some c"
    if "ingress_class (v_obj vw x ?K) = Some c" "run_child api ?c x = (r, y)" for x y r
    using frontendIngress_class [OF laws(9) adm that [folded key]] unset key by auto
  have kept: "ingress_class (v_obj vw y ?K) = Some c"
    if "run_all (map (run_child api) ?cs) x = (r, y)" "v_obj vw x = v_obj vw w" for x y r
    using run_children_keep [where P = "\<lambda>x. ingress_class x = Some c", OF laws(9) that(1) once keep]
      old that(2) by simp
  from law cr pl run show ?thesis
  proof (cases rule: Reconcile_plain)
    case (unread e)
    with old show ?thesis by simp
  next
    case (failed w1 e w2 s)
    then show ?thesis
      using kept [OF failed(3,2)] setReadyCondition_frame(1) [OF laws(7) failed(4)] by simp
  next
    case (applied w1 w2)
    then show ?thesis
      using kept [OF applied(3,2)] setReadyCondition_frame(1) [OF laws(7) applied(4)] by simp
  qed
qed

theorem ingress_class_sticks_witness:
  "\<exists>r w'. Reconcile (ref_api []) sample_key class_world = (r, w') \<and>
     ingress_class (v_obj ref_view w' (Key IngressKind ''default'' ''kubeshark-sample-frontend-ingress'')) =
       Some ''nginx''"
proof -
  obtain res err w' where run: "Reconcile (ref_api []) sample_key class_world = ((res, err), w')"
    by (metis prod.exhaust)
  from ingress_class_sticks [OF ref_lawful ref_keeps_class class_world_state(1-4) run] run
  show ?thesis by (simp add: class_world_state(5,6))
qed

section \<open>Selectors\<close>

text \<open>
  C23: shared labels. All three workloads of a resource carry the same pod labels, and the selectors
  of both Services (and of all workloads) are these labels: the hub Service and the frontend Service
  each select the pods of hub, frontend and worker alike.
\<close>

theorem services_select_all_pods:
  "\<forall>sel \<in> {svs_Selector (svc_Spec (hubService_fill cr (componentLabels cr) s1)),
           svs_Selector (svc_Spec (frontendService_fill cr (componentLabels cr) s2))}.
     \<forall>pod \<in> {dps_Template (dep_Spec (hubDeployment_fill cr (componentLabels cr) d1)),
             dps_Template (dep_Spec (frontendDeployment_fill cr (componentLabels cr) d2)),
             dms_Template (dmn_Spec (worker_fill cr (componentLabels cr) ds))}.
       selects sel (om_Labels (pt_ObjectMeta pod))"
  by (simp add: child_defs buildWorkerDaemonSetSpec_def Let_def selects_self componentLabels_def)

theorem services_select_all_pods_witness:
  "selects (svs_Selector (svc_Spec (hubService_fill sample (componentLabels sample) zero_Service)))
     (om_Labels (pt_ObjectMeta (dms_Template (dmn_Spec
        (worker_fill sample (componentLabels sample) zero_DaemonSet)))))"
  using services_select_all_pods [of sample zero_Service zero_Service zero_Deployment
      zero_Deployment zero_DaemonSet] by blast

section \<open>Outcomes\<close>

text \<open>
  C27: a resource that is gone. When the read answers "not found" the pass ends quietly, without a
  further call and without error; any other read error is returned unchanged.
\<close>

theorem read_errors:
  assumes "error_laws api" and "api_Get api nn w = ((Some e, c), w1)"
  shows "Reconcile (traced api) nn (w, []) =
    ((empty_Result, if api_IsNotFound api e then None else Some e), w1, [GetEv nn (Some e)])"
  using assms by (simp add: Reconcile_def traced_get_Some error_laws_def)

theorem read_errors_witness:
  "Reconcile (traced (ref_api [])) sample_key (holding [], []) =
     ((empty_Result, None), holding [], [GetEv sample_key (Some (LibError RefNotFound))])"
proof -
  have "api_Get (ref_api []) sample_key (holding []) =
      ((Some (LibError RefNotFound), zero_Kubeshark), holding [])"
    by (simp add: ref_api_def holding_def)
  from read_errors [OF ref_pure_laws(1) this] show ?thesis by (simp add: ref_api_def)
qed

text \<open>
  The recorder behind the statements on calls is transparent and no pass asks for a delayed retry: a
  pass with the recorder has the outcome and the effect of the pass without it, and its result is the
  empty one.
\<close>

theorem tracing_is_transparent:
  assumes "Reconcile (traced api) nn (w, []) = ((res, err), w', t)"
  shows "Reconcile api nn w = ((res, err), w') \<and> res = empty_Result"
  using traced_Reconcile_erase [OF assms] Reconcile_result [of "traced api" nn "(w, [])"] assms by simp

theorem tracing_is_transparent_witness:
  "Reconcile (ref_api []) sample_key (holding []) = ((empty_Result, None), holding [])"
proof -
  have "Reconcile (traced (ref_api [])) sample_key (holding [], []) =
      ((empty_Result, None), holding [], [GetEv sample_key (Some (LibError RefNotFound))])"
    by (simp add: Reconcile_def traced_calls) (simp add: ref_api_def holding_def)
  from tracing_is_transparent [OF this] show ?thesis by blast
qed

text \<open>
  C29: the nested steps are one flat plan. The loop over the five steps, each a sequence of calls
  with its own early returns, has the effect and the error of one fail-stop run of the twelve
  children, followed on failure by the report of that error.
\<close>

theorem steps_refine_plan:
  "run_steps api (reconcile_steps api) cr ls w =
     (case run_all (map (run_child api) (all_children api cr ls)) w of
        (None, w') \<Rightarrow> (None, w')
      | (Some err, w') \<Rightarrow>
          (Some err, snd (setReadyCondition api cr False ''ReconcileError''
             (err_Error api err) w')))"
  by (rule run_steps_children)


end
